(* ===== verification/Prelude.thy ===== *)
theory Prelude
  imports Main "HOL-Library.Char_ord" "HOL-Library.List_Lexorder"
begin

text \<open>
  Shared vocabulary of the development.

  A Go function that talks to the outside (the Kubernetes API, a mongo shell in a pod, the mongo
  driver, an HTTP peer) is an operation: it takes the state of the world and returns a result and
  the new state.  The result is \<^verbatim>\<open>Ret v\<close> for a normal return and \<^verbatim>\<open>Panic e\<close> when the code
  panics.  A Go function of type \<^verbatim>\<open>(T, error)\<close> returns the pair of its value and an optional error,
  because Go code does return both at once (and some functions here rely on it).

  The prelude holds the result type, the sequencing combinators, the loops the code uses (for over a
  range, for over a slice, both with an early return), and their lemmas, collected in
  \<^verbatim>\<open>op_simps\<close> (equations of the combinators) and \<^verbatim>\<open>loop_intros\<close> (invariant rules).
\<close>

named_theorems op_simps \<open>evaluation of the operation combinators\<close>
named_theorems loop_intros \<open>invariant rules for the loops of the code\<close>
named_theorems step_defs \<open>definitions of deployment steps, for symbolic execution\<close>

section \<open>Errors and results\<close>

text \<open>
  The error values of the program.  \<^verbatim>\<open>GoError\<close> is an error known by its text alone
  (\<^verbatim>\<open>errors.New\<close>, \<^verbatim>\<open>fmt.Errorf\<close>, errors of services); the next three are the typed errors of the
  operator core library; \<^verbatim>\<open>RuntimeError\<close> is a Go run-time panic; \<^verbatim>\<open>JsonError\<close> and \<^verbatim>\<open>NumError\<close> are the
  errors of encoding/json and strconv, by the input they reject; \<^verbatim>\<open>Wrapped\<close> is an error built with
  \<^verbatim>\<open>%w\<close>, whose cause \<^verbatim>\<open>errors.As\<close> can still find.
\<close>

datatype goerror =
    GoError string
  | ExecutionError string
  | DRExecutionError string
  | NotFoundError string
  | RuntimeError string
  | JsonError string
  | NumError string string
  | Wrapped string goerror

text \<open>\<^verbatim>\<open>err.Error()\<close>: the text of library errors is given by the library, as the parameter \<^verbatim>\<open>ext\<close>.\<close>

fun errText :: "(goerror \<Rightarrow> string) \<Rightarrow> goerror \<Rightarrow> string" where
  "errText ext (GoError s) = s"
| "errText ext (Wrapped s e) = s"
| "errText ext e = ext e"

text \<open>\<^verbatim>\<open>errors.As(err, &nfe)\<close> for a \<^verbatim>\<open>*core.NotFoundError\<close>.\<close>

fun asNotFound :: "goerror \<Rightarrow> bool" where
  "asNotFound (NotFoundError s) = True"
| "asNotFound (Wrapped s e) = asNotFound e"
| "asNotFound e = False"

datatype 'a res = Ret 'a | Panic goerror

type_synonym ('s, 'a) op = "'s \<Rightarrow> 'a res \<times> 's"
type_synonym 'a with_err = "'a \<times> goerror option"

section \<open>Sequencing\<close>

definition ret :: "'a \<Rightarrow> ('s, 'a) op" where
  "ret x = (\<lambda>s. (Ret x, s))"

definition panic :: "goerror \<Rightarrow> ('s, 'a) op" where
  "panic e = (\<lambda>s. (Panic e, s))"

definition andthen :: "('s, 'a) op \<Rightarrow> ('a \<Rightarrow> ('s, 'b) op) \<Rightarrow> ('s, 'b) op" where
  "andthen f g = (\<lambda>s. case f s of (Ret x, s') \<Rightarrow> g x s' | (Panic e, s') \<Rightarrow> (Panic e, s'))"

definition getState :: "('s, 's) op" where
  "getState = (\<lambda>s. (Ret s, s))"

definition modifyState :: "('s \<Rightarrow> 's) \<Rightarrow> ('s, unit) op" where
  "modifyState f = (\<lambda>s. (Ret (), f s))"

text \<open>
  Under a binder the simplifier would eta-contract an equation \<^verbatim>\<open>ret x s = (Ret x, s)\<close>, so the default rules
  speak of an operation in a context that looks at its result; \<^verbatim>\<open>op_simps\<close> holds the plain equations.
\<close>

lemma ret_apply [op_simps]: "ret x s = (Ret x, s)"
  by (simp add: ret_def)

lemma panic_apply [op_simps]: "panic e s = (Panic e, s)"
  by (simp add: panic_def)

lemma getState_apply [op_simps]: "getState s = (Ret s, s)"
  by (simp add: getState_def)

lemma modifyState_apply [op_simps]: "modifyState f s = (Ret (), f s)"
  by (simp add: modifyState_def)

lemma ret_eq [simp]: "ret x s = (r, t) \<longleftrightarrow> r = Ret x \<and> t = s" "(r, t) = ret x s \<longleftrightarrow> r = Ret x \<and> t = s"
  by (auto simp: ret_def)

lemma panic_eq [simp]: "panic e s = (r, t) \<longleftrightarrow> r = Panic e \<and> t = s" "(r, t) = panic e s \<longleftrightarrow> r = Panic e \<and> t = s"
  by (auto simp: panic_def)

lemma getState_eq [simp]: "getState s = (r, t) \<longleftrightarrow> r = Ret s \<and> t = s"
  by (auto simp: getState_def)

lemma modifyState_eq [simp]: "modifyState f s = (r, t) \<longleftrightarrow> r = Ret () \<and> t = f s"
  by (auto simp: modifyState_def)

lemma case_op [simp]:
  "(case ret x s of (r, t) \<Rightarrow> f r t) = f (Ret x) s"
  "(case panic e s of (r, t) \<Rightarrow> f r t) = f (Panic e) s"
  "(case getState s of (r, t) \<Rightarrow> g r t) = g (Ret s) s"
  "(case modifyState h s of (r, t) \<Rightarrow> k r t) = k (Ret ()) (h s)"
  by (simp_all add: op_simps)

lemma op_parts [simp]:
  "fst (ret x s) = Ret x" "snd (ret x s) = s" "fst (panic e s) = Panic e" "snd (panic e s) = s"
  by (simp_all add: op_simps)

lemma andthen_Ret: "f s = (Ret x, s') \<Longrightarrow> andthen f g s = g x s'"
  by (simp add: andthen_def)

lemma andthen_Panic: "f s = (Panic e, s') \<Longrightarrow> andthen f g s = (Panic e, s')"
  by (simp add: andthen_def)

lemma andthen_ret [simp, op_simps]: "andthen (ret x) g = g x"
  by (rule ext) (simp add: andthen_def)

lemma andthen_panic [simp, op_simps]: "andthen (panic e) g = panic e"
  by (rule ext) (simp add: andthen_def)

lemma andthen_getState [simp]: "andthen getState g s = g s s"
  by (simp add: andthen_def)

lemma andthen_modifyState [simp]: "andthen (modifyState f) g s = g () (f s)"
  by (simp add: andthen_def)

lemma ret_andthen [simp]: "andthen f ret = f"
  by (rule ext) (simp add: andthen_def split: prod.split res.split)

lemma andthen_assoc: "andthen (andthen f g) h = andthen f (\<lambda>x. andthen (g x) h)"
  by (rule ext) (simp add: andthen_def split: prod.split res.split)

lemma andthen_apply [op_simps]:
  "andthen f g s = (case f s of (Ret x, s') \<Rightarrow> g x s' | (Panic e, s') \<Rightarrow> (Panic e, s'))"
  by (simp add: andthen_def)

lemma andthen_RetE:
  assumes "andthen f g s = (Ret y, s')"
  obtains x t where "f s = (Ret x, t)" "g x t = (Ret y, s')"
  using assms by (auto simp: andthen_def split: prod.splits res.splits)

lemma andthen_PanicE:
  assumes "andthen f g s = (Panic e, s')"
  obtains (fst) "f s = (Panic e, s')"
    | (snd) x t where "f s = (Ret x, t)" "g x t = (Panic e, s')"
  using assms by (auto simp: andthen_def split: prod.splits res.splits)

text \<open>An operation lifted to a state that contains its own.\<close>

definition lift_op :: "('s \<Rightarrow> 'w) \<Rightarrow> ('w \<Rightarrow> 's \<Rightarrow> 's) \<Rightarrow> ('w, 'a) op \<Rightarrow> ('s, 'a) op" where
  "lift_op get put f = (\<lambda>s. case f (get s) of (r, w) \<Rightarrow> (r, put w s))"

lemma lift_op_apply [op_simps]:
  "lift_op get put f s = (case f (get s) of (r, w) \<Rightarrow> (r, put w s))"
  by (simp add: lift_op_def)

section \<open>Loops with an early return\<close>

text \<open>
  \<^verbatim>\<open>for _, x := range xs { ...; if err != nil { return err } }; return nil\<close>: the body gives
  \<^verbatim>\<open>Some r\<close> to leave the function with \<^verbatim>\<open>r\<close> and \<^verbatim>\<open>None\<close> to go on.
\<close>

fun forRange :: "'a list \<Rightarrow> ('a \<Rightarrow> ('s, 'r option) op) \<Rightarrow> ('s, 'r option) op" where
  "forRange [] body = ret None"
| "forRange (x # xs) body =
     andthen (body x) (\<lambda>r. case r of Some e \<Rightarrow> ret (Some e) | None \<Rightarrow> forRange xs body)"

text \<open>The same loop with a local variable that the body updates.\<close>

fun forFold :: "'a list \<Rightarrow> ('a \<Rightarrow> 'acc \<Rightarrow> ('s, 'r + 'acc) op) \<Rightarrow> 'acc \<Rightarrow> ('s, 'r + 'acc) op" where
  "forFold [] body acc = ret (Inr acc)"
| "forFold (x # xs) body acc =
     andthen (body x acc) (\<lambda>r. case r of Inl e \<Rightarrow> ret (Inl e) | Inr acc' \<Rightarrow> forFold xs body acc')"

lemma forRange_invariant [loop_intros]:
  assumes "forRange xs body s = (r, s')" and "P s"
    and "\<And>x s r s'. x \<in> set xs \<Longrightarrow> P s \<Longrightarrow> body x s = (r, s') \<Longrightarrow> P s'"
  shows "P s'"
  using assms
proof (induction xs arbitrary: s)
  case (Cons x xs)
  show ?case
  proof (cases "body x s")
    case (Pair b t)
    have t: "P t" using Cons.prems Pair by (meson list.set_intros(1))
    show ?thesis
      using Cons.prems Pair t Cons.IH [of t]
      by (auto simp: op_simps split: res.splits option.splits)
  qed
qed simp

lemma forRange_append:
  "forRange (xs @ ys) body =
     andthen (forRange xs body) (\<lambda>r. case r of Some e \<Rightarrow> ret (Some e) | None \<Rightarrow> forRange ys body)"
proof (induction xs)
  case (Cons x xs)
  have "(\<lambda>r. case r of None \<Rightarrow> forRange (xs @ ys) body | Some e \<Rightarrow> ret (Some e)) =
        (\<lambda>r. andthen (case r of None \<Rightarrow> forRange xs body | Some e \<Rightarrow> ret (Some e))
               (\<lambda>r. case r of Some e \<Rightarrow> ret (Some e) | None \<Rightarrow> forRange ys body))"
    by (auto simp: fun_eq_iff Cons.IH op_simps split: option.split)
  then show ?case by (simp add: andthen_assoc)
qed simp

text \<open>A loop that was not left early ran its body on every element.\<close>

lemma forRange_None:
  "forRange xs body s = (Ret None, s') \<Longrightarrow> x \<in> set xs \<Longrightarrow> \<exists>t u. body x t = (Ret None, u)"
proof (induction xs arbitrary: s)
  case (Cons y xs)
  obtain t where "body y s = (Ret None, t)" "forRange xs body t = (Ret None, s')"
    using Cons.prems(1) by (auto elim!: andthen_RetE split: option.splits)
  then show ?case using Cons by (metis set_ConsD)
qed simp

text \<open>A loop left early was left by the body of one of its elements.\<close>

lemma forRange_Some:
  "forRange xs body s = (Ret (Some e), s') \<Longrightarrow> \<exists>x t. x \<in> set xs \<and> body x t = (Ret (Some e), s')"
proof (induction xs arbitrary: s)
  case (Cons y xs)
  obtain r t where "body y s = (Ret r, t)"
    "(case r of Some e \<Rightarrow> ret (Some e) | None \<Rightarrow> forRange xs body) t = (Ret (Some e), s')"
    using Cons.prems by (auto elim!: andthen_RetE)
  then show ?case using Cons.IH [of t] by (cases r) (simp_all, metis+)
qed simp

lemma forRange_cong_op:
  "(\<And>x s. x \<in> set xs \<Longrightarrow> body x s = body' x s) \<Longrightarrow> forRange xs body s = forRange xs body' s"
proof (induction xs arbitrary: s)
  case (Cons y xs)
  have "body y = body' y" using Cons.prems by (simp add: fun_eq_iff)
  moreover have "forRange xs body = forRange xs body'" using Cons by (simp add: fun_eq_iff)
  ultimately show ?case by simp
qed simp

lemma forRange_all_None:
  assumes "\<And>x s. x \<in> set xs \<Longrightarrow> body x s = (Ret None, upd x s)"
  shows "forRange xs body s = (Ret None, fold upd xs s)"
  using assms by (induction xs arbitrary: s) (simp_all add: andthen_apply)

lemma forFold_invariant [loop_intros]:
  assumes "forFold xs body acc s = (Ret r, s')" and "P acc s"
    and "\<And>x a s a' s'. x \<in> set xs \<Longrightarrow> P a s \<Longrightarrow> body x a s = (Ret (Inr a'), s') \<Longrightarrow> P a' s'"
    and "\<And>x a s e s'. x \<in> set xs \<Longrightarrow> P a s \<Longrightarrow> body x a s = (Ret (Inl e), s') \<Longrightarrow> Q e s'"
  shows "case r of Inl e \<Rightarrow> Q e s' | Inr a \<Rightarrow> P a s'"
  using assms
proof (induction xs arbitrary: acc s)
  case (Cons x xs)
  obtain b t where b: "body x acc s = (Ret b, t)"
    and rest: "(case b of Inl e \<Rightarrow> ret (Inl e) | Inr a \<Rightarrow> forFold xs body a) t = (Ret r, s')"
    using Cons.prems(1) by (auto elim: andthen_RetE)
  show ?case
  proof (cases b)
    case (Inl e)
    with rest have "r = Inl e" "t = s'" by simp_all
    moreover have "Q e t" using b Inl Cons.prems(2) Cons.prems(4) [of x acc s e t] by simp
    ultimately show ?thesis by simp
  next
    case (Inr a)
    have "P a t" using b Inr Cons.prems(2) Cons.prems(3) [of x acc s a t] by simp
    moreover have "forFold xs body a t = (Ret r, s')" using rest Inr by simp
    ultimately show ?thesis by (intro Cons.IH [of a t]) (auto intro: Cons.prems(3,4))
  qed
qed auto

lemma forFold_append:
  assumes "forFold xs body a s = (Ret (Inr b), t)"
  shows "forFold (xs @ ys) body a s = forFold ys body b t"
  using assms
proof (induction xs arbitrary: a s)
  case (Cons x xs)
  obtain c u where c: "body x a s = (Ret c, u)"
    and rest: "(case c of Inl e \<Rightarrow> ret (Inl e) | Inr a \<Rightarrow> forFold xs body a) u = (Ret (Inr b), t)"
    using Cons.prems by (auto elim: andthen_RetE)
  then obtain d where d: "c = Inr d" by (cases c) auto
  then have "forFold (xs @ ys) body d u = forFold ys body b t" using Cons.IH rest by simp
  then show ?case using c d by (simp add: andthen_Ret)
qed simp

text \<open>A run of n parts, the i-th of which takes a state to the next one.\<close>

definition chained :: "(nat \<Rightarrow> 's \<Rightarrow> 's \<Rightarrow> bool) \<Rightarrow> nat \<Rightarrow> 's \<Rightarrow> 's \<Rightarrow> bool" where
  "chained P n s s' = (\<exists>\<sigma>. \<sigma> 0 = s \<and> \<sigma> n = s' \<and> (\<forall>i<n. P i (\<sigma> i) (\<sigma> (Suc i))))"

lemma chained_0: "chained P 0 s s"
  by (auto simp: chained_def)

lemma chained_Suc: "P 0 s t \<Longrightarrow> chained (\<lambda>i. P (Suc i)) n t s' \<Longrightarrow> chained P (Suc n) s s'"
  unfolding chained_def
  by (elim exE, rule_tac x = "case_nat s \<sigma>" in exI) (auto split: nat.split)

lemma chained_mono:
  assumes "chained P n s s'" "\<And>i t u. i < n \<Longrightarrow> P i t u \<Longrightarrow> Q i t u"
  shows "chained Q n s s'"
proof -
  obtain \<sigma> where "\<sigma> 0 = s" "\<sigma> n = s'" "\<forall>i<n. P i (\<sigma> i) (\<sigma> (Suc i))" using assms(1) unfolding chained_def by blast
  then show ?thesis unfolding chained_def using assms(2) by (intro exI [of _ \<sigma>]) simp
qed

lemma chainedD: "chained P n s s' \<Longrightarrow> i < n \<Longrightarrow> \<exists>t u. P i t u"
  unfolding chained_def by blast

text \<open>A loop that was not left early is such a run of its body.\<close>

lemma forRange_chained:
  "forRange xs body s = (Ret None, s') \<Longrightarrow> chained (\<lambda>i t u. body (xs ! i) t = (Ret None, u)) (length xs) s s'"
proof (induction xs arbitrary: s)
  case (Cons x xs)
  obtain t where t: "body x s = (Ret None, t)" "forRange xs body t = (Ret None, s')"
    using Cons.prems by (auto elim!: andthen_RetE split: option.splits)
  have "chained (\<lambda>i t u. body ((x # xs) ! i) t = (Ret None, u)) (Suc (length xs)) s s'"
    by (rule chained_Suc [where t = t]) (use t Cons.IH in simp_all)
  then show ?case by simp
qed (simp add: chained_0)

lemma forFold_chained:
  "forFold xs body acc s = (Ret (Inr acc'), s') \<Longrightarrow> chained (\<lambda>i t u. \<exists>a b. body (xs ! i) a t = (Ret (Inr b), u)) (length xs) s s'"
proof (induction xs arbitrary: acc s)
  case (Cons x xs)
  obtain a t where t: "body x acc s = (Ret (Inr a), t)" "forFold xs body a t = (Ret (Inr acc'), s')"
    using Cons.prems by (auto elim!: andthen_RetE split: sum.splits)
  have "chained (\<lambda>i t u. \<exists>a b. body ((x # xs) ! i) a t = (Ret (Inr b), u)) (Suc (length xs)) s s'"
    by (rule chained_Suc [where t = t]) (use t Cons.IH in auto)
  then show ?case by simp
qed (simp add: chained_0)

text \<open>A loop that is left early ran its body on the elements before, and then on the one that left it.\<close>

lemma forRange_Some_chained:
  "forRange xs body s = (Ret (Some e), s') \<Longrightarrow>
   \<exists>i<length xs. \<exists>t. chained (\<lambda>j t u. body (xs ! j) t = (Ret None, u)) i s t \<and> body (xs ! i) t = (Ret (Some e), s')"
proof (induction xs arbitrary: s)
  case (Cons x xs)
  obtain r t where t: "body x s = (Ret r, t)" "(case r of Some e \<Rightarrow> ret (Some e) | None \<Rightarrow> forRange xs body) t = (Ret (Some e), s')"
    using Cons.prems by (auto elim!: andthen_RetE)
  show ?case
  proof (cases r)
    case None
    then obtain i u where i: "i < length xs" "chained (\<lambda>j t u. body (xs ! j) t = (Ret None, u)) i t u" "body (xs ! i) u = (Ret (Some e), s')"
      using Cons.IH [of t] t(2) by auto
    have "chained (\<lambda>j t u. body ((x # xs) ! j) t = (Ret None, u)) (Suc i) s u"
      by (rule chained_Suc [where t = t]) (use t(1) None i(2) in simp_all)
    then show ?thesis using i by (intro exI [of _ "Suc i"]) auto
  next
    case (Some x')
    then have "body x s = (Ret (Some e), s')" using t by simp
    then show ?thesis by (intro exI [of _ 0]) (auto intro: chained_0)
  qed
qed simp

section \<open>Range and slice primitives\<close>

text \<open>Go's \<^verbatim>\<open>for i := 0; i < n; i++\<close> visits no index when \<^verbatim>\<open>n\<close> is negative.\<close>

definition upto_int :: "int \<Rightarrow> nat list" where
  "upto_int n = [0..<nat n]"

lemma set_upto_int [simp]: "set (upto_int n) = {0..<nat n}"
  by (simp add: upto_int_def)

lemma length_upto_int [simp]: "length (upto_int n) = nat n"
  by (simp add: upto_int_def)

lemma upto_int_nonpos [simp]: "n \<le> 0 \<Longrightarrow> upto_int n = []"
  by (simp add: upto_int_def)

lemma nth_upto_int [simp]: "i < nat n \<Longrightarrow> upto_int n ! i = i"
  by (simp add: upto_int_def)

text \<open>Indexing a slice panics out of range.\<close>

definition index_out_of_range :: goerror where
  "index_out_of_range = RuntimeError ''index out of range''"

definition nth_or_panic :: "'a list \<Rightarrow> nat \<Rightarrow> ('s, 'a) op" where
  "nth_or_panic xs i = (if i < length xs then ret (xs ! i) else panic index_out_of_range)"

lemma nth_or_panic_ok [simp, op_simps]: "i < length xs \<Longrightarrow> nth_or_panic xs i = ret (xs ! i)"
  by (simp add: nth_or_panic_def)

lemma nth_or_panic_bad [simp, op_simps]:
  "length xs \<le> i \<Longrightarrow> nth_or_panic xs i = panic index_out_of_range"
  by (simp add: nth_or_panic_def)

section \<open>Lists\<close>

lemma map_upt_Suc_shift: "map f [Suc m..<Suc n] = map (\<lambda>i. f (Suc i)) [m..<n]"
  unfolding map_Suc_upt [symmetric] by (simp add: o_def del: map_Suc_upt)

lemma filter_eq_Nil_all: "filter P xs = [] \<Longrightarrow> x \<in> set xs \<Longrightarrow> \<not> P x"
  by (auto simp: filter_empty_conv)

lemma distinct_map_upt:
  "(\<And>i j. \<lbrakk>i < n; j < n; f i = f j\<rbrakk> \<Longrightarrow> i = j) \<Longrightarrow> distinct (map f [0..<n])"
  by (auto simp: distinct_map inj_on_def)

text \<open>\<^verbatim>\<open>strings.Join\<close>.\<close>

fun Join :: "string \<Rightarrow> string list \<Rightarrow> string" where
  "Join sep [] = []"
| "Join sep [x] = x"
| "Join sep (x # y # ys) = x @ sep @ Join sep (y # ys)"

lemma Join_Cons: "Join sep (x # xs) = (if xs = [] then x else x @ sep @ Join sep xs)"
  by (cases xs) simp_all

lemma Join_append:
  "Join sep (xs @ ys) =
     (if xs = [] then Join sep ys else if ys = [] then Join sep xs else Join sep xs @ sep @ Join sep ys)"
  by (induction xs) (auto simp: Join_Cons)

text \<open>The code joins with a splitter variable that is empty on the first round.\<close>

lemma fold_splitter_aux:
  "fold (\<lambda>i (m, sp). (m @ sp @ f i, sep)) xs (a, sep) = (a @ concat (map (\<lambda>i. sep @ f i) xs), sep)"
  by (induction xs arbitrary: a) simp_all

lemma Join_concat: "Join sep (x # xs) = x @ concat (map (\<lambda>y. sep @ y) xs)"
  by (induction xs arbitrary: x) simp_all

lemma fold_splitter: "fst (fold (\<lambda>i (m, sp). (m @ sp @ f i, sep)) xs ([], [])) = Join sep (map f xs)"
proof (cases xs)
  case (Cons x ys)
  then show ?thesis
    using fold_splitter_aux [of f sep ys "f x"] Join_concat [of sep "f x" "map f ys"] by (simp add: o_def)
qed simp

end
