(* ===== verification/GoFmt.thy ===== *)
theory GoFmt
  imports Prelude
begin

text \<open>
  The parts of the Go packages \<^verbatim>\<open>strconv\<close>, \<^verbatim>\<open>strings\<close> and \<^verbatim>\<open>fmt\<close> that the program computes names,
  commands and messages with: decimal printing and parsing, search, split, trim and replace on
  strings, and \<^verbatim>\<open>fmt.Sprintf\<close> for the verbs \<^verbatim>\<open>%s\<close>, \<^verbatim>\<open>%v\<close>, \<^verbatim>\<open>%d\<close> with explicit argument indexes.
  Sprintf is modelled with its diagnostics for missing, extra and badly typed operands, because two
  commands of the program are built with a missing operand.

  A Go string is the list of its bytes.  TrimSpace removes the ASCII white space; the multi-byte
  white space of Unicode is left (no text the program trims holds any).  The lemmas show that printing is injective, that parsing
  inverts it, and how Sprintf evaluates on the formats without escapes.
\<close>

section \<open>Decimal numbers\<close>

definition digit_char :: "nat \<Rightarrow> char" where
  "digit_char d = char_of (48 + d)"

definition isDigit :: "char \<Rightarrow> bool" where
  "isDigit c = (48 \<le> (of_char c :: nat) \<and> (of_char c :: nat) \<le> 57)"

definition digit_val :: "char \<Rightarrow> nat" where
  "digit_val c = of_char c - 48"

fun show_nat :: "nat \<Rightarrow> string" where
  "show_nat n = (if n < 10 then [digit_char n] else show_nat (n div 10) @ [digit_char (n mod 10)])"

declare show_nat.simps [simp del]

definition show_int :: "int \<Rightarrow> string" where
  "show_int i = (if i < 0 then ''-'' @ show_nat (nat (- i)) else show_nat (nat i))"

definition digits_nat :: "string \<Rightarrow> nat" where
  "digits_nat s = fold (\<lambda>c n. 10 * n + digit_val c) s 0"

lemma of_char_digit: "d < 10 \<Longrightarrow> (of_char (digit_char d) :: nat) = 48 + d"
  by (simp add: digit_char_def)

lemma isDigit_digit_char [simp]: "d < 10 \<Longrightarrow> isDigit (digit_char d)"
  by (simp add: isDigit_def of_char_digit)

lemma digit_val_digit_char [simp]: "d < 10 \<Longrightarrow> digit_val (digit_char d) = d"
  by (simp add: digit_val_def of_char_digit)

lemma digits_nat_snoc: "digits_nat (s @ [c]) = 10 * digits_nat s + digit_val c"
  by (simp add: digits_nat_def)

lemma show_nat_digits: "c \<in> set (show_nat n) \<Longrightarrow> isDigit c"
proof (induction n rule: show_nat.induct)
  case (1 n)
  then show ?case by (subst (asm) (2) show_nat.simps) (auto split: if_splits)
qed

lemma show_nat_nonempty [simp]: "show_nat n \<noteq> []"
  by (subst show_nat.simps) simp

lemma digits_show_nat [simp]: "digits_nat (show_nat n) = n"
proof (induction n rule: show_nat.induct)
  case (1 n)
  show ?case
  proof (cases "n < 10")
    case True
    then show ?thesis by (subst show_nat.simps) (simp add: digits_nat_def)
  next
    case False
    then show ?thesis using 1 by (subst show_nat.simps) (simp add: digits_nat_snoc)
  qed
qed

lemma show_nat_inj [simp]: "show_nat m = show_nat n \<longleftrightarrow> m = n"
  by (metis digits_show_nat)

lemma show_nat_small [simp]: "n < 10 \<Longrightarrow> show_nat n = [digit_char n]"
  by (subst show_nat.simps) simp

lemma not_digit_in_show_nat: "\<not> isDigit c \<Longrightarrow> c \<notin> set (show_nat n)"
  using show_nat_digits by blast

lemma show_int_of_nat [simp]: "show_int (int n) = show_nat n"
  by (simp add: show_int_def)

text \<open>A run of digits followed by a character that is not one determines the number.\<close>

lemma show_nat_prefix:
  assumes "show_nat m @ c # xs = show_nat n @ d # ys" "\<not> isDigit c" "\<not> isDigit d"
  shows "m = n \<and> c # xs = d # ys"
proof -
  have *: "takeWhile isDigit (show_nat k @ e # zs) = show_nat k" if "\<not> isDigit e" for k e zs
    using that show_nat_digits [of _ k] by (subst takeWhile_append2) auto
  have "show_nat m = show_nat n"
    using * [OF assms(2), of m xs] * [OF assms(3), of n ys] assms(1) by simp
  then show ?thesis using assms(1) by simp
qed

text \<open>
  \<^verbatim>\<open>strconv.Atoi\<close> and \<^verbatim>\<open>strconv.ParseInt(s, 10, 64)\<close>: an optional sign and digits, in the range of a
  64-bit integer.
\<close>

definition in_int64 :: "int \<Rightarrow> bool" where
  "in_int64 i = (- (2 ^ 63) \<le> i \<and> i < 2 ^ 63)"

definition parseDigits :: "string \<Rightarrow> nat option" where
  "parseDigits s = (if s \<noteq> [] \<and> list_all isDigit s then Some (digits_nat s) else None)"

definition parseInt64 :: "string \<Rightarrow> int option" where
  "parseInt64 s =
     (let (neg, body) = (case s of [] \<Rightarrow> (False, [])
                         | c # cs \<Rightarrow> if c = CHR ''-'' then (True, cs)
                                     else if c = CHR ''+'' then (False, cs) else (False, s))
      in case parseDigits body of None \<Rightarrow> None
         | Some n \<Rightarrow> (let i = (if neg then - int n else int n) in if in_int64 i then Some i else None))"

definition Atoi :: "string \<Rightarrow> int with_err" where
  "Atoi s = (case parseInt64 s of Some i \<Rightarrow> (i, None)
             | None \<Rightarrow>
                 (let body = (case s of [] \<Rightarrow> [] | c # cs \<Rightarrow> if c = CHR ''-'' \<or> c = CHR ''+'' then cs else s)
                  in (if parseDigits body = None then 0
                      else if s \<noteq> [] \<and> hd s = CHR ''-'' then - (2 ^ 63) else 2 ^ 63 - 1,
                      Some (NumError ''Atoi'' s))))"

lemma parseDigits_show_nat [simp]: "parseDigits (show_nat n) = Some n"
  using show_nat_digits by (auto simp: parseDigits_def list_all_iff)

lemma parseInt64_show_int: "in_int64 i \<Longrightarrow> parseInt64 (show_int i) = Some i"
proof -
  assume i: "in_int64 i"
  have hd: "isDigit c" if "show_nat n = c # cs" for n c cs
    using show_nat_digits [of c n] that by simp
  show "parseInt64 (show_int i) = Some i"
  proof (cases "i < 0")
    case True
    then show ?thesis using i by (simp add: parseInt64_def show_int_def)
  next
    case False
    obtain c cs where c: "show_nat (nat i) = c # cs" by (metis neq_Nil_conv show_nat_nonempty)
    have "isDigit c" using hd [OF c] .
    then have "c \<noteq> CHR ''-'' \<and> c \<noteq> CHR ''+''" by (auto simp: isDigit_def)
    moreover have "parseDigits (c # cs) = Some (nat i)"
      using parseDigits_show_nat [of "nat i"] c by simp
    ultimately show ?thesis using False i c by (simp add: parseInt64_def show_int_def)
  qed
qed

lemma Atoi_show_int: "in_int64 i \<Longrightarrow> Atoi (show_int i) = (i, None)"
  by (simp add: Atoi_def parseInt64_show_int)

section \<open>Strings\<close>

definition newline :: string where
  "newline = [CHR 0x0A]"

definition isSpace :: "char \<Rightarrow> bool" where
  "isSpace c = (c \<in> {CHR 0x09, CHR 0x0A, CHR 0x0B, CHR 0x0C, CHR 0x0D, CHR 0x20})"

definition TrimSpace :: "string \<Rightarrow> string" where
  "TrimSpace s = rev (dropWhile isSpace (rev (dropWhile isSpace s)))"

fun HasPrefix :: "string \<Rightarrow> string \<Rightarrow> bool" where
  "HasPrefix s [] = True"
| "HasPrefix [] (p # ps) = False"
| "HasPrefix (c # cs) (p # ps) = (c = p \<and> HasPrefix cs ps)"

definition TrimSuffix :: "string \<Rightarrow> string \<Rightarrow> string" where
  "TrimSuffix s suf = (if HasPrefix (rev s) (rev suf) then take (length s - length suf) s else s)"

text \<open>\<^verbatim>\<open>strings.Index\<close>: the first position of the substring.\<close>

fun Index :: "string \<Rightarrow> string \<Rightarrow> nat option" where
  "Index [] p = (if p = [] then Some 0 else None)"
| "Index (c # cs) p = (if HasPrefix (c # cs) p then Some 0 else map_option Suc (Index cs p))"

definition Contains :: "string \<Rightarrow> string \<Rightarrow> bool" where
  "Contains s p = (Index s p \<noteq> None)"

lemma HasPrefix_iff: "HasPrefix s p \<longleftrightarrow> (\<exists>r. s = p @ r)"
  by (induction s p rule: HasPrefix.induct) auto

lemma HasPrefix_length: "HasPrefix s p \<Longrightarrow> length p \<le> length s"
  by (induction s p rule: HasPrefix.induct) auto

lemma Index_le: "Index s p = Some i \<Longrightarrow> i + length p \<le> length s"
  by (induction s arbitrary: i) (auto dest: HasPrefix_length split: if_splits)

lemma Index_split: "Index s p = Some i \<Longrightarrow> s = take i s @ p @ drop (i + length p) s"
proof (induction s arbitrary: i)
  case (Cons c cs)
  then show ?case by (auto simp: HasPrefix_iff split: if_splits)
qed (auto split: if_splits)

lemma Contains_iff: "Contains s p \<longleftrightarrow> (\<exists>a b. s = a @ p @ b)"
proof
  show "Contains s p \<Longrightarrow> \<exists>a b. s = a @ p @ b"
    using Index_split unfolding Contains_def by blast
  have "Index (a @ p @ b) p \<noteq> None" for a b
  proof (induction a)
    case Nil
    have "HasPrefix (p @ b) p" by (auto simp: HasPrefix_iff)
    then show ?case by (cases "p @ b") auto
  qed auto
  then show "\<exists>a b. s = a @ p @ b \<Longrightarrow> Contains s p"
    unfolding Contains_def by blast
qed

text \<open>
  \<^verbatim>\<open>strings.Split\<close>, \<^verbatim>\<open>strings.SplitAfter\<close>, \<^verbatim>\<open>strings.ReplaceAll\<close> and \<^verbatim>\<open>strings.Replace\<close> with count 1, for a
  separator that is not empty (the code has no other).
\<close>

function Split :: "string \<Rightarrow> string \<Rightarrow> string list" where
  "Split s sep =
     (if sep = [] then map (\<lambda>c. [c]) s
      else case Index s sep of None \<Rightarrow> [s]
           | Some i \<Rightarrow> take i s # Split (drop (i + length sep) s) sep)"
  by pat_completeness auto
termination
  by (relation "measure (\<lambda>(s, sep). length s)") (auto dest!: Index_le simp: not_le [symmetric] neq_Nil_conv)

declare Split.simps [simp del]

function SplitAfter :: "string \<Rightarrow> string \<Rightarrow> string list" where
  "SplitAfter s sep =
     (if sep = [] then map (\<lambda>c. [c]) s
      else case Index s sep of None \<Rightarrow> [s]
           | Some i \<Rightarrow> take (i + length sep) s # SplitAfter (drop (i + length sep) s) sep)"
  by pat_completeness auto
termination
  by (relation "measure (\<lambda>(s, sep). length s)") (auto dest!: Index_le simp: not_le [symmetric] neq_Nil_conv)

declare SplitAfter.simps [simp del]

definition ReplaceAll :: "string \<Rightarrow> string \<Rightarrow> string \<Rightarrow> string" where
  "ReplaceAll s old new = Join new (Split s old)"

definition Replace1 :: "string \<Rightarrow> string \<Rightarrow> string \<Rightarrow> string" where
  "Replace1 s old new = (case Index s old of None \<Rightarrow> s
                         | Some i \<Rightarrow> take i s @ new @ drop (i + length old) s)"

lemma Split_nonempty [simp]: "sep \<noteq> [] \<Longrightarrow> Split s sep \<noteq> []"
  by (subst Split.simps) (simp split: option.split)

lemma SplitAfter_nonempty [simp]: "sep \<noteq> [] \<Longrightarrow> SplitAfter s sep \<noteq> []"
  by (subst SplitAfter.simps) (simp split: option.split)

text \<open>Joining the pieces restores the string; the pieces of SplitAfter just concatenate.\<close>

lemma Join_Split: "sep \<noteq> [] \<Longrightarrow> Join sep (Split s sep) = s"
proof (induction s sep rule: Split.induct)
  case (1 s sep)
  show ?case
  proof (cases "Index s sep")
    case None
    then show ?thesis using 1(2) by (subst Split.simps) simp
  next
    case (Some i)
    then have "Join sep (Split (drop (i + length sep) s) sep) = drop (i + length sep) s"
      using 1 by simp
    then show ?thesis using Some 1(2) Index_split [OF Some]
      by (subst Split.simps) (simp add: Join_Cons)
  qed
qed

lemma concat_SplitAfter: "sep \<noteq> [] \<Longrightarrow> concat (SplitAfter s sep) = s"
proof (induction s sep rule: SplitAfter.induct)
  case (1 s sep)
  show ?case
  proof (cases "Index s sep")
    case None
    then show ?thesis using 1(2) by (subst SplitAfter.simps) simp
  next
    case (Some i)
    then show ?thesis using 1 by (subst SplitAfter.simps) simp
  qed
qed

text \<open>Splitting at a character.\<close>

lemma Index_char_None: "c \<notin> set a \<Longrightarrow> Index a [c] = None"
  by (induction a) auto

lemma Index_char: "c \<notin> set a \<Longrightarrow> Index (a @ c # b) [c] = Some (length a)"
  by (induction a) auto

lemma Split_char_plain: "c \<notin> set a \<Longrightarrow> Split a [c] = [a]"
  by (subst Split.simps) (simp add: Index_char_None)

lemma Split_char: "c \<notin> set a \<Longrightarrow> Split (a @ c # b) [c] = a # Split b [c]"
  by (subst Split.simps) (simp add: Index_char)

lemma TrimSpace_eq_Nil: "TrimSpace s = [] \<longleftrightarrow> list_all isSpace s"
proof
  assume "TrimSpace s = []"
  then have *: "\<forall>c \<in> set (dropWhile isSpace s). isSpace c"
    unfolding TrimSpace_def by (simp only: rev_is_Nil_conv dropWhile_eq_Nil_conv set_rev)
  have "dropWhile isSpace s = []"
    using * hd_dropWhile [of isSpace s] list.set_sel(1) by metis
  then show "list_all isSpace s" by (simp only: dropWhile_eq_Nil_conv list_all_iff)
next
  assume "list_all isSpace s"
  then have "dropWhile isSpace s = []" by (simp only: dropWhile_eq_Nil_conv list_all_iff)
  then show "TrimSpace s = []" by (simp only: TrimSpace_def rev.simps dropWhile.simps)
qed

section \<open>fmt.Sprintf\<close>

datatype arg = Str string | Num int

fun show_arg :: "arg \<Rightarrow> string" where
  "show_arg (Str s) = s"
| "show_arg (Num i) = show_int i"

fun typed_arg :: "arg \<Rightarrow> string" where
  "typed_arg (Str s) = ''string='' @ s"
| "typed_arg (Num i) = ''int='' @ show_int i"

text \<open>The text of one verb on its operand.\<close>

definition format_verb :: "char \<Rightarrow> arg \<Rightarrow> string" where
  "format_verb v a =
     (if v = CHR ''v'' then show_arg a
      else case a of
        Str s \<Rightarrow> if v = CHR ''s'' then s else ''%!'' @ [v] @ ''('' @ typed_arg a @ '')''
      | Num i \<Rightarrow> if v = CHR ''d'' then show_int i else ''%!'' @ [v] @ ''('' @ typed_arg a @ '')'')"

definition operand :: "arg list \<Rightarrow> nat \<Rightarrow> char \<Rightarrow> string" where
  "operand args n v = (if n < length args then format_verb v (args ! n) else ''%!'' @ [v] @ ''(MISSING)'')"

definition extra_args :: "arg list \<Rightarrow> nat \<Rightarrow> bool \<Rightarrow> string" where
  "extra_args args n reordered =
     (if reordered \<or> length args \<le> n then []
      else ''%!(EXTRA '' @ Join '', '' (map typed_arg (drop n args)) @ '')'')"

text \<open>
  The scan of the format: \<^verbatim>\<open>n\<close> is the index of the next operand, \<^verbatim>\<open>re\<close> says whether an explicit index
  \<^verbatim>\<open>%[k]v\<close> was seen (then unused operands are not reported).
\<close>

fun doPrintf :: "arg list \<Rightarrow> nat \<Rightarrow> bool \<Rightarrow> string \<Rightarrow> string" where
  "doPrintf args n re [] = extra_args args n re"
| "doPrintf args n re [c] =
     (if c = CHR 0x25 then ''%!(NOVERB)'' @ extra_args args n re else c # extra_args args n re)"
| "doPrintf args n re (c # d # cs) =
     (if c \<noteq> CHR 0x25 then c # doPrintf args n re (d # cs)
      else if d = CHR 0x25 then CHR 0x25 # doPrintf args n re cs
      else if d \<noteq> CHR ''['' then operand args n d @ doPrintf args (Suc n) re cs
      else case cs of
        k # b # v # rest \<Rightarrow>
          (if b = CHR '']'' \<and> isDigit k \<and> 1 \<le> digit_val k \<and> digit_val k \<le> length args
           then operand args (digit_val k - 1) v @ doPrintf args (digit_val k) True rest
           else ''%!'' @ [v] @ ''(BADINDEX)'' @ doPrintf args n True rest)
      | _ \<Rightarrow> ''%!(BADINDEX)'' @ extra_args args n True)"

definition Sprintf :: "string \<Rightarrow> arg list \<Rightarrow> string" where
  "Sprintf fmt args = doPrintf args 0 False fmt"

lemma doPrintf_char [simp]: "c \<noteq> CHR 0x25 \<Longrightarrow> doPrintf args n re (c # cs) = c # doPrintf args n re cs"
  by (cases cs) simp_all

lemma doPrintf_verb:
  "v \<noteq> CHR 0x25 \<Longrightarrow> v \<noteq> CHR ''['' \<Longrightarrow>
   doPrintf args n re (CHR 0x25 # v # cs) = operand args n v @ doPrintf args (Suc n) re cs"
  by simp

text \<open>Text without a percent sign is copied.\<close>

lemma doPrintf_text:
  "CHR 0x25 \<notin> set t \<Longrightarrow> doPrintf args n re (t @ cs) = t @ doPrintf args n re cs"
  by (induction t) auto

lemma doPrintf_end [simp]: "length args \<le> n \<Longrightarrow> doPrintf args n re [] = []"
  by (simp add: extra_args_def)

lemma operand_s [simp]: "n < length args \<Longrightarrow> args ! n = Str s \<Longrightarrow> operand args n CHR ''s'' = s"
  by (simp add: operand_def format_verb_def)

lemma operand_v [simp]: "n < length args \<Longrightarrow> operand args n CHR ''v'' = show_arg (args ! n)"
  by (simp add: operand_def format_verb_def)

lemma operand_d [simp]: "n < length args \<Longrightarrow> args ! n = Num i \<Longrightarrow> operand args n CHR ''d'' = show_int i"
  by (simp add: operand_def format_verb_def)

lemma Sprintf_text [simp]: "CHR 0x25 \<notin> set t \<Longrightarrow> Sprintf t [] = t"
  using doPrintf_text [of t "[]" 0 False "[]"] by (simp add: Sprintf_def extra_args_def)

lemmas Sprintf_simps = Sprintf_def doPrintf_verb extra_args_def

lemma Sprintf_example: "Sprintf ''datars%v%v'' [Num 2, Num 10] = ''datars210''"
  by code_simp

end
