(* ===== verification/GoRegexp.thy ===== *)
theory GoRegexp
  imports GoFmt
begin

text \<open>
  The part of the Go package \<^verbatim>\<open>regexp\<close> the program uses: character classes, sequence, leftmost-first
  alternative and greedy repetition.  \<^verbatim>\<open>matches r s\<close> lists the rests of \<^verbatim>\<open>s\<close> after a match of \<^verbatim>\<open>r\<close> at
  its start, the preferred match first, as the leftmost-first rule of the package orders them.

  The lemmas prove the matcher sound and complete for the language of the expression, so that an
  anchored pattern (as the name checks of the database adapter) accepts exactly its language.
\<close>

text \<open>A class is a list of character ranges.\<close>

datatype rex =
    Cls "(char \<times> char) list"
  | Eps
  | Seq rex rex
  | Alt rex rex
  | Star rex

definition in_class :: "(char \<times> char) list \<Rightarrow> char \<Rightarrow> bool" where
  "in_class rs c = list_ex (\<lambda>(a, b). a \<le> c \<and> c \<le> b) rs"

abbreviation Chr :: "char \<Rightarrow> rex" where
  "Chr c \<equiv> Cls [(c, c)]"

abbreviation Opt :: "rex \<Rightarrow> rex" where
  "Opt r \<equiv> Alt r Eps"

function matches :: "rex \<Rightarrow> string \<Rightarrow> string list" where
  "matches (Cls rs) s = (case s of [] \<Rightarrow> [] | c # cs \<Rightarrow> if in_class rs c then [cs] else [])"
| "matches Eps s = [s]"
| "matches (Seq a b) s = concat (map (matches b) (matches a s))"
| "matches (Alt a b) s = matches a s @ matches b s"
| "matches (Star r) s =
     concat (map (\<lambda>t. if length t < length s then matches (Star r) t else []) (matches r s)) @ [s]"
  by pat_completeness auto
termination
  by (relation "measures [\<lambda>(r, s). size r, \<lambda>(r, s). length s]") auto

declare matches.simps(5) [simp del]

text \<open>\<^verbatim>\<open>r\{0,n}\<close> and \<^verbatim>\<open>r\{m,m+n}\<close>.\<close>

fun RepOpt :: "nat \<Rightarrow> rex \<Rightarrow> rex" where
  "RepOpt 0 r = Eps"
| "RepOpt (Suc n) r = Opt (Seq r (RepOpt n r))"

fun Rep :: "nat \<Rightarrow> nat \<Rightarrow> rex \<Rightarrow> rex" where
  "Rep 0 n r = RepOpt n r"
| "Rep (Suc m) n r = Seq r (Rep m n r)"

section \<open>Language\<close>

inductive lang :: "rex \<Rightarrow> string \<Rightarrow> bool" where
  Cls: "in_class rs c \<Longrightarrow> lang (Cls rs) [c]"
| Eps: "lang Eps []"
| Seq: "lang a u \<Longrightarrow> lang b v \<Longrightarrow> lang (Seq a b) (u @ v)"
| AltL: "lang a u \<Longrightarrow> lang (Alt a b) u"
| AltR: "lang b u \<Longrightarrow> lang (Alt a b) u"
| Star0: "lang (Star r) []"
| StarS: "lang r u \<Longrightarrow> u \<noteq> [] \<Longrightarrow> lang (Star r) v \<Longrightarrow> lang (Star r) (u @ v)"

inductive_simps lang_Cls [simp]: "lang (Cls rs) s"
inductive_simps lang_Eps [simp]: "lang Eps s"
inductive_simps lang_Seq: "lang (Seq a b) s"
inductive_simps lang_Alt [simp]: "lang (Alt a b) s"

theorem matches_iff: "t \<in> set (matches r s) \<longleftrightarrow> (\<exists>u. s = u @ t \<and> lang r u)"
proof (induction r s arbitrary: t rule: matches.induct)
  case (1 rs s)
  then show ?case by (cases s) auto
next
  case (2 s)
  then show ?case by auto
next
  case (3 a b s)
  have "t \<in> set (matches (Seq a b) s) \<longleftrightarrow> (\<exists>m \<in> set (matches a s). t \<in> set (matches b m))"
    by auto
  also have "\<dots> \<longleftrightarrow> (\<exists>m \<in> set (matches a s). \<exists>v. m = v @ t \<and> lang b v)"
    using 3(2) by (intro bex_cong) auto
  also have "\<dots> \<longleftrightarrow> (\<exists>u v. s = u @ v @ t \<and> lang a u \<and> lang b v)"
    unfolding Bex_def 3(1) by blast
  also have "\<dots> \<longleftrightarrow> (\<exists>w. s = w @ t \<and> lang (Seq a b) w)"
    unfolding lang_Seq by (metis append_assoc)
  finally show ?case .
next
  case (4 a b s)
  then show ?case by auto
next
  case (5 r s)
  show ?case
  proof
    assume "t \<in> set (matches (Star r) s)"
    then consider "t = s" | m where "m \<in> set (matches r s)" "length m < length s"
      "t \<in> set (matches (Star r) m)"
      by (subst (asm) matches.simps(5)) (auto split: if_splits)
    then show "\<exists>u. s = u @ t \<and> lang (Star r) u"
    proof cases
      case 1
      then show ?thesis using lang.Star0 by auto
    next
      case 2
      obtain u where u: "s = u @ m" "lang r u" using 5(1) 2(1) by auto
      obtain v where v: "m = v @ t" "lang (Star r) v" using 5(2) [OF 2(1,2)] 2(3) by auto
      have "u \<noteq> []" using u 2(2) by auto
      then show ?thesis using u v lang.StarS by (metis append_assoc)
    qed
  next
    assume "\<exists>u. s = u @ t \<and> lang (Star r) u"
    then obtain w where w: "s = w @ t" "lang (Star r) w" by blast
    from w(2) show "t \<in> set (matches (Star r) s)"
    proof cases
      case Star0
      then show ?thesis using w(1) by (subst matches.simps(5)) simp
    next
      case (StarS u v)
      have m: "v @ t \<in> set (matches r s)" using 5(1) StarS w(1) by auto
      have l: "length (v @ t) < length s" using StarS w(1) by simp
      have "t \<in> set (matches (Star r) (v @ t))" using 5(2) [OF m l] StarS by auto
      then show ?thesis using m l by (subst matches.simps(5)) (auto split: if_splits)
    qed
  qed
qed

section \<open>The functions of the package\<close>

text \<open>\<^verbatim>\<open>^r$\<close> on a whole string.\<close>

definition MatchWhole :: "rex \<Rightarrow> string \<Rightarrow> bool" where
  "MatchWhole r s = ([] \<in> set (matches r s))"

lemma MatchWhole_iff: "MatchWhole r s \<longleftrightarrow> lang r s"
  by (simp add: MatchWhole_def matches_iff)

text \<open>\<^verbatim>\<open>FindString\<close>: the leftmost match, or the empty string.\<close>

fun FindString :: "rex \<Rightarrow> string \<Rightarrow> string" where
  "FindString r s =
     (case matches r s of
        t # ts \<Rightarrow> take (length s - length t) s
      | [] \<Rightarrow> (case s of [] \<Rightarrow> [] | c # cs \<Rightarrow> FindString r cs))"

declare FindString.simps [simp del]

text \<open>\<^verbatim>\<open>ReplaceAllString\<close>, for an expression that does not match the empty string.\<close>

function ReplaceAllString :: "rex \<Rightarrow> string \<Rightarrow> string \<Rightarrow> string" where
  "ReplaceAllString r s new =
     (case s of [] \<Rightarrow> []
      | c # cs \<Rightarrow>
          (case matches r s of
             t # ts \<Rightarrow> if length t < length s then new @ ReplaceAllString r t new
                       else c # ReplaceAllString r cs new
           | [] \<Rightarrow> c # ReplaceAllString r cs new))"
  by pat_completeness auto
termination
  by (relation "measure (\<lambda>(r, s, new). length s)") auto

declare ReplaceAllString.simps [simp del]

lemma matches_Nil_no_match: "matches r s = [] \<longleftrightarrow> (\<forall>u t. s = u @ t \<longrightarrow> \<not> lang r u)"
  using matches_iff [of _ r s] by (metis list.set_intros(1) neq_Nil_conv all_not_in_conv set_empty)

text \<open>What FindString finds is a substring in the language, and it finds one when there is one.\<close>

lemma FindString_match:
  assumes "matches r s = t # ts"
  shows "s = FindString r s @ t \<and> lang r (FindString r s)"
proof -
  obtain w where w: "s = w @ t" "lang r w" using assms matches_iff [of t r s] by auto
  have "FindString r s = take (length s - length t) s"
    by (subst FindString.simps) (simp add: assms)
  then show ?thesis using w by simp
qed

lemma FindString_sound:
  "FindString r s \<noteq> [] \<Longrightarrow> \<exists>a b. s = a @ FindString r s @ b \<and> lang r (FindString r s)"
proof (induction s)
  case Nil
  have "FindString r [] = []"
    by (subst FindString.simps) (simp split: list.split)
  then show ?case using Nil by simp
next
  case (Cons c cs)
  show ?case
  proof (cases "matches r (c # cs)")
    case Nil
    then have e: "FindString r (c # cs) = FindString r cs" by (subst FindString.simps) simp
    then obtain a b where "cs = a @ FindString r cs @ b" "lang r (FindString r cs)"
      using Cons by metis
    then show ?thesis using e by (metis append_Cons)
  next
    case (Cons t ts)
    then show ?thesis using FindString_match [OF Cons] by (metis append_Nil)
  qed
qed

lemma FindString_complete:
  assumes "s = a @ u @ b" "lang r u" "\<not> lang r []"
  shows "FindString r s \<noteq> []"
  using assms(1)
proof (induction a arbitrary: s)
  case Nil
  then have "b \<in> set (matches r s)" using assms(2) by (auto simp: matches_iff)
  then obtain t ts where t: "matches r s = t # ts" by (cases "matches r s") auto
  then show ?case using FindString_match [OF t] assms(3) by auto
next
  case (Cons c cs)
  show ?case
  proof (cases "matches r s")
    case Nil
    then show ?thesis using Cons by (subst FindString.simps) simp
  next
    case (Cons t ts)
    then show ?thesis using FindString_match [OF Cons] assms(3) by auto
  qed
qed

text \<open>A string without the first characters of any match is left as it is.\<close>

lemma ReplaceAllString_id:
  "(\<And>c u. c \<in> set s \<Longrightarrow> \<not> lang r (c # u)) \<Longrightarrow> ReplaceAllString r s new = s"
proof (induction s)
  case Nil
  then show ?case by (subst ReplaceAllString.simps) simp
next
  case (Cons c cs)
  have "t = c # cs" if "t \<in> set (matches r (c # cs))" for t
  proof -
    obtain u where u: "c # cs = u @ t" "lang r u" using \<open>t \<in> _\<close> matches_iff by auto
    then have "u = []" using Cons.prems [of c] by (cases u) auto
    then show ?thesis using u by simp
  qed
  then have "matches r (c # cs) = [] \<or> (\<exists>ts. matches r (c # cs) = (c # cs) # ts)"
    by (cases "matches r (c # cs)") auto
  then show ?case using Cons by (subst ReplaceAllString.simps) auto
qed

end
