(* ===== verification/Consts.thy ===== *)
theory Consts
  imports GoRegexp
begin

text \<open>
  The constants of \<^verbatim>\<open>src/operator/pkg/utils/const.go\<close>: labels and names of the Kubernetes objects, name
  formats, and the mongo shell commands the operator runs, with the two functions of the file that
  choose a command.  A backslash of a Go string is written as its character code.
\<close>

definition MongoDBDeploymentTypeKey :: string where
  \<open>MongoDBDeploymentTypeKey = ''MongoDBDeploymentType''\<close>

definition MaxReplicaSizeKey :: string where
  \<open>MaxReplicaSizeKey = ''maxOf_CNF_DATA_replicaSize''\<close>

definition MaxPVCCountForService :: string where
  \<open>MaxPVCCountForService = ''max_pvc_count''\<close>

definition PvcNamesKey :: string where
  \<open>PvcNamesKey = ''pvcNames''\<close>

definition PVNodesKey :: string where
  \<open>PVNodesKey = ''pvNodeNames''\<close>

definition BackupPvcNamesKey :: string where
  \<open>BackupPvcNamesKey = ''pvcBackupNames''\<close>

definition BackupPVNodesKey :: string where
  \<open>BackupPVNodesKey = ''pvBackupNodeNames''\<close>

definition ArbiterIndexSelectorFunc :: string where
  \<open>ArbiterIndexSelectorFunc = ''contextArbSelectorFunc''\<close>

definition MongoSecret :: string where
  \<open>MongoSecret = ''mongo-secret''\<close>

definition MongoSecretKeyFile :: string where
  \<open>MongoSecretKeyFile = ''mongodb-keyfile''\<close>

definition MongoRootSecretName :: string where
  \<open>MongoRootSecretName = ''mongodb-root-credentials.v1''\<close>

definition RootCert :: string where
  \<open>RootCert = ''root-ca''\<close>

definition RootCertPath :: string where
  \<open>RootCertPath = ''/usr/ssl/''\<close>

definition ServerCertsPath :: string where
  \<open>ServerCertsPath = ''/certs/''\<close>

definition KubernetesHelperImplKey :: string where
  \<open>KubernetesHelperImplKey = ''kubernetesHelperImpl''\<close>

definition MongoHelperImplKey :: string where
  \<open>MongoHelperImplKey = ''mongoHelperImpl''\<close>

definition KubeHostName :: string where
  \<open>KubeHostName = ''kubernetes.io/hostname''\<close>

definition ServiceNameKey :: string where
  \<open>ServiceNameKey = ''serviceName''\<close>

definition NameLabel :: string where
  \<open>NameLabel = ''name''\<close>

definition AppLabel :: string where
  \<open>AppLabel = ''app''\<close>

definition DataDir :: string where
  \<open>DataDir = ''data''\<close>

definition TmpDir :: string where
  \<open>TmpDir = ''tmp''\<close>

definition MongoCluster :: string where
  \<open>MongoCluster = ''mongo-cluster''\<close>

definition UsernameKey :: string where
  \<open>UsernameKey = ''username''\<close>

definition PasswordKey :: string where
  \<open>PasswordKey = ''password''\<close>

definition RoleKey :: string where
  \<open>RoleKey = ''role''\<close>

definition AuthDatabaseKey :: string where
  \<open>AuthDatabaseKey = ''auth-database''\<close>

definition CloneModeType :: string where
  \<open>CloneModeType = ''clone-mode-type''\<close>

definition X509AuthMode :: string where
  \<open>X509AuthMode = ''x509''\<close>

definition X509CnfrsCertificate :: string where
  \<open>X509CnfrsCertificate = ''cnfrs-x509-certificate''\<close>

definition X509DatarsCertificate :: string where
  \<open>X509DatarsCertificate = ''datars%d-x509-certificate''\<close>

definition X509MongosCertificate :: string where
  \<open>X509MongosCertificate = ''mongos-x509-certificate''\<close>

definition ContextPasswordKey :: string where
  \<open>ContextPasswordKey = ''ctxPasswordKey''\<close>

definition BashCommand :: string where
  \<open>BashCommand = ''bash''\<close>

definition Microservice :: string where
  \<open>Microservice = ''microservice''\<close>

definition MongoPvcNameFormat :: string where
  \<open>MongoPvcNameFormat = ''pvc-%s-data''\<close>

definition BackupPvcNameFormat :: string where
  \<open>BackupPvcNameFormat = ''mongodb-backup-storage''\<close>

definition BackupKey :: string where
  \<open>BackupKey = ''backup''\<close>

definition CnfNameKey :: string where
  \<open>CnfNameKey = ''cnfrs''\<close>

definition CnfNameWithIndexFormat :: string where
  \<open>CnfNameWithIndexFormat = CnfNameKey @ ''%v''\<close>

definition DataNameKey :: string where
  \<open>DataNameKey = ''datars%v''\<close>

definition DataNameWithIndexesFormat :: string where
  \<open>DataNameWithIndexesFormat = DataNameKey @ ''%v''\<close>

definition MongoNode :: string where
  \<open>MongoNode = ''mongo-node''\<close>

definition StatefulSetPodNameTemplate :: string where
  \<open>StatefulSetPodNameTemplate = ''%s-0''\<close>

definition MongoDomainTemplate :: string where
  \<open>MongoDomainTemplate = ''%s.svc.cluster.local''\<close>

definition MongoCMD :: string where
  \<open>MongoCMD = ''%s %s --host=localhost --port=27017 --quiet''\<close>

definition MongoCMDAuthTemplate :: string where
  \<open>MongoCMDAuthTemplate = ''%s mongodb://%s:%s@localhost:27017/%s --quiet''\<close>

definition MongoCheckUserLogin :: string where
  \<open>MongoCheckUserLogin = ''%s mongodb://%s:%s@localhost:27017/%s --quiet --eval='quit()'' @ [CHR 0x27]\<close>

definition ContextMongoCMD :: string where
  \<open>ContextMongoCMD = ''contextMongoCmd''\<close>

definition PrimaryReplicaCommand :: string where
  \<open>PrimaryReplicaCommand = ''rs.status().members.find((v)=>v.state==1).name.split('.')[0]''\<close>

definition ReplicaStateCommand :: string where
  \<open>ReplicaStateCommand = ''rs.status().members.forEach(mem => print(mem.stateStr))''\<close>

definition WriteConcernChangeCommand :: string where
  \<open>WriteConcernChangeCommand = ''db.adminCommand({setDefaultRWConcern: 1,defaultWriteConcern: { w: 1 }})''\<close>

definition featureCompatibilityVersionCommand :: string where
  \<open>featureCompatibilityVersionCommand = ''db.adminCommand({ getParameter: 1, featureCompatibilityVersion: 1 }).featureCompatibilityVersion.version''\<close>

definition Mongos :: string where
  \<open>Mongos = ''mongos''\<close>

definition MongosPrivate :: string where
  \<open>MongosPrivate = Mongos @ ''-private''\<close>

definition RecyclerNameTemplate :: string where
  \<open>RecyclerNameTemplate = ''pv-recycler-pvc-%s''\<close>

definition RecyclerPod :: string where
  \<open>RecyclerPod = ''recycler-pod''\<close>

definition TriesCount :: string where
  \<open>TriesCount = ''triesCount''\<close>

definition RetryTimeoutSec :: string where
  \<open>RetryTimeoutSec = ''retryTimeout''\<close>

definition BackupDaemon :: string where
  \<open>BackupDaemon = ''mongodb-backup-daemon''\<close>

definition BackupStorage :: string where
  \<open>BackupStorage = ''backup-storage''\<close>

definition BackupConfigNodes :: string where
  \<open>BackupConfigNodes = ''backupConfigNodes''\<close>

definition BackupSecretName :: string where
  \<open>BackupSecretName = ''mongodb-backup-credentials.v1''\<close>

definition RestoreUserSecretName :: string where
  \<open>RestoreUserSecretName = ''mongodb-restore-credentials.v1''\<close>

definition BackupApiSecretName :: string where
  \<open>BackupApiSecretName = ''mongodb-backup-api-credentials.v1''\<close>

definition BackupMonitoringConfig :: string where
  \<open>BackupMonitoringConfig = BackupDaemon @ ''.monitoring-config''\<close>

definition ServicesUsersContextList :: string where
  \<open>ServicesUsersContextList = ''ctxServicesUsersList''\<close>

definition ServicesRolesContextList :: string where
  \<open>ServicesRolesContextList = ''ctxServicesRolesList''\<close>

definition DbaasKey :: string where
  \<open>DbaasKey = ''dbaas''\<close>

definition DbaasName :: string where
  \<open>DbaasName = ''dbaas-mongo-adapter''\<close>

definition DbaasMonitoringConfig :: string where
  \<open>DbaasMonitoringConfig = DbaasName @ ''.monitoring-config''\<close>

definition DbaasAdminSecretName :: string where
  \<open>DbaasAdminSecretName = ''mongo-dbaas-admin-credentials-secret.v1''\<close>

definition DbaasAggregatorSecretName :: string where
  \<open>DbaasAggregatorSecretName = ''dbaas-aggregator-credentials.v1''\<close>

definition DbaasRegistrationSecretName :: string where
  \<open>DbaasRegistrationSecretName = ''dbaas-aggregator-registration-credentials.v1''\<close>

definition DbaasAdminRoleSecretName :: string where
  \<open>DbaasAdminRoleSecretName = ''dbaas-streaming-role.v1''\<close>

definition DbaasPhysicalDatabasesLabels :: string where
  \<open>DbaasPhysicalDatabasesLabels = ''dbaas-physical-databases-labels''\<close>

definition MongoMonitoringAgent :: string where
  \<open>MongoMonitoringAgent = ''mongodb-monitoring-agent''\<close>

definition MonitoringSecretName :: string where
  \<open>MonitoringSecretName = ''mongodb-monitoring-credentials.v1''\<close>

definition MonitoringContextVar :: string where
  \<open>MonitoringContextVar = ''mongodb-monitoring-password''\<close>

definition MonitoringInfluxCreds :: string where
  \<open>MonitoringInfluxCreds = ''mongodb-monitoring-influx-credentials''\<close>

definition MongoMonitoringAgentSecret :: string where
  \<open>MongoMonitoringAgentSecret = MongoMonitoringAgent @ ''-secret''\<close>

definition MongoMonitoringAgentSecretMountPath :: string where
  \<open>MongoMonitoringAgentSecretMountPath = ''/etc/'' @ MongoMonitoringAgentSecret\<close>

definition MonitroingViewRoleBinding :: string where
  \<open>MonitroingViewRoleBinding = MongoMonitoringAgent @ ''-view-binding''\<close>

definition MonitoringIPTemplate :: string where
  \<open>MonitoringIPTemplate = ''monitoringApiTemplate''\<close>

definition MonitoringAgentAdditionalPrivilegesRoleName :: string where
  \<open>MonitoringAgentAdditionalPrivilegesRoleName = ''monitoringAgentAdditionalPrivileges''\<close>

definition MongoPrometheusExporter :: string where
  \<open>MongoPrometheusExporter = ''mongodb-prometheus-exporter''\<close>

definition PrometheusExporterSecretName :: string where
  \<open>PrometheusExporterSecretName = ''mongodb-prom-exporter-credentials.v1''\<close>

definition SchemaSettingsValidationHAandArbiter :: string where
  \<open>SchemaSettingsValidationHAandArbiter = ''Cnf Size & Data Size should be odd numbers. 3 or more''\<close>

definition SchemaSettingsValidationDR :: string where
  \<open>SchemaSettingsValidationDR = ''Cnf Size & Data Size should be even numbers''\<close>

definition SchemaSettingsValidationZeros :: string where
  \<open>SchemaSettingsValidationZeros = ''Cnf Size, Data Size and Shard Count should be set''\<close>

definition PoliciesKey :: string where
  \<open>PoliciesKey = ''policies''\<close>

definition IsAnyCommonParameterChanged :: string where
  \<open>IsAnyCommonParameterChanged = ''isAnyCommonParameterChanged''\<close>

definition RobotKey :: string where
  \<open>RobotKey = ''robot-tests''\<close>

definition RobotTestsFilesArgCheck :: string where
  \<open>RobotTestsFilesArgCheck = ''ls ./output | wc -l''\<close>

definition RobotTestsExpectedAnswer :: string where
  \<open>RobotTestsExpectedAnswer = ''3''\<close>

definition OperatorServiceName :: string where
  \<open>OperatorServiceName = ''mongodb-operator''\<close>

definition CreateORUpdateUserPattern :: string where
  \<open>CreateORUpdateUserPattern = ''dbUsers = db.getSiblingDB('%[1]s').getUsers();'' @
     ''found = dbUsers.users?dbUsers.users.find((v)=>v.user=='%[2]s'):dbUsers.find((v)=>v.user=='%[2]s');'' @
     ''if (found) {'' @
     ''db.getSiblingDB('%[1]s').updateUser('%[2]s', {pwd: '%[3]s', roles: [%[4]s]})'' @
     ''} else {'' @
     ''db.getSiblingDB('%[1]s').createUser({user: '%[2]s', pwd: '%[3]s', roles: [%[4]s]});'' @
     ''}''\<close>

definition CreateORUpdateRolePattern :: string where
  \<open>CreateORUpdateRolePattern = ''dbRoles = db.getSiblingDB('%[1]s').getRoles();'' @
     ''found = dbRoles.roles?dbRoles.roles.find((v)=>v.role=='%[2]s'):dbRoles.find((v)=>v.role=='%[2]s');'' @
     ''if (found) {'' @
     ''db.getSiblingDB('%[1]s').updateRole('%[2]s', {privileges: [ %[3]s ], roles: [ %[4]s ]})'' @
     ''} else {'' @
     ''db.getSiblingDB('%[1]s').createRole({ role: '%[2]s', privileges: [ %[3]s ], roles: [ %[4]s ]});'' @
     ''}''\<close>

definition UpdateRootPasswordPattern :: string where
  \<open>UpdateRootPasswordPattern = ''db.getSiblingDB('%s').updateUser('%s', {pwd: '%s'})''\<close>

definition ActiveMode :: string where
  \<open>ActiveMode = ''active''\<close>

definition StandbyMode :: string where
  \<open>StandbyMode = ''standby''\<close>

definition DisableMode :: string where
  \<open>DisableMode = ''disable''\<close>

definition JsTemplate :: string where
  \<open>JsTemplate = ''var shouldBeHidden=function(member) { return [%s].indexOf(member.host) >= 0; };'' @
     ''var cfg = rs.config();'' @
     ''cfg.members = cfg.members.map(m => {'' @
     ''m.priority = shouldBeHidden(m) ? 0 : 1;'' @
     ''m.votes = shouldBeHidden(m) ? 0 : 1;'' @
     ''return m;'' @
     ''});'' @
     ''JSON.stringify(rs.reconfig(cfg, {force:true}, {writeConcern: {w:'majority'}}));''\<close>

definition JsCountReplicasWithState :: string where
  \<open>JsCountReplicasWithState = ''rs.status().members.filter(mem => [%s].includes(mem.name)).reduce((prev, current) => {if (current.stateStr == '%s') return prev+1; else return prev;}, 0);''\<close>

definition JsReplicasWithState :: string where
  \<open>JsReplicasWithState = ''rs.status().members.filter(mem => [%s].includes(mem.name)).map(x => x.stateStr)''\<close>

definition JsReplicasWithStateAndName :: string where
  \<open>JsReplicasWithStateAndName = ''rs.status().members.map(function(m) { return {'name':m.name, 'stateStr':m.stateStr} })''\<close>

definition shardHostsTemplate :: string where
  \<open>shardHostsTemplate = ''JSON.stringify(db.getSiblingDB('config').shards.updateOne( {'_id' : '%s'}, {'' @
     [CHR 0x5C] @
     ''$set:{ host: '%s/%s', state: 1}}))''\<close>

definition JsOpLogSize :: string where
  \<open>JsOpLogSize = ''db.getSiblingDB('%s').oplog.rs.stats().maxSize''\<close>

definition JsOpLogResize :: string where
  \<open>JsOpLogResize = ''db.adminCommand({ replSetResizeOplog: 1, size: %v })''\<close>

definition JsCheckMemberLag :: string where
  \<open>JsCheckMemberLag = ''
(function(name) {
  var s = rs.status();
  if (!s.ok) return false;

  var p = s.members.find(m => m.stateStr === 'PRIMARY');
  var t = s.members.find(m => m.name === name);

  if (!p || !t) return false;

  var lag = (p.optimeDate - t.optimeDate) / 1000;

  return t.health === 1 &&
         t.stateStr === 'SECONDARY' &&
         t.optimeDate &&
         lag <= 30;
})('%s')''\<close>

definition JsCheckMemberHealth :: string where
  \<open>JsCheckMemberHealth = ''
(function(name) {
  var s = rs.status();
  if (!s.ok) return false;

  var t = s.members.find(m => m.name === name);
  if (!t) return false;

  return t.health === 1 &&
         (t.stateStr === 'PRIMARY' || t.stateStr === 'SECONDARY');
})('%s')''\<close>

definition JsCheckMemberExists :: string where
  \<open>JsCheckMemberExists = ''
(function(host) {
  var cfg = rs.config();
  return cfg.members.some(function(m) { return m.host === host; });
})('%s')''\<close>

definition JsCheckReconfigNeeded :: string where
  \<open>JsCheckReconfigNeeded = ''
(function(hiddenHosts) {
  var cfg = rs.config();
  var needed = false;
  cfg.members.forEach(function(m) {
    var shouldBeHidden = hiddenHosts.indexOf(m.host) >= 0;
    if (shouldBeHidden && (m.priority !== 0 || m.votes !== 0)) needed = true;
    if (!shouldBeHidden && (m.priority !== 1 || m.votes !== 1)) needed = true;
  });
  return needed;
})([%s])''\<close>

definition JsCheckAllMembersLag :: string where
  \<open>JsCheckAllMembersLag = ''
(function(names, maxLagSec) {
  var s = rs.status();
  if (!s || !s.ok) return false;
  var p = s.members.find(function(m) { return m.stateStr === 'PRIMARY'; });
  if (!p) return false;
  for (var i = 0; i < names.length; i++) {
    var t = s.members.find(function(m) { return m.name === names[i]; });
    if (!t || t.health !== 1 || t.stateStr !== 'SECONDARY' || !t.optimeDate) return false;
    if ((p.optimeDate - t.optimeDate) / 1000 > maxLagSec) return false;
  }
  return true;
})([%s], %d)''\<close>

definition JsRenameMemberDomain :: string where
  \<open>JsRenameMemberDomain = ''
(function(newDomain, otherDomain) {
  var cfg = rs.config();
  var changed = false;
  cfg.members = cfg.members.map(function(m) {
    var parts = m.host.split('.svc.');
    if (parts.length !== 2) return m;
    var currentDomain = parts[1].split(':')[0];
    if (currentDomain === newDomain || currentDomain === otherDomain) return m;
    var port = parts[1].indexOf(':') >= 0 ? ':' + parts[1].split(':')[1] : ':27017';
    m.host = parts[0] + '.svc.' + newDomain + port;
    changed = true;
    return m;
  });
  if (!changed) return false;
  rs.reconfig(cfg, {force: true});
  return true;
})('%s', '%s')''\<close>

definition shardTemplate :: string where
  \<open>shardTemplate = ''adminDB=db.getSiblingDB('local');'' @
     ''adminDB.dropDatabase();'' @
     ''adminDB=db.getSiblingDB('admin');'' @
     ''adminDB.system.version.updateOne({'_id' : 'shardIdentity', 'shardName' : '%s'}, { '' @
     [CHR 0x5C] @
     ''$set: {configsvrConnectionString: 'cnfrs/%s'}}, {writeConcern: { w:1, j:true }});'' @
     ''adminDB.system.version.remove({'_id': 'minOpTimeRecovery'}, {writeConcern: { w:1, j:true }})''\<close>

definition versionCmd :: string where
  \<open>versionCmd = ''db.version()''\<close>

definition KeyFileURI :: string where
  \<open>KeyFileURI = ''keyfile''\<close>

definition HealthURI :: string where
  \<open>HealthURI = ''healthz''\<close>

definition RotateRolesURI :: string where
  \<open>RotateRolesURI = ''rotate-roles''\<close>

definition AddDRReplicasURI :: string where
  \<open>AddDRReplicasURI = ''add-dr-replicas''\<close>

definition FlushURI :: string where
  \<open>FlushURI = ''flush''\<close>

definition CompactURI :: string where
  \<open>CompactURI = ''compact''\<close>

definition RSStatusURI :: string where
  \<open>RSStatusURI = ''rs-status''\<close>

definition Up :: string where
  \<open>Up = ''up''\<close>

definition Down :: string where
  \<open>Down = ''down''\<close>

definition Degraded :: string where
  \<open>Degraded = ''degraded''\<close>

definition Charset :: string where
  \<open>Charset = ''abcdefghijklmnopqrstuvwxyz'' @ ''ABCDEFGHIJKLMNOPQRSTUVWXYZ0123456789''\<close>

definition MongoshBanner7 :: string where
  \<open>MongoshBanner7 = ''Warning: Could not access file: EACCES: permission denied, mkdir '/data/db/.mongodb'

Error: Could not open history file.
REPL session history will not be persisted.
 ''\<close>

definition MongoshBanner8 :: string where
  \<open>MongoshBanner8 = ''Warning: Could not access file: EACCES: permission denied, mkdir '/data/db/.mongodb'' @
     [CHR 0x27]\<close>


section \<open>Commands that depend on the version\<close>

definition GetSetFeatureCompatibilityVersion :: "string \<Rightarrow> string" where
  \<open>GetSetFeatureCompatibilityVersion version =
     (if HasPrefix version ''7'' \<or> HasPrefix version ''8''
      then ''db.adminCommand({ setFeatureCompatibilityVersion: '%s', confirm: true, writeConcern: { w: 'majority' } })''
      else ''db.adminCommand({ setFeatureCompatibilityVersion: '%s' })'')\<close>

definition MongoBinary :: "string \<Rightarrow> string" where
  "MongoBinary dockerImage = ''mongosh''"

end
