(* ===== verification/Naming.thy ===== *)
theory Naming
  imports Consts
begin

text \<open>
  Host names and object names, from \<^verbatim>\<open>src/operator/pkg/utils/utils.go\<close>.  The operator never looks names
  up: the step that creates a stateful set, the step that initiates or reconfigures a replica set and
  the step that deletes it all compute the same names from a shard index and a replica index.
  Replica set sizes and shard counts are natural numbers here (a negative size panics in \<^verbatim>\<open>make\<close>).

  The locale \<^verbatim>\<open>replica_hosts\<close> is what the replica set operations rely on: the host list of a set of
  size n has n different names and grows at its end.  It is interpreted on the config server hosts and
  on the hosts of every data shard, for every namespace and domain.
\<close>

section \<open>Hosts of a replica set\<close>

definition GetReplicaSetHostNames :: "nat \<Rightarrow> string \<Rightarrow> string list" where
  "GetReplicaSetHostNames replicaSize fullDomain =
     map (\<lambda>i. Sprintf fullDomain [Num (int i)]) [0..<replicaSize]"

definition GetCNFReplicaSetHostNames :: "nat \<Rightarrow> string \<Rightarrow> string \<Rightarrow> string list" where
  "GetCNFReplicaSetHostNames replicaSize domain namespace =
     (let fullDomain = Sprintf ''%s-0.%s.%s.svc.%s:27017''
            [Str CnfNameWithIndexFormat, Str CnfNameKey, Str namespace, Str domain]
      in GetReplicaSetHostNames replicaSize fullDomain)"

definition GetDATAReplicaSetHostName :: "nat \<Rightarrow> nat \<Rightarrow> string \<Rightarrow> string \<Rightarrow> string list" where
  "GetDATAReplicaSetHostName replicaSize shardIndex domain namespace =
     (let serviceName = Sprintf DataNameKey [Num (int shardIndex + 1)];
          podNamePattern = Sprintf DataNameWithIndexesFormat [Num (int shardIndex + 1), Str ''%v-0''];
          fullDomain = Sprintf ''%s.%s.%s:27017''
            [Str podNamePattern, Str serviceName, Str (Sprintf ''%s.svc.%s'' [Str namespace, Str domain])]
      in GetReplicaSetHostNames replicaSize fullDomain)"

definition GetDRCNFReplicaSetHostNames :: "nat \<Rightarrow> string \<Rightarrow> string \<Rightarrow> string \<Rightarrow> string list" where
  "GetDRCNFReplicaSetHostNames replicaSize mainDomain drDomain namespace =
     (let mainReplicas = GetCNFReplicaSetHostNames replicaSize mainDomain namespace;
          drReplicas = GetCNFReplicaSetHostNames replicaSize drDomain namespace
      in mainReplicas @ drReplicas)"

definition GetDRDATAReplicaSetHostNames :: "nat \<Rightarrow> nat \<Rightarrow> string \<Rightarrow> string \<Rightarrow> string \<Rightarrow> string list" where
  "GetDRDATAReplicaSetHostNames replicaSize shardIndex mainDomain drDomain namespace =
     (let mainReplicas = GetDATAReplicaSetHostName replicaSize shardIndex mainDomain namespace;
          drReplicas = GetDATAReplicaSetHostName replicaSize shardIndex drDomain namespace
      in mainReplicas @ drReplicas)"

text \<open>
  The code quotes the caller's slice in place and returns it; a caller that goes on using its slice
  sees the quoted names.
\<close>

definition quoted_verb :: string where
  "quoted_verb = [CHR 0x27] @ ''%s'' @ [CHR 0x27]"

definition QuoteReplicaSet :: "string list \<Rightarrow> string list" where
  "QuoteReplicaSet replicasetHostnames = map (\<lambda>name. Sprintf quoted_verb [Str name]) replicasetHostnames"

section \<open>Object names\<close>

definition HostNameBuilder :: "string \<Rightarrow> int \<Rightarrow> bool \<Rightarrow> string" where
  "HostNameBuilder name index port =
     (let portStr = (if port then '':27017'' else [])
      in Sprintf ''%s%v-0.%s%s'' [Str name, Num index, Str name, Str portStr])"

definition HostsList :: "string \<Rightarrow> int \<Rightarrow> bool \<Rightarrow> string list" where
  "HostsList name replicaSize port = map (\<lambda>i. HostNameBuilder name (int i) port) (upto_int replicaSize)"

text \<open>The config server string of mongos: \<^verbatim>\<open>cnfrs/host:27017,host:27017,...\<close>.\<close>

definition MongosRegisterNodesString :: "string \<Rightarrow> int \<Rightarrow> string \<Rightarrow> string" where
  "MongosRegisterNodesString nameKey replicaSize namespace =
     (let domain = Sprintf MongoDomainTemplate [Str namespace]
      in fst (fold
           (\<lambda>i (configNodes, splitter).
              (configNodes @ Sprintf ''%s%s.%s.%s:27017''
                 [Str splitter,
                  Str (Sprintf StatefulSetPodNameTemplate [Str (Sprintf ''%s%v'' [Str nameKey, Num (int i)])]),
                  Str nameKey, Str domain],
               '',''))
           (upto_int replicaSize) (nameKey @ ''/'', [])))"

text \<open>The stateful sets the create steps make, the one their delete steps name, and their pods.\<close>

definition cnfStatefulSetName :: "nat \<Rightarrow> string" where
  "cnfStatefulSetName i = Sprintf CnfNameWithIndexFormat [Num (int i)]"

definition dataStatefulSetName :: "nat \<Rightarrow> nat \<Rightarrow> string" where
  "dataStatefulSetName s i = Sprintf DataNameWithIndexesFormat [Num (int s + 1), Num (int i)]"

definition dataServiceName :: "nat \<Rightarrow> string" where
  "dataServiceName s = Sprintf DataNameKey [Num (int s + 1)]"

definition podOfStatefulSet :: "string \<Rightarrow> string" where
  "podOfStatefulSet name = Sprintf StatefulSetPodNameTemplate [Str name]"

section \<open>Plain forms\<close>

lemma percent_show_nat [simp]: "CHR 0x25 \<notin> set (show_nat n)"
  by (rule not_digit_in_show_nat) (simp add: isDigit_def)

lemma show_int_Suc [simp]: "show_int (1 + int n) = show_nat (Suc n)" "show_int (int n + 1) = show_nat (Suc n)"
  by (simp_all add: show_int_def nat_add_distrib)

lemma doPrintf_show_nat [simp]: "doPrintf args n re (show_nat k @ cs) = show_nat k @ doPrintf args n re cs"
  by (simp add: doPrintf_text)

lemma doPrintf_plain: "CHR 0x25 \<notin> set t \<Longrightarrow> length args \<le> n \<Longrightarrow> doPrintf args n re t = t"
  using doPrintf_text [of t args n re "[]"] by (simp add: extra_args_def)

lemma quoted_verb_Sprintf [simp]: "Sprintf quoted_verb [Str s] = [CHR 0x27] @ s @ [CHR 0x27]"
  by (simp add: quoted_verb_def Sprintf_simps)

lemma QuoteReplicaSet_length [simp]: "length (QuoteReplicaSet hs) = length hs"
  by (simp add: QuoteReplicaSet_def)

lemma QuoteReplicaSet_eq: "QuoteReplicaSet hs = map (\<lambda>h. [CHR 0x27] @ h @ [CHR 0x27]) hs"
  by (simp add: QuoteReplicaSet_def)

lemma QuoteReplicaSet_inj: "QuoteReplicaSet hs = QuoteReplicaSet hs' \<longleftrightarrow> hs = hs'"
  unfolding QuoteReplicaSet_eq by (auto dest: map_injective simp: inj_on_def intro!: inj_onI)

lemma cnfStatefulSetName_eq [simp]: "cnfStatefulSetName i = ''cnfrs'' @ show_nat i"
  by (simp add: cnfStatefulSetName_def CnfNameWithIndexFormat_def CnfNameKey_def Sprintf_simps)

lemma dataStatefulSetName_eq: "dataStatefulSetName s i = ''datars'' @ show_nat (Suc s) @ show_nat i"
  by (simp add: dataStatefulSetName_def DataNameWithIndexesFormat_def DataNameKey_def Sprintf_simps)

lemma dataServiceName_eq: "dataServiceName s = ''datars'' @ show_nat (Suc s)"
  by (simp add: dataServiceName_def DataNameKey_def Sprintf_simps)

lemma podOfStatefulSet_eq: "podOfStatefulSet name = name @ ''-0''"
  by (simp add: podOfStatefulSet_def StatefulSetPodNameTemplate_def Sprintf_simps)

lemma dataServiceName_inj [simp]: "dataServiceName s = dataServiceName t \<longleftrightarrow> s = t"
  by (simp add: dataServiceName_eq)

lemma dataServiceName_not_cnfrs [simp]: "dataServiceName s \<noteq> CnfNameKey" "CnfNameKey \<noteq> dataServiceName s"
  by (simp_all add: dataServiceName_eq CnfNameKey_def)

text \<open>
  The host of replica i: for every namespace and domain it starts with the pod and the service; when
  these hold no percent sign (a Kubernetes name cannot) it is the usual host name.
\<close>

lemma cnf_host_raw:
  "GetCNFReplicaSetHostNames n dm ns =
     map (\<lambda>i. ''cnfrs'' @ show_nat i @ ''-0.'' @ doPrintf [Num (int i)] 1 False (''cnfrs.'' @ ns @ ''.svc.'' @ dm @ '':27017''))
       [0..<n]"
  by (simp add: GetCNFReplicaSetHostNames_def GetReplicaSetHostNames_def CnfNameWithIndexFormat_def
      CnfNameKey_def Sprintf_simps)

lemma data_host_raw:
  "GetDATAReplicaSetHostName n s dm ns =
     map (\<lambda>i. ''datars'' @ show_nat (Suc s) @ show_nat i @ ''-0.datars'' @ show_nat (Suc s) @ ''.''
               @ doPrintf [Num (int i)] 1 False (ns @ ''.svc.'' @ dm @ '':27017''))
       [0..<n]"
  by (simp add: GetDATAReplicaSetHostName_def GetReplicaSetHostNames_def DataNameWithIndexesFormat_def
      DataNameKey_def Sprintf_simps)

lemma cnf_host:
  assumes "CHR 0x25 \<notin> set ns" "CHR 0x25 \<notin> set dm"
  shows "GetCNFReplicaSetHostNames n dm ns =
     map (\<lambda>i. podOfStatefulSet (cnfStatefulSetName i) @ ''.cnfrs.'' @ ns @ ''.svc.'' @ dm @ '':27017'') [0..<n]"
  using assms by (simp add: cnf_host_raw podOfStatefulSet_eq doPrintf_plain)

lemma data_host:
  assumes "CHR 0x25 \<notin> set ns" "CHR 0x25 \<notin> set dm"
  shows "GetDATAReplicaSetHostName n s dm ns =
     map (\<lambda>i. podOfStatefulSet (dataStatefulSetName s i) @ ''.'' @ dataServiceName s @ ''.'' @ ns
               @ ''.svc.'' @ dm @ '':27017'') [0..<n]"
  using assms by (simp add: data_host_raw podOfStatefulSet_eq dataStatefulSetName_eq dataServiceName_eq doPrintf_plain)

section \<open>Injectivity\<close>

lemma cnf_host_inj:
  "''cnfrs'' @ show_nat i @ ''-0.'' @ x = ''cnfrs'' @ show_nat j @ ''-0.'' @ y \<Longrightarrow> i = j"
  using show_nat_prefix [of i "CHR ''-''" "''0.'' @ x" j "CHR ''-''" "''0.'' @ y"]
  by (simp add: isDigit_def)

lemma takeWhile_digits2:
  assumes "\<not> isDigit c"
  shows "takeWhile isDigit (show_nat m @ show_nat n @ c # xs) = show_nat m @ show_nat n"
proof -
  have "takeWhile isDigit (show_nat m @ (show_nat n @ c # xs)) =
        show_nat m @ takeWhile isDigit (show_nat n @ c # xs)"
    by (rule takeWhile_append2) (rule show_nat_digits)
  also have "takeWhile isDigit (show_nat n @ c # xs) = show_nat n @ takeWhile isDigit (c # xs)"
    by (rule takeWhile_append2) (rule show_nat_digits)
  finally show ?thesis using assms by simp
qed

lemma data_host_inj:
  assumes "''datars'' @ show_nat s @ show_nat i @ ''-0.datars'' @ show_nat s @ ''.'' @ x =
           ''datars'' @ show_nat t @ show_nat j @ ''-0.datars'' @ show_nat t @ ''.'' @ y"
  shows "s = t \<and> i = j"
proof -
  let ?u = "''0.datars'' @ show_nat s @ ''.'' @ x" and ?v = "''0.datars'' @ show_nat t @ ''.'' @ y"
  have eq: "show_nat s @ show_nat i @ CHR ''-'' # ?u = show_nat t @ show_nat j @ CHR ''-'' # ?v"
    using assms by simp
  have nd: "\<not> isDigit CHR ''-''" "\<not> isDigit CHR ''.''" by (simp_all add: isDigit_def)
  have digits: "show_nat s @ show_nat i = show_nat t @ show_nat j"
    using arg_cong [OF eq, of "takeWhile isDigit"]
    by (simp only: takeWhile_digits2 [OF nd(1)])
  have "(show_nat s @ show_nat i) @ CHR ''-'' # ?u = (show_nat s @ show_nat i) @ CHR ''-'' # ?v"
    using eq unfolding digits append_assoc [symmetric] .
  then have "show_nat s @ CHR ''.'' # x = show_nat t @ CHR ''.'' # y"
    by (simp only: append_same_eq same_append_eq list.inject append_Cons append_Nil)
  then have st: "s = t" using show_nat_prefix nd(2) by blast
  then have "show_nat i = show_nat j" using digits by simp
  then show ?thesis using st by simp
qed

section \<open>The interface of the replica set operations\<close>

locale replica_hosts =
  fixes hosts :: "nat \<Rightarrow> string list"
  assumes length_hosts: "length (hosts n) = n"
    and distinct_hosts: "distinct (hosts n)"
    and take_hosts: "m \<le> n \<Longrightarrow> take m (hosts n) = hosts m"
begin

lemma hosts_mono: "m \<le> n \<Longrightarrow> set (hosts m) \<subseteq> set (hosts n)"
  using take_hosts set_take_subset by metis

lemma hosts_inj: "hosts m = hosts n \<Longrightarrow> m = n"
  by (metis length_hosts)

lemma card_hosts: "card (set (hosts n)) = n"
  by (simp add: distinct_card distinct_hosts length_hosts)

lemma new_hosts:
  assumes "m \<le> n"
  shows "card (set (hosts n) - set (hosts m)) = n - m"
  using card_Diff_subset [OF _ hosts_mono [OF assms]] by (simp add: card_hosts)

lemma quoted_distinct: "distinct (QuoteReplicaSet (hosts n))"
  using distinct_hosts by (simp add: QuoteReplicaSet_eq distinct_map inj_on_def)

end

interpretation cnf_hosts: replica_hosts "\<lambda>n. GetCNFReplicaSetHostNames n dm ns" for dm ns
proof
  show "length (GetCNFReplicaSetHostNames n dm ns) = n" for n
    by (simp add: cnf_host_raw)
  show "distinct (GetCNFReplicaSetHostNames n dm ns)" for n
    unfolding cnf_host_raw by (rule distinct_map_upt) (erule cnf_host_inj)
  show "m \<le> n \<Longrightarrow> take m (GetCNFReplicaSetHostNames n dm ns) = GetCNFReplicaSetHostNames m dm ns" for m n
    by (simp add: cnf_host_raw take_map)
qed

interpretation data_hosts: replica_hosts "\<lambda>n. GetDATAReplicaSetHostName n s dm ns" for s dm ns
proof
  show "length (GetDATAReplicaSetHostName n s dm ns) = n" for n
    by (simp add: data_host_raw)
  show "distinct (GetDATAReplicaSetHostName n s dm ns)" for n
    unfolding data_host_raw by (rule distinct_map_upt) (drule data_host_inj, blast)
  show "m \<le> n \<Longrightarrow> take m (GetDATAReplicaSetHostName n s dm ns) = GetDATAReplicaSetHostName m s dm ns" for m n
    by (simp add: data_host_raw take_map)
qed

lemma data_hosts_disjoint:
  assumes "s \<noteq> t"
  shows "set (GetDATAReplicaSetHostName m s dm ns) \<inter> set (GetDATAReplicaSetHostName n t dm' ns') = {}"
proof -
  have False if a: "h \<in> set (GetDATAReplicaSetHostName m s dm ns)"
      and b: "h \<in> set (GetDATAReplicaSetHostName n t dm' ns')" for h
  proof -
    obtain i x where "h = ''datars'' @ show_nat (Suc s) @ show_nat i @ ''-0.datars'' @ show_nat (Suc s) @ ''.'' @ x"
      using a unfolding data_host_raw set_map image_iff by blast
    moreover obtain j y where "h = ''datars'' @ show_nat (Suc t) @ show_nat j @ ''-0.datars'' @ show_nat (Suc t) @ ''.'' @ y"
      using b unfolding data_host_raw set_map image_iff by blast
    ultimately have "Suc s = Suc t" using data_host_inj by metis
    then show False using assms by simp
  qed
  then show ?thesis by blast
qed

lemma cnf_data_hosts_disjoint:
  "set (GetCNFReplicaSetHostNames m dm ns) \<inter> set (GetDATAReplicaSetHostName n s dm' ns') = {}"
  unfolding data_host_raw cnf_host_raw by auto

end
