(* ===== verification/K8s.thy ===== *)
theory K8s
  imports Naming
begin

text \<open>
  The Kubernetes objects the operator builds (\<^verbatim>\<open>k8s.io/api\<close> structs), with the fields the code sets or
  reads, and the fields of the custom resource (\<^verbatim>\<open>src/operator/api/v1alpha1/mongodbdeployment_types.go\<close>).

  A Go \<^verbatim>\<open>map[string]string\<close> is an association list without duplicate keys; \<^verbatim>\<open>smap_put\<close> is the
  assignment \<^verbatim>\<open>m[k] = v\<close>.  Values the operator only passes through (security contexts, tolerations,
  resource quantities other than the memory limit) are opaque texts.
\<close>

section \<open>String maps\<close>

type_synonym smap = "(string \<times> string) list"

fun smap_put :: "string \<Rightarrow> 'v \<Rightarrow> (string \<times> 'v) list \<Rightarrow> (string \<times> 'v) list" where
  "smap_put k v [] = [(k, v)]"
| "smap_put k v ((k', v') # m) = (if k = k' then (k, v) # m else (k', v') # smap_put k v m)"

definition smap_get :: "smap \<Rightarrow> string \<Rightarrow> string" where
  "smap_get m k = (case map_of m k of Some v \<Rightarrow> v | None \<Rightarrow> [])"

lemma map_of_smap_put [simp]: "map_of (smap_put k v m) = (map_of m)(k \<mapsto> v)"
  by (induction m) (auto simp: fun_eq_iff)

lemma keys_smap_put: "fst ` set (smap_put k v m) = insert k (fst ` set m)"
  by (induction k v m rule: smap_put.induct) (simp_all add: insert_commute)

lemma distinct_smap_put: "distinct (map fst m) \<Longrightarrow> distinct (map fst (smap_put k v m))"
proof (induction m)
  case (Cons kv m)
  then show ?case using keys_smap_put [of k v m] by (cases kv) (auto simp: image_iff)
qed simp

text \<open>\<^verbatim>\<open>fmt.Sprint\<close> of a map prints it with its keys in order.\<close>

definition Sprint_smap :: "smap \<Rightarrow> string" where
  "Sprint_smap m = ''map['' @ Join '' '' (map (\<lambda>(k, v). k @ '':'' @ v) (sort_key fst m)) @ '']''"

section \<open>Pods and their templates\<close>

datatype volume_source =
    PVCSource string
  | SecretSource string "int option"
  | EmptyDirMega int
  | EmptyDirSource
  | ProjectedSecret string "(string \<times> string) list" int

record volume =
  vol_name :: string
  vol_source :: volume_source

record volume_mount =
  mount_name :: string
  mount_readonly :: bool
  mount_path :: string

datatype env_value = PlainEnv string | SecretEnv string string | FieldEnv string

record env_var =
  env_name :: string
  env_value :: env_value

record probe =
  probe_exec :: "string list option"
  probe_tcp_port :: "int option"
  probe_http :: "(string \<times> int \<times> string) option"
  probe_initial_delay :: int
  probe_timeout :: int
  probe_period :: int
  probe_failure :: int
  probe_success :: int

record security_context =
  sc_readonly_root :: bool
  sc_drop :: "string list"
  sc_privilege_escalation :: bool

record container_port =
  port_name :: string
  port_number :: int
  port_protocol :: string

record resources =
  res_memory_limit :: int
  res_rest :: string

record container =
  ctr_name :: string
  ctr_image :: string
  ctr_pull_policy :: string
  ctr_security :: "security_context option"
  ctr_command :: "string list"
  ctr_args :: "string list"
  ctr_env :: "env_var list"
  ctr_readiness :: "probe option"
  ctr_liveness :: "probe option"
  ctr_ports :: "container_port list"
  ctr_mounts :: "volume_mount list"
  ctr_resources :: resources

record label_requirement =
  req_key :: string
  req_operator :: string
  req_values :: "string list"

record affinity_term =
  term_exprs :: "label_requirement list"
  term_topology :: string

record preferred_term =
  pref_weight :: int
  pref_exprs :: "label_requirement list"

record affinity =
  pod_anti_affinity :: "affinity_term list"
  pod_affinity :: "affinity_term list"
  node_affinity_preferred :: "preferred_term list"

record pod_spec =
  ps_volumes :: "volume list"
  ps_containers :: "container list"
  ps_termination :: "int option"
  ps_affinity :: "affinity option"
  ps_node_selector :: smap
  ps_priority_class :: string
  ps_security :: "string option"
  ps_tolerations :: "string list"
  ps_service_account :: string
  ps_restart_policy :: string

text \<open>The zero values, with a container name: what a struct literal that only sets the name gives.\<close>

definition noResources :: resources where
  "noResources = \<lparr>res_memory_limit = 0, res_rest = []\<rparr>"

definition namedContainer :: "string \<Rightarrow> container" where
  "namedContainer name =
     \<lparr>ctr_name = name, ctr_image = [], ctr_pull_policy = [], ctr_security = None, ctr_command = [],
      ctr_args = [], ctr_env = [], ctr_readiness = None, ctr_liveness = None, ctr_ports = [], ctr_mounts = [],
      ctr_resources = noResources\<rparr>"

definition emptyPodSpec :: pod_spec where
  "emptyPodSpec =
     \<lparr>ps_volumes = [], ps_containers = [], ps_termination = None, ps_affinity = None,
      ps_node_selector = [], ps_priority_class = [], ps_security = None, ps_tolerations = [],
      ps_service_account = [], ps_restart_policy = []\<rparr>"

definition namedPodSpec :: "string \<Rightarrow> pod_spec" where
  "namedPodSpec name = emptyPodSpec \<lparr>ps_containers := [namedContainer name]\<rparr>"

lemma ps_containers_namedPodSpec [simp]: "ps_containers (namedPodSpec n) = [namedContainer n]"
  by (simp add: namedPodSpec_def)

lemma ctr_name_namedContainer [simp]: "ctr_name (namedContainer n) = n"
  by (simp add: namedContainer_def)

record object_meta =
  meta_name :: string
  meta_namespace :: string
  meta_labels :: smap
  meta_annotations :: smap

record pod =
  pod_meta :: object_meta
  pod_spec_of :: pod_spec
  pod_phase :: string
  pod_owners :: "(string \<times> string) list"

abbreviation pod_name :: "pod \<Rightarrow> string" where
  "pod_name p \<equiv> meta_name (pod_meta p)"

abbreviation pod_namespace :: "pod \<Rightarrow> string" where
  "pod_namespace p \<equiv> meta_namespace (pod_meta p)"

text \<open>\<^verbatim>\<open>v1.PodRunning\<close>.\<close>

definition PodRunning :: string where
  "PodRunning = ''Running''"

section \<open>Workloads, services and secrets\<close>

record stateful_set =
  ss_meta :: object_meta
  ss_replicas :: "int option"
  ss_service_name :: string
  ss_selector :: smap
  ss_pod_labels :: smap
  ss_pod_spec :: pod_spec

record replication_controller =
  rc_meta :: object_meta
  rc_replicas :: int
  rc_pod_labels :: smap
  rc_pod_spec :: pod_spec

record deployment =
  dep_meta :: object_meta
  dep_replicas :: int
  dep_pod_spec :: pod_spec

record service_port =
  sp_name :: string
  sp_port :: int
  sp_target :: "int option"

record service =
  svc_meta :: object_meta
  svc_ports :: "service_port list"
  svc_selector :: smap
  svc_cluster_ip :: string
  svc_affinity :: string

record secret =
  sec_meta :: object_meta
  sec_data :: smap
  sec_type :: string

datatype runtime_object =
    StatefulSetObj stateful_set
  | RCObj replication_controller
  | ServiceObj service
  | SecretObj secret
  | PodObj pod

section \<open>Selectors\<close>

text \<open>
  When a label selector with \<^verbatim>\<open>In\<close> expressions selects a pod: the documented meaning of
  \<^verbatim>\<open>matchExpressions\<close> (all hold; a missing key does not match \<^verbatim>\<open>In\<close>).
\<close>

definition requirement_holds :: "smap \<Rightarrow> label_requirement \<Rightarrow> bool" where
  "requirement_holds labels r =
     (req_operator r = ''In'' \<and> (case map_of labels (req_key r) of None \<Rightarrow> False
                                | Some v \<Rightarrow> v \<in> set (req_values r)))"

definition term_selects :: "smap \<Rightarrow> affinity_term \<Rightarrow> bool" where
  "term_selects labels t = list_all (requirement_holds labels) (term_exprs t)"

section \<open>The custom resource\<close>

datatype schema_type = HA | DR | Arbiter | SingleSchema | UnsetSchema

record schema_settings =
  SchemaType :: schema_type
  SchemaSharded :: bool
  CnfReplicaSize :: nat
  DataReplicaSize :: nat
  ShardCount :: nat
  ArbiterIndex :: int
  ThisDomainName :: string
  OtherDomainName :: string
  MongosReplicas :: int

record disaster_recovery =
  Mode :: string
  DRStatus :: string
  NoWait :: bool

record tls =
  TLSEnabled :: bool
  CertificateSecretName :: string
  RootCAFileName :: string
  SignedCRTFileName :: string
  PrivateKeyFileName :: string
  TLSMode :: string
  CombinedKeyAndCRTFileName :: string

record mongodb_spec =
  MongoInstall :: bool
  CnfResources :: resources
  DataResources :: resources
  ArbiterResources :: "resources option"
  MongosResources :: resources
  DockerImage :: string
  ContainerTimeoutSeconds :: int
  ContainerPeriodSeconds :: int
  CnfWiredTigerCacheGb :: string
  DataWiredTigerCacheGb :: string
  CnfOpLogSizeMb :: int
  DataOpLogSizeMb :: int
  SingleWiredTigerCacheGb :: string
  AdditionalNodeLabels :: smap
  CustomDataRSParameters :: "string list"
  PriorityClassName :: string
  MongoRootSecretNameField :: string
  MongoAffinity :: "affinity option"
  ClusterAuthMode :: string

record deployment_spec =
  DisasterRecovery :: disaster_recovery
  DeploymentVersion :: string
  SchemaSettings :: schema_settings
  RecyclerInstall :: bool
  StopOnFailedResourceUpdate :: bool
  WaitSecondsField :: int
  AuthDb :: string
  IpV6 :: bool
  PodSecurityContext :: "string option"
  Policies :: "string list option"
  ImagePullPolicy :: string
  MongoDB :: mongodb_spec
  TLSField :: tls
  DeletePVConUninstall :: bool

end
