(* ===== verification/Json.thy ===== *)
theory Json
  imports GoRegexp
begin

text \<open>
  The part of \<^verbatim>\<open>encoding/json\<close> the program uses: reading a value, and storing it into a string slice
  and into structs with string, number and boolean fields.  The parser follows the JSON grammar the
  package accepts (white space, escapes with surrogate pairs, number literals); \<^verbatim>\<open>fuel\<close> bounds the
  nesting and the number of elements, and \<^verbatim>\<open>parse_json\<close> gives it more than the length of the input,
  which no derivation uses up.
\<close>

datatype json =
    JNull
  | JBool bool
  | JNum string
  | JStr string
  | JArr "json list"
  | JObj "(string \<times> json) list"

definition isJsonSpace :: "char \<Rightarrow> bool" where
  "isJsonSpace c = (c \<in> {CHR 0x20, CHR 0x09, CHR 0x0A, CHR 0x0D})"

definition skip_ws :: "string \<Rightarrow> string" where
  "skip_ws s = dropWhile isJsonSpace s"

section \<open>Literals\<close>

definition digit_rex :: rex where
  "digit_rex = Cls [(CHR ''0'', CHR ''9'')]"

definition number_rex :: rex where
  "number_rex =
     Seq (Opt (Chr CHR ''-''))
      (Seq (Alt (Chr CHR ''0'') (Seq (Cls [(CHR ''1'', CHR ''9'')]) (Star digit_rex)))
       (Seq (Opt (Seq (Chr CHR ''.'') (Seq digit_rex (Star digit_rex))))
            (Opt (Seq (Cls [(CHR ''e'', CHR ''e''), (CHR ''E'', CHR ''E'')])
                  (Seq (Opt (Cls [(CHR ''+'', CHR ''+''), (CHR ''-'', CHR ''-'')]))
                       (Seq digit_rex (Star digit_rex)))))))"

definition parse_number :: "string \<Rightarrow> (string \<times> string) option" where
  "parse_number s = (case matches number_rex s of [] \<Rightarrow> None
                     | t # ts \<Rightarrow> Some (take (length s - length t) s, t))"

definition hex_val :: "char \<Rightarrow> nat option" where
  "hex_val c =
     (if isDigit c then Some (digit_val c)
      else if CHR ''a'' \<le> c \<and> c \<le> CHR ''f'' then Some (of_char c - 87)
      else if CHR ''A'' \<le> c \<and> c \<le> CHR ''F'' then Some (of_char c - 55) else None)"

text \<open>Four hexadecimal digits.\<close>

fun hex4 :: "string \<Rightarrow> (nat \<times> string) option" where
  "hex4 (a # b # c # d # cs) =
     (case (hex_val a, hex_val b, hex_val c, hex_val d) of
        (Some w, Some x, Some y, Some z) \<Rightarrow> Some (4096 * w + 256 * x + 16 * y + z, cs)
      | _ \<Rightarrow> None)"
| "hex4 _ = None"

text \<open>The UTF-8 bytes of a code point.\<close>

definition utf8 :: "nat \<Rightarrow> string" where
  "utf8 n =
     (if n < 0x80 then [char_of n]
      else if n < 0x800 then [char_of (0xC0 + n div 64), char_of (0x80 + n mod 64)]
      else if n < 0x10000 then
        [char_of (0xE0 + n div 4096), char_of (0x80 + n div 64 mod 64), char_of (0x80 + n mod 64)]
      else [char_of (0xF0 + n div 262144), char_of (0x80 + n div 4096 mod 64),
            char_of (0x80 + n div 64 mod 64), char_of (0x80 + n mod 64)])"

definition escape_char :: "char \<Rightarrow> char option" where
  "escape_char c =
     (if c = CHR 0x22 \<or> c = CHR 0x5C \<or> c = CHR ''/'' then Some c
      else if c = CHR ''b'' then Some CHR 0x08
      else if c = CHR ''f'' then Some CHR 0x0C
      else if c = CHR ''n'' then Some CHR 0x0A
      else if c = CHR ''r'' then Some CHR 0x0D
      else if c = CHR ''t'' then Some CHR 0x09 else None)"

definition isSurrogateHigh :: "nat \<Rightarrow> bool" where
  "isSurrogateHigh n = (0xD800 \<le> n \<and> n < 0xDC00)"

definition isSurrogateLow :: "nat \<Rightarrow> bool" where
  "isSurrogateLow n = (0xDC00 \<le> n \<and> n < 0xE000)"

text \<open>An escape \<^verbatim>\<open>\uXXXX\<close>, possibly the first half of a surrogate pair; a lone half is U+FFFD.\<close>

definition unicode_escape :: "string \<Rightarrow> (string \<times> string) option" where
  "unicode_escape s =
     (case hex4 s of None \<Rightarrow> None
      | Some (n, rest) \<Rightarrow>
          if isSurrogateHigh n then
            (case rest of b # u # rest' \<Rightarrow>
               (if b = CHR 0x5C \<and> u = CHR ''u'' then
                  (case hex4 rest' of
                     Some (m, rest'') \<Rightarrow>
                       if isSurrogateLow m
                       then Some (utf8 (0x10000 + (n - 0xD800) * 1024 + (m - 0xDC00)), rest'')
                       else Some (utf8 0xFFFD, rest)
                   | None \<Rightarrow> None)
                else Some (utf8 0xFFFD, rest))
             | _ \<Rightarrow> Some (utf8 0xFFFD, rest))
          else if isSurrogateLow n then Some (utf8 0xFFFD, rest)
          else Some (utf8 n, rest))"

text \<open>The characters of a string after its opening quote.\<close>

fun parse_chars :: "nat \<Rightarrow> string \<Rightarrow> (string \<times> string) option" where
  "parse_chars 0 s = None"
| "parse_chars (Suc n) [] = None"
| "parse_chars (Suc n) (c # cs) =
     (if c = CHR 0x22 then Some ([], cs)
      else if c = CHR 0x5C then
        (case cs of [] \<Rightarrow> None
         | e # es \<Rightarrow>
             (case (if e = CHR ''u'' then unicode_escape es
                    else map_option (\<lambda>x. ([x], es)) (escape_char e)) of
                None \<Rightarrow> None
              | Some (x, rest) \<Rightarrow> map_option (\<lambda>(xs, r). (x @ xs, r)) (parse_chars n rest)))
      else if (of_char c :: nat) < 0x20 then None
      else map_option (\<lambda>(xs, r). (c # xs, r)) (parse_chars n cs))"

definition parse_string :: "string \<Rightarrow> (string \<times> string) option" where
  "parse_string s = (case s of [] \<Rightarrow> None
                     | c # cs \<Rightarrow> if c = CHR 0x22 then parse_chars (Suc (length cs)) cs else None)"

section \<open>Values\<close>

fun parse_value :: "nat \<Rightarrow> string \<Rightarrow> (json \<times> string) option"
and parse_elements :: "nat \<Rightarrow> string \<Rightarrow> (json list \<times> string) option"
and parse_members :: "nat \<Rightarrow> string \<Rightarrow> ((string \<times> json) list \<times> string) option" where
  "parse_value 0 s = None"
| "parse_value (Suc n) s =
     (let s = skip_ws s in
      if HasPrefix s ''null'' then Some (JNull, drop 4 s)
      else if HasPrefix s ''true'' then Some (JBool True, drop 4 s)
      else if HasPrefix s ''false'' then Some (JBool False, drop 5 s)
      else case s of [] \<Rightarrow> None
      | c # cs \<Rightarrow>
          if c = CHR 0x22 then map_option (\<lambda>(x, r). (JStr x, r)) (parse_string s)
          else if c = CHR ''['' then
            (if HasPrefix (skip_ws cs) '']'' then Some (JArr [], drop 1 (skip_ws cs))
             else map_option (\<lambda>(vs, r). (JArr vs, r)) (parse_elements n cs))
          else if c = CHR ''{'' then
            (if HasPrefix (skip_ws cs) ''}'' then Some (JObj [], drop 1 (skip_ws cs))
             else map_option (\<lambda>(vs, r). (JObj vs, r)) (parse_members n cs))
          else map_option (\<lambda>(x, r). (JNum x, r)) (parse_number s))"
| "parse_elements 0 s = None"
| "parse_elements (Suc n) s =
     (case parse_value n s of None \<Rightarrow> None
      | Some (v, r) \<Rightarrow>
          (case skip_ws r of [] \<Rightarrow> None
           | c # cs \<Rightarrow> if c = CHR '']'' then Some ([v], cs)
                       else if c = CHR '','' then
                         map_option (\<lambda>(vs, t). (v # vs, t)) (parse_elements n cs)
                       else None))"
| "parse_members 0 s = None"
| "parse_members (Suc n) s =
     (case parse_string (skip_ws s) of None \<Rightarrow> None
      | Some (k, r) \<Rightarrow>
          (case skip_ws r of [] \<Rightarrow> None
           | c # cs \<Rightarrow>
               if c \<noteq> CHR '':'' then None
               else (case parse_value n cs of None \<Rightarrow> None
                     | Some (v, t) \<Rightarrow>
                         (case skip_ws t of [] \<Rightarrow> None
                          | d # ds \<Rightarrow>
                              if d = CHR ''}'' then Some ([(k, v)], ds)
                              else if d = CHR '','' then
                                map_option (\<lambda>(vs, u). ((k, v) # vs, u)) (parse_members n ds)
                              else None))))"

text \<open>A whole document: one value and white space.\<close>

definition parse_json :: "string \<Rightarrow> json option" where
  "parse_json s = (case parse_value (2 * length s + 2) s of None \<Rightarrow> None
                   | Some (v, r) \<Rightarrow> if skip_ws r = [] then Some v else None)"

section \<open>Storing into Go values\<close>

text \<open>
  \<^verbatim>\<open>json.Unmarshal(data, &xs)\<close> for \<^verbatim>\<open>xs []string\<close>: invalid JSON stores nothing; \<^verbatim>\<open>null\<close> stores nothing
  into a string and empties the slice; a value of another type is an error, and the rest is stored.
\<close>

definition store_string :: "json \<Rightarrow> string \<Rightarrow> string \<times> bool" where
  "store_string v old = (case v of JStr s \<Rightarrow> (s, True) | JNull \<Rightarrow> (old, True) | _ \<Rightarrow> (old, False))"

definition store_int :: "json \<Rightarrow> int \<Rightarrow> int \<times> bool" where
  "store_int v old = (case v of JNum s \<Rightarrow> (case parseInt64 s of Some i \<Rightarrow> (i, True) | None \<Rightarrow> (old, False))
                      | JNull \<Rightarrow> (old, True) | _ \<Rightarrow> (old, False))"

definition unmarshal_strings :: "string \<Rightarrow> string list with_err" where
  "unmarshal_strings s =
     (case parse_json s of
        None \<Rightarrow> ([], Some (JsonError s))
      | Some JNull \<Rightarrow> ([], None)
      | Some (JArr vs) \<Rightarrow>
          (map (\<lambda>v. fst (store_string v [])) vs,
           if list_all (\<lambda>v. snd (store_string v [])) vs then None else Some (JsonError s))
      | Some _ \<Rightarrow> ([], Some (JsonError s)))"

text \<open>Field names are matched without regard to (ASCII) case.\<close>

definition to_lower :: "char \<Rightarrow> char" where
  "to_lower c = (if CHR ''A'' \<le> c \<and> c \<le> CHR ''Z'' then char_of (of_char c + 32 :: nat) else c)"

definition field_eq :: "string \<Rightarrow> string \<Rightarrow> bool" where
  "field_eq a b = (map to_lower a = map to_lower b)"

section \<open>Printing a list of plain strings\<close>

definition plain_char :: "char \<Rightarrow> bool" where
  "plain_char c = (c \<noteq> CHR 0x22 \<and> c \<noteq> CHR 0x5C \<and> 0x20 \<le> (of_char c :: nat))"

definition json_string :: "string \<Rightarrow> string" where
  "json_string s = CHR 0x22 # s @ [CHR 0x22]"

definition json_strings :: "string list \<Rightarrow> string" where
  "json_strings xs = ''['' @ Join '','' (map json_string xs) @ '']''"

lemma parse_chars_plain:
  "list_all plain_char s \<Longrightarrow> length s < n \<Longrightarrow> parse_chars n (s @ CHR 0x22 # r) = Some (s, r)"
proof (induction s arbitrary: n)
  case Nil
  then show ?case by (cases n) auto
next
  case (Cons c cs)
  then show ?case by (cases n) (auto simp: plain_char_def)
qed

lemma parse_string_plain:
  "list_all plain_char s \<Longrightarrow> parse_string (json_string s @ r) = Some (s, r)"
  by (simp add: parse_string_def json_string_def parse_chars_plain)

lemma skip_ws_quote [simp]: "skip_ws (CHR 0x22 # s) = CHR 0x22 # s"
  by (simp add: skip_ws_def isJsonSpace_def)

lemma parse_value_plain:
  "list_all plain_char s \<Longrightarrow> parse_value (Suc n) (json_string s @ r) = Some (JStr s, r)"
  using parse_string_plain [of s r] by (simp add: json_string_def)

lemma parse_elements_plain:
  "xs \<noteq> [] \<Longrightarrow> list_all (list_all plain_char) xs \<Longrightarrow> length xs < n \<Longrightarrow>
   parse_elements n (Join '','' (map json_string xs) @ '']'' @ r) = Some (map JStr xs, r)"
proof (induction xs arbitrary: n)
  case (Cons x xs)
  obtain m where n: "n = Suc (Suc m)" using Cons.prems(3) by (cases n; cases "n - 1") auto
  show ?case
  proof (cases xs)
    case Nil
    then show ?thesis
      using Cons.prems parse_value_plain [of x m "CHR '']'' # r"]
      by (simp add: n skip_ws_def isJsonSpace_def del: parse_value.simps)
  next
    case (Cons y ys)
    then show ?thesis
      using Cons.prems Cons.IH [of "Suc m"]
        parse_value_plain [of x m "CHR '','' # Join '','' (map json_string xs) @ CHR '']'' # r"]
      by (simp add: n skip_ws_def isJsonSpace_def del: parse_value.simps)
  qed
qed simp

lemma length_Join_strings: "length xs \<le> length (Join '','' (map json_string xs))"
  by (induction xs) (auto simp: Join_Cons json_string_def)

lemma skip_ws_bracket [simp]: "skip_ws (CHR ''['' # s) = CHR ''['' # s"
  by (simp add: skip_ws_def isJsonSpace_def)

lemma unmarshal_json_strings:
  assumes "list_all (list_all plain_char) xs"
  shows "unmarshal_strings (json_strings xs) = (xs, None)"
proof -
  let ?n = "2 * length (json_strings xs) + 1"
  have val: "parse_value (Suc ?n) (json_strings xs) = Some (JArr (map JStr xs), [])"
  proof (cases "xs = []")
    case True
    have "parse_value (Suc (2 * length (json_strings []) + 1)) (json_strings []) = Some (JArr [], [])"
      by code_simp
    then show ?thesis by (simp only: True list.map)
  next
    case False
    have "length xs < ?n" using length_Join_strings [of xs] by (simp add: json_strings_def)
    then have el: "parse_elements ?n (Join '','' (map json_string xs) @ '']'' @ []) = Some (map JStr xs, [])"
      by (rule parse_elements_plain [OF False assms])
    obtain y ys where "xs = y # ys" using False by (cases xs) auto
    then have "skip_ws (Join '','' (map json_string xs) @ '']'') =
               CHR 0x22 # tl (Join '','' (map json_string xs) @ '']'')"
      by (cases ys) (simp_all add: json_string_def)
    then show ?thesis using el by (simp add: json_strings_def)
  qed
  then have "parse_json (json_strings xs) = Some (JArr (map JStr xs))"
    by (simp add: parse_json_def skip_ws_def)
  then show ?thesis
    by (simp add: unmarshal_strings_def store_string_def o_def list_all_iff)
qed

end
