(* ===== verification/Env.thy ===== *)
theory Env
  imports K8s Json
begin

text \<open>
  What surrounds the operator's code: the execution context it keeps its values in, and the services
  it calls.  The services are code outside \<^verbatim>\<open>src/\<close> (the Kubernetes helper of the operator core
  library, the API machinery's \<^verbatim>\<open>wait\<close> package, the clock, the HTTP client): they are a record of
  functions over a world of any type, an argument of every operation.

  The state of an operation is the command prefix of the mongo helper (\<^verbatim>\<open>MongoUtilsHelperImpl.Cmd\<close>,
  which steps overwrite), the entries of the execution context, and the world.
\<close>

section \<open>Execution context\<close>

text \<open>\<^verbatim>\<open>core.MicroServiceDeployType\<close>; the code compares with the first two.\<close>

datatype deploy_type = CleanDeploy | UpdateDeploy | OtherDeploy

record exec_ctx =
  CtxSpec :: deployment_spec
  CtxDeployType :: deploy_type
  CtxMongoDeployType :: "deploy_type option"
  CtxPvcNames :: "string list"
  CtxPVNodes :: "smap list"
  CtxMaxReplicaSize :: int
  CtxMaxPVCCount :: int
  CtxCommonChanged :: bool
  CtxIPTemplate :: string
  CtxArbiterFunc :: "int \<Rightarrow> int"
  CtxAffinityFunc :: "nat \<Rightarrow> nat \<Rightarrow> affinity"

record 'w hstate =
  Cmd :: string
  Ctx :: exec_ctx
  World :: 'w

type_synonym ('w, 'a) hop = "('w hstate, 'a) op"
type_synonym 'w cond = "('w, bool with_err) hop"

section \<open>Services\<close>

record 'w kube =
  ListPods :: "string \<Rightarrow> smap \<Rightarrow> ('w, pod list with_err) op"
  ExecRemote :: "string \<Rightarrow> string \<Rightarrow> string \<Rightarrow> string \<Rightarrow> string list \<Rightarrow> ('w, string with_err) op"
  RestartPod :: "pod \<Rightarrow> string \<Rightarrow> int \<Rightarrow> ('w, goerror option) op"
  DeleteStatefulsetAndPods :: "string \<Rightarrow> string \<Rightarrow> int \<Rightarrow> ('w, goerror option) op"
  DeleteRCAndPods :: "string \<Rightarrow> string \<Rightarrow> int \<Rightarrow> ('w, goerror option) op"
  GetReplicationController :: "string \<Rightarrow> string \<Rightarrow> ('w, replication_controller with_err) op"
  ScaleReplicationController :: "replication_controller \<Rightarrow> int \<Rightarrow> int \<Rightarrow> ('w, goerror option) op"
  ListDeployments :: "string \<Rightarrow> smap \<Rightarrow> ('w, deployment list with_err) op"
  ScaleDeploymentObj :: "deployment \<Rightarrow> int \<Rightarrow> int \<Rightarrow> ('w, goerror option) op"
  UpdateDeploymentObj :: "deployment \<Rightarrow> ('w, goerror option) op"
  ListStatefulSets :: "string \<Rightarrow> smap \<Rightarrow> ('w, stateful_set list with_err) op"
  ScaleStatefulset :: "stateful_set \<Rightarrow> int \<Rightarrow> int \<Rightarrow> ('w, goerror option) op"
  GetStatefulSetByName :: "string \<Rightarrow> string \<Rightarrow> ('w, stateful_set with_err) op"
  ScaleStatefulSetByName :: "string \<Rightarrow> string \<Rightarrow> int \<Rightarrow> int \<Rightarrow> ('w, goerror option) op"
  ScaleDeploymentByLabels :: "smap \<Rightarrow> string \<Rightarrow> int \<Rightarrow> int \<Rightarrow> ('w, goerror option) op"
  UpdateDeploymentByLabels :: "smap \<Rightarrow> string \<Rightarrow> (deployment \<Rightarrow> deployment res) \<Rightarrow> ('w, goerror option) op"
  CreateRuntimeObject :: "runtime_object \<Rightarrow> ('w, goerror option) op"
  DeleteRuntimeObject :: "runtime_object \<Rightarrow> ('w, unit) op"
  WaitForPodsReady :: "smap \<Rightarrow> string \<Rightarrow> int \<Rightarrow> int \<Rightarrow> ('w, goerror option) op"
  GetSecret :: "string \<Rightarrow> string \<Rightarrow> ('w, secret with_err) op"
  OpensslCommand :: "string list \<Rightarrow> ('w, string with_err) op"
  Sleep :: "int \<Rightarrow> ('w, unit) op"
  PollImmediate :: "int \<Rightarrow> int \<Rightarrow> 'w cond \<Rightarrow> ('w, goerror option) hop"
  Poll :: "int \<Rightarrow> int \<Rightarrow> 'w cond \<Rightarrow> ('w, goerror option) hop"
  PollInfinite :: "int \<Rightarrow> 'w cond \<Rightarrow> ('w, goerror option) hop"
  LibErrText :: "goerror \<Rightarrow> string"
  PanicValue :: "goerror \<Rightarrow> string \<Rightarrow> goerror"

text \<open>The immutable fields of \<^verbatim>\<open>MongoUtilsHelperImpl\<close>.\<close>

record 'w helper =
  KubeImpl :: "'w kube"
  Namespace :: string
  Tries :: int
  RetryInterval :: int
  WaitSeconds :: int
  Sharded :: bool
  Single :: bool

definition callW :: "('w, 'a) op \<Rightarrow> ('w, 'a) hop" where
  "callW f = (\<lambda>s. case f (World s) of (r, w) \<Rightarrow> (r, s\<lparr>World := w\<rparr>))"

lemma callW_apply [op_simps]: "callW f s = (case f (World s) of (r, w) \<Rightarrow> (r, s\<lparr>World := w\<rparr>))"
  by (simp add: callW_def)

text \<open>A service call changes the world only.\<close>

lemma callW_frame: "callW f s = (r, s') \<Longrightarrow> Cmd s' = Cmd s \<and> Ctx s' = Ctx s"
  by (auto simp: callW_def split: prod.splits)

definition sleep :: "'w helper \<Rightarrow> int \<Rightarrow> ('w, unit) hop" where
  "sleep r n = callW (Sleep (KubeImpl r) n)"

text \<open>\<^verbatim>\<open>err.Error()\<close>.\<close>

definition errStr :: "'w kube \<Rightarrow> goerror \<Rightarrow> string" where
  "errStr k e = errText (LibErrText k) e"

text \<open>
  \<^verbatim>\<open>core.PanicError(err, log, msg)\<close>: panics when there is an error; the value it panics with is the
  library's.
\<close>

definition PanicError :: "'w kube \<Rightarrow> goerror option \<Rightarrow> string \<Rightarrow> ('s, unit) op" where
  "PanicError k err msg = (case err of None \<Rightarrow> ret () | Some e \<Rightarrow> panic (PanicValue k e msg))"

lemma PanicError_simps [simp]:
  "PanicError k None msg = ret ()"
  "PanicError k (Some e) msg = panic (PanicValue k e msg)"
  by (simp_all add: PanicError_def)

section \<open>Access to the custom resource\<close>

abbreviation specOf :: "'w hstate \<Rightarrow> deployment_spec" where
  "specOf s \<equiv> CtxSpec (Ctx s)"

definition getSpec :: "('w, deployment_spec) hop" where
  "getSpec = (\<lambda>s. (Ret (specOf s), s))"

lemma getSpec_apply [op_simps]: "getSpec s = (Ret (specOf s), s)"
  by (simp add: getSpec_def)

lemma getSpec_eq [simp]: "getSpec s = (r, t) \<longleftrightarrow> r = Ret (specOf s) \<and> t = s"
  by (auto simp: getSpec_def)

lemma andthen_getSpec [simp]: "andthen getSpec g s = g (specOf s) s"
  by (simp add: andthen_def getSpec_def)

abbreviation schemaOf :: "'w hstate \<Rightarrow> schema_settings" where
  "schemaOf s \<equiv> SchemaSettings (specOf s)"

abbreviation drMode :: "deployment_spec \<Rightarrow> string" where
  "drMode spec \<equiv> Mode (DisasterRecovery spec)"

section \<open>A documented polling service\<close>

text \<open>
  \<^verbatim>\<open>wait.PollImmediate\<close> as its documentation describes it, for a condition tried at most \<^verbatim>\<open>n\<close> times:
  it returns nil once the condition is true, the condition's error when it has one, and a time-out
  error when the tries are used up.  Witnesses use it as the polling service.
\<close>

fun poll_tries :: "nat \<Rightarrow> ('s, bool with_err) op \<Rightarrow> ('s, goerror option) op" where
  "poll_tries 0 cond = ret (Some (GoError ''timed out waiting for the condition''))"
| "poll_tries (Suc n) cond =
     andthen cond (\<lambda>(done, err). case err of Some e \<Rightarrow> ret (Some e)
                   | None \<Rightarrow> if done then ret None else poll_tries n cond)"

text \<open>The law the code relies on: nil means that the last evaluation of the condition was true.\<close>

definition poll_law :: "(('s, bool with_err) op \<Rightarrow> ('s, goerror option) op) \<Rightarrow> bool" where
  "poll_law poll = (\<forall>cond s s'. poll cond s = (Ret None, s') \<longrightarrow> (\<exists>t. cond t = (Ret (True, None), s')))"

lemma poll_lawD: "poll_law poll \<Longrightarrow> poll cond s = (Ret None, s') \<Longrightarrow> \<exists>t. cond t = (Ret (True, None), s')"
  by (auto simp: poll_law_def)

lemma poll_tries_law: "poll_law (poll_tries n)"
proof -
  have "\<exists>t. cond t = (Ret (True, None), s')" if "poll_tries n cond s = (Ret None, s')"
    for cond :: "('s, bool with_err) op" and s s' n
    using that
  proof (induction n arbitrary: s)
    case (Suc n)
    obtain d e t where c: "cond s = (Ret (d, e), t)"
      using Suc.prems by (auto elim: andthen_RetE)
    then show ?case using Suc
      by (cases e; cases d) (auto simp: andthen_Ret)
  qed simp
  then show ?thesis by (auto simp: poll_law_def)
qed

end
