(* ===== verification/MongoExec.thy ===== *)
theory MongoExec
  imports Env
begin

text \<open>
  Running commands in the mongo pods: the base layer of
  \<^verbatim>\<open>src/operator/pkg/utils/mongo_helper.go\<close> (\<^verbatim>\<open>RunOnMongoPod\<close>, the primary lookup, \<^verbatim>\<open>runAndRetry\<close>,
  \<^verbatim>\<open>RunOnPrimary\<close>, \<^verbatim>\<open>RunOnMongos\<close>, \<^verbatim>\<open>RunOnShards\<close>, \<^verbatim>\<open>RunOnCnfrs\<close>, \<^verbatim>\<open>CheckOutputResult\<close>).

  A Go function that returns either a value or an error has type \<^verbatim>\<open>goerror + 'a\<close>; one that returns
  both (\<^verbatim>\<open>RunOnShards\<close> returns the results so far with the error) has type \<^verbatim>\<open>'a with_err\<close>.

  The lemmas characterise the retry loop by the chains of failing attempts it makes, and show what
  RunOnPrimary loses: the error of a primary lookup that fails in every attempt.
\<close>

section \<open>Pod lists\<close>

definition kListPods :: "'w helper \<Rightarrow> smap \<Rightarrow> ('w, pod list with_err) hop" where
  "kListPods r labels = callW (ListPods (KubeImpl r) (Namespace r) labels)"

definition checkListPodsResult :: "pod list with_err \<Rightarrow> goerror + pod list" where
  "checkListPodsResult res =
     (case res of
        (list, Some err) \<Rightarrow> Inl err
      | (list, None) \<Rightarrow> if length list = 0 then Inl (GoError ''pod list is empty'') else Inr list)"

definition listPodsChecked :: "'w helper \<Rightarrow> smap \<Rightarrow> ('w, goerror + pod list) hop" where
  "listPodsChecked r labels = andthen (kListPods r labels) (\<lambda>res. ret (checkListPodsResult res))"

lemma checkListPodsResult_Inr: "checkListPodsResult res = Inr list \<Longrightarrow> list \<noteq> [] \<and> res = (list, None)"
  by (auto simp: checkListPodsResult_def split: prod.splits option.splits if_splits)

lemma listPodsChecked_Inr:
  assumes "listPodsChecked r labels s = (Ret (Inr list), t)"
  shows "list \<noteq> [] \<and> kListPods r labels s = (Ret (list, None), t)"
proof -
  obtain res where "kListPods r labels s = (Ret res, t)" "checkListPodsResult res = Inr list"
    using assms by (fastforce simp: listPodsChecked_def elim!: andthen_RetE)
  then show ?thesis using checkListPodsResult_Inr by metis
qed

section \<open>One command in one pod\<close>

text \<open>The terminal escapes removed from the output (the expression of the code, on UTF-8 bytes).\<close>

definition ansi_rex :: rex where
  "ansi_rex =
     (let digit = Cls [(CHR ''0'', CHR ''9'')];
          alnum = Cls [(CHR ''a'', CHR ''z''), (CHR ''A'', CHR ''Z''), (CHR ''0'', CHR ''9'')];
          osc = Seq (Opt (Seq (Star alnum) (Star (Seq (Chr CHR '';'') (Star alnum))))) (Chr CHR 0x07);
          csi = Seq (Opt (Seq (Rep 1 3 digit) (Star (Seq (Chr CHR '';'') (Rep 0 4 digit)))))
                 (Cls [(CHR ''0'', CHR ''9''), (CHR ''A'', CHR ''P''), (CHR ''R'', CHR ''R''),
                       (CHR ''Z'', CHR ''Z''), (CHR ''c'', CHR ''c''), (CHR ''f'', CHR ''n''),
                       (CHR ''t'', CHR ''t''), (CHR ''q'', CHR ''q''), (CHR ''r'', CHR ''r''),
                       (CHR ''y'', CHR ''y''), (CHR ''='', CHR ''=''), (CHR ''>'', CHR ''>''),
                       (CHR ''<'', CHR ''<''), (CHR ''~'', CHR ''~'')])
      in Seq (Alt (Chr CHR 0x1B) (Seq (Chr CHR 0xC2) (Chr CHR 0x9B)))
          (Seq (Star (Cls [(CHR ''['', CHR ''[''), (CHR '']'', CHR '']''), (CHR ''('', CHR '')''),
                           (CHR ''#'', CHR ''#''), (CHR '';'', CHR '';''), (CHR ''?'', CHR ''?'')]))
               (Alt osc csi)))"

definition cleanOutput :: "string \<Rightarrow> string" where
  "cleanOutput resp =
     (let resp = ReplaceAllString ansi_rex resp [];
          resp = Replace1 resp MongoshBanner7 []
      in Replace1 resp MongoshBanner8 [])"

definition evalCommand :: "string \<Rightarrow> string \<Rightarrow> string" where
  "evalCommand cmd arg = Sprintf (''%s --eval '' @ [CHR 0x22] @ ''%s'' @ [CHR 0x22]) [Str cmd, Str arg]"

definition RunOnMongoPod :: "'w helper \<Rightarrow> pod \<Rightarrow> string \<Rightarrow> ('w, string with_err) hop" where
  "RunOnMongoPod r masterPod arg =
     andthen (nth_or_panic (ps_containers (pod_spec_of masterPod)) 0) (\<lambda>c.
     andthen getState (\<lambda>s.
     andthen (callW (ExecRemote (KubeImpl r) (pod_name masterPod) (pod_namespace masterPod) (ctr_name c)
                BashCommand [evalCommand (Cmd s) arg])) (\<lambda>(resp, err).
     ret (if err = None then cleanOutput resp else resp, err))))"

definition jsonArg :: "string \<Rightarrow> string" where
  "jsonArg arg = Sprintf ''JSON.stringify(%s);'' [Str arg]"

definition RunWithJSONResult :: "'w helper \<Rightarrow> pod \<Rightarrow> string \<Rightarrow> ('w, string with_err) hop" where
  "RunWithJSONResult r masterPod arg = RunOnMongoPod r masterPod (jsonArg arg)"

section \<open>The primary of a replica set\<close>

text \<open>The name in the output: the second line when there is one, the whole output otherwise.\<close>

definition primaryName :: "string \<Rightarrow> string" where
  "primaryName response =
     (let response = TrimSuffix response newline;
          responseSlice = SplitAfter response newline
      in if length responseSlice > 1 then responseSlice ! 1 else response)"

definition primaryNotFound :: "smap \<Rightarrow> goerror" where
  "primaryNotFound labels = ExecutionError (''Not found primary for these selectors: '' @ Sprint_smap labels)"

definition GetMongoPrimaryReplica :: "'w helper \<Rightarrow> smap \<Rightarrow> ('w, goerror + pod) hop" where
  "GetMongoPrimaryReplica r labels =
     andthen (listPodsChecked r labels) (\<lambda>l. case l of
       Inl err \<Rightarrow> ret (Inl err)
     | Inr list \<Rightarrow>
         andthen (RunOnMongoPod r (hd list) PrimaryReplicaCommand) (\<lambda>(response, err). case err of
           Some e \<Rightarrow> ret (Inl e)
         | None \<Rightarrow>
             (let response = primaryName response in
              if response \<noteq> [] then
                (case find (\<lambda>p. pod_name p = response) list of
                   Some masterPod \<Rightarrow> ret (Inr masterPod)
                 | None \<Rightarrow> ret (Inl (primaryNotFound labels)))
              else ret (Inl (primaryNotFound labels)))))"

definition GetMongosPod :: "'w helper \<Rightarrow> ('w, goerror + pod) hop" where
  "GetMongosPod r =
     andthen (listPodsChecked r [(NameLabel, Mongos)]) (\<lambda>l. case l of
       Inl err \<Rightarrow> ret (Inl err) | Inr list \<Rightarrow> ret (Inr (hd list)))"

section \<open>Retries\<close>

text \<open>
  \<^verbatim>\<open>runAndRetry\<close>: the body is a closure, whose captured variables are the accumulator \<^verbatim>\<open>acc\<close>.  The
  loop runs it until it succeeds or \<^verbatim>\<open>Tries\<close> attempts are made, sleeping after each failure, and
  returns the last error.
\<close>

fun retryLoop :: "nat \<Rightarrow> 'w helper \<Rightarrow> ('acc \<Rightarrow> ('w, goerror option \<times> 'acc) hop) \<Rightarrow> goerror option \<Rightarrow> 'acc
    \<Rightarrow> ('w, goerror option \<times> 'acc) hop" where
  "retryLoop 0 r runFunc err acc = ret (err, acc)"
| "retryLoop (Suc n) r runFunc err acc =
     andthen (runFunc acc) (\<lambda>(err', acc'). case err' of
       Some e \<Rightarrow> andthen (sleep r (RetryInterval r)) (\<lambda>_. retryLoop n r runFunc (Some e) acc')
     | None \<Rightarrow> ret (None, acc'))"

definition runAndRetry :: "'w helper \<Rightarrow> ('acc \<Rightarrow> ('w, goerror option \<times> 'acc) hop) \<Rightarrow> 'acc
    \<Rightarrow> ('w, goerror option \<times> 'acc) hop" where
  "runAndRetry r runFunc acc = retryLoop (nat (Tries r)) r runFunc None acc"

text \<open>A body without captured variables.\<close>

definition plainBody :: "('w, goerror option) hop \<Rightarrow> unit \<Rightarrow> ('w, goerror option \<times> unit) hop" where
  "plainBody f u = andthen f (\<lambda>e. ret (e, u))"

definition runAndRetry0 :: "'w helper \<Rightarrow> ('w, goerror option) hop \<Rightarrow> ('w, goerror option) hop" where
  "runAndRetry0 r f = andthen (runAndRetry r (plainBody f) ()) (\<lambda>(e, _). ret e)"

section \<open>Commands by target\<close>

definition runOnPrimaryBody :: "'w helper \<Rightarrow> smap \<Rightarrow> string \<Rightarrow> string with_err
    \<Rightarrow> ('w, goerror option \<times> string with_err) hop" where
  "runOnPrimaryBody r labels arg = (\<lambda>(res, err).
     andthen (GetMongoPrimaryReplica r labels) (\<lambda>m. case m of
       Inl errr \<Rightarrow> ret (Some errr, (res, err))
     | Inr masterPod \<Rightarrow>
         andthen (RunOnMongoPod r masterPod arg) (\<lambda>(res', err'). ret (err', (res', err')))))"

definition RunOnPrimary :: "'w helper \<Rightarrow> smap \<Rightarrow> string \<Rightarrow> ('w, string with_err) hop" where
  "RunOnPrimary r labels arg =
     andthen (runAndRetry r (runOnPrimaryBody r labels arg) ([], None)) (\<lambda>(_, res). ret res)"

definition RunOnPrimaryWithJSONResult :: "'w helper \<Rightarrow> smap \<Rightarrow> string \<Rightarrow> ('w, string with_err) hop" where
  "RunOnPrimaryWithJSONResult r label arg = RunOnPrimary r label (jsonArg arg)"

definition RunOnMongos :: "'w helper \<Rightarrow> string \<Rightarrow> ('w, string with_err) hop" where
  "RunOnMongos r arg =
     andthen (GetMongosPod r) (\<lambda>m. case m of
       Inl err \<Rightarrow> ret ([], Some err)
     | Inr pod \<Rightarrow> RunOnMongoPod r pod arg)"

definition RunOnCnfrs :: "'w helper \<Rightarrow> string \<Rightarrow> ('w, string with_err) hop" where
  "RunOnCnfrs r command = RunOnPrimary r [(Microservice, CnfNameKey)] command"

definition shardLabels :: "nat \<Rightarrow> smap" where
  "shardLabels i = [(Microservice, dataServiceName i)]"

definition RunOnShards :: "'w helper \<Rightarrow> string \<Rightarrow> nat \<Rightarrow> ('w, string list with_err) hop" where
  "RunOnShards r command shardCount =
     andthen (forFold [0..<shardCount]
       (\<lambda>i result.
          andthen (RunOnPrimary r (shardLabels i) command) (\<lambda>(res, err). case err of
            Some e \<Rightarrow> ret (Inl (result, Some e))
          | None \<Rightarrow> ret (Inr (result @ [TrimSpace res])))) [])
       (\<lambda>x. case x of Inl early \<Rightarrow> ret early | Inr result \<Rightarrow> ret (result, None))"

text \<open>
  \<^verbatim>\<open>RunParallelOnShards\<close>: one goroutine per shard; they run in the order \<^verbatim>\<open>order\<close> (any permutation of
  the shards) and send their errors into a channel, which is then read until the first error.
\<close>

definition RunParallelOnShards :: "nat list \<Rightarrow> 'w helper \<Rightarrow> string \<Rightarrow> ('w, goerror option) hop" where
  "RunParallelOnShards order r command =
     andthen (forFold order
       (\<lambda>i channel. andthen (RunOnPrimary r (shardLabels i) command) (\<lambda>(_, err).
          ret (Inr (channel @ [err]) :: unit + goerror option list))) [])
       (\<lambda>x. case x of Inl _ \<Rightarrow> ret None
            | Inr channel \<Rightarrow> ret (case find (\<lambda>e. e \<noteq> None) channel of Some e \<Rightarrow> e | None \<Rightarrow> None))"

section \<open>The result document of a command\<close>

record output_result =
  ResOk :: int
  ResCode :: int
  ResErrMsg :: string

definition empty_result :: output_result where
  "empty_result = \<lparr>ResOk = 0, ResCode = 0, ResErrMsg = []\<rparr>"

text \<open>Storing a JSON document into an \<^verbatim>\<open>OutputResult\<close>: fields with a wrong type are skipped and reported.\<close>

definition store_field :: "output_result \<times> bool \<Rightarrow> string \<times> json \<Rightarrow> output_result \<times> bool" where
  "store_field rb kv = (case rb of (res, ok) \<Rightarrow> case kv of (k, v) \<Rightarrow>
     if field_eq k ''ok'' then (case store_int v (ResOk res) of (i, b) \<Rightarrow> (res\<lparr>ResOk := i\<rparr>, ok \<and> b))
     else if field_eq k ''code'' then (case store_int v (ResCode res) of (i, b) \<Rightarrow> (res\<lparr>ResCode := i\<rparr>, ok \<and> b))
     else if field_eq k ''errmsg'' then (case store_string v (ResErrMsg res) of (s, b) \<Rightarrow> (res\<lparr>ResErrMsg := s\<rparr>, ok \<and> b))
     else (res, ok))"

definition unmarshal_result :: "string \<Rightarrow> output_result \<Rightarrow> output_result with_err" where
  "unmarshal_result s res =
     (case parse_json s of
        None \<Rightarrow> (res, Some (JsonError s))
      | Some (JObj kvs) \<Rightarrow>
          (case foldl store_field (res, True) kvs of
             (res', ok) \<Rightarrow> (res', if ok then None else Some (JsonError s)))
      | Some JNull \<Rightarrow> (res, None)
      | Some _ \<Rightarrow> (res, Some (JsonError s)))"

definition CheckOutputResult :: "'w kube \<Rightarrow> string with_err \<Rightarrow> goerror option" where
  "CheckOutputResult k out =
     (case out of (output, Some err) \<Rightarrow> Some err
      | (output, None) \<Rightarrow>
          (let (result, jsonErr) = unmarshal_result output empty_result;
               outputString = SplitAfter output newline;
               (result, jsonErr) = (if jsonErr \<noteq> None \<and> length outputString > 1
                                    then unmarshal_result (outputString ! 1) result else (result, jsonErr))
           in case jsonErr of
                Some e \<Rightarrow> Some (ExecutionError (Sprintf ''Unmarshaling error. Error: %s.'' [Str (errStr k e)]))
              | None \<Rightarrow>
                  if ResOk result \<noteq> 1
                  then Some (ExecutionError (Sprintf ''raw output = %s, result.code = %d, result.errmgs = %s''
                         [Str output, Num (ResCode result), Str (ResErrMsg result)]))
                  else None))"

section \<open>Properties of the retry loop\<close>

text \<open>A chain of k failing attempts, each followed by the sleep.\<close>

inductive failing :: "'w helper \<Rightarrow> ('acc \<Rightarrow> ('w, goerror option \<times> 'acc) hop) \<Rightarrow>
    nat \<Rightarrow> 'acc \<Rightarrow> 'w hstate \<Rightarrow> 'acc \<Rightarrow> 'w hstate \<Rightarrow> bool"
  for r :: "'w helper" and body where
  none: "failing r body 0 a s a s"
| more: "body a s = (Ret (Some e, a'), s') \<Longrightarrow> sleep r (RetryInterval r) s' = (Ret u, t) \<Longrightarrow>
         failing r body k a' t b v \<Longrightarrow> failing r body (Suc k) a s b v"

inductive_cases failing_0E: "failing r body 0 a s b v"
inductive_cases failing_SucE: "failing r body (Suc k) a s b v"

lemma retryLoop_Ret:
  assumes "retryLoop n r body err acc s = (Ret (res, acc'), s')"
  shows "(\<exists>k a t. k < n \<and> failing r body k acc s a t \<and> body a t = (Ret (None, acc'), s') \<and> res = None) \<or>
         (failing r body n acc s acc' s' \<and> (if n = 0 then res = err else res \<noteq> None))"
  using assms
proof (induction n arbitrary: err acc s)
  case 0
  then show ?case by (auto intro: failing.none)
next
  case (Suc n)
  obtain e1 a1 t where b: "body acc s = (Ret (e1, a1), t)"
    using Suc.prems by (auto elim!: andthen_RetE)
  show ?case
  proof (cases e1)
    case None
    then show ?thesis using Suc.prems b
      by (auto simp: andthen_Ret intro!: exI [of _ "0::nat"] failing.none)
  next
    case (Some e)
    then obtain u v where sl: "sleep r (RetryInterval r) t = (Ret u, v)"
      and rec: "retryLoop n r body (Some e) a1 v = (Ret (res, acc'), s')"
      using Suc.prems b by (auto simp: andthen_Ret elim!: andthen_RetE)
    have step: "failing r body k a1 v b w \<Longrightarrow> failing r body (Suc k) acc s b w" for k b w
      using b Some sl by (blast intro: failing.more)
    from Suc.IH [OF rec] show ?thesis
    proof
      assume "\<exists>k a t. k < n \<and> failing r body k a1 v a t \<and> body a t = (Ret (None, acc'), s') \<and> res = None"
      then show ?thesis using step by (metis Suc_mono)
    next
      assume "failing r body n a1 v acc' s' \<and> (if n = 0 then res = Some e else res \<noteq> None)"
      then show ?thesis using step by (auto split: if_splits)
    qed
  qed
qed

lemma retryLoop_failing:
  assumes "failing r body k acc s a t" "k \<le> n"
  shows "\<exists>err'. retryLoop n r body err acc s = retryLoop (n - k) r body err' a t \<and>
           (if k = 0 then err' = err else err' \<noteq> None)"
  using assms
proof (induction k acc s a t arbitrary: n err rule: failing.induct)
  case (none a s)
  then show ?case by simp
next
  case (more a s e a' s' u t k b v)
  then obtain m where n: "n = Suc m" by (cases n) auto
  have "retryLoop n r body err a s = retryLoop m r body (Some e) a' t"
    using more.hyps n by (simp add: andthen_Ret)
  moreover obtain err' where "retryLoop m r body (Some e) a' t = retryLoop (m - k) r body err' b v"
    "if k = 0 then err' = Some e else err' \<noteq> None"
    using more.IH [of m "Some e"] more.prems n by auto
  ultimately show ?case using n by (auto split: if_splits)
qed

text \<open>The loop succeeds exactly when an attempt among the first \<^verbatim>\<open>Tries\<close> does.\<close>

lemma runAndRetry_None_iff:
  assumes "Tries r > 0"
  shows "runAndRetry r body acc s = (Ret (None, acc'), s') \<longleftrightarrow>
         (\<exists>k a t. k < nat (Tries r) \<and> failing r body k acc s a t \<and> body a t = (Ret (None, acc'), s'))"
proof
  assume "runAndRetry r body acc s = (Ret (None, acc'), s')"
  then show "\<exists>k a t. k < nat (Tries r) \<and> failing r body k acc s a t \<and> body a t = (Ret (None, acc'), s')"
    using retryLoop_Ret assms unfolding runAndRetry_def by fastforce
next
  assume "\<exists>k a t. k < nat (Tries r) \<and> failing r body k acc s a t \<and> body a t = (Ret (None, acc'), s')"
  then obtain k a t where k: "k < nat (Tries r)" and f: "failing r body k acc s a t"
    and b: "body a t = (Ret (None, acc'), s')" by blast
  obtain err' where "retryLoop (nat (Tries r)) r body None acc s = retryLoop (nat (Tries r) - k) r body err' a t"
    using retryLoop_failing [OF f less_imp_le [OF k]] by blast
  moreover obtain m where "nat (Tries r) - k = Suc m" using k by (metis Suc_diff_Suc)
  ultimately show "runAndRetry r body acc s = (Ret (None, acc'), s')"
    using b by (simp add: runAndRetry_def andthen_Ret)
qed

lemma runAndRetry_Some:
  assumes "runAndRetry r body acc s = (Ret (Some e, acc'), s')"
  shows "failing r body (nat (Tries r)) acc s acc' s'"
  using retryLoop_Ret [OF assms [unfolded runAndRetry_def]] by auto

lemma runAndRetry_no_tries: "Tries r \<le> 0 \<Longrightarrow> runAndRetry r body acc = ret (None, acc)"
  by (simp add: runAndRetry_def)

lemma failing_invariant:
  assumes "failing r body k a s b v" "P a"
    and "\<And>a s e a' s'. P a \<Longrightarrow> body a s = (Ret (Some e, a'), s') \<Longrightarrow> P a'"
  shows "P b"
  using assms by (induction rule: failing.induct) blast+

section \<open>Properties of the commands\<close>

lemma GetMongoPrimaryReplica_Inr:
  assumes "GetMongoPrimaryReplica r labels s = (Ret (Inr p), s')"
  shows "\<exists>list t response.
           kListPods r labels s = (Ret (list, None), t) \<and> p \<in> set list \<and>
           RunOnMongoPod r (hd list) PrimaryReplicaCommand t = (Ret (response, None), s') \<and>
           pod_name p = primaryName response \<and> pod_name p \<noteq> []"
proof -
  obtain l t where l: "listPodsChecked r labels s = (Ret l, t)"
    using assms by (auto simp: GetMongoPrimaryReplica_def elim!: andthen_RetE)
  then obtain list where list: "l = Inr list"
    using assms by (cases l) (auto simp: GetMongoPrimaryReplica_def andthen_Ret)
  have k: "kListPods r labels s = (Ret (list, None), t)"
    using l list listPodsChecked_Inr by blast
  obtain response err where run: "RunOnMongoPod r (hd list) PrimaryReplicaCommand t = (Ret (response, err), s')"
    and ok: "err = None" "primaryName response \<noteq> []"
      "find (\<lambda>p. pod_name p = primaryName response) list = Some p"
    using assms l list
    by (auto simp: GetMongoPrimaryReplica_def andthen_Ret Let_def elim!: andthen_RetE
        split: option.splits if_splits)
  then show ?thesis using k run by (auto simp: find_Some_iff)
qed

text \<open>What RunOnPrimary returns, by what its attempts did.\<close>

lemma runOnPrimaryBody_Some:
  assumes "runOnPrimaryBody r labels arg acc s = (Ret (Some e, acc'), s')"
  shows "(GetMongoPrimaryReplica r labels s = (Ret (Inl e), s') \<and> acc' = acc) \<or>
         (\<exists>p t. GetMongoPrimaryReplica r labels s = (Ret (Inr p), t) \<and>
                RunOnMongoPod r p arg t = (Ret (fst acc', Some e), s') \<and> snd acc' = Some e)"
  using assms
  by (cases acc) (auto simp: runOnPrimaryBody_def elim!: andthen_RetE split: sum.splits)

lemma runOnPrimaryBody_None:
  assumes "runOnPrimaryBody r labels arg acc s = (Ret (None, acc'), s')"
  shows "\<exists>p t. GetMongoPrimaryReplica r labels s = (Ret (Inr p), t) \<and>
               RunOnMongoPod r p arg t = (Ret (fst acc', None), s') \<and> snd acc' = None"
  using assms
  by (cases acc) (auto simp: runOnPrimaryBody_def elim!: andthen_RetE split: sum.splits)

text \<open>
  A RunOnPrimary without an error either ran the command on a primary, successfully, or it never
  found a primary at all: the named result err is only set by an attempt that reached a pod.
\<close>

lemma RunOnPrimary_None:
  assumes "RunOnPrimary r labels arg s = (Ret (res, None), s')"
  shows "(\<exists>p t u. GetMongoPrimaryReplica r labels t = (Ret (Inr p), u) \<and>
                 RunOnMongoPod r p arg u = (Ret (res, None), s')) \<or>
         (res = [] \<and> failing r (runOnPrimaryBody r labels arg) (nat (Tries r)) ([], None) s ([], None) s')"
proof -
  let ?body = "runOnPrimaryBody r labels arg"
  obtain e where run: "retryLoop (nat (Tries r)) r ?body None ([], None) s = (Ret (e, res, None), s')"
    using assms by (auto simp: RunOnPrimary_def runAndRetry_def elim!: andthen_RetE)
  show ?thesis
  proof (cases "\<exists>k a t. k < nat (Tries r) \<and> failing r ?body k ([], None) s a t \<and>
                        ?body a t = (Ret (None, res, None), s')")
    case True
    then show ?thesis using runOnPrimaryBody_None by fastforce
  next
    case False
    then have f: "failing r ?body (nat (Tries r)) ([], None) s (res, None) s'"
      using retryLoop_Ret [OF run] by blast
    have "snd b = None \<longrightarrow> b = ([], None)" if "failing r ?body k a s b v" "a = ([], None) \<or> snd a \<noteq> None"
      for k a s b v
      using failing_invariant [OF that(1), where P = "\<lambda>a. a = ([], None) \<or> snd a \<noteq> None"] that(2)
        runOnPrimaryBody_Some by fastforce
    then have "res = []" using f by (metis fst_conv snd_conv)
    then show ?thesis using f by simp
  qed
qed

text \<open>Every lookup of the primary in n attempts failed, each followed by the sleep.\<close>

inductive lookupsFail :: "'w helper \<Rightarrow> smap \<Rightarrow> nat \<Rightarrow> 'w hstate \<Rightarrow> 'w hstate \<Rightarrow> bool" for r labels where
  none: "lookupsFail r labels 0 s s"
| more: "GetMongoPrimaryReplica r labels s = (Ret (Inl e), t) \<Longrightarrow> sleep r (RetryInterval r) t = (Ret u, v) \<Longrightarrow>
    lookupsFail r labels n v w \<Longrightarrow> lookupsFail r labels (Suc n) s w"

text \<open>The command ran without an error on a pod that was found to be the primary, after fewer than Tries failed
  attempts; res is its output.\<close>

definition ranOnPrimary :: "'w helper \<Rightarrow> smap \<Rightarrow> string \<Rightarrow> 'w hstate \<Rightarrow> string \<Rightarrow> 'w hstate \<Rightarrow> bool" where
  "ranOnPrimary r labels arg s res s' =
     (\<exists>k a t p u. int k < Tries r \<and> failing r (runOnPrimaryBody r labels arg) k ([], None) s a t \<and>
        GetMongoPrimaryReplica r labels t = (Ret (Inr p), u) \<and> RunOnMongoPod r p arg u = (Ret (res, None), s'))"

lemma failing_lookups:
  assumes "failing r (runOnPrimaryBody r labels arg) k a s b v" "snd b = None" "snd a = None"
  shows "lookupsFail r labels k s v \<and> b = a"
  using assms
proof (induction rule: failing.induct)
  case (none a s)
  then show ?case by (simp add: lookupsFail.none)
next
  case (more a s e a' s' u t k b v)
  have keep: "snd b \<noteq> None" if "snd a' \<noteq> None"
    using failing_invariant [OF more.hyps(3), where P = "\<lambda>a. snd a \<noteq> None"] that runOnPrimaryBody_Some by fastforce
  then have "snd a' = None" using more.prems(1) by blast
  then have "GetMongoPrimaryReplica r labels s = (Ret (Inl e), s')" "a' = a"
    using runOnPrimaryBody_Some [OF more.hyps(1)] by auto
  then show ?case using more.IH more.prems more.hyps(2) by (auto intro: lookupsFail.more)
qed

text \<open>A RunOnPrimary without an error ran the command on a primary, or no lookup found one.\<close>

lemma RunOnPrimary_ran:
  assumes "RunOnPrimary r labels arg s = (Ret (res, None), s')"
  shows "ranOnPrimary r labels arg s res s' \<or> res = [] \<and> lookupsFail r labels (nat (Tries r)) s s'"
proof -
  let ?body = "runOnPrimaryBody r labels arg"
  obtain e where run: "retryLoop (nat (Tries r)) r ?body None ([], None) s = (Ret (e, res, None), s')"
    using assms by (auto simp: RunOnPrimary_def runAndRetry_def elim!: andthen_RetE)
  from retryLoop_Ret [OF run] show ?thesis
  proof
    assume "\<exists>k a t. k < nat (Tries r) \<and> failing r ?body k ([], None) s a t \<and> ?body a t = (Ret (None, (res, None)), s') \<and> e = None"
    then show ?thesis using runOnPrimaryBody_None unfolding ranOnPrimary_def by (metis fst_conv zless_nat_eq_int_zless)
  next
    assume f: "failing r ?body (nat (Tries r)) ([], None) s (res, None) s' \<and> (if nat (Tries r) = 0 then e = None else e \<noteq> None)"
    show ?thesis using failing_lookups [of r labels arg "nat (Tries r)" "([], None)" s "(res, None)" s'] f by simp
  qed
qed

text \<open>With no primary to be found the command is reported as done, with an empty output.\<close>

lemma runOnPrimary_lookup_fails:
  assumes "\<And>s. \<exists>e s'. GetMongoPrimaryReplica r labels s = (Ret (Inl e), s')"
    and "\<And>s. \<exists>u s'. sleep r (RetryInterval r) s = (Ret u, s')"
  shows "\<exists>s'. RunOnPrimary r labels arg s = (Ret ([], None), s')"
proof -
  have "\<exists>e s'. retryLoop n r (runOnPrimaryBody r labels arg) err ([], None) s = (Ret (e, [], None), s')" for n err s
  proof (induction n arbitrary: err s)
    case (Suc n)
    obtain e t where "GetMongoPrimaryReplica r labels s = (Ret (Inl e), t)" using assms(1) by blast
    moreover obtain u v where "sleep r (RetryInterval r) t = (Ret u, v)" using assms(2) by blast
    ultimately show ?case using Suc.IH [of "Some e" v]
      by (simp add: runOnPrimaryBody_def andthen_Ret)
  qed simp
  then obtain e s' where
    "retryLoop (nat (Tries r)) r (runOnPrimaryBody r labels arg) None ([], None) s = (Ret (e, [], None), s')"
    by blast
  then show ?thesis by (simp add: RunOnPrimary_def runAndRetry_def andthen_Ret)
qed

lemma RunOnShards_None:
  assumes "RunOnShards r command n s = (Ret (out, None), s')"
  shows "length out = n"
proof -
  obtain x where "forFold [0..<n] (\<lambda>i result.
          andthen (RunOnPrimary r (shardLabels i) command) (\<lambda>(res, err). case err of
            Some e \<Rightarrow> ret (Inl (result, Some e))
          | None \<Rightarrow> ret (Inr (result @ [TrimSpace res])))) [] s = (Ret x, s')"
    and x: "x = Inr out \<or> x = Inl (out, None)"
    using assms by (auto simp: RunOnShards_def elim!: andthen_RetE split: sum.splits)
  moreover have "case x of Inl e \<Rightarrow> snd e \<noteq> None | Inr a \<Rightarrow> length a = length pre + length xs"
    if "forFold xs (\<lambda>i result.
          andthen (RunOnPrimary r (shardLabels i) command) (\<lambda>(res, err). case err of
            Some e \<Rightarrow> ret (Inl (result, Some e))
          | None \<Rightarrow> ret (Inr (result @ [TrimSpace res])))) pre s = (Ret x, s')" for xs pre s x
    using that
  proof (induction xs arbitrary: pre s)
    case (Cons i xs)
    obtain res err t where "RunOnPrimary r (shardLabels i) command s = (Ret (res, err), t)"
      using Cons.prems by (auto elim!: andthen_RetE)
    then show ?case using Cons.prems Cons.IH [of "pre @ [TrimSpace res]" t]
      by (cases err) (auto simp: andthen_Ret split: sum.splits)
  qed auto
  ultimately show ?thesis by fastforce
qed

text \<open>Shard by shard, the command ran on a primary, or no lookup of one succeeded.\<close>

lemma RunOnShards_ran:
  assumes "RunOnShards r command n s = (Ret (out, None), s')"
  shows "chained (\<lambda>i t u. (\<exists>res. ranOnPrimary r (shardLabels i) command t res u) \<or> lookupsFail r (shardLabels i) (nat (Tries r)) t u) n s s'"
proof -
  let ?body = "\<lambda>i result. andthen (RunOnPrimary r (shardLabels i) command) (\<lambda>(res, err). case err of
            Some e \<Rightarrow> ret (Inl (result, Some e)) | None \<Rightarrow> ret (Inr (result @ [TrimSpace res])))"
  obtain x where x: "forFold [0..<n] ?body [] s = (Ret x, s')" "x = Inr out \<or> x = Inl (out, None)"
    using assms by (auto simp: RunOnShards_def elim!: andthen_RetE split: sum.splits)
  have "case x of Inl e \<Rightarrow> snd e \<noteq> None | Inr a \<Rightarrow> True"
    by (rule forFold_invariant [OF x(1), where P = "\<lambda>a s. True" and Q = "\<lambda>e s. snd e \<noteq> None"])
      (auto elim!: andthen_RetE split: option.splits)
  then have "x = Inr out" using x(2) by auto
  note loop = forFold_chained [OF x(1) [unfolded this]]
  have "chained (\<lambda>i t u. \<exists>a b. ?body ([0..<n] ! i) a t = (Ret (Inr b), u)) n s s'" using loop by simp
  then show ?thesis
  proof (rule chained_mono)
    fix i t u assume "i < n" "\<exists>a b. ?body ([0..<n] ! i) a t = (Ret (Inr b), u)"
    then obtain res where "RunOnPrimary r (shardLabels i) command t = (Ret (res, None), u)"
      by (auto elim!: andthen_RetE split: option.splits)
    then show "(\<exists>res. ranOnPrimary r (shardLabels i) command t res u) \<or> lookupsFail r (shardLabels i) (nat (Tries r)) t u"
      using RunOnPrimary_ran by blast
  qed
qed

lemma RunOnMongos_None:
  "RunOnMongos r arg s = (Ret (res, None), t) \<Longrightarrow> \<exists>p u. GetMongosPod r s = (Ret (Inr p), u) \<and> RunOnMongoPod r p arg u = (Ret (res, None), t)"
  by (auto simp: RunOnMongos_def elim!: andthen_RetE split: sum.splits)

text \<open>When no shard has a primary, the command is done on every shard with an empty output.\<close>

lemma runOnShards_lookup_fails:
  assumes "\<And>i s. i < n \<Longrightarrow> \<exists>e s'. GetMongoPrimaryReplica r (shardLabels i) s = (Ret (Inl e), s')"
    and "\<And>s. \<exists>u s'. sleep r (RetryInterval r) s = (Ret u, s')"
  shows "\<exists>s'. RunOnShards r command n s = (Ret (replicate n [], None), s')"
proof -
  let ?body = "\<lambda>i result.
          andthen (RunOnPrimary r (shardLabels i) command) (\<lambda>(res, err). case err of
            Some e \<Rightarrow> ret (Inl (result, Some e))
          | None \<Rightarrow> ret (Inr (result @ [TrimSpace res])))"
  have "\<exists>t. forFold xs ?body pre s = (Ret (Inr (pre @ replicate (length xs) [])), t)"
    if "\<forall>i \<in> set xs. i < n" for xs pre s
    using that
  proof (induction xs arbitrary: pre s)
    case (Cons i xs)
    obtain t where "RunOnPrimary r (shardLabels i) command s = (Ret ([], None), t)"
      using runOnPrimary_lookup_fails [OF _ assms(2), of "shardLabels i"] assms(1) Cons.prems by fastforce
    then show ?case using Cons.IH [of "pre @ [[]]" t] Cons.prems
      by (simp add: andthen_Ret TrimSpace_def)
  qed simp
  from this [of "[0..<n]" "[]" s] show ?thesis
    by (auto simp: RunOnShards_def andthen_Ret)
qed

lemma runAndRetry0_None:
  assumes "runAndRetry0 r f s = (Ret None, s')" "Tries r > 0"
  shows "\<exists>t. f t = (Ret None, s')"
proof -
  have "runAndRetry r (plainBody f) () s = (Ret (None, ()), s')"
    using assms(1) by (auto simp: runAndRetry0_def elim!: andthen_RetE)
  then obtain a t where "plainBody f a t = (Ret (None, ()), s')" unfolding runAndRetry_None_iff [OF assms(2)] by blast
  then show ?thesis by (auto simp: plainBody_def elim!: andthen_RetE)
qed

section \<open>Output without escapes\<close>

lemma ansi_rex_start: "lang ansi_rex (c # u) \<Longrightarrow> c = CHR 0x1B \<or> c = CHR 0xC2"
  by (auto simp: ansi_rex_def Let_def lang_Seq in_class_def Cons_eq_append_conv)

lemma Index_None_start: "c \<notin> set s \<Longrightarrow> Index s (c # p) = None"
  by (induction s) auto

lemma cleanOutput_id:
  assumes "CHR 0x1B \<notin> set s" "CHR 0xC2 \<notin> set s" "CHR ''W'' \<notin> set s"
  shows "cleanOutput s = s"
proof -
  have "ReplaceAllString ansi_rex s [] = s"
    by (rule ReplaceAllString_id) (use assms(1,2) ansi_rex_start in blast)
  moreover have "Index s MongoshBanner7 = None" "Index s MongoshBanner8 = None"
    using assms(3) by (simp_all add: MongoshBanner7_def MongoshBanner8_def Index_None_start)
  ultimately show ?thesis by (simp add: cleanOutput_def Replace1_def)
qed

end
