(* ===== verification/WitnessEnv.thy ===== *)
theory WitnessEnv
  imports MongoExec
begin

text \<open>
  A concrete environment: services that do nothing and succeed, a helper, a custom resource and a
  context.  The examples of the development run the operations in it, with the services they are about
  replaced by concrete functions.  Nothing else depends on it.
\<close>

definition plainPod :: "string \<Rightarrow> pod" where
  "plainPod name =
     \<lparr>pod_meta = \<lparr>meta_name = name, meta_namespace = ''mongo'', meta_labels = [], meta_annotations = []\<rparr>,
      pod_spec_of = namedPodSpec name, pod_phase = ''Running'', pod_owners = []\<rparr>"

definition plainMeta :: "string \<Rightarrow> object_meta" where
  "plainMeta name = \<lparr>meta_name = name, meta_namespace = ''mongo'', meta_labels = [], meta_annotations = []\<rparr>"

definition baseKube :: "'w kube" where
  "baseKube =
     \<lparr>ListPods = (\<lambda>ns l. ret ([], None)),
      ExecRemote = (\<lambda>p ns c cmd args. ret ([], None)),
      RestartPod = (\<lambda>p ns t. ret None),
      DeleteStatefulsetAndPods = (\<lambda>n ns t. ret None),
      DeleteRCAndPods = (\<lambda>n ns t. ret None),
      GetReplicationController = (\<lambda>n ns. ret (\<lparr>rc_meta = plainMeta n, rc_replicas = 1, rc_pod_labels = [],
         rc_pod_spec = namedPodSpec n\<rparr>, None)),
      ScaleReplicationController = (\<lambda>rc n t. ret None),
      ListDeployments = (\<lambda>ns l. ret ([], None)),
      ScaleDeploymentObj = (\<lambda>d n t. ret None),
      UpdateDeploymentObj = (\<lambda>d. ret None),
      ListStatefulSets = (\<lambda>ns l. ret ([], None)),
      ScaleStatefulset = (\<lambda>d n t. ret None),
      GetStatefulSetByName = (\<lambda>n ns. ret (\<lparr>ss_meta = plainMeta n, ss_replicas = Some 1, ss_service_name = [],
         ss_selector = [], ss_pod_labels = [], ss_pod_spec = namedPodSpec n\<rparr>, None)),
      ScaleStatefulSetByName = (\<lambda>n ns k t. ret None),
      ScaleDeploymentByLabels = (\<lambda>l ns n t. ret None),
      UpdateDeploymentByLabels = (\<lambda>l ns f. ret None),
      CreateRuntimeObject = (\<lambda>obj. ret None),
      DeleteRuntimeObject = (\<lambda>obj. ret ()),
      WaitForPodsReady = (\<lambda>l ns n t. ret None),
      GetSecret = (\<lambda>n ns. ret (\<lparr>sec_meta = plainMeta n, sec_data = [], sec_type = []\<rparr>, None)),
      OpensslCommand = (\<lambda>args. ret (''key'', None)),
      Sleep = (\<lambda>n. ret ()),
      PollImmediate = (\<lambda>i t. poll_tries 2),
      Poll = (\<lambda>i t. poll_tries 2),
      PollInfinite = (\<lambda>i. poll_tries 2),
      LibErrText = (\<lambda>e. ''error''),
      PanicValue = (\<lambda>e msg. e)\<rparr>"

definition baseHelper :: "'w kube \<Rightarrow> 'w helper" where
  "baseHelper k = \<lparr>KubeImpl = k, Namespace = ''mongo'', Tries = 2, RetryInterval = 1, WaitSeconds = 10,
                   Sharded = True, Single = False\<rparr>"

definition baseSpec :: deployment_spec where
  "baseSpec =
     \<lparr>DisasterRecovery = \<lparr>Mode = StandbyMode, DRStatus = [], NoWait = False\<rparr>,
      DeploymentVersion = [],
      SchemaSettings = \<lparr>SchemaType = HA, SchemaSharded = True, CnfReplicaSize = 3, DataReplicaSize = 3,
        ShardCount = 1, ArbiterIndex = 0, ThisDomainName = ''cluster.local'', OtherDomainName = ''other.local'',
        MongosReplicas = 1\<rparr>,
      RecyclerInstall = False, StopOnFailedResourceUpdate = False, WaitSecondsField = 10, AuthDb = ''admin'',
      IpV6 = False, PodSecurityContext = None, Policies = None, ImagePullPolicy = ''Always'',
      MongoDB = \<lparr>MongoInstall = True, CnfResources = noResources, DataResources = noResources,
        ArbiterResources = None, MongosResources = noResources, DockerImage = ''mongo:7.0.1'',
        ContainerTimeoutSeconds = 1, ContainerPeriodSeconds = 1, CnfWiredTigerCacheGb = [],
        DataWiredTigerCacheGb = [], CnfOpLogSizeMb = 0, DataOpLogSizeMb = 0, SingleWiredTigerCacheGb = [],
        AdditionalNodeLabels = [], CustomDataRSParameters = [], PriorityClassName = [],
        MongoRootSecretNameField = ''root'', MongoAffinity = None, ClusterAuthMode = []\<rparr>,
      TLSField = \<lparr>TLSEnabled = False, CertificateSecretName = [], RootCAFileName = [], SignedCRTFileName = [],
        PrivateKeyFileName = [], TLSMode = [], CombinedKeyAndCRTFileName = []\<rparr>,
      DeletePVConUninstall = False\<rparr>"

definition baseCtx :: exec_ctx where
  "baseCtx = \<lparr>CtxSpec = baseSpec, CtxDeployType = UpdateDeploy, CtxMongoDeployType = None, CtxPvcNames = [],
              CtxPVNodes = [], CtxMaxReplicaSize = 3, CtxMaxPVCCount = 3, CtxCommonChanged = False, CtxIPTemplate = [],
              CtxArbiterFunc = (\<lambda>n. -1),
              CtxAffinityFunc = (\<lambda>s i. \<lparr>pod_anti_affinity = [], pod_affinity = [], node_affinity_preferred = []\<rparr>)\<rparr>"

definition baseState :: "'w \<Rightarrow> 'w hstate" where
  "baseState w = \<lparr>Cmd = ''mongosh'', Ctx = baseCtx, World = w\<rparr>"

text \<open>A cluster that answers every command with the same text, with pods for the given labels.\<close>

definition cannedKube :: "(smap \<Rightarrow> pod list) \<Rightarrow> string \<Rightarrow> 'w kube" where
  "cannedKube pods answer =
     baseKube \<lparr>ListPods := (\<lambda>ns l. ret (pods l, None)),
               ExecRemote := (\<lambda>p ns c cmd args. ret (answer, None))\<rparr>"

lemma baseHelper_simps [simp]:
  "KubeImpl (baseHelper k) = k" "Namespace (baseHelper k) = ''mongo''" "Tries (baseHelper k) = 2"
  "RetryInterval (baseHelper k) = 1" "WaitSeconds (baseHelper k) = 10" "Sharded (baseHelper k)"
  "\<not> Single (baseHelper k)"
  by (simp_all add: baseHelper_def)

lemma baseState_simps [simp]:
  "Cmd (baseState w) = ''mongosh''" "Ctx (baseState w) = baseCtx" "World (baseState w) = w"
  "CtxSpec baseCtx = baseSpec"
  by (simp_all add: baseState_def baseCtx_def)

lemma cannedKube_ListPods: "ListPods (cannedKube pods answer) ns l = ret (pods l, None)"
  by (simp add: cannedKube_def)

lemma cannedKube_ExecRemote: "ExecRemote (cannedKube pods answer) p ns c cmd args = ret (answer, None)"
  by (simp add: cannedKube_def)

lemma cannedKube_Sleep: "Sleep (cannedKube pods answer) n = ret ()"
  by (simp add: cannedKube_def baseKube_def)

lemma callW_ret [simp]: "callW (ret x) = ret x"
  by (rule ext) (simp add: callW_def ret_apply)

lemma plainPod_simps [simp]:
  "pod_name (plainPod n) = n" "ps_containers (pod_spec_of (plainPod n)) = [namedContainer n]"
  "pod_phase (plainPod n) = ''Running''"
  by (simp_all add: plainPod_def)

text \<open>In such a cluster the base operations are constants.\<close>

lemma canned_listPods:
  "kListPods (baseHelper (cannedKube pods answer)) labels = ret (pods labels, None)"
  by (simp add: kListPods_def cannedKube_ListPods)

lemma canned_listPodsChecked:
  "listPodsChecked (baseHelper (cannedKube pods answer)) labels =
     ret (if pods labels = [] then Inl (GoError ''pod list is empty'') else Inr (pods labels))"
  by (simp add: listPodsChecked_def canned_listPods checkListPodsResult_def)

lemma canned_RunOnMongoPod:
  "RunOnMongoPod (baseHelper (cannedKube pods answer)) (plainPod n) arg = ret (cleanOutput answer, None)"
  by (rule ext) (simp add: RunOnMongoPod_def cannedKube_ExecRemote)

lemmas canned_simps = canned_listPodsChecked canned_listPods canned_RunOnMongoPod cannedKube_Sleep

text \<open>A cluster whose world is the list of the answers still to be given.\<close>

definition nextAnswer :: "(string list, string with_err) op" where
  "nextAnswer w = (case w of [] \<Rightarrow> (Ret ([], None), []) | a # as \<Rightarrow> (Ret (a, None), as))"

definition scriptedKube :: "(smap \<Rightarrow> pod list) \<Rightarrow> string list kube" where
  "scriptedKube pods =
     baseKube \<lparr>ListPods := (\<lambda>ns l. ret (pods l, None)), ExecRemote := (\<lambda>p ns c cmd args. nextAnswer)\<rparr>"

definition scriptState :: "string list \<Rightarrow> string list hstate" where
  "scriptState as = \<lparr>Cmd = ''mongosh'', Ctx = baseCtx, World = as\<rparr>"

lemma nextAnswer_Cons [simp]: "nextAnswer (a # as) = (Ret (a, None), as)"
  by (simp add: nextAnswer_def)

lemma scripted_RunOnMongoPod:
  assumes "ps_containers (pod_spec_of p) = [namedContainer n]"
  shows "RunOnMongoPod (baseHelper (scriptedKube pods)) p arg (scriptState (a # as)) =
     (Ret (cleanOutput a, None), scriptState as)"
  using assms
  by (simp add: RunOnMongoPod_def scriptedKube_def callW_def scriptState_def andthen_def)

lemma scripted_listPodsChecked:
  "listPodsChecked (baseHelper (scriptedKube pods)) labels =
     ret (if pods labels = [] then Inl (GoError ''pod list is empty'') else Inr (pods labels))"
  by (simp add: listPodsChecked_def kListPods_def scriptedKube_def checkListPodsResult_def)

lemma scripted_sleep: "sleep (baseHelper (scriptedKube pods)) n = ret ()"
  by (simp add: sleep_def scriptedKube_def baseKube_def)

text \<open>The document \<^verbatim>\<open>{"ok":1}\<close>.\<close>

definition okDoc :: string where
  "okDoc = ''{'' @ json_string ''ok'' @ '':1}''"

lemma okDoc_result: "CheckOutputResult k (okDoc, None) = None"
proof -
  have "unmarshal_result okDoc empty_result = (\<lparr>ResOk = 1, ResCode = 0, ResErrMsg = []\<rparr>, None)"
    by code_simp
  then show ?thesis by (simp add: CheckOutputResult_def)
qed

lemma cleanOutput_okDoc: "cleanOutput okDoc = okDoc"
  by (rule cleanOutput_id) (simp_all add: okDoc_def json_string_def)

end
