(* ===== verification/MongoStatus.thy ===== *)
theory MongoStatus
  imports MongoExec WitnessEnv
begin

text \<open>
  The health of the cluster: \<^verbatim>\<open>GetReplicaSetStatus\<close>, \<^verbatim>\<open>GetClusterStatus\<close>, \<^verbatim>\<open>GetRSStatus\<close> and
  \<^verbatim>\<open>GetClusterRSStatus\<close> of \<^verbatim>\<open>src/operator/pkg/utils/mongo_helper.go\<close>.

  A replica set is up, degraded or down by the states its members report; a cluster combines the
  statuses of the config replica set and of the shards, which goroutines collect.  The goroutines run
  in an order that is an argument of the model: any permutation of the tasks.

  The abstract view is a linear order of healths, down below degraded below up; the combination of
  the code is shown to refine a monotone function on it.
\<close>

section \<open>One replica set\<close>

definition countState :: "string \<Rightarrow> string list \<Rightarrow> nat" where
  "countState st replicas = length (filter (\<lambda>x. x = st) replicas)"

definition replicaSetVerdict :: "string \<Rightarrow> nat \<Rightarrow> string list \<Rightarrow> string" where
  "replicaSetVerdict mode n replicas =
     (let secondaryReplicas = countState ''SECONDARY'' replicas;
          primaryReplicas = countState ''PRIMARY'' replicas
      in if mode = ActiveMode then
           (if primaryReplicas = 0 then Down
            else if int secondaryReplicas = int n - 1 then Up else Degraded)
         else
           (if secondaryReplicas = 0 then Down
            else if secondaryReplicas = n \<or> (int secondaryReplicas = int n - 1 \<and> primaryReplicas = 1)
            then Up else Degraded))"

definition GetReplicaSetStatus :: "'w helper \<Rightarrow> smap \<Rightarrow> string list \<Rightarrow> string \<Rightarrow> ('w, string with_err) hop" where
  "GetReplicaSetStatus r labels replicasetHostnames mode =
     andthen (listPodsChecked r labels) (\<lambda>l. case l of
       Inl err \<Rightarrow> ret ([], None)
     | Inr list \<Rightarrow>
         (let replicasetHostnames = QuoteReplicaSet replicasetHostnames;
              replicasStatesCommand = Sprintf JsReplicasWithState [Str (Join '','' replicasetHostnames)]
          in andthen (RunWithJSONResult r (hd list) replicasStatesCommand) (\<lambda>(replicasJson, err). case err of
               Some e \<Rightarrow> ret ([], Some e)
             | None \<Rightarrow>
                 (case unmarshal_strings replicasJson of
                    (replicas, Some jsonErr) \<Rightarrow> ret ([], Some jsonErr)
                  | (replicas, None) \<Rightarrow>
                      ret (replicaSetVerdict mode (length replicasetHostnames) replicas, None)))))"

definition GetRSStatus :: "'w helper \<Rightarrow> smap \<Rightarrow> ('w, string) hop" where
  "GetRSStatus r labels =
     andthen (listPodsChecked r labels) (\<lambda>l. case l of
       Inl err \<Rightarrow> ret ''Error while fetching pod list''
     | Inr list \<Rightarrow>
         andthen (RunWithJSONResult r (hd list) JsReplicasWithStateAndName) (\<lambda>(replicas, err). case err of
           Some e \<Rightarrow> ret (Sprintf ''Error while running command %s'' [Str JsReplicasWithStateAndName])
         | None \<Rightarrow> ret replicas))"

section \<open>The cluster\<close>

text \<open>
  Task i < shardCount asks data shard i; task shardCount asks the config replica set, when there is
  one.  A goroutine sends its index, status and error into the channel of its kind.
\<close>

definition hasCnf :: "nat \<Rightarrow> bool \<Rightarrow> bool" where
  "hasCnf cnfReplicaSize sharded = (cnfReplicaSize > 0 \<and> sharded)"

definition clusterTasks :: "nat \<Rightarrow> nat \<Rightarrow> bool \<Rightarrow> nat list" where
  "clusterTasks cnfReplicaSize shardCount sharded =
     [0..<shardCount] @ (if hasCnf cnfReplicaSize sharded then [shardCount] else [])"

definition statusTask :: "'w helper \<Rightarrow> string \<Rightarrow> string \<Rightarrow> nat \<Rightarrow> nat \<Rightarrow> nat \<Rightarrow> nat \<Rightarrow> ('w, string with_err) hop" where
  "statusTask r mode domain cnfReplicaSize dataReplicaSize shardCount i =
     (if i < shardCount
      then GetReplicaSetStatus r (shardLabels i)
             (GetDATAReplicaSetHostName dataReplicaSize i domain (Namespace r)) mode
      else GetReplicaSetStatus r [(Microservice, CnfNameKey)]
             (GetCNFReplicaSetHostNames cnfReplicaSize domain (Namespace r)) mode)"

type_synonym rsstatus = "nat \<times> string with_err"

definition runTasks :: "nat list \<Rightarrow> (nat \<Rightarrow> ('w, string with_err) hop) \<Rightarrow> nat
    \<Rightarrow> ('w, unit + (rsstatus list \<times> rsstatus list)) hop" where
  "runTasks order task shardCount =
     forFold order (\<lambda>i (dataCh, cnfCh).
       andthen (task i) (\<lambda>st.
         ret (Inr (if i < shardCount then (dataCh @ [(i, st)], cnfCh) else (dataCh, cnfCh @ [(0, st)])))))
       ([], [])"

text \<open>Draining a channel: the first message with an error ends the function.\<close>

definition channelFailed :: "rsstatus list \<Rightarrow> bool" where
  "channelFailed ch = list_ex (\<lambda>(i, st, err). err \<noteq> None) ch"

definition dataStatuses :: "nat \<Rightarrow> rsstatus list \<Rightarrow> string list" where
  "dataStatuses shardCount ch = foldl (\<lambda>xs (i, st, err). xs[i := st]) (replicate shardCount []) ch"

definition cnfStatusOf :: "rsstatus list \<Rightarrow> string" where
  "cnfStatusOf ch = foldl (\<lambda>_ (i, st, err). st) [] ch"

definition shardedVerdict :: "string list \<Rightarrow> string \<Rightarrow> string" where
  "shardedVerdict dataStatus cnfStatus =
     (let dataDown = length (filter (\<lambda>d. d = Down) dataStatus);
          shardCount = length dataStatus
      in if cnfStatus = Down \<or> dataDown = shardCount then Down
         else if cnfStatus = Degraded \<or> (cnfStatus = Up \<and> dataDown > 0) then Degraded
         else if cnfStatus = Up \<and> dataDown = 0 then Up
         else Down)"

definition GetClusterStatus :: "nat list \<Rightarrow> 'w helper \<Rightarrow> string \<Rightarrow> string \<Rightarrow> nat \<Rightarrow> nat \<Rightarrow> nat \<Rightarrow> bool
    \<Rightarrow> ('w, string with_err) hop" where
  "GetClusterStatus order r mode domain cnfReplicaSize dataReplicaSize shardCount sharded =
     andthen (runTasks order (statusTask r mode domain cnfReplicaSize dataReplicaSize shardCount) shardCount)
       (\<lambda>x. case x of Inl _ \<Rightarrow> ret ([], None) | Inr (dataCh, cnfCh) \<Rightarrow>
         if channelFailed dataCh then ret (Down, None)
         else if hasCnf cnfReplicaSize sharded \<and> channelFailed cnfCh then ret (Down, None)
         else
           (let dataStatus = dataStatuses shardCount dataCh; cnfStatus = cnfStatusOf cnfCh in
            if sharded then
              (if mode = ActiveMode then
                 andthen (GetMongosPod r) (\<lambda>m. case m of
                   Inl err \<Rightarrow> ret (Down, Some err)
                 | Inr pod \<Rightarrow> if pod_phase pod \<noteq> PodRunning then ret (Down, None)
                              else ret (shardedVerdict dataStatus cnfStatus, None))
               else ret (shardedVerdict dataStatus cnfStatus, None))
            else andthen (nth_or_panic dataStatus 0) (\<lambda>st. ret (st, None))))"

definition GetClusterRSStatus :: "'w helper \<Rightarrow> nat \<Rightarrow> nat \<Rightarrow> bool \<Rightarrow> ('w, string list) hop" where
  "GetClusterRSStatus r cnfReplicaSize shardCount sharded =
     andthen (forFold [0..<shardCount]
       (\<lambda>i clsStatus. andthen (GetRSStatus r (shardLabels i)) (\<lambda>st.
          ret (Inr (clsStatus[i := st]) :: unit + string list))) (replicate shardCount []))
       (\<lambda>x. case x of Inl _ \<Rightarrow> ret [] | Inr clsStatus \<Rightarrow>
         if sharded \<and> cnfReplicaSize > 0 \<and> sharded
         then andthen (GetRSStatus r [(Microservice, CnfNameKey)]) (\<lambda>st. ret (clsStatus @ [st]))
         else ret clsStatus)"

section \<open>Healths\<close>

datatype health = HDown | HDegraded | HUp

fun health_rank :: "health \<Rightarrow> nat" where
  "health_rank HDown = 0"
| "health_rank HDegraded = 1"
| "health_rank HUp = 2"

lemma health_rank_inj [simp]: "health_rank a = health_rank b \<longleftrightarrow> a = b"
  by (cases a; cases b) auto

instantiation health :: linorder
begin

definition less_eq_health :: "health \<Rightarrow> health \<Rightarrow> bool" where
  "less_eq_health a b = (health_rank a \<le> health_rank b)"

definition less_health :: "health \<Rightarrow> health \<Rightarrow> bool" where
  "less_health a b = (health_rank a < health_rank b)"

instance
  by standard (auto simp: less_eq_health_def less_health_def)

end

lemma health_le_simps [simp]:
  "HDown \<le> a" "a \<le> HUp" "HUp \<le> a \<longleftrightarrow> a = HUp" "a \<le> HDown \<longleftrightarrow> a = HDown"
  "HDegraded \<le> a \<longleftrightarrow> a \<noteq> HDown" "a \<le> HDegraded \<longleftrightarrow> a \<noteq> HUp"
  by (cases a; simp add: less_eq_health_def)+

text \<open>
  The health a status stands for.  A shard without pods has the empty status, which counts as up; the
  config replica set without pods counts as down.
\<close>

definition dataHealth :: "string \<Rightarrow> health" where
  "dataHealth st = (if st = Down then HDown else HUp)"

definition cnfHealth :: "string \<Rightarrow> health" where
  "cnfHealth st = (if st = Up then HUp else if st = Degraded then HDegraded else HDown)"

definition clusterHealth :: "health list \<Rightarrow> health \<Rightarrow> health" where
  "clusterHealth data cnf =
     (if cnf = HDown \<or> list_all (\<lambda>h. h = HDown) data then HDown
      else if list_ex (\<lambda>h. h = HDown) data then HDegraded else cnf)"

lemma status_distinct [simp]:
  "Up \<noteq> Down" "Down \<noteq> Up" "Up \<noteq> Degraded" "Degraded \<noteq> Up" "Down \<noteq> Degraded" "Degraded \<noteq> Down"
  "[] \<noteq> Up" "[] \<noteq> Down" "[] \<noteq> Degraded" "Up \<noteq> []" "Down \<noteq> []" "Degraded \<noteq> []"
  by (simp_all add: Up_def Down_def Degraded_def)

lemma filter_full_length: "length (filter P xs) = length xs \<longleftrightarrow> list_all P xs"
proof (induction xs)
  case (Cons x xs)
  have "length (filter P xs) \<noteq> Suc (length xs)" by (metis Suc_n_not_le_n length_filter_le)
  then show ?case using Cons by auto
qed simp

lemma shardedVerdict_refines: "cnfHealth (shardedVerdict data cnf) = clusterHealth (map dataHealth data) (cnfHealth cnf)"
proof -
  have *: "list_all (\<lambda>h. h = HDown) (map dataHealth data) = list_all (\<lambda>d. d = Down) data"
    "list_ex (\<lambda>h. h = HDown) (map dataHealth data) = list_ex (\<lambda>d. d = Down) data"
    by (auto simp: list_all_iff list_ex_iff dataHealth_def)
  have **: "(0 < length (filter (\<lambda>d. d = Down) data)) = list_ex (\<lambda>d. d = Down) data"
    by (auto simp: list_ex_iff filter_empty_conv)
  show ?thesis
    unfolding shardedVerdict_def clusterHealth_def Let_def filter_full_length * **
    by (auto simp: cnfHealth_def simp del: length_greater_0_conv simp flip: **)
qed

lemma clusterHealth_mono:
  assumes "list_all2 (\<le>) data data'" "cnf \<le> cnf'"
  shows "clusterHealth data cnf \<le> clusterHealth data' cnf'"
proof -
  have "list_all (\<lambda>h. h = HDown) data' \<Longrightarrow> list_all (\<lambda>h. h = HDown) data"
    using assms(1) by (induction data data' rule: list_all2_induct) auto
  moreover have "list_ex (\<lambda>h. h = HDown) data' \<Longrightarrow> list_ex (\<lambda>h. h = HDown) data"
    using assms(1) by (induction data data' rule: list_all2_induct) auto
  ultimately show ?thesis using assms(2)
    by (cases cnf; cases cnf') (auto simp: clusterHealth_def less_eq_health_def)
qed

lemma shardedVerdict_Up_iff:
  "shardedVerdict data cnf = Up \<longleftrightarrow> cnf = Up \<and> data \<noteq> [] \<and> Down \<notin> set data"
  by (auto simp: shardedVerdict_def Let_def filter_empty_conv)

lemma shardedVerdict_Up: "cnf = Up \<Longrightarrow> data \<noteq> [] \<Longrightarrow> Down \<notin> set data \<Longrightarrow> shardedVerdict data cnf = Up"
  by (simp add: shardedVerdict_Up_iff)

section \<open>What an answer of the cluster status means\<close>

text \<open>\<^verbatim>\<open>observed t st\<close>: the task can answer with the status st.\<close>

definition observed :: "('w, string with_err) hop \<Rightarrow> string \<Rightarrow> bool" where
  "observed task st = (\<exists>s s'. task s = (Ret (st, None), s'))"

text \<open>
  The messages in the channels, after the goroutines have run: one per task of the order, in that
  order, each with what its task answered.
\<close>

definition answers :: "(nat \<Rightarrow> ('w, string with_err) hop) \<Rightarrow> nat \<Rightarrow> nat \<Rightarrow> string with_err \<Rightarrow> bool" where
  "answers task shardCount i st = (\<exists>s s'. task i s = (Ret st, s'))"

lemma runTasks_channels:
  assumes "runTasks order task shardCount s = (Ret x, s')"
  shows "\<exists>sts. length sts = length order \<and>
           (\<forall>j < length order. answers task shardCount (order ! j) (sts ! j)) \<and>
           x = Inr (filter (\<lambda>(i, _). i < shardCount) (zip order sts),
                    map (\<lambda>(i, st). (0, st)) (filter (\<lambda>(i, _). \<not> i < shardCount) (zip order sts)))"
proof -
  let ?body = "\<lambda>i (dataCh, cnfCh). andthen (task i) (\<lambda>st.
         ret (Inr (if i < shardCount then (dataCh @ [(i, st)], cnfCh) else (dataCh, cnfCh @ [(0, st)]))))"
  have "\<exists>sts. length sts = length order \<and>
           (\<forall>j < length order. answers task shardCount (order ! j) (sts ! j)) \<and>
           x = Inr (d @ filter (\<lambda>(i, _). i < shardCount) (zip order sts),
                    c @ map (\<lambda>(i, st). (0, st)) (filter (\<lambda>(i, _). \<not> i < shardCount) (zip order sts)))"
    if "forFold order ?body (d, c) s = (Ret (x :: unit + _), s')" for d c s
    using that
  proof (induction order arbitrary: d c s)
    case Nil
    then show ?case by simp
  next
    case (Cons i order)
    obtain st t where st: "task i s = (Ret st, t)"
      and rest: "forFold order ?body (if i < shardCount then (d @ [(i, st)], c) else (d, c @ [(0, st)])) t = (Ret x, s')"
      using Cons.prems by (auto elim!: andthen_RetE)
    have a: "answers task shardCount i st" using st by (auto simp: answers_def)
    show ?case
    proof (cases "i < shardCount")
      case True
      then obtain sts where "length sts = length order"
        "\<forall>j < length order. answers task shardCount (order ! j) (sts ! j)"
        "x = Inr ((d @ [(i, st)]) @ filter (\<lambda>(i, _). i < shardCount) (zip order sts),
                    c @ map (\<lambda>(i, st). (0, st)) (filter (\<lambda>(i, _). \<not> i < shardCount) (zip order sts)))"
        using Cons.IH [of "d @ [(i, st)]" c t] rest by auto
      then show ?thesis using a True
        by (intro exI [of _ "st # sts"]) (auto simp: nth_Cons split: nat.split)
    next
      case False
      then obtain sts where "length sts = length order"
        "\<forall>j < length order. answers task shardCount (order ! j) (sts ! j)"
        "x = Inr (d @ filter (\<lambda>(i, _). i < shardCount) (zip order sts),
                    (c @ [(0, st)]) @ map (\<lambda>(i, st). (0, st)) (filter (\<lambda>(i, _). \<not> i < shardCount) (zip order sts)))"
        using Cons.IH [of d "c @ [(0, st)]" t] rest by auto
      then show ?thesis using a False
        by (intro exI [of _ "st # sts"]) (auto simp: nth_Cons split: nat.split)
    qed
  qed
  from this [of "[]" "[]" s] show ?thesis using assms by (simp add: runTasks_def)
qed

lemma dataStatuses_foldl:
  "length (foldl (\<lambda>xs (i, st, err). xs[i := st]) xs ch) = length xs"
  by (induction ch arbitrary: xs) (auto split: prod.splits)

lemma dataStatuses_length [simp]: "length (dataStatuses n ch) = n"
  by (simp add: dataStatuses_def dataStatuses_foldl)

lemma dataStatuses_other:
  "i \<notin> fst ` set ch \<Longrightarrow> foldl (\<lambda>xs (i, st, err). xs[i := st]) xs ch ! i = xs ! i"
proof (induction ch arbitrary: xs)
  case (Cons m ch)
  then show ?case by (cases m) auto
qed simp

lemma dataStatuses_nth:
  assumes "distinct (map fst ch)" "(i, st, err) \<in> set ch" "i < n"
  shows "dataStatuses n ch ! i = st"
proof -
  have "foldl (\<lambda>xs (i, st, err). xs[i := st]) xs ch ! i = st" if "i < length xs" for xs :: "string list"
    using assms(1,2) that
  proof (induction ch arbitrary: xs)
    case (Cons m ch)
    show ?case
    proof (cases "m = (i, st, err)")
      case True
      then show ?thesis using Cons.prems dataStatuses_other [of i ch "xs[i := st]"] by simp
    next
      case False
      then show ?thesis using Cons by (cases m) auto
    qed
  qed simp
  then show ?thesis using assms(3) by (simp add: dataStatuses_def)
qed

lemma dataStatuses_perm:
  assumes "distinct (map fst ch)" "set ch = set ch'" "distinct (map fst ch')"
  shows "dataStatuses n ch = dataStatuses n ch'"
proof (rule nth_equalityI)
  show "length (dataStatuses n ch) = length (dataStatuses n ch')" by simp
  fix i assume "i < length (dataStatuses n ch)"
  then have i: "i < n" by simp
  show "dataStatuses n ch ! i = dataStatuses n ch' ! i"
  proof (cases "i \<in> fst ` set ch")
    case True
    then obtain st err where "(i, st, err) \<in> set ch" by auto
    then show ?thesis using dataStatuses_nth assms i by metis
  next
    case False
    then show ?thesis using assms(2) dataStatuses_other [of i] by (metis dataStatuses_def)
  qed
qed

text \<open>The order of a run: every task once.\<close>

definition validOrder :: "nat \<Rightarrow> nat \<Rightarrow> bool \<Rightarrow> nat list \<Rightarrow> bool" where
  "validOrder cnfReplicaSize shardCount sharded order =
     (distinct order \<and> set order = set (clusterTasks cnfReplicaSize shardCount sharded))"

lemma validOrder_tasks [simp]: "validOrder c n sh (clusterTasks c n sh)"
  by (auto simp: validOrder_def clusterTasks_def)

lemma zip_filter_single:
  assumes "distinct order" "length sts = length order" "\<And>x. x \<in> set order \<Longrightarrow> P x \<longleftrightarrow> x = a" "order ! j = a" "j < length order"
  shows "filter (\<lambda>(i, _). P i) (zip order sts) = [(a, sts ! j)]"
  using assms
proof (induction order arbitrary: sts j)
  case (Cons i order)
  obtain st sts' where sts: "sts = st # sts'" using Cons.prems by (cases sts) auto
  have none: "filter (\<lambda>(i, _). P i) (zip order sts') = []" if "a \<notin> set order"
    using that Cons.prems(3) set_zip_leftD by (fastforce simp: filter_empty_conv)
  show ?case
  proof (cases j)
    case 0
    then show ?thesis using Cons.prems none sts by auto
  next
    case (Suc k)
    have "i \<noteq> a" using Cons.prems Suc by (metis distinct.simps(2) length_Cons not_less_eq nth_Cons_Suc nth_mem)
    then show ?thesis using Cons.IH [of sts' k] Cons.prems Suc sts by auto
  qed
qed simp

text \<open>What the code reads from the channels after a valid run.\<close>

lemma channels_of_valid_run:
  assumes valid: "validOrder c n sh order" and len: "length sts = length order"
  defines "d \<equiv> filter (\<lambda>(i, _). i < n) (zip order sts)"
  defines "cn \<equiv> map (\<lambda>(i, st). (0, st)) (filter (\<lambda>(i, _). \<not> i < n) (zip order sts))"
  shows "j < length order \<Longrightarrow> order ! j < n \<Longrightarrow> dataStatuses n d ! (order ! j) = fst (sts ! j)"
    and "j < length order \<Longrightarrow> order ! j = n \<Longrightarrow> cn = [(0, sts ! j)]"
    and "\<not> hasCnf c sh \<Longrightarrow> cn = []"
proof -
  have dist: "distinct (map fst (zip order sts))" using valid len by (simp add: validOrder_def)
  then have distd: "distinct (map fst d)" unfolding d_def by (rule distinct_map_filter)
  show "dataStatuses n d ! (order ! j) = fst (sts ! j)" if "j < length order" "order ! j < n"
  proof -
    have "(order ! j, sts ! j) \<in> set (zip order sts)" using that len by (auto simp: set_zip)
    then have "(order ! j, sts ! j) \<in> set d" using that by (simp add: d_def)
    then show ?thesis using dataStatuses_nth [OF distd, of "order ! j" "fst (sts ! j)" "snd (sts ! j)"] that by simp
  qed
  have tasks: "x \<in> set order \<Longrightarrow> x < n \<or> (x = n \<and> hasCnf c sh)" for x
    using valid by (auto simp: validOrder_def clusterTasks_def split: if_splits)
  show "cn = [(0, sts ! j)]" if "j < length order" "order ! j = n"
  proof -
    have "filter (\<lambda>(i, _). \<not> i < n) (zip order sts) = [(n, sts ! j)]"
      by (rule zip_filter_single) (use valid len that tasks in \<open>auto simp: validOrder_def\<close>)
    then show ?thesis by (simp add: cn_def)
  qed
  show "cn = []" if "\<not> hasCnf c sh"
    using that tasks set_zip_leftD by (fastforce simp: cn_def filter_empty_conv)
qed

section \<open>Soundness of the cluster status\<close>

lemma runTasks_answers:
  assumes run: "runTasks order task n s = (Ret (Inr (d, cn)), t)" and valid: "validOrder c n sh order"
  shows "i < n \<Longrightarrow> \<not> channelFailed d \<Longrightarrow> observed (task i) (dataStatuses n d ! i)"
    and "hasCnf c sh \<Longrightarrow> \<not> channelFailed cn \<Longrightarrow> observed (task n) (cnfStatusOf cn)"
    and "\<not> hasCnf c sh \<Longrightarrow> cnfStatusOf cn = []"
proof -
  obtain sts where len: "length sts = length order"
    and ans: "\<forall>j < length order. answers task n (order ! j) (sts ! j)"
    and d: "d = filter (\<lambda>(i, _). i < n) (zip order sts)"
    and cn: "cn = map (\<lambda>(i, st). (0, st)) (filter (\<lambda>(i, _). \<not> i < n) (zip order sts))"
    using runTasks_channels [OF run] by auto
  note channels = channels_of_valid_run [OF valid len, folded d cn]
  show "observed (task i) (dataStatuses n d ! i)" if "i < n" "\<not> channelFailed d"
  proof -
    have "i \<in> set order" using that(1) valid by (auto simp: validOrder_def clusterTasks_def)
    then obtain j where j: "j < length order" "order ! j = i" by (auto simp: in_set_conv_nth)
    obtain st err where st: "sts ! j = (st, err)" by (cases "sts ! j")
    have "(i, st, err) \<in> set d" using j st len that(1) by (auto simp: d set_zip)
    then have "err = None" using that(2) by (auto simp: channelFailed_def list_ex_iff)
    then have "sts ! j = (dataStatuses n d ! i, None)"
      using channels(1) [of j] j st that(1) by simp
    moreover have "\<exists>s s'. task i s = (Ret (sts ! j), s')" using ans j by (auto simp: answers_def)
    ultimately show ?thesis by (simp add: observed_def)
  qed
  show "observed (task n) (cnfStatusOf cn)" if "hasCnf c sh" "\<not> channelFailed cn"
  proof -
    have "n \<in> set order" using that(1) valid by (auto simp: validOrder_def clusterTasks_def)
    then obtain j where j: "j < length order" "order ! j = n" by (auto simp: in_set_conv_nth)
    obtain st err where st: "sts ! j = (st, err)" by (cases "sts ! j")
    have cn1: "cn = [(0, st, err)]" using channels(2) [OF j] st cn by simp
    then have "err = None" using that(2) by (simp add: channelFailed_def)
    then have "cnfStatusOf cn = st" "sts ! j = (st, None)" using cn1 st by (simp_all add: cnfStatusOf_def)
    moreover have "\<exists>s s'. task n s = (Ret (sts ! j), s')" using ans j by (auto simp: answers_def)
    ultimately show ?thesis by (simp add: observed_def)
  qed
  show "cnfStatusOf cn = []" if "\<not> hasCnf c sh"
    using channels(3) that cn by (simp add: cnfStatusOf_def)
qed

text \<open>C1: when the status of a sharded cluster is up, the config replica set answered up, every data
  shard answered with a status other than down, and in active mode a mongos pod is running.\<close>

theorem cluster_up_sound:
  assumes "validOrder cnf shards True order"
    and "GetClusterStatus order r mode domain cnf dataSize shards True s = (Ret (Up, None), s')"
  shows "shards > 0 \<and> observed (statusTask r mode domain cnf dataSize shards shards) Up \<and>
    (\<forall>i < shards. \<exists>st. st \<noteq> Down \<and> observed (statusTask r mode domain cnf dataSize shards i) st) \<and>
    (mode = ActiveMode \<longrightarrow> (\<exists>t p. GetMongosPod r t = (Ret (Inr p), s') \<and> pod_phase p = PodRunning))"
proof -
  let ?task = "statusTask r mode domain cnf dataSize shards"
  obtain x t where run: "runTasks order ?task shards s = (Ret x, t)"
    using assms(2) by (auto simp: GetClusterStatus_def elim!: andthen_RetE)
  obtain d cn where x: "x = Inr (d, cn)" using runTasks_channels [OF run] by auto
  note ans = runTasks_answers [OF run [unfolded x] assms(1)]
  have nofail: "\<not> channelFailed d" "hasCnf cnf True \<Longrightarrow> \<not> channelFailed cn"
    and verdict: "shardedVerdict (dataStatuses shards d) (cnfStatusOf cn) = Up"
    and mongos: "mode = ActiveMode \<longrightarrow> (\<exists>t p. GetMongosPod r t = (Ret (Inr p), s') \<and> pod_phase p = PodRunning)"
    using assms(2) run x
    by (auto simp: GetClusterStatus_def andthen_Ret Let_def elim!: andthen_RetE split: if_splits sum.splits; blast)+
  have up: "cnfStatusOf cn = Up" "dataStatuses shards d \<noteq> []" "Down \<notin> set (dataStatuses shards d)"
    using verdict by (auto simp: shardedVerdict_Up_iff)
  then have "hasCnf cnf True" using ans(3) by auto
  then have "observed (?task shards) Up" using ans(2) nofail(2) up(1) by simp
  moreover have "\<exists>st. st \<noteq> Down \<and> observed (?task i) st" if "i < shards" for i
    using ans(1) [OF that nofail(1)] up(3) that by (metis dataStatuses_length nth_mem)
  moreover have "shards > 0" using up(2) by (metis dataStatuses_length length_greater_0_conv)
  ultimately show ?thesis using mongos by blast
qed

text \<open>An error of the cluster status comes from the mongos lookup of an active sharded cluster
  only; the errors of the replica sets give the status down without an error.\<close>

theorem cluster_status_error_is_mongos:
  assumes "GetClusterStatus order r mode domain cnf dataSize shards sharded s = (Ret (st, Some e), s')"
  shows "st = Down \<and> sharded \<and> mode = ActiveMode \<and> (\<exists>t. GetMongosPod r t = (Ret (Inl e), s'))"
proof -
  obtain x t where run: "runTasks order (statusTask r mode domain cnf dataSize shards) shards s = (Ret x, t)"
    using assms by (auto simp: GetClusterStatus_def elim!: andthen_RetE)
  show ?thesis using assms run
    by (cases x)
      (auto simp: GetClusterStatus_def andthen_Ret Let_def elim!: andthen_RetE split: if_splits sum.splits;
       blast)+
qed

section \<open>Blind spots of the cluster status\<close>

lemma GetReplicaSetStatus_no_pods:
  "listPodsChecked r labels s = (Ret (Inl e), t) \<Longrightarrow> GetReplicaSetStatus r labels hosts mode s = (Ret ([], None), t)"
  by (simp add: GetReplicaSetStatus_def andthen_Ret)

text \<open>A cluster whose config replica set is up, but none of whose data shards has any pod (or whose
  pods cannot be listed), is reported up in standby mode.\<close>

theorem cluster_up_without_data_pods:
  assumes "\<And>i s. i < shards \<Longrightarrow> \<exists>e s'. listPodsChecked r (shardLabels i) s = (Ret (Inl e), s')"
    and "\<And>s. \<exists>s'. statusTask r mode domain cnf dataSize shards shards s = (Ret (Up, None), s')"
    and "shards > 0" "cnf > 0" "mode \<noteq> ActiveMode"
  shows "\<exists>s'. GetClusterStatus (clusterTasks cnf shards True) r mode domain cnf dataSize shards True s =
              (Ret (Up, None), s')"
proof -
  let ?task = "statusTask r mode domain cnf dataSize shards"
  have data: "\<exists>t. ?task i s = (Ret ([], None), t)" if "i < shards" for i s
    using assms(1) [OF that, of s] GetReplicaSetStatus_no_pods that by (fastforce simp: statusTask_def)
  let ?body = "\<lambda>i (dataCh, cnfCh). andthen (?task i) (\<lambda>st.
         ret (Inr (if i < shards then (dataCh @ [(i, st)], cnfCh) else (dataCh, cnfCh @ [(0, st)]))
              :: unit + (rsstatus list \<times> rsstatus list)))"
  have fold_data: "\<exists>t. forFold xs ?body (d, c) s = (Ret (Inr (d @ map (\<lambda>i. (i, [], None)) xs, c) :: unit + _), t)"
    if "\<forall>i \<in> set xs. i < shards" for xs d c s
    using that
  proof (induction xs arbitrary: d s)
    case (Cons i xs)
    obtain t where "?task i s = (Ret ([], None), t)" using data [of i s] Cons.prems by auto
    then show ?case using Cons.IH [of "d @ [(i, [], None)]" t] Cons.prems by (simp add: andthen_Ret)
  qed simp
  obtain t where t: "forFold [0..<shards] ?body ([], []) s =
      (Ret (Inr (map (\<lambda>i. (i, [], None)) [0..<shards], []) :: unit + _), t)"
    using fold_data [of "[0..<shards]" "[]" "[]" s] by auto
  obtain u where u: "?task shards t = (Ret (Up, None), u)" using assms(2) by blast
  let ?d = "map (\<lambda>i. (i, [], None)) [0..<shards] :: rsstatus list"
  have "runTasks (clusterTasks cnf shards True) ?task shards s = (Ret (Inr (?d, [(0, Up, None)])), u)"
    using forFold_append [OF t, of "[shards]"] u assms(4)
    by (simp add: runTasks_def clusterTasks_def hasCnf_def andthen_Ret ret_apply)
  moreover have "dataStatuses shards ?d = replicate shards []"
  proof (rule nth_equalityI)
    fix i assume "i < length (dataStatuses shards ?d)"
    then show "dataStatuses shards ?d ! i = replicate shards [] ! i"
      by (subst dataStatuses_nth [where err = None and st = "[]"]) (auto simp: o_def)
  qed simp
  ultimately show ?thesis using assms(3-5)
    by (simp add: GetClusterStatus_def andthen_Ret channelFailed_def list_ex_iff cnfStatusOf_def
        shardedVerdict_Up_iff [THEN iffD2] hasCnf_def ret_apply)
qed

text \<open>The combined status never improves when a shard or the config replica set gets worse.\<close>

theorem cluster_verdict_mono:
  assumes "list_all2 (\<lambda>d d'. dataHealth d \<le> dataHealth d') data data'" "cnfHealth cnf \<le> cnfHealth cnf'"
  shows "cnfHealth (shardedVerdict data cnf) \<le> cnfHealth (shardedVerdict data' cnf')"
  unfolding shardedVerdict_refines
  by (rule clusterHealth_mono) (use assms in \<open>simp_all add: list.rel_map\<close>)

section \<open>Examples\<close>

text \<open>
  A cluster with one config server pod and no data pods, whose config replica set reports a primary
  and two secondaries, and the same with a data pod and a mongos pod.
\<close>

definition statesAnswer :: string where
  "statesAnswer = json_strings [''PRIMARY'', ''SECONDARY'', ''SECONDARY'']"

definition cnfOnly :: "smap \<Rightarrow> pod list" where
  "cnfOnly l = (if l = [(Microservice, CnfNameKey)] then [plainPod ''cnfrs0-0''] else [])"

definition allPods :: "smap \<Rightarrow> pod list" where
  "allPods l = [plainPod ''pod-0'']"

lemma cleanOutput_statesAnswer: "cleanOutput statesAnswer = statesAnswer"
  by (rule cleanOutput_id) (simp_all add: statesAnswer_def json_strings_def json_string_def)

lemma unmarshal_statesAnswer: "unmarshal_strings statesAnswer = ([''PRIMARY'', ''SECONDARY'', ''SECONDARY''], None)"
  unfolding statesAnswer_def by (rule unmarshal_json_strings) (simp add: plain_char_def)

lemma verdict_states:
  "replicaSetVerdict mode 3 [''PRIMARY'', ''SECONDARY'', ''SECONDARY''] = Up"
  by (simp add: replicaSetVerdict_def countState_def)

lemma canned_GetReplicaSetStatus:
  assumes "pods labels = [plainPod n]" "length hosts = 3"
  shows "GetReplicaSetStatus (baseHelper (cannedKube pods statesAnswer)) labels hosts mode = ret (Up, None)"
  by (simp add: GetReplicaSetStatus_def canned_simps assms RunWithJSONResult_def Let_def
      cleanOutput_statesAnswer unmarshal_statesAnswer verdict_states)

lemma shardLabels_not_cnf [simp]: "shardLabels i \<noteq> [(Microservice, CnfNameKey)]"
  by (simp add: shardLabels_def)

lemma cluster_up_without_data_pods_witness:
  "\<exists>s'. GetClusterStatus (clusterTasks 3 2 True) (baseHelper (cannedKube cnfOnly statesAnswer)) StandbyMode
          ''cluster.local'' 3 3 2 True (baseState ()) = (Ret (Up, None), s')"
proof (rule cluster_up_without_data_pods)
  show "\<exists>e s'. listPodsChecked (baseHelper (cannedKube cnfOnly statesAnswer)) (shardLabels i) s = (Ret (Inl e), s')"
    for i and s :: "unit hstate"
    by (simp add: canned_simps cnfOnly_def)
  show "\<exists>s'. statusTask (baseHelper (cannedKube cnfOnly statesAnswer)) StandbyMode ''cluster.local'' 3 3 2 2 s =
           (Ret (Up, None), s')" for s :: "unit hstate"
    by (simp add: statusTask_def canned_GetReplicaSetStatus cnfOnly_def cnf_hosts.length_hosts)
qed (simp_all add: StandbyMode_def ActiveMode_def)

lemma canned_cluster_up:
  "GetClusterStatus [1, 0] (baseHelper (cannedKube allPods statesAnswer)) ActiveMode ''cluster.local'' 3 3 1 True =
     ret (Up, None)"
  by (simp add: GetClusterStatus_def runTasks_def statusTask_def canned_GetReplicaSetStatus allPods_def
      cnf_hosts.length_hosts data_hosts.length_hosts hasCnf_def channelFailed_def dataStatuses_def
      cnfStatusOf_def GetMongosPod_def canned_simps PodRunning_def shardedVerdict_Up)

lemma validOrder_two: "validOrder 3 1 True [1, 0]"
  by (auto simp: validOrder_def clusterTasks_def hasCnf_def)

lemma cluster_up_sound_witness:
  "\<exists>t p. GetMongosPod (baseHelper (cannedKube allPods statesAnswer)) t = (Ret (Inr p), baseState ()) \<and>
         pod_phase p = PodRunning"
proof -
  have "GetClusterStatus [1, 0] (baseHelper (cannedKube allPods statesAnswer)) ActiveMode ''cluster.local'' 3 3 1 True
          (baseState ()) = (Ret (Up, None), baseState ())"
    by (simp only: canned_cluster_up ret_apply)
  from cluster_up_sound [OF validOrder_two this] show ?thesis by blast
qed

definition noMongos :: "smap \<Rightarrow> pod list" where
  "noMongos l = (if l = [(NameLabel, Mongos)] then [] else [plainPod ''pod-0''])"

lemma noMongos_simps [simp]:
  "noMongos [(NameLabel, Mongos)] = []" "noMongos (shardLabels i) = [plainPod ''pod-0'']"
  "noMongos [(Microservice, CnfNameKey)] = [plainPod ''pod-0'']"
  by (simp_all add: noMongos_def shardLabels_def NameLabel_def Microservice_def)

lemma canned_cluster_no_mongos:
  "GetClusterStatus [1, 0] (baseHelper (cannedKube noMongos statesAnswer)) ActiveMode ''cluster.local'' 3 3 1 True =
     ret (Down, Some (GoError ''pod list is empty''))"
  by (simp add: GetClusterStatus_def runTasks_def statusTask_def canned_GetReplicaSetStatus
      cnf_hosts.length_hosts data_hosts.length_hosts hasCnf_def channelFailed_def dataStatuses_def
      cnfStatusOf_def GetMongosPod_def canned_simps)

lemma cluster_status_error_is_mongos_witness:
  "\<exists>t. GetMongosPod (baseHelper (cannedKube noMongos statesAnswer)) t =
       (Ret (Inl (GoError ''pod list is empty'')), baseState ())"
proof -
  have "GetClusterStatus [1, 0] (baseHelper (cannedKube noMongos statesAnswer)) ActiveMode ''cluster.local'' 3 3 1 True
          (baseState ()) = (Ret (Down, Some (GoError ''pod list is empty'')), baseState ())"
    by (simp only: canned_cluster_no_mongos ret_apply)
  from cluster_status_error_is_mongos [OF this] show ?thesis by blast
qed

lemma cluster_verdict_mono_witness:
  "cnfHealth (shardedVerdict [Up, Down] Degraded) \<le> cnfHealth (shardedVerdict [Up, Degraded] Up)"
  by (rule cluster_verdict_mono) (simp_all add: dataHealth_def cnfHealth_def)

section \<open>Order of the goroutines\<close>

text \<open>When the replica sets answer without changing the state, the run only depends on the answers.\<close>

lemma runTasks_pure:
  assumes "\<And>i s. i \<in> set order \<Longrightarrow> task i s = (Ret (st i), s)"
  shows "runTasks order task n s =
    (Ret (Inr (map (\<lambda>i. (i, st i)) (filter (\<lambda>i. i < n) order),
               map (\<lambda>i. (0, st i)) (filter (\<lambda>i. \<not> i < n) order))), s)"
proof -
  have "forFold order (\<lambda>i (dataCh, cnfCh). andthen (task i) (\<lambda>st.
         ret (Inr (if i < n then (dataCh @ [(i, st)], cnfCh) else (dataCh, cnfCh @ [(0, st)]))
              :: unit + (rsstatus list \<times> rsstatus list)))) (d, c) s =
    (Ret (Inr (d @ map (\<lambda>i. (i, st i)) (filter (\<lambda>i. i < n) order),
               c @ map (\<lambda>i. (0, st i)) (filter (\<lambda>i. \<not> i < n) order))), s)" for d c
    using assms
  proof (induction order arbitrary: d c)
    case (Cons i order)
    then show ?case by (cases "i < n") (simp_all add: andthen_Ret)
  qed (simp add: ret_apply)
  then show ?thesis by (simp add: runTasks_def)
qed

text \<open>C15: the cluster status does not depend on the order in which the goroutines run.\<close>

theorem cluster_status_order_independent:
  assumes "validOrder cnf shards sharded order"
    and "\<And>i s. i \<in> set order \<Longrightarrow> statusTask r mode domain cnf dataSize shards i s = (Ret (st i), s)"
  shows "GetClusterStatus order r mode domain cnf dataSize shards sharded s =
         GetClusterStatus (clusterTasks cnf shards sharded) r mode domain cnf dataSize shards sharded s"
proof -
  let ?std = "clusterTasks cnf shards sharded"
  let ?d = "\<lambda>os. map (\<lambda>i. (i, st i)) (filter (\<lambda>i. i < shards) os)"
  let ?c = "\<lambda>os. map (\<lambda>i. (0::nat, st i)) (filter (\<lambda>i. \<not> i < shards) os)"
  have set_eq: "set order = set ?std" and dist: "distinct order" "distinct ?std"
    using assms(1) validOrder_tasks [of cnf shards sharded] by (simp_all add: validOrder_def)
  have run: "runTasks os (statusTask r mode domain cnf dataSize shards) shards s = (Ret (Inr (?d os, ?c os)), s)"
    if "set os = set ?std" for os
    by (rule runTasks_pure) (use assms(2) that set_eq in blast)
  have d: "dataStatuses shards (?d order) = dataStatuses shards (?d ?std)"
    by (rule dataStatuses_perm) (use set_eq dist in \<open>auto simp: o_def distinct_filter\<close>)
  have tasks: "filter (\<lambda>i. \<not> i < shards) os = (if hasCnf cnf sharded then [shards] else [])"
    if "set os = set ?std" "distinct os" for os
  proof -
    have "set (filter (\<lambda>i. \<not> i < shards) os) = (if hasCnf cnf sharded then {shards} else {})"
      using that by (auto simp: clusterTasks_def)
    moreover have "distinct (filter (\<lambda>i. \<not> i < shards) os)" using that by simp
    ultimately show ?thesis
      by (cases "filter (\<lambda>i. \<not> i < shards) os" rule: remdups_adj.cases) (auto split: if_splits)
  qed
  have c: "?c order = ?c ?std" using tasks set_eq dist by simp
  have f: "channelFailed (?d order) = channelFailed (?d ?std)"
    using set_eq by (auto simp: channelFailed_def list_ex_iff)
  show ?thesis
    unfolding GetClusterStatus_def using run [OF set_eq] run [OF refl]
    by (simp add: andthen_Ret d c f)
qed

lemma cluster_status_order_independent_witness:
  "GetClusterStatus [1, 0] (baseHelper (cannedKube allPods statesAnswer)) ActiveMode ''cluster.local'' 3 3 1 True (baseState ()) =
   GetClusterStatus (clusterTasks 3 1 True) (baseHelper (cannedKube allPods statesAnswer)) ActiveMode ''cluster.local'' 3 3 1 True (baseState ())"
  by (rule cluster_status_order_independent [OF validOrder_two, where st = "\<lambda>i. (Up, None)"])
    (simp add: statusTask_def canned_GetReplicaSetStatus allPods_def
      cnf_hosts.length_hosts data_hosts.length_hosts ret_apply)

section \<open>Replica set verdicts\<close>

lemma countState_le: "countState a xs + countState b xs \<le> length xs" if "a \<noteq> b"
  using that by (induction xs) (auto simp: countState_def)

lemma modes_distinct [simp]: "StandbyMode \<noteq> ActiveMode" "DisableMode \<noteq> ActiveMode" "StandbyMode \<noteq> DisableMode"
  "ActiveMode \<noteq> StandbyMode" "ActiveMode \<noteq> DisableMode" "DisableMode \<noteq> StandbyMode"
  by (simp_all add: ActiveMode_def StandbyMode_def DisableMode_def)

text \<open>An active replica set is up exactly when it has a primary and all other expected members are
  secondaries; it is down exactly when no member is primary.\<close>

theorem active_verdict_exact:
  "(replicaSetVerdict ActiveMode n states = Up \<longleftrightarrow>
     0 < countState ''PRIMARY'' states \<and> Suc (countState ''SECONDARY'' states) = n) \<and>
   (replicaSetVerdict ActiveMode n states = Down \<longleftrightarrow> countState ''PRIMARY'' states = 0)"
  by (auto simp: replicaSetVerdict_def Let_def)

text \<open>An arbiter is counted neither as primary nor as secondary, so an active replica set with one
  arbiter and all other members healthy is never up, only degraded, and so is a cluster without
  sharding that consists of it.\<close>

theorem arbiter_set_never_up:
  "replicaSetVerdict ActiveMode (k + 2) (''PRIMARY'' # ''ARBITER'' # replicate k ''SECONDARY'') = Degraded"
  by (simp add: replicaSetVerdict_def countState_def Let_def)

text \<open>One shard down with everything else up is reported degraded, the value the documentation gives
  to a cluster that is not ready, while it calls a cluster with a part of its components down \<^verbatim>\<open>down\<close>.\<close>

theorem partly_down_is_degraded:
  assumes "Down \<in> set data" "\<exists>d \<in> set data. d \<noteq> Down"
  shows "shardedVerdict data Up = Degraded"
proof -
  have "length (filter (\<lambda>d. d = Down) data) \<noteq> length data"
    using assms(2) by (auto simp: filter_full_length list_all_iff)
  moreover have "filter (\<lambda>d. d = Down) data \<noteq> []" using assms(1) by (auto simp: filter_empty_conv)
  ultimately show ?thesis by (simp add: shardedVerdict_def)
qed

lemma partly_down_is_degraded_witness: "shardedVerdict [Up, Down] Up = Degraded"
  by (rule partly_down_is_degraded) simp_all

section \<open>Values\<close>

text \<open>The status of a cluster is one of four texts.\<close>

definition statusValues :: "string set" where
  "statusValues = {Up, Down, Degraded, []}"

lemma statusValues_members [simp]: "Up \<in> statusValues" "Down \<in> statusValues" "Degraded \<in> statusValues" "[] \<in> statusValues"
  by (simp_all add: statusValues_def)

lemma verdict_values: "replicaSetVerdict mode n states \<in> statusValues" "shardedVerdict data cnf \<in> statusValues"
  by (simp_all add: replicaSetVerdict_def shardedVerdict_def Let_def)

lemma replica_set_status_values:
  "GetReplicaSetStatus r labels hosts mode s = (Ret (st, err), s') \<Longrightarrow> st \<in> statusValues"
  using verdict_values(1)
  by (auto simp: GetReplicaSetStatus_def Let_def elim!: andthen_RetE split: sum.splits option.splits prod.splits)

lemma task_status_values:
  "statusTask r mode dm cnf dataSize shards i s = (Ret (st, err), s') \<Longrightarrow> st \<in> statusValues"
  by (auto simp: statusTask_def dest: replica_set_status_values split: if_splits)

lemma dataStatuses_values:
  assumes "\<forall>(i, st, err) \<in> set ch. st \<in> statusValues"
  shows "set (dataStatuses n ch) \<subseteq> statusValues"
proof -
  have "set (foldl (\<lambda>xs (i, st, err). xs[i := st]) xs ch) \<subseteq> statusValues" if "set xs \<subseteq> statusValues" for xs
    using assms that
  proof (induction ch arbitrary: xs)
    case (Cons x ch)
    obtain i st err where x: "x = (i, st, err)" by (cases x) auto
    have "set (xs[i := st]) \<subseteq> statusValues" using Cons.prems x set_update_subset_insert [of xs i st] by auto
    then show ?case using Cons x by simp
  qed simp
  moreover have "set (replicate n []) \<subseteq> statusValues" by auto
  ultimately show ?thesis unfolding dataStatuses_def by blast
qed

lemma cluster_status_values:
  assumes "GetClusterStatus order r mode dm cnf dataSize shards sharded s = (Ret (st, err), s')"
  shows "st \<in> statusValues"
proof -
  let ?P = "\<lambda>(d, c) s. \<forall>(i, st, err) \<in> set (d :: rsstatus list). st \<in> statusValues"
  obtain x t where run: "runTasks order (statusTask r mode dm cnf dataSize shards) shards s = (Ret x, t)"
    and rest: "(case x of Inl _ \<Rightarrow> ret ([], None) | Inr (dataCh, cnfCh) \<Rightarrow>
         if channelFailed dataCh then ret (Down, None)
         else if hasCnf cnf sharded \<and> channelFailed cnfCh then ret (Down, None)
         else (let dataStatus = dataStatuses shards dataCh; cnfStatus = cnfStatusOf cnfCh in
            if sharded then
              (if mode = ActiveMode then
                 andthen (GetMongosPod r) (\<lambda>m. case m of
                   Inl err \<Rightarrow> ret (Down, Some err)
                 | Inr pod \<Rightarrow> if pod_phase pod \<noteq> PodRunning then ret (Down, None)
                              else ret (shardedVerdict dataStatus cnfStatus, None))
               else ret (shardedVerdict dataStatus cnfStatus, None))
            else andthen (nth_or_panic dataStatus 0) (\<lambda>st. ret (st, None)))) t = (Ret (st, err), s')"
    using assms unfolding GetClusterStatus_def by (elim andthen_RetE) blast
  have inv: "case x of Inl e \<Rightarrow> True | Inr a \<Rightarrow> ?P a t"
    by (rule forFold_invariant [OF run [unfolded runTasks_def], where P = ?P and Q = "\<lambda>e s. True"])
      (auto elim!: andthen_RetE dest: task_status_values split: if_splits)
  show ?thesis
  proof (cases x)
    case (Inl e)
    then show ?thesis using rest by simp
  next
    case (Inr a)
    obtain dataCh cnfCh where a: "a = (dataCh, cnfCh)" by fastforce
    have "set (dataStatuses shards dataCh) \<subseteq> statusValues" using inv Inr a by (intro dataStatuses_values) auto
    then have nth: "dataStatuses shards dataCh ! 0 \<in> statusValues" if "0 < length (dataStatuses shards dataCh)"
      using nth_mem [OF that] by blast
    show ?thesis using rest Inr a verdict_values(2) nth
      by (auto simp: Let_def nth_or_panic_def elim!: andthen_RetE split: if_splits sum.splits)
  qed
qed

lemma status_values_plain: "st \<in> statusValues \<Longrightarrow> list_all plain_char st"
  by (auto simp: statusValues_def Up_def Down_def Degraded_def plain_char_def)

end
