(* ===== verification/Distribution.thy ===== *)
theory Distribution
  imports Env
begin

text \<open>
  How the replicas of a shard are spread over the persistent volumes and their nodes:
  \<^verbatim>\<open>ElementsDistribution\<close> and its helpers in \<^verbatim>\<open>src/operator/pkg/utils/utils.go\<close>.

  The volumes are a row of \<^verbatim>\<open>pv\<close> elements.  A shard that needs fewer replicas drops pairs of elements that
  mirror each other, the most loaded first, so that the middle of the row is always kept.  The lemmas show
  which elements are left, hence for which sizes every replica gets an element of its own, and for which
  sizes the code indexes out of range.

  Functions of the operator core library are fields of \<^verbatim>\<open>core_lib\<close>; their documented meaning is
  \<^verbatim>\<open>core_laws\<close>.  A Go map is iterated in the order of its list.
\<close>

section \<open>The core library\<close>

record core_lib =
  ContainsInt :: "int list \<Rightarrow> int \<Rightarrow> bool"
  MaxInt :: "int \<Rightarrow> int \<Rightarrow> int"
  ConcatMaps :: "smap \<Rightarrow> smap \<Rightarrow> smap"

definition core_laws :: "core_lib \<Rightarrow> bool" where
  "core_laws cl = ((\<forall>xs x. ContainsInt cl xs x = (x \<in> set xs)) \<and> (\<forall>a b. MaxInt cl a b = max a b) \<and>
     (\<forall>a b k. map_of (ConcatMaps cl a b) k = (map_of a ++ map_of b) k))"

lemma core_lawsD:
  assumes "core_laws cl"
  shows "ContainsInt cl xs x \<longleftrightarrow> x \<in> set xs" "MaxInt cl a b = max a b"
    "map_of (ConcatMaps cl m n) = map_of m ++ map_of n"
  using assms by (auto simp: core_laws_def)

section \<open>The functions of the code\<close>

definition maxStep :: "core_lib \<Rightarrow> int list \<Rightarrow> int list \<Rightarrow> int \<times> int \<Rightarrow> nat \<Rightarrow> int \<times> int" where
  "maxStep cl weights poped acc x =
     (let (max_index, max_weight) = acc in
      if \<not> ContainsInt cl poped (int x) \<and> weights ! x > max_weight then (int x, weights ! x)
      else (max_index, max_weight))"

definition max_index :: "core_lib \<Rightarrow> int list \<Rightarrow> int list \<Rightarrow> nat \<Rightarrow> int" where
  "max_index cl weights poped shard_size =
     fst (foldl (maxStep cl weights poped) (-1, -1)
       (if shard_size \<noteq> 1 then [0..<length weights] else rev [0..<length weights]))"

text \<open>\<^verbatim>\<open>make\<close> with a negative length panics.\<close>

definition intArrWithValues :: "int \<Rightarrow> int \<Rightarrow> ('s, int list) op" where
  "intArrWithValues n v =
     (if n < 0 then panic (RuntimeError ''makeslice: len out of range'') else ret (replicate (nat n) v))"

definition GetDummyPvcMap :: "string list \<Rightarrow> smap list" where
  "GetDummyPvcMap pvcNames = map (\<lambda>pvc. [(KubeHostName, pvc)]) pvcNames"

definition getMapKeys :: "smap \<Rightarrow> string list" where
  "getMapKeys m = map fst m"

definition getMapValues :: "smap \<Rightarrow> string list" where
  "getMapValues m = map snd m"

text \<open>\<^verbatim>\<open>xs[i] = v\<close>.\<close>

definition setAt :: "int \<Rightarrow> 'a \<Rightarrow> 'a list \<Rightarrow> ('s, 'a list) op" where
  "setAt i v xs = (if 0 \<le> i \<and> i < int (length xs) then ret (xs[nat i := v]) else panic index_out_of_range)"

text \<open>A loop that fills a list.\<close>

fun forMap :: "'a list \<Rightarrow> ('a \<Rightarrow> ('s, 'b) op) \<Rightarrow> ('s, 'b list) op" where
  "forMap [] f = ret []"
| "forMap (x # xs) f = andthen (f x) (\<lambda>y. andthen (forMap xs f) (\<lambda>ys. ret (y # ys)))"

text \<open>One round of the inner loop: drop the most loaded pair that is left.\<close>

definition popPair :: "core_lib \<Rightarrow> int list \<Rightarrow> nat \<Rightarrow> nat \<Rightarrow> int list \<times> string list
    \<Rightarrow> ('s, unit + int list \<times> string list) op" where
  "popPair cl weights shard_size node acc =
     (let (poped, nodes) = acc; pop_index = max_index cl weights poped shard_size in
      andthen (setAt (int node) pop_index poped) (\<lambda>poped.
      andthen (setAt pop_index [] nodes) (\<lambda>nodes.
      andthen (setAt (int (length nodes) - 1 - pop_index) [] nodes) (\<lambda>nodes.
      ret (Inr (poped, nodes))))))"

definition addWeights :: "core_lib \<Rightarrow> int list \<Rightarrow> int list \<Rightarrow> int list" where
  "addWeights cl poped weights =
     map (\<lambda>i. if ContainsInt cl poped (int i) then weights ! i else weights ! i + 1) [0..<length weights]"

definition distributeShard :: "core_lib \<Rightarrow> smap list \<Rightarrow> int \<Rightarrow> nat \<Rightarrow> int list \<times> string list list
    \<Rightarrow> ('s, unit + int list \<times> string list list) op" where
  "distributeShard cl pv_nodes extra_nodes shard_size acc =
     (let (weights, result) = acc in
      andthen (forMap pv_nodes (\<lambda>m. nth_or_panic (getMapValues m) 0)) (\<lambda>shard_nodes.
      andthen (intArrWithValues extra_nodes (-1)) (\<lambda>poped.
      andthen (forFold (upto_int extra_nodes) (popPair cl weights shard_size) (poped, shard_nodes)) (\<lambda>x. case x of
        Inl u \<Rightarrow> ret (Inl u)
      | Inr (poped, nodes) \<Rightarrow> ret (Inr (addWeights cl poped weights, result @ [filter (\<lambda>n. n \<noteq> []) nodes]))))))"

definition ElementsDistribution :: "core_lib \<Rightarrow> smap list \<Rightarrow> nat \<Rightarrow> nat \<Rightarrow> nat \<Rightarrow> nat \<Rightarrow> ('s, string \<times> string) op" where
  "ElementsDistribution cl elements replicasCount replicaNum shardsCount shardNum =
     (let pv_length_side = (length elements - 1) div 2;
          repl_size_side = (replicasCount - 1) div 2;
          extra_nodes = int pv_length_side - int repl_size_side
      in andthen (forFold [0..<shardsCount] (\<lambda>shard. distributeShard cl elements extra_nodes shardsCount)
           (replicate pv_length_side 0, [])) (\<lambda>x. case x of
           Inl u \<Rightarrow> ret ([], [])
         | Inr (weights, result) \<Rightarrow>
             andthen (nth_or_panic elements replicaNum) (\<lambda>m.
             andthen (nth_or_panic (getMapKeys m) 0) (\<lambda>key.
             andthen (nth_or_panic result shardNum) (\<lambda>row.
             andthen (nth_or_panic row replicaNum) (\<lambda>value. ret (key, value)))))))"

definition MongoReplicaNodeSelector :: "core_lib \<Rightarrow> smap list \<Rightarrow> nat \<Rightarrow> nat \<Rightarrow> nat \<Rightarrow> nat \<Rightarrow> ('s, smap) op" where
  "MongoReplicaNodeSelector cl elements replicasCount replicaNum shardsCount shardNum =
     (if length elements < 1 then ret []
      else andthen (ElementsDistribution cl elements replicasCount replicaNum shardsCount shardNum) (\<lambda>(labelKey, labelValue).
           ret [(labelKey, labelValue)]))"

section \<open>Loops that always succeed\<close>

lemma forFold_total:
  assumes "J 0 acc"
    and "\<And>k acc. k < length xs \<Longrightarrow> J k acc \<Longrightarrow> \<exists>acc'. body (xs ! k) acc = ret (Inr acc') \<and> J (Suc k) acc'"
  shows "\<exists>acc'. forFold xs body acc = ret (Inr acc') \<and> J (length xs) acc'"
  using assms
proof (induction xs arbitrary: acc J)
  case (Cons x xs)
  obtain a where a: "body x acc = ret (Inr a)" "J (Suc 0) a" using Cons.prems(1) Cons.prems(2) [of 0] by auto
  have "\<exists>acc'. forFold xs body a = ret (Inr acc') \<and> J (Suc (length xs)) acc'"
    by (rule Cons.IH [where J = "\<lambda>k. J (Suc k)"]) (use a(2) Cons.prems(2) in \<open>force+\<close>)
  then show ?case using a(1) by simp
next
  case Nil
  then show ?case by (intro exI [of _ acc]) simp
qed

lemma forMap_total:
  "(\<And>x. x \<in> set xs \<Longrightarrow> f x = ret (g x)) \<Longrightarrow> forMap xs f = ret (map g xs)"
  by (induction xs) simp_all

section \<open>The most loaded pair\<close>

lemma maxStep_eq:
  "core_laws cl \<Longrightarrow> maxStep cl weights poped (mi, mw) x =
     (if int x \<notin> set poped \<and> weights ! x > mw then (int x, weights ! x) else (mi, mw))"
  by (simp add: maxStep_def core_lawsD)

lemma scan_range:
  assumes "core_laws cl"
  shows "fst (foldl (maxStep cl weights poped) (mi, mw) xs) = mi \<or>
     fst (foldl (maxStep cl weights poped) (mi, mw) xs) \<in> int ` set xs - set poped"
proof (induction xs arbitrary: mi mw)
  case (Cons x xs)
  show ?case using Cons.IH [of "int x" "weights ! x"] Cons.IH [of mi mw]
    by (auto simp: maxStep_eq [OF assms])
qed simp

lemma scan_found:
  assumes "core_laws cl"
  shows "0 \<le> mi \<or> (\<exists>x \<in> set xs. int x \<notin> set poped \<and> weights ! x > mw) \<Longrightarrow>
     0 \<le> fst (foldl (maxStep cl weights poped) (mi, mw) xs)"
proof (induction xs arbitrary: mi mw)
  case (Cons x xs)
  then show ?case by (auto simp: maxStep_eq [OF assms])
qed simp

text \<open>While an index is left the scan finds one.\<close>

lemma max_index_found:
  assumes "core_laws cl" "\<forall>w \<in> set weights. 0 \<le> w" "y < length weights" "int y \<notin> set poped"
  shows "0 \<le> max_index cl weights poped n \<and> max_index cl weights poped n < int (length weights) \<and>
         max_index cl weights poped n \<notin> set poped"
proof -
  let ?xs = "if n \<noteq> 1 then [0..<length weights] else rev [0..<length weights]"
  have set: "set ?xs = {0..<length weights}" by auto
  have "weights ! y > -1" using assms(2,3) by (meson less_le_trans neg_less_0_iff_less nth_mem zero_less_one)
  then have "0 \<le> max_index cl weights poped n"
    unfolding max_index_def by (intro scan_found [OF assms(1)]) (use assms(3,4) in auto)
  moreover have "max_index cl weights poped n = -1 \<or> max_index cl weights poped n \<in> int ` {0..<length weights} - set poped"
    unfolding max_index_def set [symmetric] by (rule scan_range [OF assms(1)])
  ultimately show ?thesis by auto
qed

section \<open>What is left of the row\<close>

definition removed :: "int set \<Rightarrow> nat \<Rightarrow> nat \<Rightarrow> bool" where
  "removed P n j = (int j \<in> P \<or> int n - 1 - int j \<in> P)"

definition popInv :: "nat \<Rightarrow> nat \<Rightarrow> string list \<Rightarrow> nat \<Rightarrow> int list \<times> string list \<Rightarrow> bool" where
  "popInv side extra vals k acc = (case acc of (poped, nodes) \<Rightarrow>
     length poped = extra \<and> distinct (take k poped) \<and> set (take k poped) \<subseteq> {0..<int side} \<and>
     drop k poped = replicate (extra - k) (-1) \<and>
     nodes = map (\<lambda>j. if removed (set (take k poped)) (length vals) j then [] else vals ! j) [0..<length vals])"

lemma popInv_start: "popInv side extra vals 0 (replicate extra (-1), vals)"
  by (simp add: popInv_def removed_def map_nth)

lemma popInv_members:
  assumes "popInv side extra vals k (poped, nodes)" "0 \<le> x"
  shows "x \<in> set poped \<longleftrightarrow> x \<in> set (take k poped)"
proof -
  have "set poped = set (take k poped) \<union> set (drop k poped)" by (metis append_take_drop_id set_append)
  moreover have "x \<notin> set (drop k poped)" using assms by (auto simp: popInv_def)
  ultimately show ?thesis by auto
qed

text \<open>While fewer than \<^verbatim>\<open>side\<close> pairs are dropped there is one left.\<close>

lemma popInv_index_left:
  assumes "popInv side extra vals k (poped, nodes)" "k < side"
  shows "\<exists>y < side. int y \<notin> set poped"
proof (rule ccontr)
  assume "\<not> ?thesis"
  then have "int ` {0..<side} \<subseteq> set (take k poped)" using popInv_members [OF assms(1)] by auto
  then have "card (int ` {0..<side}) \<le> card (set (take k poped))" by (rule card_mono [rotated]) simp
  also have "\<dots> \<le> k" using card_length [of "take k poped"] by simp
  finally show False using assms(2) by (simp add: card_image)
qed

lemma drop_pair:
  assumes "p < n" "n = length vals" "2 * side < n" "p < side"
  shows "(map (\<lambda>j. if removed P n j then [] else vals ! j) [0..<n]) [p := [], n - 1 - p := []] =
         map (\<lambda>j. if removed (insert (int p) P) n j then [] else vals ! j) [0..<n]"
  by (rule nth_equalityI) (use assms in \<open>auto simp: nth_list_update removed_def\<close>)

lemma popPair_step:
  assumes "core_laws cl" "popInv side extra vals k (poped, nodes)" "k < extra" "extra \<le> side"
    and "length weights = side" "\<forall>w \<in> set weights. 0 \<le> w" "2 * side < length vals"
  shows "\<exists>acc'. popPair cl weights n k (poped, nodes) = ret (Inr acc') \<and> popInv side extra vals (Suc k) acc'"
proof -
  define p where "p = max_index cl weights poped n"
  obtain y where "y < side" "int y \<notin> set poped"
    using popInv_index_left [OF assms(2)] assms(3,4) by auto
  then have p: "0 \<le> p" "p < int side" "p \<notin> set poped"
    using max_index_found [OF assms(1,6), of y poped n] assms(5) by (auto simp: p_def)
  have inv: "length poped = extra" "distinct (take k poped)" "set (take k poped) \<subseteq> {0..<int side}"
    "drop k poped = replicate (extra - k) (-1)"
    "nodes = map (\<lambda>j. if removed (set (take k poped)) (length vals) j then [] else vals ! j) [0..<length vals]"
    using assms(2) by (auto simp: popInv_def)
  let ?poped = "poped[k := p]"
  let ?nodes = "nodes[nat p := [], length vals - 1 - nat p := []]"
  have len: "length nodes = length vals" using inv(5) by simp
  have run: "popPair cl weights n k (poped, nodes) = ret (Inr (?poped, ?nodes))"
  proof -
    have "nat (int (length vals) - 1 - p) = length vals - 1 - nat p" using p(1) by linarith
    moreover have "0 \<le> int (length vals) - 1 - p" "p < int (length vals)" using p assms(7) by linarith+
    ultimately show ?thesis using p(1) assms(3) inv(1) len
      by (simp add: popPair_def p_def [symmetric] setAt_def)
  qed
  have take: "take (Suc k) ?poped = take k poped @ [p]"
    using assms(3) inv(1) by (simp add: take_Suc_conv_app_nth)
  have "drop (Suc k) ?poped = tl (drop k poped)" by (simp add: drop_update_cancel) (simp add: drop_Suc tl_drop)
  also have "\<dots> = replicate (extra - Suc k) (-1)" using inv(4) assms(3)
    by (metis Suc_diff_Suc replicate_Suc list.sel(3))
  finally have drop: "drop (Suc k) ?poped = replicate (extra - Suc k) (-1)" .
  have "?nodes = map (\<lambda>j. if removed (insert (int (nat p)) (set (take k poped))) (length vals) j then [] else vals ! j) [0..<length vals]"
    unfolding inv(5) by (rule drop_pair [where side = side]) (use p assms(7) in auto)
  then have "popInv side extra vals (Suc k) (?poped, ?nodes)"
    using inv(1-3) p take drop popInv_members [OF assms(2) p(1)] by (simp add: popInv_def)
  then show ?thesis using run by blast
qed

text \<open>The row of a shard: the elements at increasing positions, symmetric about the middle of the row, which is
  among them.\<close>

definition rowOK :: "nat \<Rightarrow> nat \<Rightarrow> string list \<Rightarrow> string list \<Rightarrow> bool" where
  "rowOK side extra vals row = (\<exists>js. sorted_wrt (<) js \<and> set js \<subseteq> {0..<length vals} \<and>
     {side..<length vals - side} \<subseteq> set js \<and> (\<forall>j \<in> set js. length vals - 1 - j \<in> set js) \<and>
     length js = length vals - 2 * extra \<and> row = map ((!) vals) js)"

lemma card_removed:
  assumes "P \<subseteq> {0..<int side}" "2 * side < n"
  shows "card {j \<in> {0..<n}. removed P n j} = 2 * card P"
proof -
  have fin: "finite P" using assms(1) finite_subset by blast
  have split: "{j \<in> {0..<n}. removed P n j} = nat ` P \<union> (\<lambda>p. n - 1 - nat p) ` P"
  proof -
    have "j \<in> (\<lambda>p. n - 1 - nat p) ` P" if "int n - 1 - int j \<in> P" "j < n" for j
      using that by (intro image_eqI [of _ _ "int n - 1 - int j"]) (auto simp: nat_diff_distrib')
    moreover have "j \<in> nat ` P" if "int j \<in> P" for j using that by (intro image_eqI [of _ _ "int j"]) auto
    moreover have "nat p < n" "int (nat p) \<in> P" "n - 1 - nat p < n" "int n - 1 - int (n - 1 - nat p) \<in> P" if "p \<in> P" for p
      using that assms by (auto simp: of_nat_diff subset_iff)
    ultimately show ?thesis by (auto simp: removed_def)
  qed
  have "inj_on nat P" using assms(1) by (auto simp: inj_on_def subset_iff) (metis nat_eq_iff)
  moreover have "inj_on (\<lambda>p. n - 1 - nat p) P"
  proof (rule inj_onI)
    fix x y assume "x \<in> P" "y \<in> P" and eq: "n - 1 - nat x = n - 1 - nat y"
    then have "0 \<le> x" "x < int side" "0 \<le> y" "y < int side" using assms(1) by auto
    then show "x = y" using eq assms(2) by linarith
  qed
  moreover have "nat ` P \<inter> (\<lambda>p. n - 1 - nat p) ` P = {}"
  proof -
    have "nat x \<noteq> n - 1 - nat y" if "x \<in> P" "y \<in> P" for x y
    proof -
      have "0 \<le> x" "x < int side" "0 \<le> y" "y < int side" using assms(1) that by auto
      then show ?thesis using assms(2) by linarith
    qed
    then show ?thesis by blast
  qed
  ultimately show ?thesis unfolding split using fin by (simp add: card_Un_disjoint card_image)
qed

lemma sorted_filter_upt: "sorted_wrt (<) (filter Q [0..<n])"
  by (induction n) (auto simp: sorted_wrt_append)

lemma popInv_row:
  assumes "popInv side extra vals extra (poped, nodes)" "2 * side < length vals" "[] \<notin> set vals"
  shows "rowOK side extra vals (filter (\<lambda>n. n \<noteq> []) nodes)"
proof -
  let ?P = "set (take extra poped)"
  let ?js = "filter (\<lambda>j. \<not> removed ?P (length vals) j) [0..<length vals]"
  have inv: "length poped = extra" "distinct (take extra poped)" "?P \<subseteq> {0..<int side}"
    "nodes = map (\<lambda>j. if removed ?P (length vals) j then [] else vals ! j) [0..<length vals]"
    using assms(1) by (auto simp: popInv_def)
  have "filter (\<lambda>n. n \<noteq> []) (map (\<lambda>j. if removed ?P (length vals) j then [] else vals ! j) xs) =
        map ((!) vals) (filter (\<lambda>j. \<not> removed ?P (length vals) j) xs)" if "set xs \<subseteq> {0..<length vals}" for xs
    using that assms(3) by (induction xs) (auto, metis nth_mem)
  then have row: "filter (\<lambda>n. n \<noteq> []) nodes = map ((!) vals) ?js" unfolding inv(4) by simp
  have "card ?P = extra" using inv(1,2) by (simp add: distinct_card)
  moreover have "length ?js = card {j \<in> {0..<length vals}. \<not> removed ?P (length vals) j}"
    by (simp add: distinct_length_filter Int_def conj_commute)
  moreover have "{j \<in> {0..<length vals}. \<not> removed ?P (length vals) j} = {0..<length vals} - {j \<in> {0..<length vals}. removed ?P (length vals) j}"
    by auto
  ultimately have len: "length ?js = length vals - 2 * extra"
    using card_removed [OF inv(3) assms(2)] by (simp add: card_Diff_subset [where A = "{0..<length vals}"] subset_iff)
  have "{side..<length vals - side} \<subseteq> set ?js"
    using inv(3) assms(2) by (fastforce simp: removed_def subset_iff)
  moreover have "\<forall>j \<in> set ?js. length vals - 1 - j \<in> set ?js"
    by (auto simp: removed_def of_nat_diff diff_diff_eq)
  ultimately show ?thesis unfolding rowOK_def row using len sorted_filter_upt
    by (intro exI [of _ ?js]) auto
qed

section \<open>The whole distribution\<close>

text \<open>The elements the operator passes: maps whose first entry has a value.\<close>

definition goodElements :: "smap list \<Rightarrow> bool" where
  "goodElements elements = list_all (\<lambda>m. m \<noteq> [] \<and> snd (hd m) \<noteq> []) elements"

definition firstValues :: "smap list \<Rightarrow> string list" where
  "firstValues elements = map (\<lambda>m. snd (hd m)) elements"

lemma goodElements_values:
  assumes "goodElements elements"
  shows "forMap elements (\<lambda>m. nth_or_panic (getMapValues m) 0) = ret (firstValues elements)" "[] \<notin> set (firstValues elements)"
proof -
  have "nth_or_panic (getMapValues m) 0 = ret (snd (hd m))" if "m \<in> set elements" for m :: smap
    using assms that by (cases m) (auto simp: goodElements_def getMapValues_def list_all_iff)
  then show "forMap elements (\<lambda>m. nth_or_panic (getMapValues m) 0) = ret (firstValues elements)"
    unfolding firstValues_def by (rule forMap_total)
  show "[] \<notin> set (firstValues elements)" using assms by (auto simp: goodElements_def firstValues_def list_all_iff)
qed

definition weightsOK :: "nat \<Rightarrow> int list \<Rightarrow> bool" where
  "weightsOK side weights = (length weights = side \<and> (\<forall>w \<in> set weights. 0 \<le> w))"

lemma weightsOK_add: "weightsOK side weights \<Longrightarrow> weightsOK side (addWeights cl poped weights)"
  by (auto simp: weightsOK_def addWeights_def)

lemma distributeShard_ok:
  assumes "core_laws cl" "goodElements elements" "weightsOK side weights" "extra \<le> side" "2 * side < length elements"
  shows "\<exists>weights' row. distributeShard cl elements (int extra) n (weights, result) =
       (ret (Inr (weights', result @ [row])) :: ('s, _) op) \<and> weightsOK side weights' \<and> rowOK side extra (firstValues elements) row"
proof -
  let ?vals = "firstValues elements"
  have len: "length ?vals = length elements" by (simp add: firstValues_def)
  have "\<exists>acc. forFold (upto_int (int extra)) (popPair cl weights n) (replicate extra (-1), ?vals) = (ret (Inr acc) :: ('s, _) op) \<and>
      popInv side extra ?vals (length (upto_int (int extra))) acc"
  proof (rule forFold_total)
    fix k acc assume k: "k < length (upto_int (int extra))" "popInv side extra ?vals k acc"
    obtain poped nodes where acc: "acc = (poped, nodes)" by force
    have "k < extra" "upto_int (int extra) ! k = k" using k(1) by simp_all
    moreover have "length weights = side" "\<forall>w \<in> set weights. 0 \<le> w" "2 * side < length ?vals"
      using assms(3,5) len by (simp_all add: weightsOK_def)
    ultimately show "\<exists>acc'. popPair cl weights n (upto_int (int extra) ! k) acc = (ret (Inr acc') :: ('s, _) op) \<and> popInv side extra ?vals (Suc k) acc'"
      using popPair_step [OF assms(1) k(2) [unfolded acc] _ assms(4), of weights n] acc by simp
  qed (rule popInv_start)
  then obtain poped nodes where run: "forFold (upto_int (int extra)) (popPair cl weights n) (replicate extra (-1), ?vals) = (ret (Inr (poped, nodes)) :: ('s, _) op)"
    and inv: "popInv side extra ?vals extra (poped, nodes)" by auto
  have "distributeShard cl elements (int extra) n (weights, result) =
      (ret (Inr (addWeights cl poped weights, result @ [filter (\<lambda>n. n \<noteq> []) nodes])) :: ('s, _) op)"
    by (simp add: distributeShard_def goodElements_values [OF assms(2)] intArrWithValues_def run)
  then show ?thesis
    using weightsOK_add [OF assms(3)] popInv_row [OF inv] assms(5) len goodElements_values(2) [OF assms(2)] by auto
qed

lemma distribution_rows:
  assumes "core_laws cl" "goodElements elements" "extra \<le> side" "2 * side < length elements"
  shows "\<exists>weights result. forFold [0..<n] (\<lambda>shard. distributeShard cl elements (int extra) n) (replicate side 0, []) =
       (ret (Inr (weights, result)) :: ('s, _) op) \<and>
     length result = n \<and> (\<forall>row \<in> set result. rowOK side extra (firstValues elements) row)"
proof -
  let ?J = "\<lambda>k (weights, result). weightsOK side weights \<and> length result = k \<and>
     (\<forall>row \<in> set result. rowOK side extra (firstValues elements) row)"
  have "\<exists>acc. forFold [0..<n] (\<lambda>shard. distributeShard cl elements (int extra) n) (replicate side 0, []) = (ret (Inr acc) :: ('s, _) op) \<and>
      ?J (length [0..<n]) acc"
  proof (rule forFold_total)
    fix k acc assume k: "k < length [0..<n]" "?J k acc"
    obtain weights result where acc: "acc = (weights, result)" by force
    then obtain weights' row where
      "distributeShard cl elements (int extra) n acc = (ret (Inr (weights', result @ [row])) :: ('s, _) op)"
      "weightsOK side weights'" "rowOK side extra (firstValues elements) row"
      using distributeShard_ok [OF assms(1,2) _ assms(3,4), of weights n result] k(2) by auto
    then show "\<exists>acc'. distributeShard cl elements (int extra) n acc = (ret (Inr acc') :: ('s, _) op) \<and> ?J (Suc k) acc'"
      using k(2) acc by (intro exI [of _ "(weights', result @ [row])"]) auto
  qed (auto simp: weightsOK_def)
  then show ?thesis by auto
qed

text \<open>The value of the distribution, for every replica of one shard.\<close>

lemma distribution_value:
  assumes "core_laws cl" "goodElements elements" "2 * side < length elements" "extra \<le> side" "sh < shards"
    and side: "side = (length elements - 1) div 2" and repl: "side = extra + (repl - 1) div 2"
  shows "\<exists>row. rowOK side extra (firstValues elements) row \<and>
     (\<forall>i < length elements. ElementsDistribution cl elements repl i shards sh =
        (andthen (nth_or_panic row i) (\<lambda>value. ret (fst (hd (elements ! i)), value)) :: ('s, _) op))"
proof -
  have extra: "int side - int ((repl - 1) div 2) = int extra" using repl by simp
  obtain weights result where run: "forFold [0..<shards] (\<lambda>shard. distributeShard cl elements (int extra) shards) (replicate side 0, []) =
      (ret (Inr (weights, result)) :: ('s, _) op)"
    and rows: "length result = shards" "\<forall>row \<in> set result. rowOK side extra (firstValues elements) row"
    using distribution_rows [OF assms(1,2,4,3), of shards] by auto
  have "ElementsDistribution cl elements repl i shards sh =
     (andthen (nth_or_panic (result ! sh) i) (\<lambda>value. ret (fst (hd (elements ! i)), value)) :: ('s, _) op)" if i: "i < length elements" for i
  proof -
    have "elements ! i \<noteq> []" using assms(2) i by (auto simp: goodElements_def list_all_length)
    then have "nth_or_panic (getMapKeys (elements ! i)) 0 = (ret (fst (hd (elements ! i))) :: ('s, _) op)"
      by (cases "elements ! i") (simp_all add: getMapKeys_def)
    then show ?thesis using i assms(5) rows(1)
      unfolding ElementsDistribution_def Let_def side [symmetric] extra run by simp
  qed
  then show ?thesis using rows assms(5) by (intro exI [of _ "result ! sh"]) auto
qed

text \<open>Odd sizes: one symmetric row of increasing positions serves all replicas of a shard.\<close>

lemma symmetric_placement:
  assumes "core_laws cl" "goodElements elements" "odd (length elements)" "odd repl" "repl \<le> length elements" "sh < shards"
  shows "\<exists>js. length js = repl \<and> sorted_wrt (<) js \<and> set js \<subseteq> {0..<length elements} \<and>
     (\<forall>j \<in> set js. length elements - 1 - j \<in> set js) \<and>
     (\<forall>i < repl. ElementsDistribution cl elements repl i shards sh =
        (ret (fst (hd (elements ! i)), snd (hd (elements ! (js ! i)))) :: ('s, _) op))"
proof -
  let ?side = "(length elements - 1) div 2"
  let ?extra = "?side - (repl - 1) div 2"
  have size: "length elements = Suc (2 * ?side)" "repl = Suc (2 * ((repl - 1) div 2))" using assms(3,4) by presburger+
  then have le: "(repl - 1) div 2 \<le> ?side" using assms(5) by linarith
  then have sizes: "2 * ?side < length elements" "?extra \<le> ?side" "?side = ?extra + (repl - 1) div 2" using size by linarith+
  obtain row where row: "rowOK ?side ?extra (firstValues elements) row"
    and run: "\<forall>i < length elements. ElementsDistribution cl elements repl i shards sh =
        (andthen (nth_or_panic row i) (\<lambda>value. ret (fst (hd (elements ! i)), value)) :: ('s, _) op)"
    using distribution_value [OF assms(1,2) sizes(1,2) assms(6) refl sizes(3)] by blast
  then obtain js where js: "sorted_wrt (<) js" "set js \<subseteq> {0..<length elements}" "length js = length elements - 2 * ?extra"
    "row = map ((!) (firstValues elements)) js" "\<forall>j \<in> set js. length elements - 1 - j \<in> set js"
    by (auto simp: rowOK_def firstValues_def)
  have len: "length js = repl" using js(3) size le by linarith
  have "ElementsDistribution cl elements repl i shards sh = (ret (fst (hd (elements ! i)), snd (hd (elements ! (js ! i)))) :: ('s, _) op)"
    if "i < repl" for i
  proof -
    have "js ! i < length elements" using js(2) len that by (metis atLeastLessThan_iff nth_mem subsetD)
    then show ?thesis using run that assms(5) js(4) len by (simp add: firstValues_def)
  qed
  then show ?thesis using js(1,2,5) len by blast
qed

lemma odd_placement:
  assumes "core_laws cl" "goodElements elements" "odd (length elements)" "odd repl" "repl \<le> length elements" "sh < shards"
  shows "\<exists>js. length js = repl \<and> sorted_wrt (<) js \<and> set js \<subseteq> {0..<length elements} \<and>
     (\<forall>i < repl. ElementsDistribution cl elements repl i shards sh =
        (ret (fst (hd (elements ! i)), snd (hd (elements ! (js ! i)))) :: ('s, _) op))"
  using symmetric_placement [OF assms] by blast

text \<open>With as many replicas as elements, replica and element agree; with fewer, some replica sits elsewhere.\<close>

lemma sorted_positions_full:
  assumes "sorted_wrt (<) js" "set js \<subseteq> {0..<n}" "length js = n"
  shows "js = [0..<n]"
proof (rule sorted_distinct_set_unique)
  show "sorted js" "distinct js" using assms(1) by (simp_all add: strict_sorted_iff)
  then show "set js = set [0..<n]" using assms(2,3) by (auto simp: card_subset_eq distinct_card)
qed simp_all

lemma full_placement:
  assumes "core_laws cl" "goodElements elements" "odd (length elements)" "sh < shards" "i < length elements"
  shows "ElementsDistribution cl elements (length elements) i shards sh =
     (ret (fst (hd (elements ! i)), snd (hd (elements ! i))) :: ('s, _) op)"
proof -
  obtain js where "length js = length elements" "sorted_wrt (<) js" "set js \<subseteq> {0..<length elements}"
    and run: "\<forall>i < length elements. ElementsDistribution cl elements (length elements) i shards sh =
        (ret (fst (hd (elements ! i)), snd (hd (elements ! (js ! i)))) :: ('s, _) op)"
    using odd_placement [OF assms(1-3,3) order_refl assms(4)] by blast
  then have "js = [0..<length elements]" by (intro sorted_positions_full)
  then show ?thesis using run assms(5) by simp
qed

lemma symmetric_positions_move:
  assumes "sorted_wrt (<) js" "set js \<subseteq> {0..<n}" "\<forall>j \<in> set js. n - 1 - j \<in> set js" "length js < n" "js \<noteq> []"
  shows "\<exists>i < length js. js ! i \<noteq> i"
proof (rule ccontr)
  assume "\<not> ?thesis"
  then have js: "js = [0..<length js]" by (intro nth_equalityI) auto
  then have "set js = {0..<length js}" by (metis set_upt)
  moreover have "0 \<in> {0..<length js}" using assms(5) by simp
  ultimately have "n - 1 \<in> {0..<length js}" using assms(3) by (metis minus_nat.diff_0)
  then show False using assms(4) by simp
qed

text \<open>An even replica size that is smaller than an odd number of volumes panics for its last replica; the
  validation only rejects even sizes outside the disaster recovery schema.\<close>

lemma distribution_even_panics:
  assumes "core_laws cl" "goodElements elements" "odd (length elements)" "even repl" "0 < repl" "repl < length elements" "sh < shards"
  shows "ElementsDistribution cl elements repl (repl - 1) shards sh = (panic index_out_of_range :: ('s, _) op)"
proof -
  let ?side = "(length elements - 1) div 2"
  let ?extra = "?side - (repl - 1) div 2"
  have size: "length elements = Suc (2 * ?side)" "repl = Suc (Suc (2 * ((repl - 1) div 2)))" using assms(3-5) by presburger+
  then have le: "(repl - 1) div 2 \<le> ?side" using assms(6) by linarith
  then have sizes: "2 * ?side < length elements" "?extra \<le> ?side" "?side = ?extra + (repl - 1) div 2" using size by linarith+
  obtain row where row: "rowOK ?side ?extra (firstValues elements) row"
    and run: "\<forall>i < length elements. ElementsDistribution cl elements repl i shards sh =
        (andthen (nth_or_panic row i) (\<lambda>value. ret (fst (hd (elements ! i)), value)) :: ('s, _) op)"
    using distribution_value [OF assms(1,2) sizes(1,2) assms(7) refl sizes(3)] by blast
  have "length row = length elements - 2 * ?extra" using row by (auto simp: rowOK_def firstValues_def)
  then have "length row \<le> repl - 1" using size le by linarith
  then show ?thesis using run assms(5,6) by simp
qed

section \<open>Examples\<close>

definition plainCore :: core_lib where
  "plainCore = \<lparr>ContainsInt = (\<lambda>xs x. x \<in> set xs), MaxInt = max, ConcatMaps = (\<lambda>a b. b @ a)\<rparr>"

lemma plainCore_laws: "core_laws plainCore"
  by (simp add: core_laws_def plainCore_def)

abbreviation fiveVolumes :: "smap list" where
  "fiveVolumes \<equiv> GetDummyPvcMap [''v0'', ''v1'', ''v2'', ''v3'', ''v4'']"

lemma fiveVolumes_good: "goodElements fiveVolumes" "length fiveVolumes = 5"
  by (simp_all add: goodElements_def GetDummyPvcMap_def)

text \<open>C14: with an odd number of volumes and an odd replica size that fits, the replicas of a shard get different
  volumes: one row of increasing positions serves all of them, and no replica panics.\<close>

theorem distribution_odd:
  assumes "core_laws cl" "goodElements elements" "odd (length elements)" "odd repl" "repl \<le> length elements" "sh < shards"
  shows "\<exists>js. length js = repl \<and> sorted_wrt (<) js \<and> set js \<subseteq> {0..<length elements} \<and>
     (\<forall>i < repl. ElementsDistribution cl elements repl i shards sh =
        (ret (fst (hd (elements ! i)), snd (hd (elements ! (js ! i)))) :: ('s, _) op))"
  using assms by (rule odd_placement)

lemma distribution_odd_witness:
  "\<exists>js. length js = 3 \<and> sorted_wrt (<) js \<and> set js \<subseteq> {0..<length fiveVolumes} \<and>
     (\<forall>i < 3. ElementsDistribution plainCore fiveVolumes 3 i 2 1 =
        (ret (fst (hd (fiveVolumes ! i)), snd (hd (fiveVolumes ! (js ! i)))) :: (unit, _) op))"
  by (rule distribution_odd [OF plainCore_laws fiveVolumes_good(1)]) (simp_all add: fiveVolumes_good)

text \<open>The second shard of two, with three replicas on five volumes, drops the pair that the first one kept.\<close>

lemma distribution_example:
  "ElementsDistribution plainCore fiveVolumes 3 0 2 0 () = (Ret (KubeHostName, ''v1''), ())"
  "ElementsDistribution plainCore fiveVolumes 3 0 2 1 () = (Ret (KubeHostName, ''v0''), ())"
  by code_simp+

end
