(* ===== verification/MongoAdmin.thy ===== *)
theory MongoAdmin
  imports MongoStatus
begin

text \<open>
  The administration commands of \<^verbatim>\<open>src/operator/pkg/utils/mongo_helper.go\<close>: roles and users, feature
  compatibility version, initiation and reconfiguration of replica sets, disaster recovery members,
  shard registration, oplog sizes, compaction.

  Each function is the sequence of commands of the source, with its early returns.  The unbounded wait
  for a new primary in RunCompactCommand takes fuel; without enough of it the result is \<^verbatim>\<open>None\<close>.
\<close>

section \<open>Roles and users\<close>

text \<open>The common body of CreateRole, CreateUser and UpdateRootPassword: mongos first, then the shards.\<close>

definition runOnTargets :: "'w helper \<Rightarrow> string \<Rightarrow> bool \<Rightarrow> bool \<Rightarrow> nat \<Rightarrow> ('w, goerror option) hop" where
  "runOnTargets r command inMongos inShards shardsCount =
     andthen (if inMongos then andthen (RunOnMongos r command) (\<lambda>(_, err). ret err) else ret None) (\<lambda>err.
     case err of
       Some e \<Rightarrow> ret (Some e)
     | None \<Rightarrow>
         if inShards then andthen (RunOnShards r command shardsCount) (\<lambda>(_, err). ret err) else ret None)"

definition CreateUserForMongoReplicaCommand :: "string \<Rightarrow> string \<Rightarrow> string \<Rightarrow> string \<Rightarrow> string" where
  \<open>CreateUserForMongoReplicaCommand authDb user pass role =
     Sprintf ''db.getSiblingDB('%s').createUser({user: '%s', pwd: '%s', roles: [%s]});''
       [Str authDb, Str user, Str pass, Str role]\<close>

definition CreateRoleForMongoReplicaCommand :: "string \<Rightarrow> string \<Rightarrow> string \<Rightarrow> string \<Rightarrow> string" where
  \<open>CreateRoleForMongoReplicaCommand authDb role privileges roles =
     Sprintf ''db.getSiblingDB('%s').createRole({ role: '%s', privileges: [ %s ], roles: [ %s ]});''
       [Str authDb, Str role, Str privileges, Str roles]\<close>

definition CreateRole :: "'w helper \<Rightarrow> string \<Rightarrow> string \<Rightarrow> string \<Rightarrow> string \<Rightarrow> bool \<Rightarrow> bool \<Rightarrow> nat
    \<Rightarrow> ('w, goerror option) hop" where
  "CreateRole r authDB role privileges roles inMongos inShards shardsCount =
     runOnTargets r (Sprintf CreateORUpdateRolePattern [Str authDB, Str role, Str privileges, Str roles])
       inMongos inShards shardsCount"

definition CreateUser :: "'w helper \<Rightarrow> string \<Rightarrow> string \<Rightarrow> string \<Rightarrow> string \<Rightarrow> bool \<Rightarrow> bool \<Rightarrow> bool \<Rightarrow> nat
    \<Rightarrow> ('w, goerror option) hop" where
  "CreateUser r authDB user pass role force inMongos inShards shardsCount =
     runOnTargets r
       (if force then CreateUserForMongoReplicaCommand authDB user pass role
        else Sprintf CreateORUpdateUserPattern [Str authDB, Str user, Str pass, Str role])
       inMongos inShards shardsCount"

definition UpdateRootPassword :: "'w helper \<Rightarrow> string \<Rightarrow> string \<Rightarrow> string \<Rightarrow> string \<Rightarrow> bool \<Rightarrow> bool \<Rightarrow> nat
    \<Rightarrow> ('w, goerror option) hop" where
  "UpdateRootPassword r authDB username oldPassword newPassword inMongos inShards shardsCount =
     runOnTargets r (Sprintf UpdateRootPasswordPattern [Str authDB, Str username, Str newPassword])
       inMongos inShards shardsCount"

definition checkUserOrRoleExists :: "'w helper \<Rightarrow> string \<Rightarrow> string \<Rightarrow> ('w, bool) hop" where
  "checkUserOrRoleExists r commandPattern roleOrUser =
     (let command = Sprintf commandPattern [Str roleOrUser] in
      andthen (if Sharded r \<or> Single r then RunOnMongos r command
               else RunOnPrimary r [(Microservice, Sprintf DataNameKey [Num 1])] command) (\<lambda>(res, err).
      ret (if err \<noteq> None then False else Contains (ReplaceAll res newline []) roleOrUser)))"

definition userExistsPattern :: string where
  \<open>userExistsPattern = ''dbUsers = db.getUsers();'' @
     ''found = dbUsers.users?dbUsers.users.find((v)=>v.user=='%s').user:dbUsers.find((v)=>v.user=='%s').user;''\<close>

definition roleExistsPattern :: string where
  \<open>roleExistsPattern = ''dbRoles = db.getRoles();'' @
     ''found = dbRoles.roles?dbRoles.roles.find((v)=>v.role=='%s').role:dbRoles.find((v)=>v.role=='%s').role;''\<close>

definition CheckUserExists :: "'w helper \<Rightarrow> string \<Rightarrow> ('w, bool) hop" where
  "CheckUserExists r user = checkUserOrRoleExists r userExistsPattern user"

definition CheckRoleExists :: "'w helper \<Rightarrow> string \<Rightarrow> ('w, bool) hop" where
  "CheckRoleExists r role = checkUserOrRoleExists r roleExistsPattern role"

definition CheckUserLogin :: "'w helper \<Rightarrow> string \<Rightarrow> string \<Rightarrow> string \<Rightarrow> string \<Rightarrow> ('w, bool) hop" where
  "CheckUserLogin r dockerImage authDB user pass =
     andthen (GetMongosPod r) (\<lambda>m. case m of
       Inl err \<Rightarrow> ret False
     | Inr pod \<Rightarrow>
         andthen (nth_or_panic (ps_containers (pod_spec_of pod)) 0) (\<lambda>c.
         andthen (callW (ExecRemote (KubeImpl r) (pod_name pod) (pod_namespace pod) (ctr_name c) BashCommand
           [Sprintf MongoCheckUserLogin [Str (MongoBinary dockerImage), Str user, Str pass, Str authDB]])) (\<lambda>(_, err).
         ret (err = None))))"

section \<open>Version and feature compatibility\<close>

definition GetMongoVersion :: "'w helper \<Rightarrow> ('w, string with_err) hop" where
  "GetMongoVersion r =
     (if Single r then RunOnMongos r versionCmd
      else RunOnPrimary r [(Microservice, Sprintf DataNameKey [Num 1])] versionCmd)"

definition minor_version_rex :: rex where
  "minor_version_rex = Seq digit_rex (Seq (Chr CHR ''.'') digit_rex)"

definition SetFeatureCompatibilityVersion :: "'w helper \<Rightarrow> bool \<Rightarrow> nat \<Rightarrow> ('w, goerror option) hop" where
  "SetFeatureCompatibilityVersion r sharded dataRSSize =
     andthen (GetMongoVersion r) (\<lambda>(rawVersion, err). case err of
       Some e \<Rightarrow> ret (Some e)
     | None \<Rightarrow>
         (let version = FindString minor_version_rex rawVersion in
          if version = [] then ret (Some (GoError ''cannot get major and minor version from mongo version''))
          else
            (let command = Sprintf (GetSetFeatureCompatibilityVersion version) [Str version] in
             if Single r then andthen (RunOnMongos r command) (\<lambda>(_, err). ret err)
             else
               andthen (if Sharded r then andthen (RunOnCnfrs r command) (\<lambda>(_, err). ret err) else ret None) (\<lambda>err.
               case err of
                 Some e \<Rightarrow> ret (Some e)
               | None \<Rightarrow> andthen (RunOnShards r command dataRSSize) (\<lambda>(_, err). ret err)))))"

definition CheckFCV :: "'w helper \<Rightarrow> nat \<Rightarrow> ('w, bool with_err) hop" where
  "CheckFCV r shardCount =
     andthen (RunOnCnfrs r featureCompatibilityVersionCommand) (\<lambda>(cnfrsFCVs, err).
     (let cnfrsFCVs = TrimSpace cnfrsFCVs in
      case err of Some e \<Rightarrow> ret (True, Some e)
      | None \<Rightarrow>
          andthen (RunOnShards r featureCompatibilityVersionCommand shardCount) (\<lambda>(shardsFCVs, err).
          case err of Some e \<Rightarrow> ret (True, Some e)
          | None \<Rightarrow> ret (list_ex (\<lambda>element. element \<noteq> cnfrsFCVs) shardsFCVs, None))))"

section \<open>Replica set initiation\<close>

definition initMembers :: "string \<Rightarrow> string \<Rightarrow> nat \<Rightarrow> string \<Rightarrow> (nat \<Rightarrow> string) \<Rightarrow> string" where
  \<open>initMembers nameKey nameKeyWithIndex replicaSetSize fullDomain memberOptionsFunc =
     fst (fold
       (\<lambda>i (members, splitter).
          (let podNameWithIndex = Sprintf nameKeyWithIndex [Num (int i)];
               podFullName = Sprintf StatefulSetPodNameTemplate [Str podNameWithIndex];
               options = memberOptionsFunc i
           in (members @ Sprintf ''%s{_id:%v, host:'%s.%s.%s:27017'%s}''
                 [Str splitter, Num (int i), Str podFullName, Str nameKey, Str fullDomain, Str options],
               '','')))
       [0..<replicaSetSize] ([], []))\<close>

definition initCommand :: "string \<Rightarrow> bool \<Rightarrow> string \<Rightarrow> string" where
  \<open>initCommand nameKey configInit members =
     Sprintf ''rs.initiate({_id:'%s', %s members:[%s]})''
       [Str nameKey, Str (if configInit then ''configsvr:true,'' else []), Str members]\<close>

text \<open>The poll of the election: done when the shell prints 1 as the number of primaries.\<close>

definition electionDone :: "string \<Rightarrow> bool with_err" where
  "electionDone output =
     (let output = TrimSpace output in
      if output = [] then (False, None)
      else
        (let output = TrimSuffix output newline;
             (i, err) = Atoi output;
             out = SplitAfter output newline;
             (i, err) = (if err \<noteq> None \<and> length out > 1 then Atoi (out ! 1) else (i, err))
         in (i = 1, err)))"

definition initPod :: "string \<Rightarrow> string \<Rightarrow> string \<Rightarrow> pod" where
  "initPod podFullName namespace podNameWithIndex =
     \<lparr>pod_meta = \<lparr>meta_name = podFullName, meta_namespace = namespace, meta_labels = [], meta_annotations = []\<rparr>,
      pod_spec_of = namedPodSpec podNameWithIndex, pod_phase = [], pod_owners = []\<rparr>"

definition MongoReplicaSetInit :: "'w helper \<Rightarrow> string \<Rightarrow> string \<Rightarrow> nat \<Rightarrow> string \<Rightarrow> string \<Rightarrow> bool
    \<Rightarrow> (nat \<Rightarrow> string) \<Rightarrow> ('w, goerror option) hop" where
  "MongoReplicaSetInit r nameKey nameKeyWithIndex replicaSetSize namespace domain configInit memberOptionsFunc =
     (let fullDomain = Sprintf ''%s.svc.%s'' [Str namespace, Str domain];
          members = initMembers nameKey nameKeyWithIndex replicaSetSize fullDomain memberOptionsFunc;
          podNameWithIndex = Sprintf nameKeyWithIndex [Num 0];
          podFullName = Sprintf StatefulSetPodNameTemplate [Str podNameWithIndex];
          jsCommand = initCommand nameKey configInit members;
          pod = initPod podFullName namespace podNameWithIndex
      in andthen (runAndRetry0 r
           (andthen (RunWithJSONResult r pod jsCommand) (\<lambda>out. ret (CheckOutputResult (KubeImpl r) out)))) (\<lambda>executionError.
         case executionError of Some e \<Rightarrow> ret (Some e)
         | None \<Rightarrow>
             andthen (PollImmediate (KubeImpl r) 2 (WaitSeconds r)
               (andthen (RunOnMongoPod r pod ''rs.status().members.filter(function(x){return x.state==1}).length'')
                  (\<lambda>(output, _). ret (electionDone output)))) (\<lambda>err.
             ret (map_option (\<lambda>e. ExecutionError (''Error happened on '' @ nameKey @ '' primary election. Error: ''
                    @ errStr (KubeImpl r) e)) err))))"

section \<open>Commands on mongos and shards\<close>

text \<open>
  The contract of an operation that changes users or roles: mongos first, then the shards, each only
  when asked for, and nothing after an error.
\<close>

locale target_op =
  fixes apply_to :: "bool \<Rightarrow> bool \<Rightarrow> nat \<Rightarrow> ('w, goerror option) hop"
    and on_mongos :: "('w, string with_err) hop"
    and on_shards :: "nat \<Rightarrow> ('w, string list with_err) hop"
  assumes none: "apply_to False False n = ret None"
    and only_mongos: "apply_to True False n = andthen on_mongos (\<lambda>(_, err). ret err)"
    and only_shards: "apply_to False True n = andthen (on_shards n) (\<lambda>(_, err). ret err)"
    and both: "apply_to True True n =
      andthen (apply_to True False n) (\<lambda>err. case err of Some e \<Rightarrow> ret (Some e) | None \<Rightarrow> apply_to False True n)"
begin

lemma mongos_error_stops:
  "on_mongos s = (Ret (res, Some e), t) \<Longrightarrow> apply_to True sh n s = (Ret (Some e), t)"
  by (cases sh) (simp_all add: both only_mongos andthen_Ret)

lemma success_means_all:
  assumes "apply_to m sh n s = (Ret None, s')"
  shows "(m \<longrightarrow> (\<exists>res t. on_mongos s = (Ret (res, None), t))) \<and>
         (sh \<longrightarrow> (\<exists>out t. on_shards n t = (Ret (out, None), s')))"
proof (cases m; cases sh)
  assume c: m sh
  then show ?thesis using assms
    by (auto simp: both only_mongos only_shards elim!: andthen_RetE split: option.splits) blast
next
  assume c: m "\<not> sh"
  then show ?thesis using assms by (auto simp: only_mongos elim!: andthen_RetE)
next
  assume c: "\<not> m" sh
  then show ?thesis using assms by (auto simp: only_shards elim!: andthen_RetE) blast
qed (auto)

lemma success_both:
  assumes "apply_to True True n s = (Ret None, s')"
  shows "\<exists>res t out. on_mongos s = (Ret (res, None), t) \<and> on_shards n t = (Ret (out, None), s')"
  using assms by (auto simp: both only_mongos only_shards elim!: andthen_RetE split: option.splits)

lemma nothing_asked: "apply_to False False n s = (Ret None, s)"
  by (simp add: none ret_apply)

end

lemma runOnTargets_op:
  "target_op (\<lambda>m sh n. runOnTargets r c m sh n) (RunOnMongos r c) (\<lambda>n. RunOnShards r c n)"
  by unfold_locales (auto simp: runOnTargets_def andthen_assoc fun_eq_iff op_simps
      split: prod.split res.split option.split)

interpretation create_role: target_op "\<lambda>m sh n. CreateRole r db role privs roles m sh n"
  "RunOnMongos r (Sprintf CreateORUpdateRolePattern [Str db, Str role, Str privs, Str roles])"
  "\<lambda>n. RunOnShards r (Sprintf CreateORUpdateRolePattern [Str db, Str role, Str privs, Str roles]) n"
  for r db role privs roles
  unfolding CreateRole_def by (rule runOnTargets_op)

interpretation create_user: target_op "\<lambda>m sh n. CreateUser r db user pass role False m sh n"
  "RunOnMongos r (Sprintf CreateORUpdateUserPattern [Str db, Str user, Str pass, Str role])"
  "\<lambda>n. RunOnShards r (Sprintf CreateORUpdateUserPattern [Str db, Str user, Str pass, Str role]) n"
  for r db user pass role
  unfolding CreateUser_def if_False by (rule runOnTargets_op)

interpretation root_password: target_op "\<lambda>m sh n. UpdateRootPassword r db user old new m sh n"
  "RunOnMongos r (Sprintf UpdateRootPasswordPattern [Str db, Str user, Str new])"
  "\<lambda>n. RunOnShards r (Sprintf UpdateRootPasswordPattern [Str db, Str user, Str new]) n"
  for r db user old new
  unfolding UpdateRootPassword_def by (rule runOnTargets_op)

text \<open>C20: a password change that succeeds ran the update with the new password on a mongos pod and then, shard by shard,
  on a pod that was found to be the primary of the shard, without an error; left out are only shards whose primary no
  attempt found, which the code counts as done.\<close>

theorem root_password_everywhere:
  assumes "UpdateRootPassword r db user old new True True n s = (Ret None, s')"
  shows "\<exists>p t res u. GetMongosPod r s = (Ret (Inr p), t) \<and>
    RunOnMongoPod r p (Sprintf UpdateRootPasswordPattern [Str db, Str user, Str new]) t = (Ret (res, None), u) \<and>
    chained (\<lambda>i v w. (\<exists>res. ranOnPrimary r (shardLabels i) (Sprintf UpdateRootPasswordPattern [Str db, Str user, Str new]) v res w) \<or>
      lookupsFail r (shardLabels i) (nat (Tries r)) v w) n u s'"
  using root_password.success_both [OF assms] RunOnShards_ran RunOnMongos_None by blast

text \<open>A cluster whose only pod is the primary and the mongos.\<close>

abbreviation onePod :: "unit helper" where
  "onePod \<equiv> baseHelper (cannedKube allPods ''pod-0'')"

lemma onePod_primary: "GetMongoPrimaryReplica onePod labels = ret (Inr (plainPod ''pod-0''))"
proof -
  have "primaryName ''pod-0'' = ''pod-0''" by code_simp
  then show ?thesis by (simp add: GetMongoPrimaryReplica_def canned_simps allPods_def cleanOutput_id)
qed

lemma onePod_RunOnPrimary: "RunOnPrimary onePod labels arg = ret (''pod-0'', None)"
  by (simp add: RunOnPrimary_def runAndRetry_def runOnPrimaryBody_def onePod_primary canned_simps
      cleanOutput_id eval_nat_numeral)

lemma onePod_RunOnMongos: "RunOnMongos onePod arg = ret (''pod-0'', None)"
  by (simp add: RunOnMongos_def GetMongosPod_def canned_simps allPods_def cleanOutput_id)

lemma root_password_everywhere_witness:
  "\<exists>p t res u. GetMongosPod onePod (baseState ()) = (Ret (Inr p), t) \<and>
    RunOnMongoPod onePod p (Sprintf UpdateRootPasswordPattern [Str ''admin'', Str ''root'', Str ''new'']) t = (Ret (res, None), u) \<and>
    chained (\<lambda>i v w. (\<exists>res. ranOnPrimary onePod (shardLabels i) (Sprintf UpdateRootPasswordPattern [Str ''admin'', Str ''root'', Str ''new'']) v res w) \<or>
      lookupsFail onePod (shardLabels i) (nat (Tries onePod)) v w) 1 u (baseState ())"
  by (rule root_password_everywhere [where old = "''old''"])
    (simp add: UpdateRootPassword_def runOnTargets_def onePod_RunOnMongos RunOnShards_def onePod_RunOnPrimary)

section \<open>User and role checks\<close>

lemma percent_free_pattern [simp]: "doPrintf args n re (t # ts) = t # doPrintf args n re ts" if "t \<noteq> CHR 0x25"
  using that by simp

text \<open>The command of the user check is built with one operand for two verbs, so its second branch looks
  for a user called \<^verbatim>\<open>%!s(MISSING)\<close>, whatever the user asked for.\<close>

theorem user_check_missing_operand:
  "Contains (Sprintf userExistsPattern [Str user]) ''dbUsers.find((v)=>v.user=='%!s(MISSING)').user;''"
proof -
  have "Sprintf userExistsPattern [Str user] =
    (''dbUsers = db.getUsers();'' @ ''found = dbUsers.users?dbUsers.users.find((v)=>v.user=='' @ [CHR 0x27] @ user @ [CHR 0x27] @
     '').user:'') @ ''dbUsers.find((v)=>v.user=='%!s(MISSING)').user;'' @ []"
    by (simp add: userExistsPattern_def Sprintf_simps operand_def format_verb_def)
  then show ?thesis unfolding Contains_iff by blast
qed

section \<open>Feature compatibility\<close>

lemma minor_version_match:
  "isDigit d \<Longrightarrow> isDigit e \<Longrightarrow> matches minor_version_rex (d # CHR ''.'' # e # rest) = [rest]"
  by (simp add: minor_version_rex_def digit_rex_def in_class_def isDigit_def less_eq_char_def)

lemma minor_version_no_match:
  "c \<noteq> CHR ''.'' \<Longrightarrow> matches minor_version_rex (d # c # rest) = []"
  by (auto simp: minor_version_rex_def digit_rex_def in_class_def dest: antisym)

text \<open>Of a version whose major number has several digits only the last digit is used: 10.0 is taken for
  0.0, and the feature compatibility version is set to that.\<close>

theorem fcv_takes_last_major_digit:
  assumes "list_all isDigit ds" "isDigit d" "isDigit e"
  shows "FindString minor_version_rex (ds @ d # CHR ''.'' # e # rest) = [d, CHR ''.'', e]"
  using assms(1)
proof (induction ds)
  case Nil
  then show ?case using assms(2,3) by (subst FindString.simps) (simp add: minor_version_match)
next
  case (Cons c ds)
  obtain x xs where x: "ds @ d # CHR ''.'' # e # rest = x # xs" by (cases ds) auto
  then have "x = d \<or> isDigit x" using Cons.prems by (cases ds) auto
  then have "x \<noteq> CHR ''.''" using assms(2) by (auto simp: isDigit_def)
  then have "matches minor_version_rex (c # x # xs) = []" by (rule minor_version_no_match)
  then show ?case using Cons x by (subst FindString.simps) simp
qed

lemma fcv_takes_last_major_digit_witness: "FindString minor_version_rex ''10.0.4'' = ''0.0''"
  using fcv_takes_last_major_digit [of "''1''" "CHR ''0''" "CHR ''0''" "''.4''"] by (simp add: isDigit_def)

text \<open>The check of the feature compatibility versions reports no mismatch only when every shard
  answered, and answered what the config replica set did.\<close>

theorem check_fcv_sound:
  assumes "CheckFCV r n s = (Ret (False, None), s')"
  shows "\<exists>c vs t. RunOnCnfrs r featureCompatibilityVersionCommand s = (Ret (c, None), t) \<and>
           RunOnShards r featureCompatibilityVersionCommand n t = (Ret (vs, None), s') \<and>
           length vs = n \<and> (\<forall>v \<in> set vs. v = TrimSpace c)"
proof -
  obtain c t where c: "RunOnCnfrs r featureCompatibilityVersionCommand s = (Ret (c, None), t)"
    and rest: "andthen (RunOnShards r featureCompatibilityVersionCommand n) (\<lambda>(shardsFCVs, err).
          case err of Some e \<Rightarrow> ret (True, Some e)
          | None \<Rightarrow> ret (list_ex (\<lambda>element. element \<noteq> TrimSpace c) shardsFCVs, None)) t = (Ret (False, None), s')"
    using assms by (auto simp: CheckFCV_def elim!: andthen_RetE split: option.splits)
  then obtain vs where "RunOnShards r featureCompatibilityVersionCommand n t = (Ret (vs, None), s')"
    "\<not> list_ex (\<lambda>element. element \<noteq> TrimSpace c) vs"
    by (auto elim!: andthen_RetE split: option.splits)
  then show ?thesis using c RunOnShards_None by (fastforce simp: list_ex_iff)
qed

text \<open>When no replica set has a primary, the check runs no command at all and still reports that the
  versions agree.\<close>

theorem check_fcv_blind_without_primary:
  assumes "\<And>labels s. \<exists>e s'. GetMongoPrimaryReplica r labels s = (Ret (Inl e), s')"
    and "\<And>s. \<exists>u s'. sleep r (RetryInterval r) s = (Ret u, s')"
  shows "\<exists>s'. CheckFCV r n s = (Ret (False, None), s')"
proof -
  obtain t where "RunOnCnfrs r featureCompatibilityVersionCommand s = (Ret ([], None), t)"
    unfolding RunOnCnfrs_def using runOnPrimary_lookup_fails [OF assms] by blast
  moreover obtain u where "RunOnShards r featureCompatibilityVersionCommand n t = (Ret (replicate n [], None), u)"
    using runOnShards_lookup_fails [of n r, OF assms] by blast
  ultimately show ?thesis
    by (simp add: CheckFCV_def andthen_Ret TrimSpace_def list_ex_iff)
qed

definition noPods :: "smap \<Rightarrow> pod list" where
  "noPods l = []"

lemma canned_sleep: "sleep (baseHelper (cannedKube pods answer)) n = ret ()"
  by (simp add: sleep_def canned_simps)

lemma canned_no_primary:
  "GetMongoPrimaryReplica (baseHelper (cannedKube noPods answer)) labels = ret (Inl (GoError ''pod list is empty''))"
  by (simp add: GetMongoPrimaryReplica_def canned_simps noPods_def)

lemma check_fcv_blind_without_primary_witness:
  "\<exists>s'. CheckFCV (baseHelper (cannedKube noPods [])) 2 (baseState ()) = (Ret (False, None), s')"
  by (rule check_fcv_blind_without_primary) (simp_all add: canned_no_primary canned_sleep)

lemma canned_RunOnPrimary_empty:
  "RunOnPrimary (baseHelper (cannedKube noPods answer)) labels arg = ret ([], None)"
  by (simp add: RunOnPrimary_def runAndRetry_def runOnPrimaryBody_def canned_no_primary canned_sleep
      eval_nat_numeral)

lemma check_fcv_sound_witness:
  "\<exists>c vs t. RunOnCnfrs (baseHelper (cannedKube noPods [])) featureCompatibilityVersionCommand (baseState ()) = (Ret (c, None), t) \<and>
      RunOnShards (baseHelper (cannedKube noPods [])) featureCompatibilityVersionCommand 1 t = (Ret (vs, None), baseState ()) \<and>
      length vs = 1 \<and> (\<forall>v \<in> set vs. v = TrimSpace c)"
  by (rule check_fcv_sound)
    (simp add: CheckFCV_def RunOnCnfrs_def RunOnShards_def canned_RunOnPrimary_empty TrimSpace_def)

section \<open>Initiation\<close>

text \<open>The members with which a shard is initiated are, in order, the hosts that the status checks, the
  shard registration and the reconfiguration compute for the same domain.\<close>

theorem init_members_are_data_hosts:
  assumes "CHR 0x25 \<notin> set ns" "CHR 0x25 \<notin> set dm"
  shows "initMembers (dataServiceName sh) (dataServiceName sh @ ''%v'') n (Sprintf ''%s.svc.%s'' [Str ns, Str dm]) opts =
    Join '','' (map (\<lambda>i. ''{_id:'' @ show_nat i @ '', host:'' @ [CHR 0x27] @ GetDATAReplicaSetHostName n sh dm ns ! i
        @ [CHR 0x27] @ opts i @ ''}'') [0..<n])"
proof -
  let ?h = "\<lambda>i. podOfStatefulSet (dataStatefulSetName sh i) @ ''.'' @ dataServiceName sh @ ''.'' @ ns
               @ ''.svc.'' @ dm @ '':27017''"
  let ?f = "\<lambda>i. ''{_id:'' @ show_nat i @ '', host:'' @ [CHR 0x27] @ ?h i @ [CHR 0x27] @ opts i @ ''}''"
  have "initMembers (dataServiceName sh) (dataServiceName sh @ ''%v'') n (Sprintf ''%s.svc.%s'' [Str ns, Str dm]) opts =
        fst (fold (\<lambda>i (m, sp). (m @ sp @ ?f i, '','')) [0..<n] ([], []))"
    by (simp add: initMembers_def dataServiceName_eq Sprintf_simps StatefulSetPodNameTemplate_def
        podOfStatefulSet_eq dataStatefulSetName_eq Let_def)
  also have "\<dots> = Join '','' (map ?f [0..<n])" by (rule fold_splitter)
  also have "map ?f [0..<n] = map (\<lambda>i. ''{_id:'' @ show_nat i @ '', host:'' @ [CHR 0x27] @ GetDATAReplicaSetHostName n sh dm ns ! i
        @ [CHR 0x27] @ opts i @ ''}'') [0..<n]"
    by (simp add: data_host [OF assms])
  finally show ?thesis .
qed

lemma init_members_are_data_hosts_witness:
  "initMembers (dataServiceName 0) (dataServiceName 0 @ ''%v'') 3 (Sprintf ''%s.svc.%s'' [Str ''mongo'', Str ''cluster.local'']) (\<lambda>i. []) =
    Join '','' (map (\<lambda>i. ''{_id:'' @ show_nat i @ '', host:'' @ [CHR 0x27] @ GetDATAReplicaSetHostName 3 0 ''cluster.local'' ''mongo'' ! i
        @ [CHR 0x27] @ [] @ ''}'') [0..<3])"
  by (rule init_members_are_data_hosts) simp_all

lemma electionDone_one: "electionDone ''1'' = (True, None)"
  by code_simp

lemma electionDone_True:
  assumes "electionDone output = (True, None)"
  shows "\<exists>line. line \<in> {TrimSuffix (TrimSpace output) newline, SplitAfter (TrimSuffix (TrimSpace output) newline) newline ! 1} \<and> Atoi line = (1, None)"
  using assms by (auto simp: electionDone_def Let_def split: prod.splits if_splits)

lemma CheckOutputResult_None:
  assumes "CheckOutputResult k (output, None) = None"
  shows "\<exists>doc before result. doc \<in> {output, SplitAfter output newline ! 1} \<and> unmarshal_result doc before = (result, None) \<and> ResOk result = 1"
proof -
  obtain res e where u: "unmarshal_result output empty_result = (res, e)" by fastforce
  show ?thesis
  proof (cases "e \<noteq> None \<and> length (SplitAfter output newline) > 1")
    case True
    then show ?thesis using assms u by (auto simp: CheckOutputResult_def Let_def split: prod.splits if_splits option.splits)
  next
    case False
    then have "e = None" "ResOk res = 1" using assms u
      by (auto simp: CheckOutputResult_def Let_def split: if_splits option.splits)
    then show ?thesis using u by blast
  qed
qed

text \<open>The pod that is asked: the one of the first member.\<close>

definition firstInitPod :: "string \<Rightarrow> string \<Rightarrow> pod" where
  "firstInitPod keyIdx ns = initPod (Sprintf StatefulSetPodNameTemplate [Str (Sprintf keyIdx [Num 0])]) ns (Sprintf keyIdx [Num 0])"



end
