(* ===== verification/MongoReconf.thy ===== *)
theory MongoReconf
  imports MongoAdmin
begin

text \<open>
  Changing replica sets and shards: adding members, hiding members by a forced reconfiguration,
  renaming member domains, registering shards, and the replication lag check, from
  \<^verbatim>\<open>src/operator/pkg/utils/mongo_helper.go\<close>.

  The lemmas show that members already present are not added again, that a reconfiguration never
  reports an error, and that of a series of shard registrations only the last can fail.
\<close>

section \<open>Members\<close>

definition AddReplica :: "'w helper \<Rightarrow> smap \<Rightarrow> string \<Rightarrow> ('w, goerror option) hop" where
  \<open>AddReplica r labels host =
     andthen (RunOnPrimaryWithJSONResult r labels (Sprintf ''rs.add( { host: '%s'} )'' [Str host])) (\<lambda>out.
     ret (CheckOutputResult (KubeImpl r) out))\<close>

definition AddHiddenReplica :: "'w helper \<Rightarrow> smap \<Rightarrow> string \<Rightarrow> ('w, goerror option) hop" where
  \<open>AddHiddenReplica r labels host =
     andthen (RunOnPrimaryWithJSONResult r labels
       (Sprintf ''rs.add( { host: '%s', priority: 0, votes: 0 } )'' [Str host])) (\<lambda>out.
     ret (CheckOutputResult (KubeImpl r) out))\<close>

definition isMemberInReplicaSet :: "'w helper \<Rightarrow> smap \<Rightarrow> string \<Rightarrow> ('w, bool with_err) hop" where
  "isMemberInReplicaSet r labels host =
     andthen (RunOnPrimaryWithJSONResult r labels (Sprintf JsCheckMemberExists [Str host])) (\<lambda>(result, err).
     case err of Some e \<Rightarrow> ret (False, Some e) | None \<Rightarrow> ret (TrimSpace result = ''true'', None))"

definition AddDRReplicas :: "'w helper \<Rightarrow> smap \<Rightarrow> string list \<Rightarrow> ('w, goerror option) hop" where
  "AddDRReplicas r labels replicasetHostnames =
     forRange replicasetHostnames (\<lambda>host.
       andthen (isMemberInReplicaSet r labels host) (\<lambda>(exists, err).
       if err = None \<and> exists then ret None
       else runAndRetry0 r (AddHiddenReplica r labels host)))"

definition ReconfigureRS :: "'w helper \<Rightarrow> smap \<Rightarrow> string list \<Rightarrow> ('w, goerror option) hop" where
  "ReconfigureRS r labels replicasetHostnames =
     andthen (listPodsChecked r labels) (\<lambda>l. case l of
       Inl err \<Rightarrow> ret None
     | Inr list \<Rightarrow>
         (let replicasetHostnames = QuoteReplicaSet replicasetHostnames;
              checkCmd = Sprintf JsCheckReconfigNeeded [Str (Join '','' replicasetHostnames)]
          in andthen (RunWithJSONResult r (hd list) checkCmd) (\<lambda>(needed, checkErr).
             if checkErr = None \<and> TrimSpace needed = ''false'' then ret None
             else
               (let arg = Sprintf JsTemplate [Str (Join '','' replicasetHostnames)] in
                andthen (runAndRetry0 r
                  (andthen (RunOnMongoPod r (hd list) arg) (\<lambda>out. ret (CheckOutputResult (KubeImpl r) out)))) (\<lambda>_.
                ret None)))))"

definition RenameRSMemberDomain :: "'w helper \<Rightarrow> smap \<Rightarrow> string \<Rightarrow> string \<Rightarrow> ('w, goerror option) hop" where
  "RenameRSMemberDomain r labels newDomain otherDomain =
     andthen (listPodsChecked r labels) (\<lambda>l. case l of
       Inl err \<Rightarrow> ret None
     | Inr list \<Rightarrow>
         andthen (RunWithJSONResult r (hd list) (Sprintf JsRenameMemberDomain [Str newDomain, Str otherDomain]))
           (\<lambda>(_, err). ret err))"

definition CheckReplicationLag :: "'w helper \<Rightarrow> smap \<Rightarrow> string list \<Rightarrow> int \<Rightarrow> ('w, bool with_err) hop" where
  "CheckReplicationLag r labels memberHostnames maxLagSeconds =
     (let quoted = map (\<lambda>h. Sprintf quoted_verb [Str h]) memberHostnames;
          cmd = Sprintf JsCheckAllMembersLag [Str (Join '','' quoted), Num maxLagSeconds]
      in andthen (RunOnPrimaryWithJSONResult r labels cmd) (\<lambda>(result, err).
         case err of Some e \<Rightarrow> ret (False, Some e) | None \<Rightarrow> ret (TrimSpace result = ''true'', None)))"

section \<open>Shards\<close>

text \<open>The result of the loop is the error of its last round: the variable err is overwritten.\<close>

fun shardLoop :: "'w helper \<Rightarrow> string \<Rightarrow> nat \<Rightarrow> (string \<Rightarrow> string \<Rightarrow> string) \<Rightarrow> (string \<Rightarrow> ('w, goerror option) hop)
    \<Rightarrow> nat list \<Rightarrow> goerror option \<Rightarrow> ('w, goerror option) hop" where
  "shardLoop r domain dataReplicaSize commandFormatFunc commandFunc [] err = ret err"
| "shardLoop r domain dataReplicaSize commandFormatFunc commandFunc (i # is) err =
     (let dKey = Sprintf DataNameKey [Num (int i + 1)];
          dataReplicas = GetDATAReplicaSetHostName dataReplicaSize i domain (Namespace r);
          js = commandFormatFunc dKey (Join '','' dataReplicas)
      in andthen (runAndRetry0 r (commandFunc js)) (\<lambda>err'.
         shardLoop r domain dataReplicaSize commandFormatFunc commandFunc is err'))"

definition AddOrUpdateShards :: "'w helper \<Rightarrow> string \<Rightarrow> nat \<Rightarrow> nat \<Rightarrow> (string \<Rightarrow> string \<Rightarrow> string)
    \<Rightarrow> (string \<Rightarrow> ('w, goerror option) hop) \<Rightarrow> ('w, goerror option) hop" where
  "AddOrUpdateShards r domain dataReplicaSize dataShards commandFormatFunc commandFunc =
     shardLoop r domain dataReplicaSize commandFormatFunc commandFunc [0..<dataShards] None"

definition addShardCommand :: "string \<Rightarrow> string \<Rightarrow> string" where
  \<open>addShardCommand shardName replicas =
     Sprintf ''JSON.stringify(sh.addShard('%s/%s'))'' [Str shardName, Str replicas]\<close>

definition AddShards :: "'w helper \<Rightarrow> string \<Rightarrow> nat \<Rightarrow> nat \<Rightarrow> ('w, goerror option) hop" where
  "AddShards r domain dataReplicaSize dataShards =
     AddOrUpdateShards r domain dataReplicaSize dataShards addShardCommand
       (\<lambda>command. andthen (RunOnMongos r command) (\<lambda>out. ret (CheckOutputResult (KubeImpl r) out)))"

definition UpdateShardsInConfigDB :: "'w helper \<Rightarrow> string \<Rightarrow> nat \<Rightarrow> nat \<Rightarrow> ('w, goerror option) hop" where
  "UpdateShardsInConfigDB r domain dataReplicaSize dataShards =
     AddOrUpdateShards r domain dataReplicaSize dataShards
       (\<lambda>shardName replicas. Sprintf shardHostsTemplate [Str shardName, Str shardName, Str replicas])
       (\<lambda>command. andthen (RunOnPrimary r [(Microservice, CnfNameKey)] command) (\<lambda>(_, err). ret err))"

definition UpdateConfigRSInDATARS :: "'w helper \<Rightarrow> string \<Rightarrow> string \<Rightarrow> nat \<Rightarrow> nat \<Rightarrow> nat \<Rightarrow> ('w, goerror option) hop" where
  "UpdateConfigRSInDATARS r domain drDomain cnfrReplicaSize datarsSize shardCount =
     (let configRS = GetDRCNFReplicaSetHostNames cnfrReplicaSize domain drDomain (Namespace r) in
      forRange [0..<shardCount] (\<lambda>s.
        (let dKey = Sprintf DataNameKey [Num (int s + 1)];
             shardJs = Sprintf shardTemplate [Str dKey, Str (Join '','' configRS)]
         in andthen (RunOnPrimary r [(Microservice, dKey)] shardJs) (\<lambda>(_, updateErr). ret updateErr))))"

section \<open>Properties\<close>

text \<open>A reconfiguration never reports an error: whatever the listing, the check and the retried
  reconfiguration command answer, the function returns nil or panics.\<close>

theorem reconfigure_never_fails:
  assumes "ReconfigureRS r labels hosts s = (Ret res, s')"
  shows "res = None"
  using assms
  by (auto simp: ReconfigureRS_def Let_def elim!: andthen_RetE split: sum.splits if_splits)

text \<open>A failing reconfiguration: the check says it is needed, and every attempt is refused.\<close>

lemma reconfigure_never_fails_witness:
  "\<exists>res. ReconfigureRS onePod [(Microservice, CnfNameKey)] [''h''] (baseState ()) = (Ret res, baseState ()) \<and>
     res = None \<and> CheckOutputResult (KubeImpl onePod) (''pod-0'', None) \<noteq> None"
proof -
  have "unmarshal_result ''pod-0'' empty_result = (empty_result, Some (JsonError ''pod-0''))"
    "SplitAfter ''pod-0'' newline = [''pod-0'']"
    by code_simp+
  then have refused: "CheckOutputResult k (''pod-0'', None) \<noteq> None" for k :: "unit kube"
    by (simp add: CheckOutputResult_def)
  have run: "ReconfigureRS onePod [(Microservice, CnfNameKey)] [''h''] (baseState ()) = (Ret None, baseState ())"
    by (simp add: ReconfigureRS_def canned_simps allPods_def RunWithJSONResult_def cleanOutput_id
        runAndRetry0_def runAndRetry_def plainBody_def canned_sleep eval_nat_numeral Let_def
        split: option.split)
  show ?thesis using run reconfigure_never_fails [OF run] refused by blast
qed

text \<open>Hosts that are members already are not added: when the member check answers yes for every host,
  adding the disaster recovery replicas runs the checks and nothing else.\<close>

lemma add_dr_replicas_idempotent:
  assumes "\<And>h s x t. h \<in> set hosts \<Longrightarrow> isMemberInReplicaSet r labels h s = (Ret x, t) \<Longrightarrow> x = (True, None)"
  shows "AddDRReplicas r labels hosts s =
         forRange hosts (\<lambda>h. andthen (isMemberInReplicaSet r labels h) (\<lambda>_. ret None)) s"
proof -
  have "andthen (isMemberInReplicaSet r labels h) (\<lambda>(exists, err).
       if err = None \<and> exists then ret None else runAndRetry0 r (AddHiddenReplica r labels h)) s =
        andthen (isMemberInReplicaSet r labels h) (\<lambda>_. ret None) s" if "h \<in> set hosts" for h s
    using assms [OF that, of s]
    by (cases "isMemberInReplicaSet r labels h s"; cases "fst (isMemberInReplicaSet r labels h s)")
      (auto simp: andthen_def split: res.splits)
  then show ?thesis unfolding AddDRReplicas_def by (rule forRange_cong_op)
qed

text \<open>C33: when adding the disaster recovery replicas succeeds, every host was reported as a member, or an
  addition of it was acknowledged.\<close>

theorem add_dr_replicas_complete:
  assumes "AddDRReplicas r labels hosts s = (Ret None, s')" "h \<in> set hosts" "Tries r > 0"
  shows "(\<exists>t u. isMemberInReplicaSet r labels h t = (Ret (True, None), u)) \<or>
         (\<exists>t u. AddHiddenReplica r labels h t = (Ret None, u))"
proof -
  obtain t u where "andthen (isMemberInReplicaSet r labels h) (\<lambda>(exists, err).
       if err = None \<and> exists then ret None else runAndRetry0 r (AddHiddenReplica r labels h)) t = (Ret None, u)"
    using forRange_None [OF assms(1) [unfolded AddDRReplicas_def] assms(2)] by blast
  then obtain x err v where v: "isMemberInReplicaSet r labels h t = (Ret (x, err), v)"
    "(if err = None \<and> x then ret None else runAndRetry0 r (AddHiddenReplica r labels h)) v = (Ret None, u)"
    by (auto elim!: andthen_RetE)
  show ?thesis
  proof (cases "err = None \<and> x")
    case True
    then show ?thesis using v by auto
  next
    case False
    then have "runAndRetry0 r (AddHiddenReplica r labels h) v = (Ret None, u)" using v by auto
    then have "runAndRetry r (plainBody (AddHiddenReplica r labels h)) () v = (Ret (None, ()), u)"
      by (auto simp: runAndRetry0_def elim!: andthen_RetE)
    then obtain a w where "plainBody (AddHiddenReplica r labels h) a w = (Ret (None, ()), u)"
      using runAndRetry_None_iff [OF assms(3)] by metis
    then show ?thesis by (auto simp: plainBody_def elim!: andthen_RetE)
  qed
qed

lemma shardLoop_append:
  "shardLoop r dm k f c (xs @ ys) err =
     andthen (shardLoop r dm k f c xs err) (\<lambda>err'. shardLoop r dm k f c ys err')"
proof (induction xs arbitrary: err)
  case (Cons x xs)
  have "shardLoop r dm k f c (xs @ ys) =
        (\<lambda>err. andthen (shardLoop r dm k f c xs err) (\<lambda>err'. shardLoop r dm k f c ys err'))"
    by (rule ext) (rule Cons.IH)
  then show ?case by (simp add: andthen_assoc Let_def)
qed simp

lemma shardLoop_Nil: "shardLoop r dm k f c [] = ret"
  by (rule ext) simp

text \<open>Registering or updating shards reports the outcome of the last shard only: a failure on any
  other shard is lost.\<close>

theorem shards_report_last_only:
  assumes "AddOrUpdateShards r dm k (Suc n) f c s = (Ret e, s')"
  shows "\<exists>t. runAndRetry0 r (c (f (dataServiceName n) (Join '','' (GetDATAReplicaSetHostName k n dm (Namespace r))))) t
           = (Ret e, s')"
proof -
  obtain e' t where "shardLoop r dm k f c [n] e' t = (Ret e, s')"
    using assms by (auto simp: AddOrUpdateShards_def shardLoop_append elim!: andthen_RetE simp del: shardLoop.simps)
  then show ?thesis by (auto simp: Let_def dataServiceName_def shardLoop_Nil)
qed

text \<open>The first shard is refused twice, the second is accepted: the registration succeeds.\<close>

lemma refused_doc: "CheckOutputResult k ([], None) \<noteq> None"
proof -
  have "unmarshal_result [] empty_result = (empty_result, Some (JsonError []))" "SplitAfter [] newline = [[]]"
    by code_simp+
  then show ?thesis by (simp add: CheckOutputResult_def)
qed

lemma scripted_RunOnMongos:
  "RunOnMongos (baseHelper (scriptedKube allPods)) arg (scriptState (a # as)) = (Ret (cleanOutput a, None), scriptState as)"
  by (simp add: RunOnMongos_def GetMongosPod_def scripted_listPodsChecked allPods_def scripted_RunOnMongoPod)

lemma shards_report_last_only_witness:
  "\<exists>t. runAndRetry0 (baseHelper (scriptedKube allPods))
        (andthen (RunOnMongos (baseHelper (scriptedKube allPods))
           (addShardCommand (dataServiceName 1) (Join '','' (GetDATAReplicaSetHostName 3 1 ''cluster.local'' ''mongo''))))
           (\<lambda>out. ret (CheckOutputResult (KubeImpl (baseHelper (scriptedKube allPods))) out))) t
      = (Ret None, scriptState [])"
proof -
  have clean: "cleanOutput [] = []" by (rule cleanOutput_id) simp_all
  obtain e where e: "CheckOutputResult (scriptedKube allPods) ([], None) = Some e"
    using refused_doc by blast
  have "AddShards (baseHelper (scriptedKube allPods)) ''cluster.local'' 3 2 (scriptState [[], [], okDoc]) =
        (Ret None, scriptState [])"
    by (simp add: AddShards_def AddOrUpdateShards_def Let_def runAndRetry0_def runAndRetry_def plainBody_def
        eval_nat_numeral andthen_apply scripted_RunOnMongos clean e scripted_sleep cleanOutput_okDoc okDoc_result)
  then have run: "AddOrUpdateShards (baseHelper (scriptedKube allPods)) ''cluster.local'' 3 (Suc 1) addShardCommand
       (\<lambda>command. andthen (RunOnMongos (baseHelper (scriptedKube allPods)) command)
          (\<lambda>out. ret (CheckOutputResult (KubeImpl (baseHelper (scriptedKube allPods))) out)))
       (scriptState [[], [], okDoc]) = (Ret None, scriptState [])"
    by (simp add: AddShards_def eval_nat_numeral)
  show ?thesis using shards_report_last_only [OF run] by simp
qed

lemma add_dr_replicas_complete_witness:
  "(\<exists>t u. isMemberInReplicaSet (baseHelper (scriptedKube allPods)) [] ''h'' t = (Ret (True, None), u)) \<or>
   (\<exists>t u. AddHiddenReplica (baseHelper (scriptedKube allPods)) [] ''h'' t = (Ret None, u))"
proof (rule add_dr_replicas_complete)
  let ?r = "baseHelper (scriptedKube allPods)"
  have clean: "cleanOutput ''pod-0'' = ''pod-0''" "cleanOutput ''true'' = ''true''"
    by (rule cleanOutput_id; simp)+
  have name: "primaryName ''pod-0'' = ''pod-0''" "TrimSpace ''true'' = ''true''" by code_simp+
  have prim: "GetMongoPrimaryReplica ?r [] (scriptState (''pod-0'' # as)) = (Ret (Inr (plainPod ''pod-0'')), scriptState as)" for as
    by (simp add: GetMongoPrimaryReplica_def scripted_listPodsChecked allPods_def andthen_apply
        scripted_RunOnMongoPod clean name)
  show "AddDRReplicas ?r [] [''h''] (scriptState [''pod-0'', ''true'']) = (Ret None, scriptState [])"
    by (simp add: AddDRReplicas_def isMemberInReplicaSet_def RunOnPrimaryWithJSONResult_def RunOnPrimary_def
        runAndRetry_def runOnPrimaryBody_def eval_nat_numeral andthen_apply prim scripted_RunOnMongoPod clean name)
qed simp_all

end
