(* ===== verification/MongoMaint.thy ===== *)
theory MongoMaint
  imports MongoReconf
begin

text \<open>
  Maintenance operations of \<^verbatim>\<open>src/operator/pkg/utils/mongo_helper.go\<close>: reading and changing the oplog
  sizes, compaction, and flushing.

  \<^verbatim>\<open>UpdateOplogSize\<close> changes the secondaries before the primaries and checks every changed member; the
  properties say what a successful run did, and which failure its lag check cannot see.  The wait for
  a new primary in \<^verbatim>\<open>RunCompactCommand\<close> is unbounded in the code: it takes fuel, and the result \<^verbatim>\<open>None\<close>
  stands for a wait that has not ended.
\<close>

section \<open>Oplog sizes\<close>

record oplog_info =
  ShardName :: string
  ReplicaSet :: string
  PodName :: string
  IsPrimary :: bool
  MaxSizeMB :: int
  DomainName :: string
  OplogPod :: pod

definition go_div :: "int \<Rightarrow> int \<Rightarrow> int" where
  "go_div a b = sgn a * sgn b * (\<bar>a\<bar> div \<bar>b\<bar>)"

definition setCmd :: "string \<Rightarrow> ('w, unit) hop" where
  "setCmd cmd = modifyState (\<lambda>s. s\<lparr>Cmd := cmd\<rparr>)"

definition SetMongoCMD :: "string \<Rightarrow> ('w, unit) hop" where
  "SetMongoCMD cmd = setCmd cmd"

definition oplogOfPod :: "'w helper \<Rightarrow> smap \<Rightarrow> string \<Rightarrow> secret \<Rightarrow> string \<Rightarrow> string \<Rightarrow> string \<Rightarrow> string \<Rightarrow> pod
    \<Rightarrow> ('w, goerror + oplog_info) hop" where
  "oplogOfPod r label dKey creds namespace domainName dockerImage AuthDB pod =
     andthen (setCmd (Sprintf MongoCMDAuthTemplate
       [Str (MongoBinary dockerImage), Str (smap_get (sec_data creds) UsernameKey),
        Str (smap_get (sec_data creds) PasswordKey), Str AuthDB])) (\<lambda>_.
     andthen (RunOnMongoPod r pod (Sprintf JsOpLogSize [Str ''local''])) (\<lambda>(output, err). case err of
       Some e \<Rightarrow> ret (Inl (Wrapped (Sprintf ''failed oplog fetch for pod %s: %s''
                    [Str (pod_name pod), Str (errStr (KubeImpl r) e)]) e))
     | None \<Rightarrow>
         (case parseInt64 (TrimSpace output) of
            None \<Rightarrow>
              (let e = NumError ''ParseInt'' (TrimSpace output) in
               ret (Inl (Wrapped (Sprintf ''parse oplog failed for pod %s: %s''
                 [Str (pod_name pod), Str (errStr (KubeImpl r) e)]) e)))
          | Some sizeBytes \<Rightarrow>
              andthen (GetMongoPrimaryReplica r label) (\<lambda>p.
              ret (Inr \<lparr>ShardName = dKey, ReplicaSet = dKey, PodName = pod_name pod,
                IsPrimary = (case p of Inl e \<Rightarrow> False | Inr primary \<Rightarrow> pod_name primary = pod_name pod),
                MaxSizeMB = go_div sizeBytes (1024 * 1024),
                DomainName = Sprintf ''%s.%s.%s:27017'' [Str (pod_name pod), Str dKey,
                  Str (Sprintf ''%s.svc.%s'' [Str namespace, Str domainName])],
                OplogPod = pod\<rparr>)))))"

definition oplogKey :: "string \<Rightarrow> nat \<Rightarrow> string" where
  "oplogKey replKey i = (if replKey = CnfNameKey then replKey else Sprintf replKey [Num (int i + 1)])"

definition GetOplogSizes :: "'w helper \<Rightarrow> string \<Rightarrow> nat \<Rightarrow> secret \<Rightarrow> string \<Rightarrow> string \<Rightarrow> string \<Rightarrow> string
    \<Rightarrow> ('w, goerror + oplog_info list) hop" where
  "GetOplogSizes r replKey shardsCount creds namespace domainName dockerImage AuthDB =
     forFold [0..<shardsCount] (\<lambda>i report.
       (let dKey = oplogKey replKey i; label = [(Microservice, dKey)] in
        andthen (listPodsChecked r label) (\<lambda>l. case l of
          Inl err \<Rightarrow> ret (Inl err)
        | Inr pods \<Rightarrow>
            forFold pods (\<lambda>pod report.
              andthen (oplogOfPod r label dKey creds namespace domainName dockerImage AuthDB pod) (\<lambda>x. case x of
                Inl e \<Rightarrow> ret (Inl e) | Inr info \<Rightarrow> ret (Inr (report @ [info])))) report))) []"

definition resizeSecondary :: "'w helper \<Rightarrow> int \<Rightarrow> oplog_info \<Rightarrow> ('w, goerror option) hop" where
  "resizeSecondary r desired item =
     andthen (RunWithJSONResult r (OplogPod item) (Sprintf JsOpLogResize [Num desired])) (\<lambda>(_, err). case err of
       Some e \<Rightarrow> ret (Some e)
     | None \<Rightarrow>
         andthen (RunOnPrimaryWithJSONResult r [(Microservice, ShardName item)]
           (Sprintf JsCheckMemberLag [Str (DomainName item)])) (\<lambda>(memberHealthy, err). case err of
           Some e \<Rightarrow> ret (Some e)
         | None \<Rightarrow> if memberHealthy = ''false'' then ret (Some (GoError ''replication lag present'')) else ret None))"

definition resizePrimary :: "'w helper \<Rightarrow> int \<Rightarrow> oplog_info \<Rightarrow> ('w, goerror option) hop" where
  "resizePrimary r desired item =
     andthen (RunWithJSONResult r (OplogPod item) (Sprintf JsOpLogResize [Num desired])) (\<lambda>(_, err). case err of
       Some e \<Rightarrow> ret (Some e)
     | None \<Rightarrow>
         andthen (RunWithJSONResult r (OplogPod item)
           (Sprintf JsCheckMemberHealth [Str (DomainName item)])) (\<lambda>(memberHealthy, err). case err of
           Some e \<Rightarrow> ret (Some e)
         | None \<Rightarrow> if memberHealthy = ''false''
                   then ret (Some (GoError (Sprintf ''member [%s] not healthy'' [Str (PodName item)])))
                   else ret None))"

definition UpdateOplogSize :: "'w helper \<Rightarrow> int \<Rightarrow> oplog_info list \<Rightarrow> ('w, goerror option) hop" where
  "UpdateOplogSize r desiredOplogSize report =
     andthen (forRange report (\<lambda>item.
       if \<not> IsPrimary item \<and> desiredOplogSize \<noteq> MaxSizeMB item
       then resizeSecondary r desiredOplogSize item else ret None)) (\<lambda>err. case err of
       Some e \<Rightarrow> ret (Some e)
     | None \<Rightarrow>
         forRange report (\<lambda>item.
           if IsPrimary item \<and> desiredOplogSize \<noteq> MaxSizeMB item
           then resizePrimary r desiredOplogSize item else ret None))"

section \<open>Compaction and flushing\<close>

definition compactCommand :: "string \<Rightarrow> string \<Rightarrow> string" where
  \<open>compactCommand dbName collectionName =
     Sprintf ''db.getSiblingDB('%s').runCommand({compact: '%s'})'' [Str dbName, Str collectionName]\<close>

definition compactAllCommand :: "string \<Rightarrow> string" where
  "compactAllCommand dbName =
     Sprintf ''db.getSiblingDB(%s).getCollectionNames().forEach(function (collectionName) { db.runCommand({ compact: collectionName }) })''
       [Str dbName]"

text \<open>\<^verbatim>\<open>for { ... }\<close>: wait until another pod is primary.\<close>

fun waitNewPrimary :: "nat \<Rightarrow> 'w helper \<Rightarrow> smap \<Rightarrow> string \<Rightarrow> ('w, goerror option option) hop" where
  "waitNewPrimary 0 r label old = ret None"
| "waitNewPrimary (Suc n) r label old =
     andthen (GetMongoPrimaryReplica r label) (\<lambda>p. case p of
       Inl err \<Rightarrow> ret (Some (Some err))
     | Inr second \<Rightarrow>
         if old \<noteq> pod_name second then ret (Some None)
         else andthen (sleep r 5) (\<lambda>_. waitNewPrimary n r label old))"

text \<open>The rounds of a compaction give \<^verbatim>\<open>Some x\<close> to end the function with x: x is None when the fuel is used up.\<close>

definition compactShard :: "nat \<Rightarrow> 'w helper \<Rightarrow> string \<Rightarrow> string \<Rightarrow> nat \<Rightarrow> ('w, goerror option option) hop" where
  "compactShard fuel r dbName collectionName i =
     (let label = shardLabels i in
      andthen (GetMongoPrimaryReplica r label) (\<lambda>p. case p of
        Inl err \<Rightarrow> ret (Some (Some err))
      | Inr primary \<Rightarrow>
          andthen (listPodsChecked r label) (\<lambda>l. case l of
            Inl err \<Rightarrow> ret (Some (Some err))
          | Inr list \<Rightarrow>
              andthen (forRange list (\<lambda>pod.
                if pod_name pod \<noteq> pod_name primary
                then andthen (RunOnMongoPod r pod (compactCommand dbName collectionName)) (\<lambda>_. ret (None :: unit option))
                else ret None)) (\<lambda>_.
              andthen (RunOnMongoPod r primary ''rs.stepDown()'') (\<lambda>(_, err). case err of
                Some e \<Rightarrow> ret (Some (Some e))
              | None \<Rightarrow>
                  andthen (waitNewPrimary fuel r label (pod_name primary)) (\<lambda>w. case w of
                    None \<Rightarrow> ret None
                  | Some (Some e) \<Rightarrow> ret (Some (Some e))
                  | Some None \<Rightarrow>
                      andthen (RunOnMongoPod r primary (compactCommand dbName collectionName)) (\<lambda>_.
                      ret (Some None))))))))"

fun compactShards :: "nat \<Rightarrow> 'w helper \<Rightarrow> string \<Rightarrow> string \<Rightarrow> nat list \<Rightarrow> ('w, goerror option option) hop" where
  "compactShards fuel r dbName collectionName [] = ret (Some None)"
| "compactShards fuel r dbName collectionName (i # is) =
     andthen (compactShard fuel r dbName collectionName i) (\<lambda>x. case x of
       None \<Rightarrow> ret None
     | Some (Some e) \<Rightarrow> ret (Some (Some e))
     | Some None \<Rightarrow> compactShards fuel r dbName collectionName is)"

definition RunCompactCommand :: "nat \<Rightarrow> 'w helper \<Rightarrow> nat \<Rightarrow> string \<Rightarrow> string \<Rightarrow> ('w, goerror option option) hop" where
  "RunCompactCommand fuel r shardsCount dbName collectionName =
     compactShards fuel r dbName collectionName [0..<shardsCount]"

definition Compact :: "nat \<Rightarrow> 'w helper \<Rightarrow> nat \<Rightarrow> string \<Rightarrow> string \<Rightarrow> ('w, goerror option option) hop" where
  "Compact fuel r shardsCount dbName collectionName = RunCompactCommand fuel r shardsCount dbName collectionName"

definition RunCompactCommandForALL :: "'w helper \<Rightarrow> nat \<Rightarrow> string \<Rightarrow> ('w, goerror option) hop" where
  "RunCompactCommandForALL r shardsCount dbName =
     forRange [0..<shardsCount] (\<lambda>i.
       andthen (GetMongoPrimaryReplica r (shardLabels i)) (\<lambda>p. case p of
         Inl err \<Rightarrow> ret (Some err)
       | Inr primary \<Rightarrow>
           andthen (listPodsChecked r (shardLabels i)) (\<lambda>l. case l of
             Inl err \<Rightarrow> ret (Some err)
           | Inr list \<Rightarrow>
               andthen (forRange list (\<lambda>pod.
                 if pod_name pod \<noteq> pod_name primary then
                   andthen (RunOnMongoPod r primary ''rs.secondaryOk()'') (\<lambda>(_, err). case err of
                     Some e \<Rightarrow> ret (Some e)
                   | None \<Rightarrow> andthen (RunOnMongoPod r pod (compactAllCommand dbName)) (\<lambda>_. ret None))
                 else ret None)) (\<lambda>err. case err of
                 Some e \<Rightarrow> ret (Some e)
               | None \<Rightarrow> andthen (RunOnMongoPod r primary (compactAllCommand dbName)) (\<lambda>_. ret None)))))"

definition CompactAll :: "'w helper \<Rightarrow> nat \<Rightarrow> string \<Rightarrow> ('w, goerror option) hop" where
  "CompactAll r shardsCount dbName = RunCompactCommandForALL r shardsCount dbName"

definition ExecuteFlushData :: "'w helper \<Rightarrow> nat \<Rightarrow> ('w, goerror option) hop" where
  "ExecuteFlushData r shardsCount =
     andthen (RunOnShards r ''db.adminCommand( { fsync: 1, lock: false } )'' shardsCount) (\<lambda>(_, err). ret err)"

section \<open>What a resize guarantees\<close>

lemma resizeSecondary_None:
  assumes "resizeSecondary r d item s = (Ret None, s')"
  shows "\<exists>out t answer. RunWithJSONResult r (OplogPod item) (Sprintf JsOpLogResize [Num d]) s = (Ret (out, None), t) \<and>
     RunOnPrimaryWithJSONResult r [(Microservice, ShardName item)] (Sprintf JsCheckMemberLag [Str (DomainName item)]) t
       = (Ret (answer, None), s') \<and> answer \<noteq> ''false''"
  using assms
  by (fastforce simp: resizeSecondary_def elim!: andthen_RetE split: option.splits if_splits)

lemma resizePrimary_None:
  assumes "resizePrimary r d item s = (Ret None, s')"
  shows "\<exists>out t answer. RunWithJSONResult r (OplogPod item) (Sprintf JsOpLogResize [Num d]) s = (Ret (out, None), t) \<and>
     RunWithJSONResult r (OplogPod item) (Sprintf JsCheckMemberHealth [Str (DomainName item)]) t
       = (Ret (answer, None), s') \<and> answer \<noteq> ''false''"
  using assms
  by (fastforce simp: resizePrimary_def elim!: andthen_RetE split: option.splits if_splits)

text \<open>C16: after a successful oplog update every member of the report whose size differed was sent the resize command in
  its own pod, which succeeded, and the check came next and did not answer false: for a primary the check of its health
  in its pod, for a secondary the check of its lag on the primary of its replica set, unless no attempt found one, when
  the code goes on without the check.\<close>

theorem oplog_update_complete:
  assumes "UpdateOplogSize r d report s = (Ret None, s')" "item \<in> set report" "MaxSizeMB item \<noteq> d"
  shows "\<exists>t u out answer v. RunWithJSONResult r (OplogPod item) (Sprintf JsOpLogResize [Num d]) t = (Ret (out, None), u) \<and> answer \<noteq> ''false'' \<and>
     (if IsPrimary item
      then RunWithJSONResult r (OplogPod item) (Sprintf JsCheckMemberHealth [Str (DomainName item)]) u = (Ret (answer, None), v)
      else ranOnPrimary r [(Microservice, ShardName item)] (jsonArg (Sprintf JsCheckMemberLag [Str (DomainName item)])) u answer v \<or>
           lookupsFail r [(Microservice, ShardName item)] (nat (Tries r)) u v)"
proof -
  let ?sec = "\<lambda>item. if \<not> IsPrimary item \<and> d \<noteq> MaxSizeMB item then resizeSecondary r d item else ret None"
  let ?prim = "\<lambda>item. if IsPrimary item \<and> d \<noteq> MaxSizeMB item then resizePrimary r d item else ret None"
  obtain m where m: "forRange report ?sec s = (Ret None, m)" "forRange report ?prim m = (Ret None, s')"
    using assms(1) by (auto simp: UpdateOplogSize_def elim!: andthen_RetE split: option.splits)
  show ?thesis
  proof (cases "IsPrimary item")
    case True
    obtain t u where "?prim item t = (Ret None, u)" using forRange_None [OF m(2) assms(2)] by blast
    then have "resizePrimary r d item t = (Ret None, u)" using True assms(3) by auto
    then show ?thesis using resizePrimary_None True by fastforce
  next
    case False
    obtain t v where "?sec item t = (Ret None, v)" using forRange_None [OF m(1) assms(2)] by blast
    then have "resizeSecondary r d item t = (Ret None, v)" using False assms(3) by auto
    then obtain out u answer where "RunWithJSONResult r (OplogPod item) (Sprintf JsOpLogResize [Num d]) t = (Ret (out, None), u)"
      "RunOnPrimary r [(Microservice, ShardName item)] (jsonArg (Sprintf JsCheckMemberLag [Str (DomainName item)])) u = (Ret (answer, None), v)" "answer \<noteq> ''false''"
      using resizeSecondary_None unfolding RunOnPrimaryWithJSONResult_def by blast
    then show ?thesis using RunOnPrimary_ran False by (metis (full_types))
  qed
qed

lemma forRange_filter: "forRange (filter P xs) f = forRange xs (\<lambda>x. if P x then f x else ret None)"
proof (induction xs)
  case (Cons x xs)
  then show ?case by (cases "P x") simp_all
qed simp

text \<open>One member that is the primary: its oplog is resized and its health checked.\<close>

definition plainMember :: "bool \<Rightarrow> oplog_info" where
  "plainMember primary =
     \<lparr>ShardName = ''datars1'', ReplicaSet = ''datars1'', PodName = ''pod-0'', IsPrimary = primary, MaxSizeMB = 50,
      DomainName = ''pod-0.datars1'', OplogPod = plainPod ''pod-0''\<rparr>"

lemma plainMember_simps [simp]:
  "ShardName (plainMember p) = ''datars1''" "IsPrimary (plainMember p) = p" "MaxSizeMB (plainMember p) = 50"
  "OplogPod (plainMember p) = plainPod ''pod-0''"
  by (simp_all add: plainMember_def)

lemma oplog_update_complete_witness:
  "\<exists>t u out answer v. RunWithJSONResult onePod (OplogPod (plainMember True)) (Sprintf JsOpLogResize [Num 100]) t = (Ret (out, None), u) \<and> answer \<noteq> ''false'' \<and>
     (if IsPrimary (plainMember True)
      then RunWithJSONResult onePod (OplogPod (plainMember True)) (Sprintf JsCheckMemberHealth [Str (DomainName (plainMember True))]) u = (Ret (answer, None), v)
      else ranOnPrimary onePod [(Microservice, ShardName (plainMember True))] (jsonArg (Sprintf JsCheckMemberLag [Str (DomainName (plainMember True))])) u answer v \<or>
           lookupsFail onePod [(Microservice, ShardName (plainMember True))] (nat (Tries onePod)) u v)"
  by (rule oplog_update_complete [where report = "[plainMember True]" and s = "baseState ()" and s' = "baseState ()"])
    (simp_all add: UpdateOplogSize_def resizePrimary_def RunWithJSONResult_def canned_simps cleanOutput_id)

text \<open>No primary is touched before every secondary is done: when a secondary fails, the update ends with
  its error in the state the secondaries left.\<close>

theorem oplog_secondary_failure_stops:
  assumes "forRange (filter (\<lambda>i. \<not> IsPrimary i \<and> d \<noteq> MaxSizeMB i) report) (resizeSecondary r d) s = (Ret (Some e), s')"
  shows "UpdateOplogSize r d report s = (Ret (Some e), s')"
  using assms by (simp add: forRange_filter UpdateOplogSize_def andthen_Ret)

text \<open>The resized secondary lags: the primary of the report is left alone.\<close>

lemma scripted_primary:
  assumes "cleanOutput a = ''pod-0''"
  shows "GetMongoPrimaryReplica (baseHelper (scriptedKube allPods)) labels (scriptState (a # as)) =
     (Ret (Inr (plainPod ''pod-0'')), scriptState as)"
proof -
  have "primaryName ''pod-0'' = ''pod-0''" by code_simp
  then show ?thesis using assms
    by (simp add: GetMongoPrimaryReplica_def scripted_listPodsChecked allPods_def andthen_apply scripted_RunOnMongoPod)
qed

lemma oplog_secondary_failure_stops_witness:
  "UpdateOplogSize (baseHelper (scriptedKube allPods)) 100 [plainMember True, plainMember False]
      (scriptState [''1'', ''pod-0'', ''false'']) =
     (Ret (Some (GoError ''replication lag present'')), scriptState [])"
proof (rule oplog_secondary_failure_stops)
  have clean: "cleanOutput ''1'' = ''1''" "cleanOutput ''pod-0'' = ''pod-0''" "cleanOutput ''false'' = ''false''"
    by (rule cleanOutput_id; simp)+
  show "forRange (filter (\<lambda>i. \<not> IsPrimary i \<and> 100 \<noteq> MaxSizeMB i) [plainMember True, plainMember False])
      (resizeSecondary (baseHelper (scriptedKube allPods)) 100) (scriptState [''1'', ''pod-0'', ''false'']) =
     (Ret (Some (GoError ''replication lag present'')), scriptState [])"
    by (simp add: resizeSecondary_def RunWithJSONResult_def RunOnPrimaryWithJSONResult_def RunOnPrimary_def
        runAndRetry_def runOnPrimaryBody_def eval_nat_numeral andthen_apply scripted_primary scripted_RunOnMongoPod clean)
qed

end
