(* ===== verification/MongoScale.thy ===== *)
theory MongoScale
  imports MongoReconf
begin

text \<open>
  Restarting, removing and scaling the parts of the cluster: the last operations of
  \<^verbatim>\<open>src/operator/pkg/utils/mongo_helper.go\<close>.

  \<^verbatim>\<open>RestartConfigRS\<close> and \<^verbatim>\<open>RestartDataRS\<close> wait for the replica set after its first pod only;
  \<^verbatim>\<open>ScaleCNFRS\<close> and \<^verbatim>\<open>ScaleDATARS\<close> return nil when scaling a stateful set fails.
\<close>

section \<open>Restarts\<close>

definition RestartMongos :: "'w helper \<Rightarrow> ('w, goerror option) hop" where
  "RestartMongos r =
     andthen (GetMongosPod r) (\<lambda>m. case m of
       Inl err \<Rightarrow> ret (Some (GoError (Sprintf ''error while receiving mongos pod. Error: %v'' [Str (errStr (KubeImpl r) err)])))
     | Inr pod \<Rightarrow>
         andthen (callW (RestartPod (KubeImpl r) pod (Namespace r) (WaitSeconds r))) (\<lambda>err. case err of
           Some e \<Rightarrow> ret (Some (GoError (Sprintf ''error while restarting mongos pod. Error: %v'' [Str (errStr (KubeImpl r) e)])))
         | None \<Rightarrow> ret None))"

text \<open>The condition of the wait: the replica set answers up.\<close>

definition replicaSetUp :: "'w helper \<Rightarrow> smap \<Rightarrow> string list \<Rightarrow> string \<Rightarrow> 'w cond" where
  "replicaSetUp r labels hosts mode =
     andthen (GetReplicaSetStatus r labels hosts mode) (\<lambda>(st, statusErr).
       ret (if statusErr \<noteq> None \<or> st \<noteq> Up then False else True, None))"

text \<open>The pods in order; the wait follows the restart of the first one.\<close>

definition restartPods :: "'w helper \<Rightarrow> (nat \<Rightarrow> goerror \<Rightarrow> goerror) \<Rightarrow> 'w cond \<Rightarrow> pod list \<Rightarrow> ('w, goerror option) hop" where
  "restartPods r restartError cond list =
     forRange [0..<length list] (\<lambda>i.
       andthen (callW (RestartPod (KubeImpl r) (list ! i) (Namespace r) (WaitSeconds r))) (\<lambda>err. case err of
         Some e \<Rightarrow> ret (Some (restartError i e))
       | None \<Rightarrow> if i = 0 then PollImmediate (KubeImpl r) 3 (WaitSeconds r) cond else ret None))"

definition RestartConfigRS :: "'w helper \<Rightarrow> nat \<Rightarrow> string \<Rightarrow> string \<Rightarrow> ('w, goerror option) hop" where
  "RestartConfigRS r cnfReplicaSize domain mode =
     andthen (listPodsChecked r [(Microservice, CnfNameKey)]) (\<lambda>l. case l of
       Inl err \<Rightarrow> ret (Some (GoError (Sprintf ''error while receiving cfrs pod. Error: %v'' [Str (errStr (KubeImpl r) err)])))
     | Inr list \<Rightarrow>
         restartPods r
           (\<lambda>i e. GoError (Sprintf ''error while restarting cnfrs %d pod. Error: %v'' [Num (int i), Str (errStr (KubeImpl r) e)]))
           (replicaSetUp r [(Microservice, CnfNameKey)] (GetCNFReplicaSetHostNames cnfReplicaSize domain (Namespace r)) mode)
           list)"

definition RestartDataRS :: "'w helper \<Rightarrow> nat \<Rightarrow> nat \<Rightarrow> string \<Rightarrow> string \<Rightarrow> ('w, goerror option) hop" where
  "RestartDataRS r datarsSize shardCount domain mode =
     forRange [0..<shardCount] (\<lambda>s.
       (let serviceName = Sprintf DataNameKey [Num (int s + 1)] in
        andthen (listPodsChecked r [(Microservice, serviceName)]) (\<lambda>l. case l of
          Inl err \<Rightarrow> ret (Some err)
        | Inr list \<Rightarrow>
            restartPods r (\<lambda>i e. e)
              (replicaSetUp r [(Microservice, serviceName)]
                 (GetDATAReplicaSetHostName datarsSize s domain (Namespace r)) mode)
              list)))"

section \<open>Removal\<close>

definition RemoveConfigRS :: "'w helper \<Rightarrow> nat \<Rightarrow> ('w, goerror option) hop" where
  "RemoveConfigRS r cnfReplicaSize =
     forRange [0..<cnfReplicaSize] (\<lambda>i.
       callW (DeleteStatefulsetAndPods (KubeImpl r) (Sprintf ''%s%d'' [Str CnfNameKey, Num (int i)])
         (Namespace r) (WaitSeconds r)))"

definition RemoveDataRS :: "'w helper \<Rightarrow> nat \<Rightarrow> nat \<Rightarrow> ('w, goerror option) hop" where
  "RemoveDataRS r dataReplicaSize shardCount =
     forRange [1..<shardCount + 1] (\<lambda>i.
       forRange [0..<dataReplicaSize] (\<lambda>j.
         callW (DeleteStatefulsetAndPods (KubeImpl r)
           (Sprintf (Sprintf DataNameKey [Str ''%d%d'']) [Num (int i), Num (int j)]) (Namespace r) (WaitSeconds r))))"

section \<open>Scaling\<close>

definition ScaleMongos :: "'w helper \<Rightarrow> int \<Rightarrow> ('w, goerror option) hop" where
  "ScaleMongos r replicas =
     andthen (callW (GetReplicationController (KubeImpl r) Mongos (Namespace r))) (\<lambda>(mongos, err). case err of
       Some e \<Rightarrow> ret (Some e)
     | None \<Rightarrow> callW (ScaleReplicationController (KubeImpl r) mongos replicas (WaitSeconds r)))"

definition ScaleDeployment :: "'w helper \<Rightarrow> int \<Rightarrow> string \<Rightarrow> ('w, goerror option) hop" where
  "ScaleDeployment r replicas microserviceName =
     andthen (callW (ListDeployments (KubeImpl r) (Namespace r) [(Microservice, microserviceName)])) (\<lambda>(items, err).
     case err of
       Some e \<Rightarrow> ret (Some e)
     | None \<Rightarrow> andthen (nth_or_panic items 0) (\<lambda>d. callW (ScaleDeploymentObj (KubeImpl r) d replicas (WaitSeconds r))))"

definition UpdateDeployment :: "'w helper \<Rightarrow> string \<Rightarrow> (deployment \<Rightarrow> deployment) \<Rightarrow> ('w, goerror option) hop" where
  "UpdateDeployment r microserviceName updateFunc =
     andthen (callW (ListDeployments (KubeImpl r) (Namespace r) [(Microservice, microserviceName)])) (\<lambda>(items, err).
     case err of
       Some e \<Rightarrow> ret (Some e)
     | None \<Rightarrow>
         (case items of
            [] \<Rightarrow> ret (Some (GoError (Sprintf ''No deployment found by labels microservice: %s'' [Str microserviceName])))
          | d # _ \<Rightarrow> callW (UpdateDeploymentObj (KubeImpl r) (updateFunc d))))"

text \<open>The loop over the stateful sets: a failed scale ends the whole function with nil.\<close>

definition scaleItems :: "'w helper \<Rightarrow> int \<Rightarrow> stateful_set list \<Rightarrow> ('w, goerror option option) hop" where
  "scaleItems r replicas items =
     forRange items (\<lambda>item.
       andthen (callW (ScaleStatefulset (KubeImpl r) item replicas (WaitSeconds r))) (\<lambda>err.
       ret (if err \<noteq> None then Some None else None)))"

definition ScaleCNFRS :: "'w helper \<Rightarrow> int \<Rightarrow> ('w, goerror option) hop" where
  "ScaleCNFRS r replicas =
     andthen (callW (ListStatefulSets (KubeImpl r) (Namespace r) [(Microservice, CnfNameKey)])) (\<lambda>(items, err).
     case err of
       Some e \<Rightarrow> ret (Some e)
     | None \<Rightarrow> andthen (scaleItems r replicas items) (\<lambda>x. case x of Some early \<Rightarrow> ret early | None \<Rightarrow> ret None))"

definition ScaleDATARS :: "'w helper \<Rightarrow> nat \<Rightarrow> int \<Rightarrow> ('w, goerror option) hop" where
  "ScaleDATARS r shardCount replicas =
     andthen (forRange [1..<shardCount + 1] (\<lambda>i.
       andthen (callW (ListStatefulSets (KubeImpl r) (Namespace r) [(Microservice, Sprintf DataNameKey [Num (int i)])]))
         (\<lambda>(items, err). case err of
           Some e \<Rightarrow> ret (Some (Some e))
         | None \<Rightarrow> scaleItems r replicas items))) (\<lambda>x. case x of Some early \<Rightarrow> ret early | None \<Rightarrow> ret None)"

section \<open>Properties\<close>

lemma callW_Ret: "callW f s = (Ret x, s') \<Longrightarrow> \<exists>w. f (World s) = (Ret x, w) \<and> s' = s\<lparr>World := w\<rparr>"
  by (auto simp: callW_def split: prod.splits)

lemma removed_data_name:
  "i > 0 \<Longrightarrow> Sprintf (Sprintf DataNameKey [Str ''%d%d'']) [Num (int i), Num (int j)] = dataStatefulSetName (i - 1) j"
  by (cases i) (simp_all add: DataNameKey_def dataStatefulSetName_eq Sprintf_simps)

text \<open>A removal of the data replica sets that succeeds deleted every stateful set of every shard, under the
  name with which the data step creates it.\<close>

theorem remove_data_complete:
  assumes "RemoveDataRS r n shards s = (Ret None, s')" "sh < shards" "i < n"
  shows "\<exists>w v. DeleteStatefulsetAndPods (KubeImpl r) (dataStatefulSetName sh i) (Namespace r) (WaitSeconds r) w = (Ret None, v)"
proof -
  let ?del = "\<lambda>i j. callW (DeleteStatefulsetAndPods (KubeImpl r)
           (Sprintf (Sprintf DataNameKey [Str ''%d%d'']) [Num (int i), Num (int j)]) (Namespace r) (WaitSeconds r))"
  have "\<exists>t u. forRange [0..<n] (?del (Suc sh)) t = (Ret None, u)"
    by (rule forRange_None [OF assms(1) [unfolded RemoveDataRS_def]]) (use assms(2) in auto)
  then obtain t u where run: "forRange [0..<n] (?del (Suc sh)) t = (Ret None, u)" by blast
  have "\<exists>t u. ?del (Suc sh) i t = (Ret None, u)"
    by (rule forRange_None [OF run]) (use assms(3) in auto)
  then show ?thesis using callW_Ret removed_data_name [of "Suc sh" i] by fastforce
qed

lemma remove_data_complete_witness:
  "\<exists>w v. DeleteStatefulsetAndPods (KubeImpl (baseHelper (baseKube :: unit kube))) (dataStatefulSetName 0 0)
      (Namespace (baseHelper (baseKube :: unit kube))) (WaitSeconds (baseHelper (baseKube :: unit kube))) w = (Ret None, v)"
  by (rule remove_data_complete [where n = 1 and shards = 1 and s = "baseState ()" and s' = "baseState ()"])
    (simp_all add: RemoveDataRS_def baseKube_def)

text \<open>Scaling the shards reports an error only when the stateful sets of a shard could not be listed: that a
  stateful set was not scaled is never reported.\<close>

theorem scale_failure_lost:
  assumes "ScaleDATARS r shards k s = (Ret (Some e), s')"
  shows "\<exists>i items w v. i \<in> {1..shards} \<and>
     ListStatefulSets (KubeImpl r) (Namespace r) [(Microservice, Sprintf DataNameKey [Num (int i)])] w = (Ret (items, Some e), v)"
proof -
  let ?body = "\<lambda>i. andthen (callW (ListStatefulSets (KubeImpl r) (Namespace r) [(Microservice, Sprintf DataNameKey [Num (int i)])]))
         (\<lambda>(items, err). case err of Some e \<Rightarrow> ret (Some (Some e)) | None \<Rightarrow> scaleItems r k items)"
  have "forRange [1..<shards + 1] ?body s = (Ret (Some (Some e)), s')"
    using assms by (auto simp: ScaleDATARS_def simp del: upt_Suc elim!: andthen_RetE split: option.splits)
  from forRange_Some [OF this] obtain i t where "i \<in> set [1..<shards + 1]"
    and body: "?body i t = (Ret (Some (Some e)), s')" by blast
  then have i: "i \<in> {1..shards}" by (simp only: set_upt) auto
  obtain items err u where l: "callW (ListStatefulSets (KubeImpl r) (Namespace r) [(Microservice, Sprintf DataNameKey [Num (int i)])]) t
      = (Ret (items, err), u)"
    and rest: "(case err of Some e \<Rightarrow> ret (Some (Some e)) | None \<Rightarrow> scaleItems r k items) u = (Ret (Some (Some e)), s')"
    using body by (auto elim!: andthen_RetE)
  have "err = Some e"
  proof (cases err)
    case None
    then have "scaleItems r k items u = (Ret (Some (Some e)), s')" using rest by simp
    then show ?thesis using forRange_Some
      by (fastforce simp: scaleItems_def elim!: andthen_RetE split: if_splits)
  qed (use rest in auto)
  then show ?thesis using callW_Ret [OF l] i by blast
qed

definition lostKube :: "unit kube" where
  "lostKube = baseKube \<lparr>ListStatefulSets := (\<lambda>ns l. ret ([], Some (GoError ''gone'')))\<rparr>"

lemma scale_failure_lost_witness:
  "\<exists>i items w v. i \<in> {1..2} \<and>
     ListStatefulSets (KubeImpl (baseHelper lostKube)) (Namespace (baseHelper lostKube))
       [(Microservice, Sprintf DataNameKey [Num (int i)])] w = (Ret (items, Some (GoError ''gone'')), v)"
  by (rule scale_failure_lost [where k = 0 and s = "baseState ()" and s' = "baseState ()"])
    (simp add: ScaleDATARS_def lostKube_def upt_rec)

text \<open>The restart of one shard: its first pod, the wait that starts in the state this leaves and ends when its last look
  finds the replica set up, and then the other pods.\<close>

definition shardRestarted :: "'w helper \<Rightarrow> nat \<Rightarrow> string \<Rightarrow> string \<Rightarrow> nat \<Rightarrow> 'w hstate \<Rightarrow> 'w hstate \<Rightarrow> bool" where
  "shardRestarted r n dm mode sh s s' =
     (\<exists>pod pods a b c z.
        listPodsChecked r (shardLabels sh) s = (Ret (Inr (pod # pods)), a) \<and>
        callW (RestartPod (KubeImpl r) pod (Namespace r) (WaitSeconds r)) a = (Ret None, b) \<and>
        PollImmediate (KubeImpl r) 3 (WaitSeconds r)
          (replicaSetUp r (shardLabels sh) (GetDATAReplicaSetHostName n sh dm (Namespace r)) mode) b = (Ret None, c) \<and>
        GetReplicaSetStatus r (shardLabels sh) (GetDATAReplicaSetHostName n sh dm (Namespace r)) mode z = (Ret (Up, None), c) \<and>
        forRange pods (\<lambda>p. callW (RestartPod (KubeImpl r) p (Namespace r) (WaitSeconds r))) c = (Ret None, s'))"

lemma restartPods_Cons:
  "restartPods r E cond (pod # pods) s = (Ret None, s') \<Longrightarrow> \<exists>b c.
     callW (RestartPod (KubeImpl r) pod (Namespace r) (WaitSeconds r)) s = (Ret None, b) \<and>
     PollImmediate (KubeImpl r) 3 (WaitSeconds r) cond b = (Ret None, c) \<and>
     forRange pods (\<lambda>p. callW (RestartPod (KubeImpl r) p (Namespace r) (WaitSeconds r))) c = (Ret None, s')"
proof -
  let ?body = "\<lambda>i. andthen (callW (RestartPod (KubeImpl r) ((pod # pods) ! i) (Namespace r) (WaitSeconds r))) (\<lambda>err. case err of
         Some e \<Rightarrow> ret (Some (E i e))
       | None \<Rightarrow> if i = 0 then PollImmediate (KubeImpl r) 3 (WaitSeconds r) cond else ret None)"
  have range: "[0..<length (pod # pods)] = 0 # map Suc [0..<length pods]"
    by (simp add: upt_conv_Cons map_Suc_upt del: upt_Suc)
  assume "restartPods r E cond (pod # pods) s = (Ret None, s')"
  then have "forRange (0 # map Suc [0..<length pods]) ?body s = (Ret None, s')"
    unfolding restartPods_def range .
  then obtain b c where bc: "callW (RestartPod (KubeImpl r) pod (Namespace r) (WaitSeconds r)) s = (Ret None, b)"
     "PollImmediate (KubeImpl r) 3 (WaitSeconds r) cond b = (Ret None, c)" "forRange (map Suc [0..<length pods]) ?body c = (Ret None, s')"
    by (auto elim!: andthen_RetE split: option.splits)
  have "forRange (map Suc is) ?body c = (Ret None, s') \<Longrightarrow> set is \<subseteq> {0..<length pods} \<Longrightarrow>
     forRange (map ((!) pods) is) (\<lambda>p. callW (RestartPod (KubeImpl r) p (Namespace r) (WaitSeconds r))) c = (Ret None, s')" for "is" c
    by (induction "is" arbitrary: c) (auto elim!: andthen_RetE split: option.splits simp: andthen_Ret)
  from this [OF bc(3)] show ?thesis using bc(1,2) by (auto simp: map_nth)
qed

text \<open>C21: a rolling restart of the shards that succeeds takes the shards one after the other, and in each of them restarts
  the first pod, waits from there until the replica set of the shard answers up, and only then restarts the others.\<close>

theorem restart_data_waits:
  assumes "poll_law (PollImmediate (KubeImpl r) 3 (WaitSeconds r))"
    and "RestartDataRS r n shards dm mode s = (Ret None, s')"
  shows "chained (shardRestarted r n dm mode) shards s s'"
proof -
  let ?cond = "\<lambda>sh. replicaSetUp r (shardLabels sh) (GetDATAReplicaSetHostName n sh dm (Namespace r)) mode"
  let ?body = "\<lambda>sh. andthen (listPodsChecked r (shardLabels sh)) (\<lambda>l. case l of
          Inl err \<Rightarrow> ret (Some err) | Inr list \<Rightarrow> restartPods r (\<lambda>i e. e) (?cond sh) list)"
  have "chained (\<lambda>i t u. ?body ([0..<shards] ! i) t = (Ret None, u)) (length [0..<shards]) s s'"
    unfolding shardLabels_def dataServiceName_def by (rule forRange_chained [OF assms(2) [unfolded RestartDataRS_def Let_def]])
  then have "chained (\<lambda>i t u. ?body ([0..<shards] ! i) t = (Ret None, u)) shards s s'" by simp
  then show ?thesis
  proof (rule chained_mono)
    fix i t u assume "i < shards" and b: "?body ([0..<shards] ! i) t = (Ret None, u)"
    then have nth: "[0..<shards] ! i = i" by simp
    have "?body i t = (Ret None, u)" using b unfolding nth .
    then obtain list a where l: "listPodsChecked r (shardLabels i) t = (Ret (Inr list), a)" "restartPods r (\<lambda>i e. e) (?cond i) list a = (Ret None, u)"
      by (auto elim!: andthen_RetE split: sum.splits)
    obtain pod pods where p: "list = pod # pods" using listPodsChecked_Inr [OF l(1)] by (cases list) auto
    obtain b c where bc: "callW (RestartPod (KubeImpl r) pod (Namespace r) (WaitSeconds r)) a = (Ret None, b)"
       "PollImmediate (KubeImpl r) 3 (WaitSeconds r) (?cond i) b = (Ret None, c)"
       "forRange pods (\<lambda>p. callW (RestartPod (KubeImpl r) p (Namespace r) (WaitSeconds r))) c = (Ret None, u)"
      using restartPods_Cons [OF l(2) [unfolded p]] by blast
    obtain z where z: "?cond i z = (Ret (True, None), c)" using poll_lawD [OF assms(1) bc(2)] by blast
    then have "GetReplicaSetStatus r (shardLabels i) (GetDATAReplicaSetHostName n i dm (Namespace r)) mode z = (Ret (Up, None), c)"
      by (auto simp: replicaSetUp_def elim!: andthen_RetE split: if_splits)
    then show "shardRestarted r n dm mode i t u" unfolding shardRestarted_def using l(1) p bc z by blast
  qed
qed

lemma restart_data_waits_witness:
  "chained (shardRestarted (baseHelper (cannedKube allPods statesAnswer)) 3 ''cluster.local'' ActiveMode) 1
     (baseState ()) (baseState () :: unit hstate)"
proof -
  let ?r = "baseHelper (cannedKube allPods statesAnswer) :: unit helper"
  have poll: "PollImmediate (cannedKube allPods statesAnswer) i t = poll_tries 2" for i t
    by (simp add: cannedKube_def baseKube_def)
  have restart: "RestartPod (cannedKube allPods statesAnswer) p ns t = ret None" for p ns t
    by (simp add: cannedKube_def baseKube_def)
  have law: "poll_law (PollImmediate (KubeImpl ?r) 3 (WaitSeconds ?r))" by (simp add: poll poll_tries_law)
  have run: "RestartDataRS ?r 3 1 ''cluster.local'' ActiveMode (baseState ()) = (Ret None, baseState ())"
    by (simp add: RestartDataRS_def restartPods_def canned_simps replicaSetUp_def poll restart eval_nat_numeral
        canned_GetReplicaSetStatus allPods_def data_hosts.length_hosts Let_def)
  show ?thesis by (rule restart_data_waits [OF law run])
qed
end
