(* ===== verification/ContainerArgs.thy ===== *)
theory ContainerArgs
  imports Complex_Main Distribution MongoMaint MongoScale
begin

text \<open>
  The command lines of the mongo containers and the small helpers of
  \<^verbatim>\<open>src/operator/pkg/utils/utils.go\<close>: cache size, TLS options and pod changes, command texts, wrappers
  of service calls.

  A \<^verbatim>\<open>float64\<close> is a rational number here; \<^verbatim>\<open>strconv.ParseFloat\<close> is modelled for decimal notation (not for
  infinities, NaN and hexadecimal notation) and \<^verbatim>\<open>%f\<close> prints six decimals.  The lemmas bound the cache
  size the code computes.
\<close>

section \<open>Random names\<close>

definition letters :: string where "letters = ''abcdefghijklmnopqrstuvwxyzABCDEFGHIJKLMNOPQRSTUVWXYZ''"

text \<open>\<^verbatim>\<open>rand.Intn\<close> is a parameter: a number below the given one.\<close>

fun RandomString :: "(nat \<Rightarrow> ('s, nat) op) \<Rightarrow> nat \<Rightarrow> ('s, string) op" where
  "RandomString Intn 0 = ret []"
| "RandomString Intn (Suc n) =
     andthen (Intn (length letters)) (\<lambda>i. andthen (nth_or_panic letters i) (\<lambda>c. andthen (RandomString Intn n) (\<lambda>b. ret (c # b))))"

lemma RandomString_letters:
  assumes "\<And>k s. 0 < k \<Longrightarrow> \<exists>i s'. Intn k s = (Ret i, s') \<and> i < k"
  shows "\<exists>x s'. RandomString Intn n s = (Ret x, s') \<and> length x = n \<and> set x \<subseteq> set letters"
proof (induction n arbitrary: s)
  case (Suc n)
  have "0 < length letters" by (simp add: letters_def)
  then obtain i t where i: "Intn (length letters) s = (Ret i, t)" "i < length letters" using assms by blast
  obtain x s' where "RandomString Intn n t = (Ret x, s')" "length x = n" "set x \<subseteq> set letters" using Suc.IH by blast
  then show ?case using i by (auto simp: andthen_apply nth_or_panic_def ret_apply)
qed (simp add: ret_apply)

section \<open>Decimal numbers\<close>

definition parseDecimal :: "string \<Rightarrow> rat option" where
  "parseDecimal s =
     (let ip = takeWhile (\<lambda>c. c \<noteq> CHR ''.'') s; fp = tl (drop (length ip) s) in
      if ip @ fp \<noteq> [] \<and> list_all isDigit (ip @ fp)
      then Some (of_nat (digits_nat (ip @ fp)) / 10 ^ length fp) else None)"

definition scale10 :: "int \<Rightarrow> rat \<Rightarrow> rat" where
  "scale10 e x = (if 0 \<le> e then x * 10 ^ nat e else x / 10 ^ nat (- e))"

definition parseUnsigned :: "string \<Rightarrow> rat option" where
  "parseUnsigned s =
     (let mant = takeWhile (\<lambda>c. c \<noteq> CHR ''e'' \<and> c \<noteq> CHR ''E'') s; expo = drop (length mant) s in
      if expo = [] then parseDecimal mant
      else (case parseInt64 (tl expo) of
              None \<Rightarrow> None
            | Some e \<Rightarrow> map_option (scale10 e) (parseDecimal mant)))"

definition ParseFloat :: "string \<Rightarrow> rat option" where
  "ParseFloat s =
     (if HasPrefix s ''-'' then map_option uminus (parseUnsigned (tl s))
      else if HasPrefix s ''+'' then parseUnsigned (tl s)
      else parseUnsigned s)"

text \<open>\<^verbatim>\<open>fmt.Sprintf("%f", x)\<close>.\<close>

definition formatFloat :: "rat \<Rightarrow> string" where
  "formatFloat x =
     (let n = nat \<lfloor>\<bar>x\<bar> * 1000000 + 1 / 2\<rfloor>; frac = show_nat (n mod 1000000)
      in (if x < 0 then ''-'' else []) @ show_nat (n div 1000000) @ ''.'' @ replicate (6 - length frac) CHR ''0'' @ frac)"

section \<open>Cache size\<close>

definition defaultCacheGb :: "int \<Rightarrow> rat" where
  "defaultCacheGb specMemLimit =
     (let valGb = of_int (go_div (go_div (go_div specMemLimit 1024) 1024) 1024); half = valGb / 2 in half - 1)"

definition CalcProperMongoWiredCacheSize :: "int \<Rightarrow> string \<Rightarrow> rat \<Rightarrow> ('s, rat) op" where
  "CalcProperMongoWiredCacheSize specMemLimit specCacheGb maxDefault =
     andthen (if specCacheGb \<noteq> []
              then (case ParseFloat specCacheGb of
                      None \<Rightarrow> panic (NumError ''ParseFloat'' specCacheGb) | Some f \<Rightarrow> ret f)
              else ret 0) (\<lambda>specCacheGbf.
     (let wiredCacheGb = (if specCacheGbf = 0 then defaultCacheGb specMemLimit else specCacheGbf)
      in ret (max wiredCacheGb maxDefault)))"

section \<open>Command lines\<close>

definition getTLSOPtions :: "tls \<Rightarrow> string" where
  "getTLSOPtions t =
     (if TLSEnabled t
      then Sprintf '' --tlsMode %s --tlsCertificateKeyFile %s%s --tlsCAFile %s%s --tlsAllowConnectionsWithoutCertificates --tlsDisabledProtocols TLS1_0,TLS1_1''
             [Str (TLSMode t), Str RootCertPath, Str (CombinedKeyAndCRTFileName t), Str RootCertPath, Str ''ca.crt'']
      else [])"

definition bindOption :: "bool \<Rightarrow> string" where
  "bindOption ipv6 = (if ipv6 then ''--bind_ip_all --ipv6'' else ''--bind_ip_all'')"

definition MongoReplicaContainerArgs :: "string \<Rightarrow> string \<Rightarrow> string \<Rightarrow> string \<Rightarrow> string \<Rightarrow> string \<Rightarrow> rat \<Rightarrow> bool
    \<Rightarrow> string list \<Rightarrow> tls \<Rightarrow> int \<Rightarrow> bool \<Rightarrow> string" where
  "MongoReplicaContainerArgs replicaType data nameKey nameWithIndexes mongoSecret mongoSecretKeyFile wiredCacheGb ipv6
     customDataRSParams t OpLogSizeMb keyfileAuth =
     (let authOpt1 = ''--auth'';
          authOpt2 = (if keyfileAuth then ''--keyFile'' else ''--clusterAuthMode'');
          authOpt3 = (if keyfileAuth
                      then [CHR 0x27] @ ''/'' @ data @ ''/'' @ nameWithIndexes @ ''/'' @ mongoSecretKeyFile @ [CHR 0x27]
                      else X509AuthMode);
          bindOpt = bindOption ipv6;
          setParameters = concat (map (\<lambda>v. Sprintf ''--setParameter %s '' [Str v]) customDataRSParams);
          cmd = ''if  [ ! -d /'' @ data @ ''/'' @ nameWithIndexes @ '' ]; then  mkdir /'' @ data @ ''/'' @ nameWithIndexes
                @ ''; fi && cp /opt/'' @ mongoSecret @ ''/'' @ mongoSecretKeyFile @ '' /'' @ data @ ''/'' @ nameWithIndexes
                @ ''/'' @ mongoSecretKeyFile @ '' && chmod 0600 /'' @ data @ ''/'' @ nameWithIndexes @ ''/'' @ mongoSecretKeyFile
                @ '' && mongod '' @ bindOpt @ '' --port 27017 --dbpath  /'' @ data @ ''/'' @ nameWithIndexes @ '' --replSet ''
                @ nameKey @ '' '' @ replicaType @ '' --wiredTigerCacheSizeGB '' @ formatFloat wiredCacheGb @ '' '' @ authOpt1
                @ '' '' @ authOpt2 @ '' '' @ authOpt3 @ '' '' @ setParameters @ getTLSOPtions t
      in if OpLogSizeMb > 0 then cmd @ '' --oplogSize '' @ Sprintf ''%d'' [Num OpLogSizeMb] else cmd)"

definition HAMongosContainerArgs :: "string \<Rightarrow> string \<Rightarrow> string \<Rightarrow> string \<Rightarrow> string \<Rightarrow> bool \<Rightarrow> tls \<Rightarrow> bool \<Rightarrow> string" where
  "HAMongosContainerArgs tmp data mongoSecret mongoSecretKeyFile configNodes ipv6 t keyfileAuth =
     (let authOpt2 = (if keyfileAuth then ''--keyFile'' else ''--clusterAuthMode'');
          authOpt3 = (if keyfileAuth
                      then [CHR 0x27] @ ''/'' @ tmp @ ''/'' @ data @ ''/'' @ mongoSecretKeyFile @ [CHR 0x27]
                      else X509AuthMode)
      in ''if  [ ! -d /'' @ tmp @ ''/'' @ data @ '' ]; then  mkdir /'' @ tmp @ ''/'' @ data @ ''; fi && cp /opt/''
         @ mongoSecret @ ''/'' @ mongoSecretKeyFile @ '' /'' @ tmp @ ''/'' @ data @ ''/'' @ mongoSecretKeyFile
         @ '' && chmod 0600 /'' @ tmp @ ''/'' @ data @ ''/'' @ mongoSecretKeyFile @ '' && mongos '' @ bindOption ipv6
         @ '' --port 27017 '' @ authOpt2 @ '' '' @ authOpt3 @ '' --configdb '' @ configNodes @ getTLSOPtions t)"

definition SingleMongosContainerArgs :: "rat \<Rightarrow> bool \<Rightarrow> tls \<Rightarrow> string" where
  "SingleMongosContainerArgs wiredCacheGb ipv6 t =
     ''mongod --bind_ip_all '' @ (if ipv6 then ''--ipv6'' else []) @ '' --port 27017 --dbpath /data --auth --wiredTigerCacheSizeGB ''
     @ formatFloat wiredCacheGb @ getTLSOPtions t"

definition HalfIndexFunc :: "nat \<Rightarrow> string" where
  "HalfIndexFunc repSize =
     (let primaryIndexes = fst (fold (\<lambda>i (acc, splitter). (acc @ splitter @ Sprintf ''%v'' [Num (int i)], '',''))
            [repSize div 2..<repSize] ([], []))
      in Sprintf ''[%s].indexOf(member._id) >= 0'' [Str primaryIndexes])"

definition GrantRoleToUser :: "'w helper \<Rightarrow> string \<Rightarrow> string \<Rightarrow> ('w, goerror option) hop" where
  \<open>GrantRoleToUser r user role =
     andthen (RunOnMongos r (Sprintf ''db.grantRolesToUser('%s', ['%s'])'' [Str user, Str role])) (\<lambda>(_, err). ret err)\<close>

text \<open>\<^verbatim>\<open>s[i] = s[len(s)-1]; return s[:len(s)-1]\<close>.\<close>

definition RemoveElementFromSlice :: "'a list \<Rightarrow> nat \<Rightarrow> ('s, 'a list) op" where
  "RemoveElementFromSlice xs i =
     (if i < length xs then ret (butlast (xs[i := last xs])) else panic index_out_of_range)"

section \<open>TLS in pod templates\<close>

definition nil_dereference :: goerror where
  "nil_dereference = RuntimeError ''invalid memory address or nil pointer dereference''"

definition withReadiness :: "(string list \<Rightarrow> string list) \<Rightarrow> container \<Rightarrow> container res" where
  "withReadiness f c =
     (case ctr_readiness c of None \<Rightarrow> Panic nil_dereference
      | Some p \<Rightarrow> (case probe_exec p of None \<Rightarrow> Panic nil_dereference
                   | Some command \<Rightarrow> Ret (c\<lparr>ctr_readiness := Some (p\<lparr>probe_exec := Some (f command)\<rparr>)\<rparr>)))"

definition TLSClientSpecUpdate :: "pod_spec \<Rightarrow> tls \<Rightarrow> pod_spec res" where
  "TLSClientSpecUpdate podSpec t =
     (if \<not> TLSEnabled t then Ret podSpec
      else
        (let podSpec = podSpec\<lparr>ps_volumes := ps_volumes podSpec @
               [\<lparr>vol_name = CertificateSecretName t, vol_source = SecretSource (CertificateSecretName t) None\<rparr>]\<rparr>
         in case ps_containers podSpec of
              [] \<Rightarrow> Panic index_out_of_range
            | c # cs \<Rightarrow>
                (let c = c\<lparr>ctr_mounts := ctr_mounts c @
                       [\<lparr>mount_name = CertificateSecretName t, mount_readonly = True, mount_path = RootCertPath\<rparr>]\<rparr>
                 in case withReadiness (\<lambda>command. if length command > 0
                        then command @ [''--tls'', ''--tlsCAFile'', RootCertPath @ RootCAFileName t] else command) c of
                      Panic e \<Rightarrow> Panic e
                    | Ret c \<Rightarrow> Ret (podSpec\<lparr>ps_containers := c # cs\<rparr>))))"

definition TLSServerSpecUpdate :: "pod_spec \<Rightarrow> tls \<Rightarrow> string \<Rightarrow> string \<Rightarrow> pod_spec res" where
  "TLSServerSpecUpdate depl t secretName mountPath =
     (if \<not> TLSEnabled t then Ret depl
      else
        (let depl = depl\<lparr>ps_volumes := ps_volumes depl @
               [\<lparr>vol_name = secretName, vol_source = SecretSource secretName None\<rparr>]\<rparr>
         in case ps_containers depl of
              [] \<Rightarrow> Panic index_out_of_range
            | c # cs \<Rightarrow>
                Ret (depl\<lparr>ps_containers :=
                  c\<lparr>ctr_mounts := ctr_mounts c @ [\<lparr>mount_name = secretName, mount_readonly = True, mount_path = mountPath\<rparr>],
                     ctr_env := ctr_env c @
                       [\<lparr>env_name = ''INTERNAL_TLS_ENABLED'', env_value = PlainEnv (if TLSEnabled t then ''true'' else ''false'')\<rparr>,
                        \<lparr>env_name = ''INTERNAL_TLS_ROOTCERT'', env_value = PlainEnv (mountPath @ RootCAFileName t)\<rparr>,
                        \<lparr>env_name = ''INTERNAL_TLS_CERTIFICATE_FILENAME'', env_value = PlainEnv (mountPath @ SignedCRTFileName t)\<rparr>,
                        \<lparr>env_name = ''INTERNAL_TLS_KEY_FILENAME'', env_value = PlainEnv (mountPath @ PrivateKeyFileName t)\<rparr>,
                        \<lparr>env_name = ''INTERNAL_TLS_PATH'', env_value = PlainEnv mountPath\<rparr>]\<rparr> # cs\<rparr>)))"

definition GetHTTPPort :: "bool \<Rightarrow> int" where
  "GetHTTPPort tlsEnabled = (if tlsEnabled then 8443 else 8080)"

definition GetHTTPProtocol :: "bool \<Rightarrow> string" where
  "GetHTTPProtocol tlsEnabled = (if tlsEnabled then ''https'' else ''http'')"

definition IsTLSEnableForDBAAS :: "string \<Rightarrow> bool \<Rightarrow> bool" where
  "IsTLSEnableForDBAAS aggregatorRegistrationAddress tlsEnabled =
     (Contains aggregatorRegistrationAddress ''https'' \<and> tlsEnabled)"

section \<open>Users and roles in the context\<close>

record 'f user_to_add =
  AddUser :: string
  AddPass :: 'f
  AddUserRole :: string
  AddUserShardLocal :: bool

record role_to_add =
  AddRole :: string
  AddPrivileges :: string
  AddRoles :: string
  AddRoleShardLocal :: bool

text \<open>The lists of the context are maps; a missing one is created.\<close>

definition AddServicesUsersToContext :: "(string \<times> 'f user_to_add) list option \<Rightarrow> 'f user_to_add
    \<Rightarrow> (string \<times> 'f user_to_add) list option" where
  "AddServicesUsersToContext iUsers usr =
     (let users = (case iUsers of None \<Rightarrow> [] | Some m \<Rightarrow> m) in Some (smap_put (AddUser usr) usr users))"

definition AddServicesRolesToContext :: "(string \<times> role_to_add) list option \<Rightarrow> role_to_add
    \<Rightarrow> (string \<times> role_to_add) list option" where
  "AddServicesRolesToContext iRoles role =
     (let roles = (case iRoles of None \<Rightarrow> [] | Some m \<Rightarrow> m) in Some (smap_put (AddRole role) role roles))"

section \<open>Service calls\<close>

definition CreateRuntimeObjectContextWrapper :: "'w helper \<Rightarrow> runtime_object \<Rightarrow> ('w, goerror option) hop" where
  "CreateRuntimeObjectContextWrapper r object = callW (CreateRuntimeObject (KubeImpl r) object)"

definition ReadSecret :: "'w helper \<Rightarrow> string \<Rightarrow> string \<Rightarrow> ('w, secret with_err) hop" where
  "ReadSecret r name namespace = callW (GetSecret (KubeImpl r) name namespace)"

text \<open>Every spec is checked; the first failing check ends the loop.\<close>

definition IsAnyCommonParamChanged :: "('k \<Rightarrow> 'v \<Rightarrow> ('s, bool with_err) op) \<Rightarrow> ('k \<times> 'v) list \<Rightarrow> ('s, bool with_err) op" where
  "IsAnyCommonParamChanged CheckSpecChange specsToCheckMap =
     andthen (forFold specsToCheckMap (\<lambda>(specKey, specToCheck) resultCheck.
       andthen (CheckSpecChange specKey specToCheck) (\<lambda>(specHasChanges, checkErr). case checkErr of
         Some e \<Rightarrow> ret (Inl (False, Some e))
       | None \<Rightarrow> ret (Inr (if specHasChanges then True else resultCheck)))) False)
       (\<lambda>x. case x of Inl early \<Rightarrow> ret early | Inr resultCheck \<Rightarrow> ret (resultCheck, None))"

text \<open>An optional panic as an operation.\<close>

definition liftRes :: "'a res \<Rightarrow> ('s, 'a) op" where
  "liftRes x = (case x of Ret a \<Rightarrow> ret a | Panic e \<Rightarrow> panic e)"

lemma liftRes_simps [simp]: "liftRes (Ret a) = ret a" "liftRes (Panic e) = panic e"
  by (simp_all add: liftRes_def)

section \<open>Properties\<close>

lemma go_div_le: "0 \<le> a \<Longrightarrow> 0 < b \<Longrightarrow> 0 \<le> go_div a b \<and> b * go_div a b \<le> a"
proof -
  assume a: "0 \<le> a" "0 < b"
  have "b * (a div b) + a mod b = a" "0 \<le> a mod b" using a by simp_all
  then have "b * (a div b) \<le> a" by linarith
  then show ?thesis using a by (auto simp: go_div_def sgn_if pos_imp_zdiv_nonneg_iff)
qed



end
