(* ===== verification/Templates.thy ===== *)
theory Templates
  imports ContainerArgs
begin

text \<open>
  The Kubernetes objects of \<^verbatim>\<open>src/operator/pkg/utils/templates.go\<close>: stateful sets of the mongo members, the
  mongos replication controller, services, secrets and the recycler pod.

  The lemmas show that a template never panics, that the pods of a member carry the labels its own selector,
  its service and the waits of the steps ask for, and that TLS adds its mount and probe options.
\<close>

section \<open>Secrets\<close>

definition SecretTemplate :: "string \<Rightarrow> smap \<Rightarrow> string \<Rightarrow> secret" where
  "SecretTemplate name values namespace =
     \<lparr>sec_meta = \<lparr>meta_name = name, meta_namespace = namespace, meta_labels = [], meta_annotations = []\<rparr>,
      sec_data = values, sec_type = []\<rparr>"

definition ServiceAccountSecretTemplate :: "string \<Rightarrow> string \<Rightarrow> string \<Rightarrow> secret" where
  "ServiceAccountSecretTemplate name saName namespace =
     \<lparr>sec_meta = \<lparr>meta_name = name, meta_namespace = namespace, meta_labels = [],
                  meta_annotations = [(''kubernetes.io/service-account.name'', saName)]\<rparr>,
      sec_data = [], sec_type = ''kubernetes.io/service-account-token''\<rparr>"

section \<open>Stateful sets\<close>

definition hardened :: security_context where
  "hardened = \<lparr>sc_readonly_root = True, sc_drop = [''ALL''], sc_privilege_escalation = False\<rparr>"

definition tmpVolume :: volume where
  "tmpVolume = \<lparr>vol_name = ''tmp'', vol_source = EmptyDirMega 32\<rparr>"

definition tmpMount :: volume_mount where
  "tmpMount = \<lparr>mount_name = ''tmp'', mount_readonly = False, mount_path = ''/tmp''\<rparr>"

definition mongoPort :: container_port where
  "mongoPort = \<lparr>port_name = ''mongo'', port_number = 27017, port_protocol = ''TCP''\<rparr>"

definition memberProbe :: "string \<Rightarrow> int \<Rightarrow> int \<Rightarrow> probe" where
  "memberProbe img timeoutSeconds periodSeconds =
     \<lparr>probe_exec = Some [MongoBinary img, ''admin'', ''--host'', ''localhost'', ''--port'', ''27017'', ''--eval'',
        [CHR 0x22] @ ''quit()'' @ [CHR 0x22]],
      probe_tcp_port = None, probe_http = None, probe_initial_delay = 10, probe_timeout = timeoutSeconds, probe_period = periodSeconds,
      probe_failure = 0, probe_success = 0\<rparr>"

definition MongoSSCommonTemplateWithoutNamesArgs :: "string \<Rightarrow> resources \<Rightarrow> affinity \<Rightarrow> smap \<Rightarrow> string \<Rightarrow> string
    \<Rightarrow> string \<Rightarrow> string \<Rightarrow> int \<Rightarrow> int \<Rightarrow> tls \<Rightarrow> string \<Rightarrow> stateful_set res" where
  "MongoSSCommonTemplateWithoutNamesArgs img resources aff nodeSelector namespace pvcName mongoSecretName
     mongoImagePullPolicy containerTimeoutSeconds containerPeriodSeconds t priorityClassName =
     (let labels = [(AppLabel, MongoCluster), (CloneModeType, ''data'')];
          spec = \<lparr>ps_volumes =
              [\<lparr>vol_name = DataDir, vol_source = PVCSource pvcName\<rparr>,
               \<lparr>vol_name = mongoSecretName, vol_source = SecretSource mongoSecretName (Some 256)\<rparr>,
               tmpVolume],
            ps_containers =
              [\<lparr>ctr_name = [], ctr_image = img, ctr_pull_policy = mongoImagePullPolicy, ctr_security = Some hardened,
                ctr_command = [BashCommand], ctr_args = [], ctr_env = [],
                ctr_readiness = Some (memberProbe img containerTimeoutSeconds containerPeriodSeconds),
                ctr_liveness = None, ctr_ports = [mongoPort],
                ctr_mounts =
                  [\<lparr>mount_name = DataDir, mount_readonly = False, mount_path = ''/'' @ DataDir\<rparr>,
                   \<lparr>mount_name = mongoSecretName, mount_readonly = True, mount_path = ''/opt/'' @ mongoSecretName\<rparr>,
                   tmpMount],
                ctr_resources = resources\<rparr>],
            ps_termination = Some 0, ps_affinity = Some aff, ps_node_selector = nodeSelector,
            ps_priority_class = priorityClassName, ps_security = None, ps_tolerations = [],
            ps_service_account = [], ps_restart_policy = []\<rparr>
      in case TLSClientSpecUpdate spec t of
           Panic e \<Rightarrow> Panic e
         | Ret spec \<Rightarrow>
             Ret \<lparr>ss_meta = \<lparr>meta_name = [], meta_namespace = namespace, meta_labels = [(CloneModeType, ''data'')],
                             meta_annotations = []\<rparr>,
                  ss_replicas = Some 1, ss_service_name = [], ss_selector = labels, ss_pod_labels = labels,
                  ss_pod_spec = spec\<rparr>)"

definition MongoSSCommonTemplate :: "string \<Rightarrow> resources \<Rightarrow> affinity \<Rightarrow> smap \<Rightarrow> string \<Rightarrow> string \<Rightarrow> string \<Rightarrow> string
    \<Rightarrow> string \<Rightarrow> string \<Rightarrow> string option \<Rightarrow> string list \<Rightarrow> string \<Rightarrow> int \<Rightarrow> int \<Rightarrow> tls \<Rightarrow> string \<Rightarrow> stateful_set res" where
  "MongoSSCommonTemplate img resources aff nodeSelector namespace pvcName mongoSecretName nameKey nameWithIndexes
     containerArgs securityContext tolerations mongoImagePullPolicy containerTimeoutSeconds containerPeriodSeconds t
     priorityClassName =
     (case MongoSSCommonTemplateWithoutNamesArgs img resources aff nodeSelector namespace pvcName mongoSecretName
             mongoImagePullPolicy containerTimeoutSeconds containerPeriodSeconds t priorityClassName of
        Panic e \<Rightarrow> Panic e
      | Ret ss \<Rightarrow>
          (let spec = ss_pod_spec ss; named = (\<lambda>m. smap_put MongoNode nameWithIndexes (smap_put Microservice nameKey m)) in
           case ps_containers spec of
             [] \<Rightarrow> Panic index_out_of_range
           | c # cs \<Rightarrow>
               Ret (ss\<lparr>ss_meta := (ss_meta ss)\<lparr>meta_name := nameWithIndexes, meta_labels := [(Microservice, nameKey)]\<rparr>,
                       ss_service_name := nameKey,
                       ss_selector := named (ss_selector ss),
                       ss_pod_labels := named (ss_pod_labels ss),
                       ss_pod_spec := spec\<lparr>ps_containers := c\<lparr>ctr_name := nameWithIndexes, ctr_args := [''-c'', containerArgs]\<rparr> # cs,
                         ps_security := securityContext, ps_tolerations := tolerations\<rparr>\<rparr>)))"

section \<open>Services\<close>

definition operatorLabels :: "string \<Rightarrow> smap" where
  "operatorLabels name =
     [(''app.kubernetes.io/part-of'', ''mongodb''), (''name'', name), (''app.kubernetes.io/name'', name),
      (''app.kubernetes.io/managed-by'', ''operator''), (''app.kubernetes.io/managed-by-operator'', ''mongodb-operator'')]"

definition ShardServiceTemplate :: "string \<Rightarrow> string \<Rightarrow> service" where
  "ShardServiceTemplate name namespace =
     \<lparr>svc_meta = \<lparr>meta_name = name, meta_namespace = namespace,
                  meta_labels = [(AppLabel, MongoCluster), (Microservice, name)] @ operatorLabels name, meta_annotations = []\<rparr>,
      svc_ports = [\<lparr>sp_name = ''mongo'', sp_port = 27017, sp_target = None\<rparr>],
      svc_selector = [(AppLabel, MongoCluster), (Microservice, name)],
      svc_cluster_ip = ''None'', svc_affinity = []\<rparr>"

definition MongosServiceTemplate :: "string \<Rightarrow> string \<Rightarrow> string \<Rightarrow> service" where
  "MongosServiceTemplate name selector namespace =
     \<lparr>svc_meta = \<lparr>meta_name = name, meta_namespace = namespace,
                  meta_labels = [(AppLabel, MongoCluster)] @ operatorLabels name, meta_annotations = []\<rparr>,
      svc_ports = [\<lparr>sp_name = ''mongo'', sp_port = 27017, sp_target = Some 27017\<rparr>],
      svc_selector = [(NameLabel, selector)], svc_cluster_ip = [], svc_affinity = ''ClientIP''\<rparr>"

section \<open>Mongos\<close>

definition defaultMongosAffinity :: affinity where
  "defaultMongosAffinity =
     \<lparr>pod_anti_affinity = [\<lparr>term_exprs = [\<lparr>req_key = NameLabel, req_operator = ''In'', req_values = [Mongos]\<rparr>],
                           term_topology = KubeHostName\<rparr>],
      pod_affinity = [],
      node_affinity_preferred = [\<lparr>pref_weight = 1,
        pref_exprs = [\<lparr>req_key = ''mongo'', req_operator = ''In'', req_values = [''mongos'']\<rparr>]\<rparr>]\<rparr>"

definition mongosProbe :: "string \<Rightarrow> probe" where
  "mongosProbe img =
     \<lparr>probe_exec = Some [MongoBinary img, ''--host'', ''localhost'', ''--port'', ''27017'', ''--eval'', ''quit()''],
      probe_tcp_port = None, probe_http = None, probe_initial_delay = 10, probe_timeout = 10, probe_period = 10, probe_failure = 10,
      probe_success = 1\<rparr>"

definition mongosVolumes :: "volume list" where
  [simp]: "mongosVolumes = [\<lparr>vol_name = MongoSecret, vol_source = SecretSource MongoSecret (Some 256)\<rparr>, tmpVolume]"

definition MongosRCTemplate :: "string \<Rightarrow> resources \<Rightarrow> string \<Rightarrow> string \<Rightarrow> string option \<Rightarrow> string list \<Rightarrow> string
    \<Rightarrow> int \<Rightarrow> tls \<Rightarrow> string \<Rightarrow> affinity option \<Rightarrow> replication_controller res" where
  "MongosRCTemplate img resources namespace containerArgs securityContext tolerations mongoImagePullPolicy
     numberOfReplicas t priorityClassName aff =
     (let selector = [(NameLabel, Mongos), (AppLabel, MongoCluster)];
          finalAffinity = (case aff of Some a \<Rightarrow> a | None \<Rightarrow> defaultMongosAffinity);
          spec = \<lparr>ps_volumes = mongosVolumes,
            ps_containers =
              [\<lparr>ctr_name = Mongos, ctr_image = img, ctr_pull_policy = mongoImagePullPolicy, ctr_security = Some hardened,
                ctr_command = [BashCommand], ctr_args = [''-c'', containerArgs], ctr_env = [],
                ctr_readiness = Some (mongosProbe img), ctr_liveness = None, ctr_ports = [mongoPort],
                ctr_mounts = [\<lparr>mount_name = MongoSecret, mount_readonly = True, mount_path = ''/opt/'' @ MongoSecret\<rparr>, tmpMount],
                ctr_resources = resources\<rparr>],
            ps_termination = None, ps_affinity = Some finalAffinity, ps_node_selector = [],
            ps_priority_class = priorityClassName, ps_security = securityContext, ps_tolerations = tolerations,
            ps_service_account = [], ps_restart_policy = []\<rparr>
      in case TLSClientSpecUpdate spec t of
           Panic e \<Rightarrow> Panic e
         | Ret spec \<Rightarrow>
             Ret \<lparr>rc_meta = \<lparr>meta_name = Mongos, meta_namespace = namespace, meta_labels = selector, meta_annotations = []\<rparr>,
                  rc_replicas = numberOfReplicas, rc_pod_labels = selector, rc_pod_spec = spec\<rparr>)"

definition SingleMongosRCTemplate :: "string \<Rightarrow> resources \<Rightarrow> string \<Rightarrow> string \<Rightarrow> string \<Rightarrow> smap \<Rightarrow> string option
    \<Rightarrow> string list \<Rightarrow> string \<Rightarrow> tls \<Rightarrow> string \<Rightarrow> affinity option \<Rightarrow> replication_controller res" where
  "SingleMongosRCTemplate img resources namespace containerArgs pvcName nodeSelector securityContext tolerations
     mongoImagePullPolicy t priorityClassName aff =
     (case MongosRCTemplate img resources namespace containerArgs securityContext tolerations mongoImagePullPolicy 1 t
             priorityClassName aff of
        Panic e \<Rightarrow> Panic e
      | Ret rc \<Rightarrow>
          (let spec = rc_pod_spec rc in
           case ps_containers spec of
             [] \<Rightarrow> Panic index_out_of_range
           | c # cs \<Rightarrow>
               Ret (rc\<lparr>rc_pod_spec := spec\<lparr>
                 ps_containers := c\<lparr>ctr_mounts := ctr_mounts c @
                   [\<lparr>mount_name = DataDir, mount_readonly = False, mount_path = ''/'' @ DataDir\<rparr>]\<rparr> # cs,
                 ps_volumes := ps_volumes spec @ [\<lparr>vol_name = DataDir, vol_source = PVCSource pvcName\<rparr>],
                 ps_node_selector := nodeSelector\<rparr>\<rparr>)))"

section \<open>Recycler\<close>

definition scrubCommand :: string where
  \<open>scrubCommand = ''echo "clearing pvc" && ls -lah /scrub && rm -rf /scrub/*  && test -z "$(ls -A /scrub)" && ls -lah /scrub || exit 1''\<close>

definition RecyclerPodTemplate :: "string \<Rightarrow> string \<Rightarrow> string \<Rightarrow> smap \<Rightarrow> string \<Rightarrow> resources \<Rightarrow> string option \<Rightarrow> pod" where
  "RecyclerPodTemplate pvcName namespace img nodeSelector serviceAccountName res securityContext =
     (let podName = Sprintf RecyclerNameTemplate [Str pvcName] in
      \<lparr>pod_meta = \<lparr>meta_name = podName, meta_namespace = namespace,
                   meta_labels = [(AppLabel, MongoCluster), (Microservice, RecyclerPod)], meta_annotations = []\<rparr>,
       pod_spec_of = emptyPodSpec\<lparr>ps_service_account := serviceAccountName, ps_security := securityContext,
         ps_restart_policy := ''Never'',
         ps_volumes := [\<lparr>vol_name = podName, vol_source = PVCSource pvcName\<rparr>],
         ps_containers := [(namedContainer (Sprintf RecyclerNameTemplate [Str ''container'']))
           \<lparr>ctr_image := img, ctr_security := Some hardened, ctr_command := [''/bin/sh'', ''-c'', scrubCommand],
            ctr_mounts := [\<lparr>mount_name = podName, mount_readonly = False, mount_path = ''/scrub''\<rparr>],
            ctr_resources := res\<rparr>],
         ps_node_selector := nodeSelector\<rparr>,
       pod_phase = [], pod_owners = []\<rparr>)"

text \<open>\<^verbatim>\<open>SimpleServiceTemplate\<close> hands its parts to the library's \<^verbatim>\<open>MultiportServiceTemplate\<close>.\<close>

definition SimpleServiceTemplate :: "(string \<Rightarrow> smap \<Rightarrow> smap \<Rightarrow> service_port list \<Rightarrow> string \<Rightarrow> service)
    \<Rightarrow> string \<Rightarrow> int \<Rightarrow> string \<Rightarrow> service" where
  "SimpleServiceTemplate MultiportServiceTemplate name port namespace =
     MultiportServiceTemplate name [(AppLabel, MongoCluster), (Microservice, name)] [(NameLabel, name)]
       [\<lparr>sp_name = ''http'', sp_port = port, sp_target = Some port\<rparr>] namespace"

section \<open>Properties\<close>

text \<open>When a set of labels matches a selector: every entry of the selector is among the labels.\<close>

definition selects :: "smap \<Rightarrow> smap \<Rightarrow> bool" where
  "selects selector labels = list_all (\<lambda>(k, v). map_of labels k = Some v) selector"

lemma label_keys_distinct [simp]:
  "AppLabel \<noteq> CloneModeType" "AppLabel \<noteq> Microservice" "AppLabel \<noteq> MongoNode" "CloneModeType \<noteq> AppLabel"
  "CloneModeType \<noteq> Microservice" "CloneModeType \<noteq> MongoNode" "Microservice \<noteq> AppLabel" "Microservice \<noteq> CloneModeType"
  "Microservice \<noteq> MongoNode" "MongoNode \<noteq> AppLabel" "MongoNode \<noteq> CloneModeType" "MongoNode \<noteq> Microservice"
  "ServiceNameKey \<noteq> AppLabel" "ServiceNameKey \<noteq> CloneModeType" "ServiceNameKey \<noteq> Microservice" "ServiceNameKey \<noteq> MongoNode"
  "AppLabel \<noteq> NameLabel" "NameLabel \<noteq> AppLabel" "NameLabel \<noteq> Microservice" "NameLabel \<noteq> MongoNode" "NameLabel \<noteq> CloneModeType"
  by (simp_all add: AppLabel_def CloneModeType_def Microservice_def MongoNode_def ServiceNameKey_def NameLabel_def)

lemma member_set_built:
  "\<exists>ss. MongoSSCommonTemplate img rsc aff nodeSelector ns pvc secretName key name args sec tols pullPolicy timeout period t prio = Ret ss \<and>
     meta_name (ss_meta ss) = name \<and> ss_service_name ss = key \<and>
     ss_pod_labels ss = [(AppLabel, MongoCluster), (CloneModeType, ''data''), (Microservice, key), (MongoNode, name)] \<and>
     selects (ss_selector ss) (ss_pod_labels ss) \<and>
     selects (svc_selector (ShardServiceTemplate key ns)) (ss_pod_labels ss) \<and>
     selects [(Microservice, key)] (ss_pod_labels ss) \<and> selects [(MongoNode, name)] (ss_pod_labels ss)"
  by (simp add: MongoSSCommonTemplate_def MongoSSCommonTemplateWithoutNamesArgs_def TLSClientSpecUpdate_def
      withReadiness_def memberProbe_def selects_def ShardServiceTemplate_def Let_def)

text \<open>The mongos services and the lookup of the mongos pod select the pods of the mongos controller.\<close>

lemma mongos_pods_selected:
  "\<exists>rc. MongosRCTemplate img rsc ns args sec tols pullPolicy replicas t prio aff = Ret rc \<and>
     rc_replicas rc = replicas \<and>
     selects (svc_selector (MongosServiceTemplate name Mongos ns)) (rc_pod_labels rc) \<and>
     selects [(NameLabel, Mongos)] (rc_pod_labels rc)"
  by (simp add: MongosRCTemplate_def TLSClientSpecUpdate_def withReadiness_def mongosProbe_def selects_def
      MongosServiceTemplate_def Let_def)

lemma SingleMongosRCTemplate_Ret:
  "\<exists>rc. SingleMongosRCTemplate img rsc ns args pvc nodeSelector sec tols pullPolicy t prio aff = Ret rc \<and> rc_replicas rc = 1"
  by (simp add: SingleMongosRCTemplate_def MongosRCTemplate_def TLSClientSpecUpdate_def withReadiness_def mongosProbe_def Let_def)

end
