(* ===== verification/HttpClient.thy ===== *)
theory HttpClient
  imports Templates
begin

text \<open>
  The client with which an operator asks the operator of the other site for its key file and status:
  \<^verbatim>\<open>src/operator/pkg/utils/http_request.go\<close>, and the bodies its peer answers with
  (\<^verbatim>\<open>src/operator/pkg/fiber\<close>).

  The HTTP client of the Go library is a parameter: a record with the request and the check of a URL.  The
  lemmas show that the client reads back the status the peer sent, and which errors it drops.
\<close>

record http_response =
  StatusCode :: int
  BodyRead :: "string with_err"

record 'w http =
  HttpDo :: "string \<Rightarrow> string \<Rightarrow> string option \<Rightarrow> ('w, goerror + http_response) op"
  HttpUrlError :: "string \<Rightarrow> goerror option"

definition MethodGet :: string where
  "MethodGet = ''GET''"

definition MethodPost :: string where
  "MethodPost = ''POST''"

text \<open>The body is given marshalled, or as the error of marshalling it.\<close>

definition SendRequest :: "'w http \<Rightarrow> string \<Rightarrow> string \<Rightarrow> goerror + string \<Rightarrow> ('w, goerror + http_response) hop" where
  "SendRequest h url method body =
     (if method = MethodPost then
        (case body of
           Inl errm \<Rightarrow> ret (Inl errm)
         | Inr codedBody \<Rightarrow>
             (case HttpUrlError h url of
                Some e \<Rightarrow> panic nil_dereference
              | None \<Rightarrow> callW (HttpDo h url method (Some codedBody))))
      else
        (case HttpUrlError h url of
           Some e \<Rightarrow> ret (Inl e)
         | None \<Rightarrow> callW (HttpDo h url method None)))"

definition ReadResponseBody :: "http_response \<Rightarrow> goerror + string" where
  "ReadResponseBody response =
     (if 200 \<le> StatusCode response \<and> StatusCode response \<le> 299
      then (case BodyRead response of (body, Some err) \<Rightarrow> Inl err | (body, None) \<Rightarrow> Inr body)
      else Inl (GoError (Sprintf ''Response code is %d'' [Num (StatusCode response)])))"

section \<open>Documents\<close>

definition unmarshal_string :: "string \<Rightarrow> string with_err" where
  "unmarshal_string s =
     (case parse_json s of
        None \<Rightarrow> ([], Some (JsonError s))
      | Some v \<Rightarrow> (case store_string v [] of (x, ok) \<Rightarrow> (x, if ok then None else Some (JsonError s))))"

definition store_member :: "(smap \<times> bool) \<Rightarrow> string \<times> json \<Rightarrow> smap \<times> bool" where
  "store_member acc kv =
     (case acc of (m, ok) \<Rightarrow> case kv of (k, v) \<Rightarrow>
        (case store_string v [] of (x, b) \<Rightarrow> (smap_put k x m, ok \<and> b)))"

text \<open>Unmarshalling into a \<^verbatim>\<open>map[string]string\<close>.\<close>

definition unmarshal_smap :: "string \<Rightarrow> smap with_err" where
  "unmarshal_smap s =
     (case parse_json s of
        None \<Rightarrow> ([], Some (JsonError s))
      | Some JNull \<Rightarrow> ([], None)
      | Some (JObj kvs) \<Rightarrow> (case foldl store_member ([], True) kvs of (m, ok) \<Rightarrow> (m, if ok then None else Some (JsonError s)))
      | Some _ \<Rightarrow> ([], Some (JsonError s)))"

section \<open>The client\<close>

definition GetKeyFile :: "'w http \<Rightarrow> string \<Rightarrow> ('w, string with_err) hop" where
  "GetKeyFile h host =
     andthen (SendRequest h (Sprintf ''%s/%s'' [Str host, Str KeyFileURI]) MethodGet (Inr ''null'')) (\<lambda>x. case x of
       Inl err \<Rightarrow> ret ([], Some err)
     | Inr resp \<Rightarrow>
         (case ReadResponseBody resp of
            Inl err \<Rightarrow> ret ([], Some err)
          | Inr result \<Rightarrow> (let (key, err) = unmarshal_string result in ret (key, None))))"

definition GetStatus :: "'w http \<Rightarrow> string \<Rightarrow> ('w, string with_err) hop" where
  "GetStatus h host =
     andthen (SendRequest h (Sprintf ''%s/%s'' [Str host, Str HealthURI]) MethodGet (Inr ''null'')) (\<lambda>x. case x of
       Inl err \<Rightarrow> ret ([], None)
     | Inr resp \<Rightarrow>
         (case ReadResponseBody resp of
            Inl err \<Rightarrow> ret ([], Some err)
          | Inr respBody \<Rightarrow>
              (case unmarshal_smap respBody of
                 (m, Some err) \<Rightarrow> ret ([], None)
               | (m, None) \<Rightarrow> ret (smap_get m ''status'', None))))"

text \<open>The body of the health answer: the struct \<^verbatim>\<open>Status\<close>, whose field is omitted when empty.\<close>

definition statusBody :: "string \<Rightarrow> string" where
  "statusBody st = (if st = [] then ''{}'' else ''{'' @ json_string ''status'' @ '':'' @ json_string st @ ''}'')"

text \<open>\<^verbatim>\<open>json.Marshal\<close> of a string of ASCII characters, the body of the key file answer.\<close>

definition hexDigit :: "nat \<Rightarrow> char" where
  "hexDigit n = ''0123456789abcdef'' ! n"

definition escapeJson :: "char \<Rightarrow> string" where
  "escapeJson c =
     (if c = CHR 0x22 \<or> c = CHR 0x5C then [CHR 0x5C, c]
      else if c = CHR 0x0A then [CHR 0x5C, CHR ''n'']
      else if c = CHR 0x0D then [CHR 0x5C, CHR ''r'']
      else if c = CHR 0x09 then [CHR 0x5C, CHR ''t'']
      else if (of_char c :: nat) < 0x20 \<or> c \<in> {CHR ''<'', CHR ''>'', CHR ''&''}
      then [CHR 0x5C, CHR ''u'', CHR ''0'', CHR ''0'', hexDigit (of_char c div 16), hexDigit (of_char c mod 16)]
      else [c])"

definition marshalString :: "string \<Rightarrow> string" where
  "marshalString s = CHR 0x22 # concat (map escapeJson s) @ [CHR 0x22]"

section \<open>Properties\<close>

lemma skip_ws_head [simp]: "\<not> isJsonSpace c \<Longrightarrow> skip_ws (c # s) = c # s"
  by (simp add: skip_ws_def)

lemma skip_ws_Nil [simp]: "skip_ws [] = []"
  by (simp add: skip_ws_def)

lemma hexDigits_ok: "list_all (\<lambda>d. hex_val (hexDigit d) = Some d) [0..<16]"
  by code_simp

lemma hex4_escape:
  assumes "n < 256"
  shows "hex4 (CHR ''0'' # CHR ''0'' # hexDigit (n div 16) # hexDigit (n mod 16) # r) = Some (n, r)"
proof -
  have "n div 16 < 16" "n mod 16 < 16" using assms by auto
  then have "hex_val (hexDigit (n div 16)) = Some (n div 16)" "hex_val (hexDigit (n mod 16)) = Some (n mod 16)"
    using hexDigits_ok by (auto simp: list_all_iff)
  moreover have "hex_val CHR ''0'' = Some 0" by code_simp
  ultimately show ?thesis by simp
qed

lemma parse_escaped:
  assumes "(of_char c :: nat) < 128"
  shows "parse_chars (Suc n) (escapeJson c @ r) = map_option (\<lambda>(xs, t). (c # xs, t)) (parse_chars n r)"
proof -
  have simple: "escape_char CHR 0x22 = Some CHR 0x22" "escape_char CHR 0x5C = Some CHR 0x5C"
    "escape_char CHR ''n'' = Some CHR 0x0A" "escape_char CHR ''r'' = Some CHR 0x0D" "escape_char CHR ''t'' = Some CHR 0x09"
    by (simp_all add: escape_char_def)
  have hex: "unicode_escape (CHR ''0'' # CHR ''0'' # hexDigit (of_char c div 16) # hexDigit (of_char c mod 16) # r) = Some ([c], r)"
    using assms hex4_escape [of "of_char c" r]
    by (simp add: unicode_escape_def isSurrogateHigh_def isSurrogateLow_def utf8_def)
  show ?thesis using simple hex
    by (auto simp: escapeJson_def)
qed

lemma parse_marshalled:
  assumes "\<forall>c \<in> set s. (of_char c :: nat) < 128" "length s < n"
  shows "parse_chars n (concat (map escapeJson s) @ CHR 0x22 # r) = Some (s, r)"
  using assms
proof (induction s arbitrary: n)
  case Nil
  then show ?case by (cases n) simp_all
next
  case (Cons c s)
  then obtain m where n: "n = Suc m" by (cases n) auto
  have "parse_chars m (concat (map escapeJson s) @ CHR 0x22 # r) = Some (s, r)" using Cons n by simp
  then show ?case using parse_escaped [of c m] Cons.prems(1) n by simp
qed

lemma length_marshalled: "length s \<le> length (concat (map escapeJson s))"
  by (induction s) (auto simp: escapeJson_def)

lemma parse_marshalString:
  assumes "\<forall>c \<in> set s. (of_char c :: nat) < 128"
  shows "parse_json (marshalString s) = Some (JStr s)"
proof -
  have "length s < Suc (length (concat (map escapeJson s) @ [CHR 0x22]))" using length_marshalled [of s] by simp
  then have "parse_string (marshalString s) = Some (s, [])"
    using parse_marshalled [OF assms, of "Suc (length (concat (map escapeJson s) @ [CHR 0x22]))" "[]"]
    by (simp add: parse_string_def marshalString_def)
  then show ?thesis by (simp add: parse_json_def marshalString_def isJsonSpace_def)
qed

lemma parse_statusBody:
  assumes "list_all plain_char st" "st \<noteq> []"
  shows "parse_json (statusBody st) = Some (JObj [(''status'', JStr st)])"
proof -
  have key: "parse_string (json_string ''status'' @ r) = Some (''status'', r)" for r
    by (rule parse_string_plain) (simp add: plain_char_def)
  have val: "parse_value (Suc n) (json_string st @ r) = Some (JStr st, r)" for n r
    using assms(1) by (rule parse_value_plain)
  show ?thesis using assms(2) key val
    by (simp add: parse_json_def statusBody_def eval_nat_numeral isJsonSpace_def json_string_def)
qed

lemma unmarshal_statusBody:
  assumes "list_all plain_char st"
  shows "unmarshal_smap (statusBody st) = ((if st = [] then [] else [(''status'', st)]), None)"
proof (cases "st = []")
  case True
  have "unmarshal_smap ''{}'' = ([], None)" by code_simp
  then show ?thesis using True by (simp add: statusBody_def)
next
  case False
  then show ?thesis using parse_statusBody [OF assms]
    by (simp add: unmarshal_smap_def store_member_def store_string_def)
qed

lemma GetRequest_ok:
  assumes "HttpUrlError h url = None" "HttpDo h url MethodGet None (World s) = (Ret x, w)"
  shows "SendRequest h url MethodGet body s = (Ret x, s\<lparr>World := w\<rparr>)"
  using assms by (simp add: SendRequest_def MethodGet_def MethodPost_def callW_apply)

text \<open>The status read by the other site's operator is the status this operator answered with.\<close>

theorem status_roundtrip:
  assumes "HttpUrlError h (host @ ''/healthz'') = None" "list_all plain_char st"
    and "HttpDo h (host @ ''/healthz'') MethodGet None (World s) = (Ret (Inr resp), w)"
    and "StatusCode resp = 200" "BodyRead resp = (statusBody st, None)"
  shows "GetStatus h host s = (Ret (st, None), s\<lparr>World := w\<rparr>)"
proof -
  have url: "Sprintf ''%s/%s'' [Str host, Str HealthURI] = host @ ''/healthz''"
    by (simp add: Sprintf_simps HealthURI_def)
  have "unmarshal_smap (statusBody st) = ((if st = [] then [] else [(''status'', st)]), None)"
    by (rule unmarshal_statusBody [OF assms(2)])
  then show ?thesis using GetRequest_ok [OF assms(1,3)] assms(4,5)
    by (simp add: GetStatus_def url andthen_Ret ReadResponseBody_def smap_get_def)
qed

text \<open>The key file read by the other site's operator is the key file this operator answered with, for every
  text of ASCII characters (the key is base64 text with line breaks).\<close>

theorem keyfile_roundtrip:
  assumes "HttpUrlError h (host @ ''/keyfile'') = None" "\<forall>c \<in> set key. (of_char c :: nat) < 128"
    and "HttpDo h (host @ ''/keyfile'') MethodGet None (World s) = (Ret (Inr resp), w)"
    and "StatusCode resp = 200" "BodyRead resp = (marshalString key, None)"
  shows "GetKeyFile h host s = (Ret (key, None), s\<lparr>World := w\<rparr>)"
proof -
  have url: "Sprintf ''%s/%s'' [Str host, Str KeyFileURI] = host @ ''/keyfile''"
    by (simp add: Sprintf_simps KeyFileURI_def)
  show ?thesis using GetRequest_ok [OF assms(1,3)] assms(4,5) parse_marshalString [OF assms(2)]
    by (simp add: GetKeyFile_def url andthen_Ret ReadResponseBody_def unmarshal_string_def store_string_def)
qed

text \<open>An answer that is not a JSON string gives an empty key and no error.\<close>

lemma keyfile_unreadable:
  assumes "HttpUrlError h (host @ ''/keyfile'') = None"
    and "HttpDo h (host @ ''/keyfile'') MethodGet None (World s) = (Ret (Inr resp), w)"
    and "StatusCode resp = 200" "BodyRead resp = (body, None)" "parse_json body = None"
  shows "GetKeyFile h host s = (Ret ([], None), s\<lparr>World := w\<rparr>)"
proof -
  have url: "Sprintf ''%s/%s'' [Str host, Str KeyFileURI] = host @ ''/keyfile''"
    by (simp add: Sprintf_simps KeyFileURI_def)
  show ?thesis using GetRequest_ok [OF assms(1,2)] assms(3-5)
    by (simp add: GetKeyFile_def url andthen_Ret ReadResponseBody_def unmarshal_string_def)
qed

section \<open>Examples\<close>

definition answering :: "string \<Rightarrow> 'w http" where
  "answering body = \<lparr>HttpDo = (\<lambda>url method b. ret (Inr \<lparr>StatusCode = 200, BodyRead = (body, None)\<rparr>)),
                     HttpUrlError = (\<lambda>url. None)\<rparr>"

lemma answering_simps [simp]:
  "HttpDo (answering body) url m b = ret (Inr \<lparr>StatusCode = 200, BodyRead = (body, None)\<rparr>)"
  "HttpUrlError (answering body) url = None"
  by (simp_all add: answering_def)

lemma status_roundtrip_witness:
  "GetStatus (answering (statusBody ''up'')) ''http://peer'' (baseState ()) = (Ret (''up'', None), (baseState ())\<lparr>World := ()\<rparr>)"
  by (rule status_roundtrip) (simp_all add: plain_char_def)+

lemma keyfile_roundtrip_witness:
  "GetKeyFile (answering (marshalString (''aB+/='' @ [CHR 0x0A]))) ''http://peer'' (baseState ()) =
     (Ret (''aB+/='' @ [CHR 0x0A], None), (baseState ())\<lparr>World := ()\<rparr>)"
  by (rule keyfile_roundtrip) simp_all+

end
