(* ===== verification/GoUrl.thy ===== *)
theory GoUrl
  imports GoFmt
begin

text \<open>
  \<^verbatim>\<open>url.QueryEscape\<close> and \<^verbatim>\<open>url.QueryUnescape\<close> of the package \<^verbatim>\<open>net/url\<close>, with which both programs put credentials
  into connection texts.  The lemmas show that escaping can be undone and which characters an escaped text holds:
  none that ends a part of a URL or a word of a shell command.
\<close>

text \<open>\<^verbatim>\<open>url.QueryEscape\<close>.\<close>

definition queryUnreserved :: "char \<Rightarrow> bool" where
  "queryUnreserved c = ((CHR ''a'' \<le> c \<and> c \<le> CHR ''z'') \<or> (CHR ''A'' \<le> c \<and> c \<le> CHR ''Z'') \<or> isDigit c \<or>
     c \<in> {CHR ''-'', CHR ''_'', CHR ''.'', CHR ''~''})"

definition upperHex :: "nat \<Rightarrow> char" where
  "upperHex n = ''0123456789ABCDEF'' ! n"

definition QueryEscape :: "string \<Rightarrow> string" where
  "QueryEscape s =
     concat (map (\<lambda>c. if queryUnreserved c then [c] else if c = CHR 0x20 then ''+''
                      else [CHR 0x25, upperHex (of_char c div 16), upperHex (of_char c mod 16)]) s)"

text \<open>\<^verbatim>\<open>url.QueryUnescape\<close>: the error of a percent sign without two digits is None.\<close>

definition unhex :: "char \<Rightarrow> nat option" where
  "unhex c =
     (if isDigit c then Some (of_char c - 48)
      else if CHR ''A'' \<le> c \<and> c \<le> CHR ''F'' then Some (of_char c - 55)
      else if CHR ''a'' \<le> c \<and> c \<le> CHR ''f'' then Some (of_char c - 87)
      else None)"

fun QueryUnescape :: "string \<Rightarrow> string option" where
  "QueryUnescape [] = Some []"
| "QueryUnescape (c # cs) =
     (if c = CHR 0x25
      then (case cs of
              a # b # r \<Rightarrow> (case (unhex a, unhex b, QueryUnescape r) of
                 (Some x, Some y, Some t) \<Rightarrow> Some (char_of (16 * x + y) # t) | _ \<Rightarrow> None)
            | _ \<Rightarrow> None)
      else map_option ((#) (if c = CHR ''+'' then CHR '' '' else c)) (QueryUnescape cs))"

text \<open>\<^verbatim>\<open>url.PathUnescape\<close>, the decoding of the percent signs alone.\<close>

fun PathUnescape :: "string \<Rightarrow> string option" where
  "PathUnescape [] = Some []"
| "PathUnescape (c # cs) =
     (if c = CHR 0x25
      then (case cs of
              a # b # r \<Rightarrow> (case (unhex a, unhex b, PathUnescape r) of
                 (Some x, Some y, Some t) \<Rightarrow> Some (char_of (16 * x + y) # t) | _ \<Rightarrow> None)
            | _ \<Rightarrow> None)
      else map_option ((#) c) (PathUnescape cs))"

section \<open>Escaped texts\<close>

lemma unhex_table: "list_all (\<lambda>n. unhex (upperHex n) = Some n) [0..<16]"
  by code_simp

lemma unhex_upperHex: "n < 16 \<Longrightarrow> unhex (upperHex n) = Some n"
  using unhex_table by (simp add: list_all_iff)

lemma upperHex_table: "list_all (\<lambda>n. queryUnreserved (upperHex n)) [0..<16]"
  by code_simp

lemma upperHex_unreserved: "n < 16 \<Longrightarrow> queryUnreserved (upperHex n)"
  using upperHex_table by (simp add: list_all_iff)

lemma of_char_nibbles: "(of_char c :: nat) div 16 < 16" "(of_char c :: nat) mod 16 < 16"
  using nat_of_char_less_256 [of c] by (simp_all add: less_mult_imp_div_less)

lemma QueryEscape_Cons:
  "QueryEscape (c # cs) =
     (if queryUnreserved c then [c] else if c = CHR 0x20 then ''+''
      else [CHR 0x25, upperHex (of_char c div 16), upperHex (of_char c mod 16)]) @ QueryEscape cs"
  by (simp add: QueryEscape_def)

lemma unreserved_plain: "queryUnreserved c \<Longrightarrow> c \<noteq> CHR 0x25 \<and> c \<noteq> CHR ''+''"
  by (auto simp: queryUnreserved_def isDigit_def)

text \<open>Escaping can be undone.\<close>

lemma QueryUnescape_Escape: "QueryUnescape (QueryEscape s) = Some s"
proof (induction s)
  case (Cons c cs)
  consider "queryUnreserved c" | "\<not> queryUnreserved c" "c = CHR 0x20" | "\<not> queryUnreserved c" "c \<noteq> CHR 0x20" by blast
  then show ?case
  proof cases
    case 1
    then show ?thesis using Cons unreserved_plain [OF 1] by (simp add: QueryEscape_Cons)
  next
    case 2
    then show ?thesis using Cons by (simp add: QueryEscape_Cons)
  next
    case 3
    have "16 * (of_char c div 16) + of_char c mod 16 = (of_char c :: nat)" by simp
    then show ?thesis using 3 Cons of_char_nibbles [of c] by (simp add: QueryEscape_Cons unhex_upperHex)
  qed
qed (simp add: QueryEscape_def)

text \<open>Decoding the percent signs alone leaves a plus for every space.\<close>

lemma PathUnescape_Escape: "PathUnescape (QueryEscape s) = Some (map (\<lambda>c. if c = CHR 0x20 then CHR ''+'' else c) s)"
proof (induction s)
  case (Cons c cs)
  consider "queryUnreserved c" | "\<not> queryUnreserved c" "c = CHR 0x20" | "\<not> queryUnreserved c" "c \<noteq> CHR 0x20" by blast
  then show ?case
  proof cases
    case 1
    then have "c \<noteq> CHR 0x20" by (auto simp: queryUnreserved_def isDigit_def)
    then show ?thesis using 1 Cons unreserved_plain [OF 1] by (simp add: QueryEscape_Cons)
  next
    case 2
    then show ?thesis using Cons by (simp add: QueryEscape_Cons)
  next
    case 3
    have "16 * (of_char c div 16) + of_char c mod 16 = (of_char c :: nat)" by simp
    then show ?thesis using 3 Cons of_char_nibbles [of c] by (simp add: QueryEscape_Cons unhex_upperHex)
  qed
qed (simp add: QueryEscape_def)

text \<open>The characters of an escaped text.\<close>

lemma QueryEscape_chars: "c \<in> set (QueryEscape s) \<Longrightarrow> queryUnreserved c \<or> c = CHR 0x25 \<or> c = CHR ''+''"
proof (induction s)
  case (Cons d ds)
  then show ?case using upperHex_unreserved of_char_nibbles [of d]
    by (auto simp: QueryEscape_Cons split: if_splits)
qed (simp add: QueryEscape_def)

lemma QueryEscape_delimiters:
  "CHR ''@'' \<notin> set (QueryEscape s)" "CHR '':'' \<notin> set (QueryEscape s)" "CHR ''/'' \<notin> set (QueryEscape s)"
  "CHR 0x20 \<notin> set (QueryEscape s)" "CHR 0x22 \<notin> set (QueryEscape s)" "CHR 0x27 \<notin> set (QueryEscape s)"
  by (auto dest!: QueryEscape_chars simp: queryUnreserved_def isDigit_def)

end
