(* ===== verification/MongoSteps.thy ===== *)
theory MongoSteps
  imports HttpClient GoUrl
begin

text \<open>
  The deployment steps of \<^verbatim>\<open>src/operator/pkg/mongodb\<close>: size calculation and validation, config servers, data
  shards, mongos, the key file secret, users and the mongo shell command.

  A step is a struct with the methods Validate, Condition and Execute; each method that does something is a
  definition here, an operation on the execution context and the world (\<^verbatim>\<open>r\<close> is the mongo helper of the
  context with its Kubernetes helper, \<^verbatim>\<open>cl\<close> the pure functions of the core library).  The resource structs
  the code dereferences are present.  The closures stored in the context are its function fields.

  The properties are about what a validated schema guarantees for the placement of the replicas, which pods
  the affinity terms select, and the member options of an initiation.
\<close>

section \<open>Helpers\<close>

definition modifyCtx :: "(exec_ctx \<Rightarrow> exec_ctx) \<Rightarrow> ('w, unit) hop" where
  "modifyCtx f = modifyState (\<lambda>s. s\<lparr>Ctx := f (Ctx s)\<rparr>)"

text \<open>\<^verbatim>\<open>spec.Spec.TLS.CertificateSecretName = name\<close>: the custom resource in the context is changed.\<close>

definition setCertificate :: "string \<Rightarrow> ('w, unit) hop" where
  "setCertificate name = modifyCtx (\<lambda>c. c\<lparr>CtxSpec := (CtxSpec c)\<lparr>TLSField := (TLSField (CtxSpec c))\<lparr>CertificateSecretName := name\<rparr>\<rparr>\<rparr>)"

definition getCtx :: "('w, exec_ctx) hop" where
  "getCtx = (\<lambda>s. (Ret (Ctx s), s))"

lemma modifyCtx_eq [simp]: "modifyCtx f s = (r, t) \<longleftrightarrow> r = Ret () \<and> t = s\<lparr>Ctx := f (Ctx s)\<rparr>"
  by (simp add: modifyCtx_def)

lemma andthen_modifyCtx [simp]: "andthen (modifyCtx f) g s = g () (s\<lparr>Ctx := f (Ctx s)\<rparr>)"
  by (simp add: modifyCtx_def)

lemma andthen_getCtx [simp]: "andthen getCtx g s = g (Ctx s) s"
  by (simp add: andthen_def getCtx_def)

definition tolerationsOf :: "deployment_spec \<Rightarrow> string list" where
  "tolerationsOf spec = (case Policies spec of Some t \<Rightarrow> t | None \<Rightarrow> [])"

text \<open>Delete, create and wait for one stateful set; any error panics.\<close>

definition replaceStatefulSet :: "'w helper \<Rightarrow> stateful_set \<Rightarrow> string \<Rightarrow> int \<Rightarrow> string \<Rightarrow> string \<Rightarrow> ('w, unit) hop" where
  "replaceStatefulSet r ss nodeName waitSeconds deleteMsg createMsg =
     andthen (callW (DeleteStatefulsetAndPods (KubeImpl r) (meta_name (ss_meta ss)) (Namespace r) waitSeconds)) (\<lambda>err.
     andthen (PanicError (KubeImpl r) err deleteMsg) (\<lambda>_.
     andthen (CreateRuntimeObjectContextWrapper r (StatefulSetObj ss)) (\<lambda>err.
     andthen (PanicError (KubeImpl r) err createMsg) (\<lambda>_.
     andthen (callW (WaitForPodsReady (KubeImpl r) [(MongoNode, nodeName)] (Namespace r) 1 waitSeconds)) (\<lambda>err.
     PanicError (KubeImpl r) err ''Pods waiting failed'')))))"

text \<open>Delete a service and create it again.\<close>

definition replaceService :: "'w helper \<Rightarrow> service \<Rightarrow> ('w, goerror option) hop" where
  "replaceService r template =
     andthen (callW (DeleteRuntimeObject (KubeImpl r) (ServiceObj template))) (\<lambda>_.
     CreateRuntimeObjectContextWrapper r (ServiceObj template))"

section \<open>Sizes\<close>

definition CalculateMaxReplicaSize_Validate :: "('w, goerror option) hop" where
  "CalculateMaxReplicaSize_Validate =
     andthen getSpec (\<lambda>spec.
     (let sch = SchemaSettings spec in
      if SchemaType sch \<noteq> SingleSchema then
        (if CnfReplicaSize sch = 0 \<or> DataReplicaSize sch = 0 \<or> ShardCount sch = 0
         then ret (Some (ExecutionError SchemaSettingsValidationZeros))
         else if SchemaType sch \<noteq> DR \<and> (CnfReplicaSize sch mod 2 = 0 \<or> DataReplicaSize sch mod 2 = 0)
         then ret (Some (ExecutionError SchemaSettingsValidationHAandArbiter))
         else ret None)
      else ret None))"

definition CalculateMaxReplicaSize_Execute :: "core_lib \<Rightarrow> ('w, goerror option) hop" where
  "CalculateMaxReplicaSize_Execute cl =
     andthen getSpec (\<lambda>spec.
     (let sch = SchemaSettings spec;
          res = (if SchemaType sch = SingleSchema then 1
                 else MaxInt cl (int (DataReplicaSize sch)) (int (CnfReplicaSize sch)))
      in andthen (modifyCtx (\<lambda>c. c\<lparr>CtxMaxReplicaSize := res, CtxMaxPVCCount := res\<rparr>)) (\<lambda>_. ret None)))"

section \<open>Config servers\<close>

definition CreateCNFService_Execute :: "'w helper \<Rightarrow> ('w, goerror option) hop" where
  "CreateCNFService_Execute r = replaceService r (ShardServiceTemplate CnfNameKey (Namespace r))"

definition shardedCondition :: "('w, bool with_err) hop" where
  "shardedCondition = andthen getSpec (\<lambda>spec. ret (SchemaSharded (SchemaSettings spec), None))"

definition cnfAffinity :: "deployment_spec \<Rightarrow> affinity" where
  "cnfAffinity spec =
     (case MongoAffinity (MongoDB spec) of Some a \<Rightarrow> a
      | None \<Rightarrow> \<lparr>pod_anti_affinity = [\<lparr>term_exprs = [\<lparr>req_key = Microservice, req_operator = ''In'', req_values = [CnfNameKey]\<rparr>],
                                      term_topology = KubeHostName\<rparr>],
                 pod_affinity = [], node_affinity_preferred = []\<rparr>)"

definition createCNFReplica :: "'w helper \<Rightarrow> core_lib \<Rightarrow> rat \<Rightarrow> bool \<Rightarrow> nat \<Rightarrow> ('w, goerror option) hop" where
  "createCNFReplica r cl wiredCacheGb keyfileAuth i =
     andthen getSpec (\<lambda>spec. andthen getCtx (\<lambda>ctx.
     (let mongo = MongoDB spec; cnfSize = CnfReplicaSize (SchemaSettings spec);
          nameWithIndex = Sprintf CnfNameWithIndexFormat [Num (int i)]
      in andthen (ElementsDistribution cl (GetDummyPvcMap (CtxPvcNames ctx)) cnfSize i 1 0) (\<lambda>(_, pvcName).
         andthen (MongoReplicaNodeSelector cl (CtxPVNodes ctx) cnfSize i 1 0) (\<lambda>selector.
         (let nodeSelector = ConcatMaps cl (AdditionalNodeLabels mongo) selector;
              containerArgs = MongoReplicaContainerArgs ''--configsvr'' DataDir CnfNameKey nameWithIndex MongoSecret
                MongoSecretKeyFile wiredCacheGb (IpV6 spec) (CustomDataRSParameters mongo) (TLSField spec)
                (CnfOpLogSizeMb mongo) keyfileAuth
          in andthen (liftRes (MongoSSCommonTemplate (DockerImage mongo) (CnfResources mongo) (cnfAffinity spec) nodeSelector
                  (Namespace r) pvcName MongoSecret CnfNameKey nameWithIndex containerArgs (PodSecurityContext spec)
                  (tolerationsOf spec) (ImagePullPolicy spec) (ContainerTimeoutSeconds mongo) (ContainerPeriodSeconds mongo)
                  (TLSField spec) (PriorityClassName mongo))) (\<lambda>ss.
             andthen (replaceStatefulSet r ss nameWithIndex (WaitSecondsField spec)
                (''CNFRS statefulset '' @ meta_name (ss_meta ss) @ '' deletion failed'')
                (''CNFRS'' @ show_nat i @ '' statefulset failed'')) (\<lambda>_. ret None))))))))"

definition CreateCNF_Execute :: "'w helper \<Rightarrow> core_lib \<Rightarrow> ('w, goerror option) hop" where
  "CreateCNF_Execute r cl =
     andthen getSpec (\<lambda>spec.
     andthen (CalcProperMongoWiredCacheSize (res_memory_limit (CnfResources (MongoDB spec)))
        (CnfWiredTigerCacheGb (MongoDB spec)) (1 / 4)) (\<lambda>wiredCacheGb.
     andthen (if ClusterAuthMode (MongoDB spec) = X509AuthMode
              then andthen (setCertificate X509CnfrsCertificate) (\<lambda>_. ret False) else ret True) (\<lambda>keyfileAuth.
     forRange [0..<CnfReplicaSize (SchemaSettings spec)] (createCNFReplica r cl wiredCacheGb keyfileAuth))))"

text \<open>The domain of an initiation.\<close>

definition initDomain :: "deployment_spec \<Rightarrow> string" where
  "initDomain spec = (if SchemaType (SchemaSettings spec) = DR then ThisDomainName (SchemaSettings spec) else ''cluster.local'')"

definition InitCNF_Execute :: "'w helper \<Rightarrow> ('w, goerror option) hop" where
  "InitCNF_Execute r =
     andthen getSpec (\<lambda>spec.
     MongoReplicaSetInit r CnfNameKey CnfNameWithIndexFormat (CnfReplicaSize (SchemaSettings spec)) (Namespace r)
       (initDomain spec) True (\<lambda>i. []))"

definition cleanActiveCondition :: "(deployment_spec \<Rightarrow> bool) \<Rightarrow> ('w, bool with_err) hop" where
  "cleanActiveCondition extra =
     andthen getCtx (\<lambda>ctx. ret (CtxDeployType ctx = CleanDeploy \<and> extra (CtxSpec ctx) \<and> drMode (CtxSpec ctx) = ActiveMode, None))"

definition InitCNF_Condition :: "('w, bool with_err) hop" where
  "InitCNF_Condition = cleanActiveCondition (\<lambda>spec. SchemaSharded (SchemaSettings spec))"

section \<open>Oplog steps\<close>

text \<open>The fields of the step struct that its Condition sets and its Execute reads.\<close>

record oplog_step =
  DesiredMB :: int
  NeedsResize :: bool
  OplogReport :: "oplog_info list"

definition oplogCondition :: "'w helper \<Rightarrow> string \<Rightarrow> (deployment_spec \<Rightarrow> nat) \<Rightarrow> (deployment_spec \<Rightarrow> int) \<Rightarrow> oplog_step
    \<Rightarrow> ('w, bool with_err \<times> oplog_step) hop" where
  "oplogCondition r key shards desired u =
     andthen getCtx (\<lambda>ctx.
     (let spec = CtxSpec ctx in
      if CtxDeployType ctx = UpdateDeploy \<and> desired spec \<noteq> 0 then
        andthen (ReadSecret r (MongoRootSecretNameField (MongoDB spec)) (Namespace r)) (\<lambda>(creds, rErr).
        andthen (PanicError (KubeImpl r) rErr ''MongoDB Root user credentials secret reading failed'') (\<lambda>_.
        (let u = u\<lparr>DesiredMB := desired spec\<rparr> in
         andthen (GetOplogSizes r key (shards spec) creds (Namespace r) (ThisDomainName (SchemaSettings spec))
            (DockerImage (MongoDB spec)) (AuthDb spec)) (\<lambda>x. case x of
            Inl err \<Rightarrow> ret ((False, Some err), u)
          | Inr oplogReport \<Rightarrow>
              (let needsResize = list_ex (\<lambda>info. MaxSizeMB info \<noteq> DesiredMB u) oplogReport;
                   u = u\<lparr>NeedsResize := needsResize, OplogReport := oplogReport\<rparr>
               in ret ((NeedsResize u, None), u))))))
      else ret ((False, None), u)))"

definition UpdateCnfOplog_Condition :: "'w helper \<Rightarrow> oplog_step \<Rightarrow> ('w, bool with_err \<times> oplog_step) hop" where
  "UpdateCnfOplog_Condition r = oplogCondition r CnfNameKey (\<lambda>spec. 1) (\<lambda>spec. CnfOpLogSizeMb (MongoDB spec))"

definition UpdateDataOplog_Condition :: "'w helper \<Rightarrow> oplog_step \<Rightarrow> ('w, bool with_err \<times> oplog_step) hop" where
  "UpdateDataOplog_Condition r = oplogCondition r DataNameKey (\<lambda>spec. ShardCount (SchemaSettings spec))
     (\<lambda>spec. DataOpLogSizeMb (MongoDB spec))"

text \<open>The status of the whole cluster as a step asks for it; \<^verbatim>\<open>order\<close> is the order of the goroutines.\<close>

definition clusterStatusOf :: "nat list \<Rightarrow> 'w helper \<Rightarrow> string \<Rightarrow> deployment_spec \<Rightarrow> ('w, string with_err) hop" where
  "clusterStatusOf order r mode spec =
     (let sch = SchemaSettings spec in
      GetClusterStatus order r mode (ThisDomainName sch) (CnfReplicaSize sch) (DataReplicaSize sch) (ShardCount sch) (SchemaSharded sch))"

definition UpdateOplog_Execute :: "nat list \<Rightarrow> 'w helper \<Rightarrow> oplog_step \<Rightarrow> ('w, goerror option) hop" where
  "UpdateOplog_Execute order r u =
     andthen getSpec (\<lambda>spec.
     andthen (clusterStatusOf order r (drMode spec) spec) (\<lambda>(st, err). case err of
       Some e \<Rightarrow> ret (Some e)
     | None \<Rightarrow> if st \<noteq> Up then ret (Some (GoError ''cluster is down''))
               else UpdateOplogSize r (DesiredMB u) (OplogReport u)))"

section \<open>Data shards\<close>

definition dataAffinity :: "deployment_spec \<Rightarrow> nat \<Rightarrow> nat \<Rightarrow> affinity" where
  "dataAffinity spec dataShardIndex replicaIndex =
     (case MongoAffinity (MongoDB spec) of Some a \<Rightarrow> a
      | None \<Rightarrow>
         \<lparr>pod_anti_affinity = [\<lparr>term_exprs = [\<lparr>req_key = ServiceNameKey, req_operator = ''In'',
              req_values = [Sprintf DataNameKey [Num (int dataShardIndex + 1)]]\<rparr>], term_topology = KubeHostName\<rparr>],
          pod_affinity = (if SchemaSharded (SchemaSettings spec)
            then [\<lparr>term_exprs = [\<lparr>req_key = MongoNode, req_operator = ''In'',
                     req_values = [Sprintf CnfNameWithIndexFormat [Num (int replicaIndex)]]\<rparr>], term_topology = KubeHostName\<rparr>]
            else []),
          node_affinity_preferred = []\<rparr>)"

definition CreateData_Validate :: "('w, goerror option) hop" where
  "CreateData_Validate =
     andthen getSpec (\<lambda>spec. andthen (modifyCtx (\<lambda>c. c\<lparr>CtxAffinityFunc := dataAffinity spec\<rparr>)) (\<lambda>_. ret None))"

text \<open>Cache size and resources: those of the arbiter at its index.\<close>

definition dataResourcesOf :: "nat \<Rightarrow> ('w, rat \<times> resources) hop" where
  "dataResourcesOf i =
     andthen getCtx (\<lambda>ctx.
     (let spec = CtxSpec ctx; mongo = MongoDB spec in
      andthen (CalcProperMongoWiredCacheSize (res_memory_limit (DataResources mongo)) (DataWiredTigerCacheGb mongo) (1 / 4)) (\<lambda>cache.
      (case ArbiterResources mongo of
         Some arb \<Rightarrow>
           if SchemaType (SchemaSettings spec) = Arbiter \<and> int i = CtxArbiterFunc ctx (CtxMaxReplicaSize ctx)
           then andthen (CalcProperMongoWiredCacheSize (res_memory_limit arb) ''0'' (1 / 4)) (\<lambda>cache. ret (cache, arb))
           else ret (cache, DataResources mongo)
       | None \<Rightarrow> ret (cache, DataResources mongo)))))"

definition createDataReplica :: "'w helper \<Rightarrow> core_lib \<Rightarrow> string \<Rightarrow> nat \<Rightarrow> nat \<Rightarrow> ('w, goerror option) hop" where
  "createDataReplica r cl nameKey s i =
     andthen getSpec (\<lambda>spec0.
     andthen (if ClusterAuthMode (MongoDB spec0) = X509AuthMode
              then andthen (setCertificate (Sprintf X509DatarsCertificate [Num (int s + 1)])) (\<lambda>_. ret False)
              else ret True) (\<lambda>keyfileAuth.
     andthen getSpec (\<lambda>spec. andthen getCtx (\<lambda>ctx.
     (let mongo = MongoDB spec; dataReplicaSize = DataReplicaSize (SchemaSettings spec);
          shardCount = ShardCount (SchemaSettings spec);
          nameWithIndexes = Sprintf DataNameWithIndexesFormat [Num (int s + 1), Num (int i)]
      in andthen (ElementsDistribution cl (GetDummyPvcMap (CtxPvcNames ctx)) dataReplicaSize i shardCount s) (\<lambda>(_, pvcName).
         andthen (MongoReplicaNodeSelector cl (CtxPVNodes ctx) dataReplicaSize i 1 0) (\<lambda>selector.
         andthen (dataResourcesOf i) (\<lambda>(dataWiredCacheGb, dataOrArbiterResource).
         (let nodeSelector = ConcatMaps cl (AdditionalNodeLabels mongo) selector;
              replicaType = (if SchemaSharded (SchemaSettings spec) then ''--shardsvr'' else []);
              containerArgs = MongoReplicaContainerArgs replicaType DataDir nameKey nameWithIndexes MongoSecret
                MongoSecretKeyFile dataWiredCacheGb (IpV6 spec) (CustomDataRSParameters mongo) (TLSField spec)
                (DataOpLogSizeMb mongo) keyfileAuth
          in andthen (liftRes (MongoSSCommonTemplate (DockerImage mongo) dataOrArbiterResource (CtxAffinityFunc ctx s i)
                  nodeSelector (Namespace r) pvcName MongoSecret nameKey nameWithIndexes containerArgs (PodSecurityContext spec)
                  (tolerationsOf spec) (ImagePullPolicy spec) (ContainerTimeoutSeconds mongo) (ContainerPeriodSeconds mongo)
                  (TLSField spec) (PriorityClassName mongo))) (\<lambda>ss.
             andthen (replaceStatefulSet r ss nameWithIndexes (WaitSecondsField spec)
                (''DATARS statefulset '' @ meta_name (ss_meta ss) @ '' deletion failed'')
                (''DATARS'' @ show_nat i @ '' statefulset failed'')) (\<lambda>_. ret None)))))))))))"

definition CreateData_Execute :: "'w helper \<Rightarrow> core_lib \<Rightarrow> ('w, goerror option) hop" where
  "CreateData_Execute r cl =
     andthen getSpec (\<lambda>spec.
     forRange [0..<ShardCount (SchemaSettings spec)] (\<lambda>s.
       (let nameKey = Sprintf DataNameKey [Num (int s + 1)] in
        andthen (replaceService r (ShardServiceTemplate nameKey (Namespace r))) (\<lambda>err. case err of
          Some e \<Rightarrow> ret (Some e)
        | None \<Rightarrow> forRange [0..<DataReplicaSize (SchemaSettings spec)] (createDataReplica r cl nameKey s)))))"

definition memberOptions :: "int \<Rightarrow> nat \<Rightarrow> nat \<Rightarrow> string" where
  "memberOptions arbiterNodeIndex dataReplicaSize i =
     (if int i \<noteq> arbiterNodeIndex
      then (if int i = int dataReplicaSize - 1 then '', priority:2'' else '', priority:1'')
      else '', arbiterOnly:true'')"

definition InitData_Execute :: "'w helper \<Rightarrow> ('w, goerror option) hop" where
  "InitData_Execute r =
     andthen getCtx (\<lambda>ctx.
     (let spec = CtxSpec ctx; sch = SchemaSettings spec;
          arbiterNodeIndex = CtxArbiterFunc ctx (CtxMaxReplicaSize ctx)
      in forRange [0..<ShardCount sch] (\<lambda>s.
           (let nameKey = Sprintf DataNameKey [Num (int s + 1)] in
            MongoReplicaSetInit r nameKey (nameKey @ ''%v'') (DataReplicaSize sch) (Namespace r) (initDomain spec) False
              (memberOptions arbiterNodeIndex (DataReplicaSize sch))))))"

definition InitData_Condition :: "('w, bool with_err) hop" where
  "InitData_Condition = cleanActiveCondition (\<lambda>spec. True)"

section \<open>Mongos\<close>

definition CreateMongosService_Execute :: "'w helper \<Rightarrow> ('w, goerror option) hop" where
  "CreateMongosService_Execute r =
     forRange [MongosServiceTemplate Mongos Mongos (Namespace r), MongosServiceTemplate MongosPrivate Mongos (Namespace r)]
       (replaceService r)"

definition commonMongosExecute :: "'w helper \<Rightarrow> replication_controller \<Rightarrow> ('w, goerror option) hop" where
  "commonMongosExecute r template =
     andthen getSpec (\<lambda>spec.
     andthen (callW (DeleteRCAndPods (KubeImpl r) (meta_name (rc_meta template)) (Namespace r) (WaitSecondsField spec))) (\<lambda>err.
     andthen (PanicError (KubeImpl r) err (''Mongos rc '' @ meta_name (rc_meta template) @ '' deletion failed'')) (\<lambda>_.
     andthen (CreateRuntimeObjectContextWrapper r (RCObj template)) (\<lambda>err. case err of
       Some e \<Rightarrow> ret (Some (ExecutionError (''Error while creating Mongos rc. Error: '' @ errStr (KubeImpl r) e)))
     | None \<Rightarrow>
         if drMode spec = ActiveMode then
           andthen (callW (WaitForPodsReady (KubeImpl r) (meta_labels (rc_meta template)) (Namespace r)
              (rc_replicas template) (WaitSecondsField spec))) (\<lambda>err. case err of
              Some e \<Rightarrow> ret (Some (ExecutionError (''Error happened while waiting '' @ Mongos @ '' pod is ready. Error: ''
                           @ errStr (KubeImpl r) e)))
            | None \<Rightarrow> ret None)
         else ret None))))"

definition mongosConfigNodes :: "deployment_spec \<Rightarrow> string \<Rightarrow> string list" where
  "mongosConfigNodes spec namespace =
     (let sch = SchemaSettings spec in
      if SchemaType sch = DR
      then GetDRCNFReplicaSetHostNames (CnfReplicaSize sch) (ThisDomainName sch) (OtherDomainName sch) namespace
      else GetCNFReplicaSetHostNames (CnfReplicaSize sch) (ThisDomainName sch) namespace)"

definition CreateHAMongos_Execute :: "'w helper \<Rightarrow> ('w, goerror option) hop" where
  "CreateHAMongos_Execute r =
     andthen getSpec (\<lambda>spec0.
     andthen (if ClusterAuthMode (MongoDB spec0) = X509AuthMode
              then andthen (setCertificate X509MongosCertificate) (\<lambda>_. ret False) else ret True) (\<lambda>keyfileAuth.
     andthen getSpec (\<lambda>spec.
     (let mongo = MongoDB spec;
          args = HAMongosContainerArgs TmpDir DataDir MongoSecret MongoSecretKeyFile
            (Sprintf ''cnfrs/%s'' [Str (Join '','' (mongosConfigNodes spec (Namespace r)))]) (IpV6 spec) (TLSField spec) keyfileAuth;
          numberOfReplicas = (if drMode spec = ActiveMode then MongosReplicas (SchemaSettings spec) else 0)
      in andthen (liftRes (MongosRCTemplate (DockerImage mongo) (MongosResources mongo) (Namespace r) args
             (PodSecurityContext spec) (tolerationsOf spec) (ImagePullPolicy spec) numberOfReplicas (TLSField spec)
             (PriorityClassName mongo) (MongoAffinity mongo))) (commonMongosExecute r)))))"

definition ShardsRegistration_Condition :: "('w, bool with_err) hop" where
  "ShardsRegistration_Condition = cleanActiveCondition (\<lambda>spec. SchemaSharded (SchemaSettings spec))"

definition ShardsRegistration_Execute :: "'w helper \<Rightarrow> ('w, goerror option) hop" where
  "ShardsRegistration_Execute r =
     andthen getSpec (\<lambda>spec.
     (let sch = SchemaSettings spec in AddShards r (ThisDomainName sch) (DataReplicaSize sch) (ShardCount sch)))"

definition CreateSingleMongos_Execute :: "'w helper \<Rightarrow> ('w, goerror option) hop" where
  "CreateSingleMongos_Execute r =
     andthen getCtx (\<lambda>ctx.
     (let spec = CtxSpec ctx; mongo = MongoDB spec in
      andthen (CalcProperMongoWiredCacheSize (res_memory_limit (MongosResources mongo)) (SingleWiredTigerCacheGb mongo) (1 / 4)) (\<lambda>wiredCacheGb.
      (let args = SingleMongosContainerArgs wiredCacheGb (IpV6 spec) (TLSField spec);
           nodeSelector = (case CtxPVNodes ctx of [] \<Rightarrow> [] | n # _ \<Rightarrow> n)
       in andthen (nth_or_panic (CtxPvcNames ctx) 0) (\<lambda>pvc.
          andthen (liftRes (SingleMongosRCTemplate (DockerImage mongo) (MongosResources mongo) (Namespace r) args pvc nodeSelector
             (PodSecurityContext spec) (tolerationsOf spec) (ImagePullPolicy spec) (TLSField spec) (PriorityClassName mongo)
             (MongoAffinity mongo))) (commonMongosExecute r))))))"

definition SetdefaultWriteConcern_Execute :: "'w helper \<Rightarrow> ('w, goerror option) hop" where
  "SetdefaultWriteConcern_Execute r = andthen (RunOnCnfrs r WriteConcernChangeCommand) (\<lambda>(_, err). ret err)"

definition SetdefaultWriteConcern_Condition :: "('w, bool with_err) hop" where
  "SetdefaultWriteConcern_Condition = andthen getSpec (\<lambda>spec. ret (SchemaType (SchemaSettings spec) = Arbiter, None))"

definition activeCondition :: "('w, bool with_err) hop" where
  "activeCondition = andthen getSpec (\<lambda>spec. ret (drMode spec = ActiveMode, None))"

definition SetFCV_Execute :: "'w helper \<Rightarrow> ('w, goerror option) hop" where
  "SetFCV_Execute r =
     andthen getSpec (\<lambda>spec. SetFeatureCompatibilityVersion r (SchemaSharded (SchemaSettings spec)) (ShardCount (SchemaSettings spec)))"

section \<open>Key file, users and the shell command\<close>

definition operatorUrl :: "string \<Rightarrow> string \<Rightarrow> string" where
  "operatorUrl namespace otherDomain =
     Sprintf ''http://%s.%s.svc.%s:8069'' [Str OperatorServiceName, Str namespace, Str otherDomain]"

definition generateKey :: "'w helper \<Rightarrow> ('w, string) hop" where
  "generateKey r =
     andthen (callW (OpensslCommand (KubeImpl r) [''rand'', ''-base64'', ''755''])) (\<lambda>(result, err).
     andthen (PanicError (KubeImpl r) err ''Can't create mongo-secret'') (\<lambda>_. ret result))"

definition keyText :: "'w helper \<Rightarrow> 'w http \<Rightarrow> ('w, string) hop" where
  "keyText r h =
     andthen getCtx (\<lambda>ctx.
     (let spec = CtxSpec ctx in
      if SchemaType (SchemaSettings spec) = DR then
        (let url = operatorUrl (Namespace r) (OtherDomainName (SchemaSettings spec)) in
         andthen (GetKeyFile h url) (\<lambda>(result, err). case err of
           None \<Rightarrow> ret result
         | Some e \<Rightarrow>
             if drMode spec = StandbyMode \<and> CtxDeployType ctx = CleanDeploy then generateKey r
             else andthen (PanicError (KubeImpl r) (Some e)
                    (Sprintf ''Failed to recieve keyfile from %s. Make sure that other operator is running '' [Str url])) (\<lambda>_. ret [])))
      else generateKey r))"

definition CreateSSLSecret_Execute :: "'w helper \<Rightarrow> 'w http \<Rightarrow> ('w, goerror option) hop" where
  "CreateSSLSecret_Execute r h =
     andthen (keyText r h) (\<lambda>sslString.
     (let secretTemplate = SecretTemplate MongoSecret [(MongoSecretKeyFile, sslString)] (Namespace r) in
      andthen (CreateRuntimeObjectContextWrapper r (SecretObj secretTemplate)) (\<lambda>err.
      andthen (PanicError (KubeImpl r) err ''Can't create mongo-secret'') (\<lambda>_. ret None))))"

record add_user_step =
  StepUser :: string
  StepPassword :: string
  StepRole :: string

definition AddUser_Execute :: "'w helper \<Rightarrow> add_user_step \<Rightarrow> ('w, goerror option) hop" where
  "AddUser_Execute r u =
     andthen getCtx (\<lambda>ctx.
     (let spec = CtxSpec ctx; sch = SchemaSettings spec in
      CreateUser r (AuthDb spec) (StepUser u) (StepPassword u) (StepRole u) (CtxDeployType ctx = CleanDeploy)
        (SchemaSharded sch) (SchemaType sch \<noteq> SingleSchema) (ShardCount sch)))"

definition authCommand :: "deployment_spec \<Rightarrow> string \<Rightarrow> string \<Rightarrow> string" where
  "authCommand spec user pass =
     (let cmd = Sprintf MongoCMDAuthTemplate [Str (MongoBinary (DockerImage (MongoDB spec))), Str (QueryEscape user),
                  Str (QueryEscape pass), Str (AuthDb spec)]
      in if TLSEnabled (TLSField spec)
         then cmd @ Sprintf '' --tls --tlsCAFile %s%s --tlsAllowInvalidCertificates'' [Str RootCertPath, Str (RootCAFileName (TLSField spec))]
         else cmd)"

definition UpdateContextAuthMongo_Execute :: "'w helper \<Rightarrow> string \<Rightarrow> string \<Rightarrow> ('w, goerror option) hop" where
  "UpdateContextAuthMongo_Execute r user pass =
     andthen getSpec (\<lambda>spec.
     andthen (if user \<noteq> [] \<and> pass \<noteq> [] then ret (authCommand spec user pass)
              else
                andthen (ReadSecret r (MongoRootSecretNameField (MongoDB spec)) (Namespace r)) (\<lambda>(creds, rErr).
                andthen (PanicError (KubeImpl r) rErr ''MongoDB Root user credentials secret reading failed'') (\<lambda>_.
                ret (authCommand spec (smap_get (sec_data creds) UsernameKey) (smap_get (sec_data creds) PasswordKey))))) (\<lambda>cmd.
     andthen (SetMongoCMD cmd) (\<lambda>_. ret None)))"

text \<open>The password rotation: \<^verbatim>\<open>manager.ActualizeCreds\<close> and \<^verbatim>\<open>SetControllerReference\<close> are libraries.\<close>

definition UpdateMongoDBCredentials_Execute :: "'w helper
    \<Rightarrow> (string \<Rightarrow> (secret \<Rightarrow> secret \<Rightarrow> ('w, goerror option) hop) \<Rightarrow> ('w, goerror option) hop)
    \<Rightarrow> (secret \<Rightarrow> ('w, goerror option) hop) \<Rightarrow> ('w, goerror option) hop" where
  "UpdateMongoDBCredentials_Execute r ActualizeCreds SetControllerReference =
     andthen getSpec (\<lambda>spec.
     (let sch = SchemaSettings spec in
      andthen (ReadSecret r (MongoRootSecretNameField (MongoDB spec)) (Namespace r)) (\<lambda>(creds, rErr).
      andthen (PanicError (KubeImpl r) rErr ''MongoDB Root user credentials secret reading failed'') (\<lambda>_.
      (let username = smap_get (sec_data creds) UsernameKey in
       ActualizeCreds (MongoRootSecretNameField (MongoDB spec)) (\<lambda>newSecret oldSecret.
         andthen (SetControllerReference newSecret) (\<lambda>err. case err of
           Some e \<Rightarrow> ret (Some (Wrapped (Sprintf ''failed to set owner reference to new secret %v, err: %s''
                       [Str (meta_name (sec_meta newSecret)), Str (errStr (KubeImpl r) e)]) e))
         | None \<Rightarrow>
             UpdateRootPassword r (AuthDb spec) username (smap_get (sec_data oldSecret) PasswordKey)
               (smap_get (sec_data newSecret) PasswordKey) (SchemaSharded sch) (SchemaType sch \<noteq> SingleSchema) (ShardCount sch))))))))"

section \<open>Placement of a validated schema\<close>

lemma Validate_eq:
  "CalculateMaxReplicaSize_Validate s = (Ret None, s) \<longleftrightarrow>
     (let sch = schemaOf s in SchemaType sch = SingleSchema \<or>
        (0 < CnfReplicaSize sch \<and> 0 < DataReplicaSize sch \<and> 0 < ShardCount sch \<and>
         (SchemaType sch = DR \<or> odd (CnfReplicaSize sch) \<and> odd (DataReplicaSize sch))))"
  by (auto simp: CalculateMaxReplicaSize_Validate_def Let_def odd_iff_mod_2_eq_one)

lemma pvcMap_good:
  assumes "[] \<notin> set pvcNames"
  shows "goodElements (GetDummyPvcMap pvcNames)" "length (GetDummyPvcMap pvcNames) = length pvcNames"
    "i < length pvcNames \<Longrightarrow> hd (GetDummyPvcMap pvcNames ! i) = (KubeHostName, pvcNames ! i)"
  using assms by (auto simp: goodElements_def GetDummyPvcMap_def list_all_iff)

text \<open>C2: for a schema that passes validation, other than the single and the disaster recovery one, with as many
  volumes as the step computes, every replica of every shard and of the config servers is given a volume without
  a panic, and the replicas of one replica set are given different volumes.\<close>

theorem validated_placement:
  assumes "core_laws cl" "CalculateMaxReplicaSize_Validate s = (Ret None, s)"
    and "SchemaType (schemaOf s) \<noteq> SingleSchema" "SchemaType (schemaOf s) \<noteq> DR"
    and "CalculateMaxReplicaSize_Execute cl s = (Ret None, s')"
    and "int (length pvcNames) = CtxMaxPVCCount (Ctx s')" "[] \<notin> set pvcNames" "distinct pvcNames"
    and "repl = DataReplicaSize (schemaOf s) \<or> repl = CnfReplicaSize (schemaOf s)" "sh < shards"
  shows "\<exists>vols. length vols = repl \<and> distinct vols \<and> set vols \<subseteq> set pvcNames \<and>
     (\<forall>i < repl. ElementsDistribution cl (GetDummyPvcMap pvcNames) repl i shards sh =
        (ret (KubeHostName, vols ! i) :: ('t, _) op))"
proof -
  let ?sch = "schemaOf s"
  note good = pvcMap_good [OF assms(7)]
  have odd: "odd (CnfReplicaSize ?sch)" "odd (DataReplicaSize ?sch)"
    using assms(2-4) Validate_eq [of s] by (simp_all add: Let_def)
  have "CtxMaxPVCCount (Ctx s') = max (int (DataReplicaSize ?sch)) (int (CnfReplicaSize ?sch))"
    using assms(3,5) core_lawsD(2) [OF assms(1)] by (auto simp: CalculateMaxReplicaSize_Execute_def Let_def)
  then have len: "length pvcNames = max (DataReplicaSize ?sch) (CnfReplicaSize ?sch)" using assms(6) by linarith
  then have "odd (length pvcNames)" "odd repl" "repl \<le> length pvcNames" using odd assms(9) by (auto simp: max_def)
  then obtain js where js: "length js = repl" "sorted_wrt (<) js" "set js \<subseteq> {0..<length pvcNames}"
    "\<forall>i < repl. ElementsDistribution cl (GetDummyPvcMap pvcNames) repl i shards sh =
        (ret (fst (hd (GetDummyPvcMap pvcNames ! i)), snd (hd (GetDummyPvcMap pvcNames ! (js ! i)))) :: ('t, _) op)"
    using odd_placement [OF assms(1) good(1), of repl sh shards] assms(10) good(2) by auto
  have mem: "js ! i < length pvcNames" if "i < repl" for i using js(1,3) that nth_mem by fastforce
  have "distinct js" using js(2) by (simp add: strict_sorted_iff)
  then have "distinct (map ((!) pvcNames) js)"
    using assms(8) js(3) by (auto simp: distinct_map inj_on_def) (metis atLeastLessThan_iff nth_eq_iff_index_eq subsetD)
  moreover have "set (map ((!) pvcNames) js) \<subseteq> set pvcNames" using js(3) by auto
  moreover have "i < length pvcNames" if "i < repl" for i using that \<open>repl \<le> length pvcNames\<close> by simp
  ultimately show ?thesis using js(1,4) mem good(3) by (intro exI [of _ "map ((!) pvcNames) js"]) simp
qed

lemma validated_placement_witness:
  "\<exists>vols. length vols = 3 \<and> distinct vols \<and> set vols \<subseteq> set [''v0'', ''v1'', ''v2''] \<and>
     (\<forall>i < 3. ElementsDistribution plainCore (GetDummyPvcMap [''v0'', ''v1'', ''v2'']) 3 i 1 0 =
        (ret (KubeHostName, vols ! i) :: (unit, _) op))"
proof (rule validated_placement [OF plainCore_laws])
  let ?s = "baseState () :: unit hstate"
  let ?s' = "?s\<lparr>Ctx := (Ctx ?s)\<lparr>CtxMaxReplicaSize := 3, CtxMaxPVCCount := 3\<rparr>\<rparr>"
  show "CalculateMaxReplicaSize_Validate ?s = (Ret None, ?s)" unfolding Validate_eq by (simp add: baseSpec_def Let_def)
  show "CalculateMaxReplicaSize_Execute plainCore ?s = (Ret None, ?s')"
    by (simp add: CalculateMaxReplicaSize_Execute_def baseSpec_def plainCore_def Let_def)
qed (simp_all add: baseSpec_def)

text \<open>The disaster recovery schema is validated with an even number of config servers below an odd number of
  data replicas, and then placing the last config server panics.\<close>

theorem dr_even_config_panics:
  assumes "core_laws cl" "SchemaType (schemaOf s) = DR" "0 < ShardCount (schemaOf s)"
    and "even (CnfReplicaSize (schemaOf s))" "0 < CnfReplicaSize (schemaOf s)"
    and "odd (DataReplicaSize (schemaOf s))" "CnfReplicaSize (schemaOf s) < DataReplicaSize (schemaOf s)"
    and "length pvcNames = DataReplicaSize (schemaOf s)" "[] \<notin> set pvcNames"
  shows "CalculateMaxReplicaSize_Validate s = (Ret None, s) \<and>
     ElementsDistribution cl (GetDummyPvcMap pvcNames) (CnfReplicaSize (schemaOf s)) (CnfReplicaSize (schemaOf s) - 1) 1 0 =
       (panic index_out_of_range :: ('t, _) op)"
  using distribution_even_panics [OF assms(1) pvcMap_good(1) [OF assms(9)], of "CnfReplicaSize (schemaOf s)" 0 1]
    assms(2-8) pvcMap_good(2) [OF assms(9)] by (simp add: Validate_eq Let_def)

definition drState :: "unit hstate" where
  "drState = \<lparr>Cmd = [], Ctx = baseCtx\<lparr>CtxSpec := baseSpec\<lparr>SchemaSettings :=
     (SchemaSettings baseSpec)\<lparr>SchemaType := DR, CnfReplicaSize := 2\<rparr>\<rparr>\<rparr>, World = ()\<rparr>"

lemma dr_even_config_panics_witness:
  "CalculateMaxReplicaSize_Validate drState = (Ret None, drState) \<and>
     ElementsDistribution plainCore (GetDummyPvcMap [''v0'', ''v1'', ''v2'']) (CnfReplicaSize (schemaOf drState))
       (CnfReplicaSize (schemaOf drState) - 1) 1 0 = (panic index_out_of_range :: (unit, _) op)"
  by (rule dr_even_config_panics [OF plainCore_laws]) (simp_all add: drState_def baseSpec_def)

section \<open>Affinity\<close>

lemma member_labels:
  "map_of [(AppLabel, MongoCluster), (CloneModeType, ''data''), (Microservice, key), (MongoNode, name)] ServiceNameKey = None"
  by simp

text \<open>Without an affinity of the user, the anti-affinity term of a data replica selects none of the mongo pods
  the operator creates (it asks for a label they do not have), while the term of a config server selects the
  config server pods: the replicas of a shard may share a node.\<close>

theorem data_anti_affinity_selects_nothing:
  assumes "MongoAffinity (MongoDB spec) = None"
    and "MongoSSCommonTemplate img rsc aff sel ns pvc secret key name args sec tols pull timeout period t prio = Ret ss"
  shows "\<not> list_ex (term_selects (ss_pod_labels ss)) (pod_anti_affinity (dataAffinity spec s i)) \<and>
     (key = CnfNameKey \<longrightarrow> list_all (term_selects (ss_pod_labels ss)) (pod_anti_affinity (cnfAffinity spec)))"
proof -
  have "ss_pod_labels ss = [(AppLabel, MongoCluster), (CloneModeType, ''data''), (Microservice, key), (MongoNode, name)]"
    using member_set_built assms(2) by (metis res.inject(1))
  then show ?thesis using assms(1)
    by (simp add: dataAffinity_def cnfAffinity_def term_selects_def requirement_holds_def)
qed

lemma data_anti_affinity_selects_nothing_witness:
  "\<exists>ss. MongoSSCommonTemplate ''mongo:7.0.1'' noResources (dataAffinity baseSpec 0 0) [] ''mongo'' ''pvc-0'' ''mongo-secret'' ''datars1''
        ''datars10'' [] None [] [] 1 1 (TLSField baseSpec) [] = Ret ss \<and>
     \<not> list_ex (term_selects (ss_pod_labels ss)) (pod_anti_affinity (dataAffinity baseSpec 0 1)) \<and>
     (''datars1'' = CnfNameKey \<longrightarrow> list_all (term_selects (ss_pod_labels ss)) (pod_anti_affinity (cnfAffinity baseSpec)))"
proof -
  obtain ss where ss: "MongoSSCommonTemplate ''mongo:7.0.1'' noResources (dataAffinity baseSpec 0 0) [] ''mongo'' ''pvc-0'' ''mongo-secret''
      ''datars1'' ''datars10'' [] None [] [] 1 1 (TLSField baseSpec) [] = Ret ss"
    using member_set_built by blast
  have "MongoAffinity (MongoDB baseSpec) = None" by (simp add: baseSpec_def)
  from data_anti_affinity_selects_nothing [OF this ss] show ?thesis using ss by blast
qed

section \<open>Names, domains and member options\<close>

text \<open>The stateful sets of different data replicas have different names as long as a shard has at most ten
  replicas; with more, shard 1 and shard 11 share a name.\<close>

theorem data_names_injective:
  assumes "i < 10" "j < 10" "dataStatefulSetName s i = dataStatefulSetName t j"
  shows "s = t \<and> i = j"
proof -
  have one: "show_nat k = [digit_char k]" if "k < 10" for k using that by (subst show_nat.simps) simp
  have eq: "show_nat (Suc s) @ [digit_char i] = show_nat (Suc t) @ [digit_char j]"
    using assms(3) one [OF assms(1)] one [OF assms(2)] by (simp add: dataStatefulSetName_eq)
  then have "show_nat i = show_nat j" "show_nat (Suc s) = show_nat (Suc t)"
    using one [OF assms(1)] one [OF assms(2)] by simp_all
  then show ?thesis by simp
qed

lemma data_names_injective_witness: "(0::nat) = 0 \<and> (9::nat) = 9 \<and> dataStatefulSetName 0 11 = dataStatefulSetName 10 1"
proof -
  have "dataStatefulSetName 0 11 = dataStatefulSetName 10 1" by code_simp
  then show ?thesis using data_names_injective [of 9 9 0 0] by simp
qed

lemma host_domain:
  assumes "CHR 0x25 \<notin> set ns" "CHR 0x25 \<notin> set dm" "CHR 0x25 \<notin> set dm'" "0 < n"
  shows "GetDATAReplicaSetHostName n s dm ns = GetDATAReplicaSetHostName n s dm' ns \<longleftrightarrow> dm = dm'"
proof -
  have "[0..<n] = 0 # [Suc 0..<n]" using assms(4) by (simp add: upt_rec)
  then show ?thesis using assms by (auto simp: data_host)
qed

text \<open>The hosts with which a shard is initiated are the hosts with which it is registered exactly for the
  disaster recovery schema or the domain cluster.local: with another domain in another schema the registration
  and the status ask for members the replica set does not have.\<close>

theorem init_matches_registration:
  assumes "CHR 0x25 \<notin> set ns" "CHR 0x25 \<notin> set (ThisDomainName (SchemaSettings spec))" "0 < n"
  shows "GetDATAReplicaSetHostName n s (initDomain spec) ns = GetDATAReplicaSetHostName n s (ThisDomainName (SchemaSettings spec)) ns
     \<longleftrightarrow> SchemaType (SchemaSettings spec) = DR \<or> ThisDomainName (SchemaSettings spec) = ''cluster.local''"
proof -
  have "CHR 0x25 \<notin> set (initDomain spec)" using assms(2) by (simp add: initDomain_def)
  then show ?thesis using host_domain [OF assms(1) _ assms(2,3)] by (auto simp: initDomain_def)
qed

lemma init_matches_registration_witness:
  "GetDATAReplicaSetHostName 3 0 (initDomain baseSpec) ''mongo'' =
     GetDATAReplicaSetHostName 3 0 (ThisDomainName (SchemaSettings baseSpec)) ''mongo''
   \<longleftrightarrow> SchemaType (SchemaSettings baseSpec) = DR \<or> ThisDomainName (SchemaSettings baseSpec) = ''cluster.local''"
  by (rule init_matches_registration) (simp_all add: baseSpec_def)

section \<open>The key file\<close>

text \<open>When the other site's operator answers the key file request with a document that is not a JSON string,
  the step creates the key file secret with an empty key and succeeds.\<close>

theorem unreadable_key_becomes_empty_secret:
  assumes "SchemaType (schemaOf s) = DR"
    and "HttpUrlError h (operatorUrl (Namespace r) (OtherDomainName (schemaOf s)) @ ''/keyfile'') = None"
    and "HttpDo h (operatorUrl (Namespace r) (OtherDomainName (schemaOf s)) @ ''/keyfile'') MethodGet None (World s) = (Ret (Inr resp), w)"
    and "StatusCode resp = 200" "BodyRead resp = (body, None)" "parse_json body = None"
    and "CreateRuntimeObject (KubeImpl r) (SecretObj (SecretTemplate MongoSecret [(MongoSecretKeyFile, [])] (Namespace r))) w = (Ret None, w')"
  shows "CreateSSLSecret_Execute r h s = (Ret None, s\<lparr>World := w'\<rparr>)"
  using assms keyfile_unreadable [OF assms(2-6)]
  by (simp add: CreateSSLSecret_Execute_def keyText_def Let_def andthen_apply getCtx_def
      CreateRuntimeObjectContextWrapper_def callW_apply ret_apply)

lemma unreadable_key_becomes_empty_secret_witness:
  "CreateSSLSecret_Execute (baseHelper baseKube) (answering ''<html>'') drState = (Ret None, drState\<lparr>World := ()\<rparr>)"
proof (rule unreadable_key_becomes_empty_secret [where body = "''<html>''"])
  show "parse_json ''<html>'' = None" by code_simp
qed (simp_all add: drState_def baseKube_def)+

end
