(* ===== verification/DRSteps.thy ===== *)
theory DRSteps
  imports MongoSteps MongoStatus
begin

text \<open>
  The steps of a disaster recovery switch: \<^verbatim>\<open>src/operator/pkg/dr\<close>.

  Each step has its Condition and Execute.  An error of an operation becomes a panic with a
  \<^verbatim>\<open>DRExecutionError\<close>; a missing deployment is ignored.  The waits use the polling services of the
  environment.  The properties say what a successful wait has seen, and that the two sites of a cluster agree
  on the members they hide.
\<close>

section \<open>Errors of a switch\<close>

definition drGuard :: "'w helper \<Rightarrow> string \<Rightarrow> goerror option \<Rightarrow> ('w, goerror option) hop" where
  "drGuard r fmt err =
     (case err of None \<Rightarrow> ret None | Some e \<Rightarrow> panic (DRExecutionError (Sprintf fmt [Str (errStr (KubeImpl r) e)])))"

definition scaleByLabels :: "'w helper \<Rightarrow> string \<Rightarrow> int \<Rightarrow> string \<Rightarrow> ('w, goerror option) hop" where
  "scaleByLabels r microservice replicas fmt =
     andthen getSpec (\<lambda>spec.
     andthen (callW (ScaleDeploymentByLabels (KubeImpl r) [(Microservice, microservice)] (Namespace r) replicas (WaitSecondsField spec))) (\<lambda>err.
     if (case err of Some e \<Rightarrow> asNotFound e | None \<Rightarrow> False) then ret None else drGuard r fmt err))"

lemma drGuard_simps [simp]:
  "drGuard r fmt None = ret None"
  "drGuard r fmt (Some e) = panic (DRExecutionError (Sprintf fmt [Str (errStr (KubeImpl r) e)]))"
  by (simp_all add: drGuard_def)

section \<open>Members of the other site\<close>

definition AddCNFReplicas_Condition :: "('w, bool with_err) hop" where
  "AddCNFReplicas_Condition =
     andthen getSpec (\<lambda>spec. ret (SchemaSharded (SchemaSettings spec) \<and> drMode spec = ActiveMode, None))"

definition AddCNFReplicas_Execute :: "'w helper \<Rightarrow> ('w, goerror option) hop" where
  "AddCNFReplicas_Execute r =
     andthen getSpec (\<lambda>spec.
     AddDRReplicas r [(Microservice, CnfNameKey)]
       (GetCNFReplicaSetHostNames (CnfReplicaSize (SchemaSettings spec)) (OtherDomainName (SchemaSettings spec)) (Namespace r)))"

definition AddDATAReplicas_Condition :: "('w, bool with_err) hop" where
  "AddDATAReplicas_Condition = andthen getSpec (\<lambda>spec. ret (drMode spec = ActiveMode, None))"

definition AddDATAReplicas_Execute :: "'w helper \<Rightarrow> ('w, goerror option) hop" where
  "AddDATAReplicas_Execute r =
     andthen getSpec (\<lambda>spec.
     (let sch = SchemaSettings spec in
      forRange [0..<ShardCount sch] (\<lambda>i.
        (let rs = GetDATAReplicaSetHostName (DataReplicaSize sch) i (OtherDomainName sch) (Namespace r);
             serviceName = Sprintf DataNameKey [Num (int i + 1)]
         in andthen (AddDRReplicas r [(Microservice, serviceName)] rs) (\<lambda>err.
            andthen (PanicError (KubeImpl r) err ''Failed to add DR replica'') (\<lambda>_. ret None))))))"

definition RenameMemberDomain_Condition :: "('w, bool with_err) hop" where
  "RenameMemberDomain_Condition =
     andthen getSpec (\<lambda>spec. ret (SchemaType (SchemaSettings spec) = DR \<and> ThisDomainName (SchemaSettings spec) \<noteq> [] \<and>
       drMode spec = ActiveMode, None))"

definition RenameMemberDomain_Execute :: "'w helper \<Rightarrow> ('w, goerror option) hop" where
  "RenameMemberDomain_Execute r =
     andthen getSpec (\<lambda>spec.
     (let sch = SchemaSettings spec; dm = ThisDomainName sch; otherDomain = OtherDomainName sch in
      andthen (if SchemaSharded sch
               then andthen (RenameRSMemberDomain r [(Microservice, CnfNameKey)] dm otherDomain)
                      (drGuard r ''Failed to rename cnfrs member domains: %s'')
               else ret None) (\<lambda>_.
      forRange [0..<ShardCount sch] (\<lambda>i.
        (let serviceName = Sprintf DataNameKey [Num (int i + 1)] in
         andthen (RenameRSMemberDomain r [(Microservice, serviceName)] dm otherDomain) (\<lambda>err. case err of
           None \<Rightarrow> ret None
         | Some e \<Rightarrow> panic (DRExecutionError (Sprintf ''Failed to rename %s member domains: %s''
                      [Str serviceName, Str (errStr (KubeImpl r) e)]))))))))"

section \<open>Reconfiguration\<close>

text \<open>The domain of the members that must become hidden.\<close>

definition hiddenDomain :: "deployment_spec \<Rightarrow> string" where
  "hiddenDomain spec = (if drMode spec = ActiveMode then OtherDomainName (SchemaSettings spec) else ThisDomainName (SchemaSettings spec))"

definition notCleanStandby :: "exec_ctx \<Rightarrow> bool" where
  "notCleanStandby ctx = (\<not> (drMode (CtxSpec ctx) = StandbyMode \<and> CtxDeployType ctx = CleanDeploy))"

definition ReconfigureCnfrs_Condition :: "('w, bool with_err) hop" where
  "ReconfigureCnfrs_Condition =
     andthen getCtx (\<lambda>ctx. ret (notCleanStandby ctx \<and> SchemaSharded (SchemaSettings (CtxSpec ctx)), None))"

definition ReconfigureCnfrs_Execute :: "'w helper \<Rightarrow> ('w, goerror option) hop" where
  "ReconfigureCnfrs_Execute r =
     andthen getSpec (\<lambda>spec.
     andthen (ReconfigureRS r [(Microservice, CnfNameKey)]
        (GetCNFReplicaSetHostNames (CnfReplicaSize (SchemaSettings spec)) (hiddenDomain spec) (Namespace r)))
        (drGuard r ''Failed to reconfigure CNFRS, err: %s''))"

definition ReconfigureDataRS_Condition :: "('w, bool with_err) hop" where
  "ReconfigureDataRS_Condition = andthen getCtx (\<lambda>ctx. ret (notCleanStandby ctx, None))"

definition ReconfigureDataRS_Execute :: "'w helper \<Rightarrow> ('w, goerror option) hop" where
  "ReconfigureDataRS_Execute r =
     andthen getSpec (\<lambda>spec.
     forRange [0..<ShardCount (SchemaSettings spec)] (\<lambda>i.
       (let serviceName = Sprintf DataNameKey [Num (int i + 1)];
            rs = GetDATAReplicaSetHostName (DataReplicaSize (SchemaSettings spec)) i (hiddenDomain spec) (Namespace r)
        in andthen (ReconfigureRS r [(Microservice, serviceName)] rs) (drGuard r ''Failed to reconfigure DATARS, err: %s''))))"

definition activeShardedCondition :: "('w, bool with_err) hop" where
  "activeShardedCondition =
     andthen getSpec (\<lambda>spec. ret (drMode spec = ActiveMode \<and> SchemaSharded (SchemaSettings spec), None))"

definition UpdateShards_Execute :: "'w helper \<Rightarrow> ('w, goerror option) hop" where
  "UpdateShards_Execute r =
     andthen getSpec (\<lambda>spec.
     (let sch = SchemaSettings spec in
      andthen (UpdateShardsInConfigDB r (ThisDomainName sch) (DataReplicaSize sch) (ShardCount sch))
        (drGuard r ''Failed to update shards in config DB, err: %s'')))"

definition UpdateConfigRSInDATARS_Execute :: "'w helper \<Rightarrow> ('w, goerror option) hop" where
  "UpdateConfigRSInDATARS_Execute r =
     andthen getSpec (\<lambda>spec.
     (let sch = SchemaSettings spec in
      andthen (UpdateConfigRSInDATARS r (ThisDomainName sch) (OtherDomainName sch) (CnfReplicaSize sch) (DataReplicaSize sch) (ShardCount sch))
        (drGuard r ''Failed to update config string in datars, err: %s'')))"

section \<open>Restart, removal and scaling\<close>

definition RestartConfigRS_Execute :: "'w helper \<Rightarrow> ('w, goerror option) hop" where
  "RestartConfigRS_Execute r =
     andthen getSpec (\<lambda>spec.
     andthen (RestartConfigRS r (CnfReplicaSize (SchemaSettings spec)) (ThisDomainName (SchemaSettings spec)) (drMode spec))
       (drGuard r ''Failed to restart cnfrs, err: %s''))"

definition RestartDATARS_Execute :: "'w helper \<Rightarrow> ('w, goerror option) hop" where
  "RestartDATARS_Execute r =
     andthen getSpec (\<lambda>spec.
     andthen (RestartDataRS r (DataReplicaSize (SchemaSettings spec)) (ShardCount (SchemaSettings spec))
         (ThisDomainName (SchemaSettings spec)) (drMode spec))
       (drGuard r ''Failed to restart datars, err: %s''))"

definition DeleteConfigStatefulsets_Condition :: "('w, bool with_err) hop" where
  "DeleteConfigStatefulsets_Condition =
     andthen getCtx (\<lambda>ctx. ret (CtxDeployType ctx \<noteq> CleanDeploy \<and> SchemaSharded (SchemaSettings (CtxSpec ctx)) \<and>
       drMode (CtxSpec ctx) \<noteq> ActiveMode, None))"

definition DeleteConfigStatefulsets_Execute :: "'w helper \<Rightarrow> ('w, goerror option) hop" where
  "DeleteConfigStatefulsets_Execute r = andthen getSpec (\<lambda>spec. RemoveConfigRS r (CnfReplicaSize (SchemaSettings spec)))"

definition DeleteDataStatefulsets_Condition :: "('w, bool with_err) hop" where
  "DeleteDataStatefulsets_Condition =
     andthen getSpec (\<lambda>spec. ret (SchemaSharded (SchemaSettings spec) \<and> drMode spec \<noteq> ActiveMode, None))"

definition DeleteDataStatefulsets_Execute :: "'w helper \<Rightarrow> ('w, goerror option) hop" where
  "DeleteDataStatefulsets_Execute r =
     andthen getSpec (\<lambda>spec. RemoveDataRS r (DataReplicaSize (SchemaSettings spec)) (ShardCount (SchemaSettings spec)))"

definition ScaleMongos_Execute :: "'w helper \<Rightarrow> int \<Rightarrow> ('w, goerror option) hop" where
  "ScaleMongos_Execute r replicas = andthen (ScaleMongos r replicas) (drGuard r ''Failed to scale mongos, err: %s'')"

definition ScaleCNFRS_Execute :: "'w helper \<Rightarrow> int \<Rightarrow> ('w, goerror option) hop" where
  "ScaleCNFRS_Execute r replicas = andthen (ScaleCNFRS r replicas) (drGuard r ''Failed to scale datars, err: %s'')"

definition ScaleDATARS_Execute :: "'w helper \<Rightarrow> int \<Rightarrow> ('w, goerror option) hop" where
  "ScaleDATARS_Execute r replicas =
     andthen getSpec (\<lambda>spec. andthen (ScaleDATARS r (ShardCount (SchemaSettings spec)) replicas)
       (drGuard r ''Failed to scale datars, err: %s''))"

definition ScaleBackupDaemon_Execute :: "'w helper \<Rightarrow> int \<Rightarrow> ('w, goerror option) hop" where
  "ScaleBackupDaemon_Execute r replicas = scaleByLabels r BackupDaemon replicas ''Failed to scale backup daemon, err: %s''"

definition ScaleDbaasAdapter_Execute :: "'w helper \<Rightarrow> int \<Rightarrow> ('w, goerror option) hop" where
  "ScaleDbaasAdapter_Execute r replicas = scaleByLabels r DbaasName replicas ''Failed to scale mongos, err: %s''"

definition ScalePrometheusExporter_Execute :: "'w helper \<Rightarrow> int \<Rightarrow> ('w, goerror option) hop" where
  "ScalePrometheusExporter_Execute r replicas =
     scaleByLabels r MongoPrometheusExporter replicas ''Failed to scale mongos, err: %s''"

section \<open>The exporter\<close>

text \<open>The first matching variable only; the loop breaks.\<close>

fun setFirstEnv :: "string \<Rightarrow> string \<Rightarrow> env_var list \<Rightarrow> env_var list" where
  "setFirstEnv name v [] = []"
| "setFirstEnv name v (e # es) = (if env_name e = name then e\<lparr>env_value := PlainEnv v\<rparr> # es else e # setFirstEnv name v es)"

definition withTcpPort :: "int \<Rightarrow> probe option \<Rightarrow> probe option res" where
  "withTcpPort port p =
     (case p of None \<Rightarrow> Panic nil_dereference
      | Some p \<Rightarrow> (case probe_tcp_port p of None \<Rightarrow> Panic nil_dereference
                   | Some _ \<Rightarrow> Ret (Some (p\<lparr>probe_tcp_port := Some port\<rparr>))))"

definition healthzPort :: "bool \<Rightarrow> bool \<Rightarrow> int" where
  "healthzPort sharded exportMongos = (if \<not> sharded then 9218 else if \<not> exportMongos then 9217 else 9216)"

definition updateExporter :: "bool \<Rightarrow> bool \<Rightarrow> deployment \<Rightarrow> deployment res" where
  "updateExporter sharded exportMongos depl =
     (let port = healthzPort sharded exportMongos; spec = dep_pod_spec depl in
      case ps_containers spec of
        [] \<Rightarrow> Panic index_out_of_range
      | c # cs \<Rightarrow>
          (let envs = setFirstEnv ''EXPORT_MONGOS'' (if exportMongos then ''true'' else ''false'') (ctr_env c) in
           case withTcpPort port (ctr_liveness c) of
             Panic e \<Rightarrow> Panic e
           | Ret live \<Rightarrow>
               (case withTcpPort port (ctr_readiness c) of
                  Panic e \<Rightarrow> Panic e
                | Ret ready \<Rightarrow>
                    Ret (depl\<lparr>dep_pod_spec := spec\<lparr>ps_containers :=
                      c\<lparr>ctr_env := envs, ctr_liveness := live, ctr_readiness := ready\<rparr> # cs\<rparr>\<rparr>))))"

definition UpdatePrometheusExporter_Execute :: "'w helper \<Rightarrow> bool \<Rightarrow> ('w, goerror option) hop" where
  "UpdatePrometheusExporter_Execute r exportMongos =
     andthen getSpec (\<lambda>spec.
     andthen (callW (UpdateDeploymentByLabels (KubeImpl r) [(Microservice, MongoPrometheusExporter)] (Namespace r)
        (updateExporter (SchemaSharded (SchemaSettings spec)) exportMongos))) (\<lambda>err.
     case err of
       None \<Rightarrow> ret None
     | Some e \<Rightarrow> if asNotFound e then ret None
                 else panic (DRExecutionError (Sprintf ''Failed to scale deployment %s, err: %s''
                        [Str MongoPrometheusExporter, Str (errStr (KubeImpl r) e)]))))"

section \<open>Waits\<close>

definition notCleanMongo :: "exec_ctx \<Rightarrow> bool" where
  "notCleanMongo ctx = (CtxMongoDeployType ctx \<noteq> None \<and> CtxMongoDeployType ctx \<noteq> Some CleanDeploy)"

definition WaitExpectedClusterStatus_Condition :: "('w, bool with_err) hop" where
  "WaitExpectedClusterStatus_Condition =
     andthen getCtx (\<lambda>ctx. ret (CtxMongoDeployType ctx = None \<or> CtxMongoDeployType ctx \<noteq> Some CleanDeploy, None))"

definition expectedStatus :: "nat list \<Rightarrow> 'w helper \<Rightarrow> string \<Rightarrow> deployment_spec \<Rightarrow> string \<Rightarrow> 'w cond" where
  "expectedStatus order r mode spec expected =
     andthen (clusterStatusOf order r mode spec) (\<lambda>(st, err). ret (st = expected, None))"

definition WaitExpectedClusterStatus_Execute :: "nat list \<Rightarrow> 'w helper \<Rightarrow> string \<Rightarrow> bool \<Rightarrow> ('w, goerror option) hop" where
  "WaitExpectedClusterStatus_Execute order r expected bypassCheck =
     andthen getSpec (\<lambda>spec.
     (let mode = (if bypassCheck then StandbyMode else drMode spec) in
      Poll (KubeImpl r) 2 (WaitSecondsField spec) (expectedStatus order r mode spec expected)))"

definition WaitReplicationLag_Condition :: "('w, bool with_err) hop" where
  "WaitReplicationLag_Condition =
     andthen getCtx (\<lambda>ctx. ret (if drMode (CtxSpec ctx) \<noteq> ActiveMode then False else notCleanMongo ctx, None))"

definition lagBelow :: "'w helper \<Rightarrow> smap \<Rightarrow> string list \<Rightarrow> int \<Rightarrow> 'w cond" where
  "lagBelow r labels members maxLag =
     andthen (CheckReplicationLag r labels members maxLag) (\<lambda>(ok, err). ret (if err \<noteq> None then False else ok, None))"

definition pollLag :: "'w helper \<Rightarrow> smap \<Rightarrow> string list \<Rightarrow> int \<Rightarrow> int \<Rightarrow> ('w, goerror option) hop" where
  "pollLag r labels members maxLag timeoutSeconds =
     (if timeoutSeconds = 0 then PollInfinite (KubeImpl r) 5 (lagBelow r labels members maxLag)
      else Poll (KubeImpl r) 5 timeoutSeconds (lagBelow r labels members maxLag))"

definition WaitReplicationLag_Execute :: "'w helper \<Rightarrow> int \<Rightarrow> ('w, goerror option) hop" where
  "WaitReplicationLag_Execute r maxLagSeconds =
     andthen getSpec (\<lambda>spec.
     (let maxLag = (if maxLagSeconds = 0 then 30 else maxLagSeconds); sch = SchemaSettings spec; otherDomain = OtherDomainName sch in
      andthen (if SchemaSharded sch
               then pollLag r [(Microservice, CnfNameKey)] (GetCNFReplicaSetHostNames (CnfReplicaSize sch) otherDomain (Namespace r)) maxLag 0
               else ret None) (\<lambda>err. case err of
        Some e \<Rightarrow> ret (Some e)
      | None \<Rightarrow>
          forRange [0..<ShardCount sch] (\<lambda>i.
            (let dataMembers = GetDATAReplicaSetHostName (DataReplicaSize sch) i otherDomain (Namespace r);
                 serviceName = Sprintf DataNameKey [Num (int i + 1)]
             in pollLag r [(Microservice, serviceName)] dataMembers maxLag 0)))))"

section \<open>Properties\<close>

text \<open>A wait for a cluster status that succeeds ended with the cluster answering that status, in the mode of
  the resource, or in standby mode when the check is bypassed.\<close>

theorem wait_status_seen:
  assumes "poll_law (Poll (KubeImpl r) 2 (WaitSecondsField (specOf s)))"
    and "WaitExpectedClusterStatus_Execute order r expected bypass s = (Ret None, s')"
  shows "\<exists>t err. clusterStatusOf order r (if bypass then StandbyMode else drMode (specOf s)) (specOf s) t = (Ret (expected, err), s')"
proof -
  let ?cond = "expectedStatus order r (if bypass then StandbyMode else drMode (specOf s)) (specOf s) expected"
  have "Poll (KubeImpl r) 2 (WaitSecondsField (specOf s)) ?cond s = (Ret None, s')"
    using assms(2) by (simp add: WaitExpectedClusterStatus_Execute_def Let_def)
  then obtain t where "?cond t = (Ret (True, None), s')" using poll_lawD [OF assms(1)] by blast
  then show ?thesis by (auto simp: expectedStatus_def elim!: andthen_RetE) blast+
qed

definition activeSpec :: deployment_spec where
  "activeSpec = baseSpec\<lparr>DisasterRecovery := (DisasterRecovery baseSpec)\<lparr>Mode := ActiveMode\<rparr>\<rparr>"

definition activeState :: "unit hstate" where
  "activeState = \<lparr>Cmd = [], Ctx = baseCtx\<lparr>CtxSpec := activeSpec\<rparr>, World = ()\<rparr>"

lemma activeState_simps [simp]:
  "CtxSpec (Ctx activeState) = activeSpec" "drMode activeSpec = ActiveMode" "SchemaSettings activeSpec = SchemaSettings baseSpec"
  "World activeState = ()"
  by (simp_all add: activeState_def activeSpec_def)

abbreviation healthy :: "unit helper" where
  "healthy \<equiv> baseHelper (cannedKube allPods statesAnswer)"

lemma healthy_status: "clusterStatusOf [Suc 0, 0] healthy ActiveMode activeSpec = ret (Up, None)"
  using canned_cluster_up by (simp add: clusterStatusOf_def baseSpec_def Let_def)

lemma wait_status_seen_witness:
  "\<exists>t err. clusterStatusOf [1, 0] healthy (if False then StandbyMode else drMode (specOf activeState)) (specOf activeState) t =
     (Ret (Up, err), activeState)"
proof (rule wait_status_seen)
  have poll: "Poll (cannedKube allPods statesAnswer) i t = poll_tries 2" for i t by (simp add: cannedKube_def baseKube_def)
  show "poll_law (Poll (KubeImpl healthy) 2 (WaitSecondsField (specOf activeState)))" by (simp add: poll poll_tries_law)
  show "WaitExpectedClusterStatus_Execute [1, 0] healthy Up False activeState = (Ret None, activeState)"
    by (simp add: WaitExpectedClusterStatus_Execute_def expectedStatus_def poll eval_nat_numeral healthy_status)
qed

text \<open>A wait for the replication that succeeds has seen, for every shard, the primary answer that all members
  of the other site are within the allowed lag.\<close>

theorem wait_lag_seen:
  assumes "poll_law (PollInfinite (KubeImpl r) 5)" "WaitReplicationLag_Execute r k s = (Ret None, s')"
    and "i < ShardCount (schemaOf s)"
  shows "\<exists>t u. CheckReplicationLag r (shardLabels i)
      (GetDATAReplicaSetHostName (DataReplicaSize (schemaOf s)) i (OtherDomainName (schemaOf s)) (Namespace r))
      (if k = 0 then 30 else k) t = (Ret (True, None), u)"
proof -
  let ?hosts = "GetDATAReplicaSetHostName (DataReplicaSize (schemaOf s)) i (OtherDomainName (schemaOf s)) (Namespace r)"
  let ?lag = "if k = 0 then 30 else k"
  let ?body = "\<lambda>i. pollLag r (shardLabels i)
     (GetDATAReplicaSetHostName (DataReplicaSize (schemaOf s)) i (OtherDomainName (schemaOf s)) (Namespace r)) ?lag 0"
  obtain m where loop: "forRange [0..<ShardCount (schemaOf s)] ?body m = (Ret None, s')"
    using assms(2)
    by (auto simp: WaitReplicationLag_Execute_def Let_def shardLabels_def dataServiceName_def elim!: andthen_RetE split: option.splits)
  have "\<exists>t u. ?body i t = (Ret None, u)" by (rule forRange_None [OF loop]) (use assms(3) in simp)
  then obtain t u where "PollInfinite (KubeImpl r) 5 (lagBelow r (shardLabels i) ?hosts ?lag) t = (Ret None, u)"
    by (auto simp: pollLag_def)
  then obtain t where "lagBelow r (shardLabels i) ?hosts ?lag t = (Ret (True, None), u)"
    using poll_lawD [OF assms(1)] by blast
  then have "CheckReplicationLag r (shardLabels i) ?hosts ?lag t = (Ret (True, None), u)"
    unfolding lagBelow_def by (elim andthen_RetE) (auto split: if_splits)
  then show ?thesis by blast
qed

lemma wait_lag_seen_witness:
  "\<exists>t u. CheckReplicationLag (baseHelper (scriptedKube allPods)) (shardLabels 0)
      (GetDATAReplicaSetHostName (DataReplicaSize (schemaOf (scriptState [''pod-0'', ''true'', ''pod-0'', ''true'']))) 0 (OtherDomainName (schemaOf (scriptState [''pod-0'', ''true'', ''pod-0'', ''true''])))
        (Namespace (baseHelper (scriptedKube allPods))))
      (if (30 :: int) = 0 then 30 else 30) t = (Ret (True, None), u)"
proof (rule wait_lag_seen)
  let ?r = "baseHelper (scriptedKube allPods)"
  have poll: "PollInfinite (scriptedKube allPods) i = poll_tries 2" for i by (simp add: scriptedKube_def baseKube_def)
  show "poll_law (PollInfinite (KubeImpl ?r) 5)" by (simp add: poll poll_tries_law)
  have clean: "cleanOutput ''pod-0'' = ''pod-0''" "cleanOutput ''true'' = ''true''" by (rule cleanOutput_id; simp)+
  have true: "TrimSpace ''true'' = ''true''" by code_simp
  have check: "CheckReplicationLag ?r labels hosts lag (scriptState (''pod-0'' # ''true'' # as)) = (Ret (True, None), scriptState as)"
    for labels hosts lag as
    by (simp add: CheckReplicationLag_def RunOnPrimaryWithJSONResult_def RunOnPrimary_def runAndRetry_def runOnPrimaryBody_def
        eval_nat_numeral andthen_apply scripted_primary scripted_RunOnMongoPod clean true Let_def)
  have spec: "getSpec (scriptState as) = (Ret baseSpec, scriptState as)" for as by (simp add: getSpec_def scriptState_def)
  show "WaitReplicationLag_Execute ?r 30 (scriptState [''pod-0'', ''true'', ''pod-0'', ''true'']) = (Ret None, scriptState [])"
    by (simp add: WaitReplicationLag_Execute_def andthen_apply spec pollLag_def poll lagBelow_def check eval_nat_numeral
        baseSpec_def Let_def)
  show "0 < ShardCount (schemaOf (scriptState [''pod-0'', ''true'', ''pod-0'', ''true'']))" by (simp add: scriptState_def baseSpec_def)
qed

text \<open>The two sites of a cluster hide the same members when each has the other's domain as its other domain.\<close>

lemma sites_hide_same_members:
  assumes "drMode a = ActiveMode" "drMode b \<noteq> ActiveMode" "OtherDomainName (SchemaSettings a) = ThisDomainName (SchemaSettings b)"
  shows "hiddenDomain a = hiddenDomain b"
  using assms by (simp add: hiddenDomain_def)

end
