(* ===== verification/Builders.thy ===== *)
theory Builders
  imports DRSteps
begin

text \<open>
  The builders that put the steps of a reconciliation together (\<^verbatim>\<open>src/operator/pkg/mongo.go\<close>,
  \<^verbatim>\<open>src/operator/pkg/mongodb/mongodb.go\<close> and the builders of the step files), the conditions of the compounds,
  and the restart after a volume expansion.

  A built compound is a tree of step names with the parameters of their structs; the steps of the operator
  core library (volume claims, node labels, recycler) are names only, and so is the execution of a compound.
  Checks of the library (has the spec changed) are parameters.
\<close>

section \<open>Step names\<close>

datatype step =
    CalculateMaxReplicaSizeStep
  | UpdateContextAuthMongoStep string string
  | RunFiberServerStep
  | CreatePVCStep string
  | WaitForPVCExpansionStep
  | StoreNodesStep
  | PVRecyclerStep bool
  | DeleteStatefulsetsCompound "step list"
  | DeleteDataStatefulsetsStep
  | DeleteConfigStatefulsetsStep
  | CreateSSLSecretStep
  | Compound "step list"
  | MongoDBCompound "step list"
  | CreateCNFServiceStep
  | CreateCNFStep
  | InitCNFStep
  | UpdateCnfOplogStep
  | CreateDataStep
  | InitDataStep
  | UpdateDataOplogStep
  | CreateMongosServiceStep
  | CreateHAMongosStep
  | ShardsRegistrationStep
  | CreateSingleMongosStep
  | AddUserStep add_user_step bool
  | SetdefaultWriteConcernStep
  | SetFeatureCompatibilityVersionStep
  | RenameMemberDomainStep
  | AddCNFReplicasStep
  | AddDATAReplicasStep
  | ScaleMongosStep int
  | ScaleBackupDaemonStep int
  | ScaleDbaasAdapterStep int
  | ScaleCNFRSStep int
  | ScaleDATARSStep int
  | WaitExpectedClusterStatusStep string bool
  | ReconfigureCnfrsStep
  | ReconfigureDataRSStep
  | UpdateShardsStep
  | RestartConfigRSStep
  | UpdatePrometheusExporterStep bool
  | WaitReplicationLagStep int
  | UpdateMongoDBCredentialsStep

section \<open>Builders of the parts\<close>

definition CNFStepBuild :: step where
  "CNFStepBuild = Compound [CreateCNFServiceStep, CreateCNFStep, InitCNFStep, UpdateCnfOplogStep]"

definition DataStepBuild :: step where
  "DataStepBuild = Compound [CreateDataStep, InitDataStep, UpdateDataOplogStep]"

definition HAMongosStepBuild :: step where
  "HAMongosStepBuild = Compound [CreateMongosServiceStep, CreateHAMongosStep, ShardsRegistrationStep]"

definition SingleMongosStepBuild :: step where
  "SingleMongosStepBuild = Compound [CreateMongosServiceStep, CreateSingleMongosStep]"

definition cleanupCompound :: "deployment_spec \<Rightarrow> step" where
  "cleanupCompound spec =
     DeleteStatefulsetsCompound ([DeleteDataStatefulsetsStep, DeleteConfigStatefulsetsStep] @
       (if RecyclerInstall spec then [PVRecyclerStep True] else []))"

text \<open>The steps after the recycler of the update: the cleanup, the cluster, and the root user of the given secret.\<close>

definition mongoDBSteps :: "deployment_spec \<Rightarrow> secret \<Rightarrow> step list" where
  [simp]: "mongoDBSteps spec creds =
     (let singleSchema = (SchemaType (SchemaSettings spec) = SingleSchema);
          username = smap_get (sec_data creds) UsernameKey; password = smap_get (sec_data creds) PasswordKey
      in [cleanupCompound spec, CreateSSLSecretStep] @
         (if singleSchema then [SingleMongosStepBuild] else [CNFStepBuild, DataStepBuild, HAMongosStepBuild]) @
         [AddUserStep \<lparr>StepUser = username, StepPassword = password, StepRole = smap_get (sec_data creds) RoleKey\<rparr> (\<not> singleSchema),
          UpdateContextAuthMongoStep username password, SetdefaultWriteConcernStep, SetFeatureCompatibilityVersionStep] @
         (if SchemaType (SchemaSettings spec) = DR
          then [RenameMemberDomainStep, AddCNFReplicasStep, AddDATAReplicasStep] else []))"

definition MongoDBBuild :: "'w helper \<Rightarrow> ('w, step) hop" where
  "MongoDBBuild r =
     andthen getSpec (\<lambda>spec.
     andthen (ReadSecret r (MongoRootSecretNameField (MongoDB spec)) (Namespace r)) (\<lambda>(creds, rErr).
     andthen (PanicError (KubeImpl r) rErr ''MongoDB Root user credentials secret reading failed'') (\<lambda>_.
     ret (MongoDBCompound (
           [CreatePVCStep (Sprintf MongoPvcNameFormat [Str (Namespace r)] @ ''-%v''), WaitForPVCExpansionStep, StoreNodesStep] @
           (if RecyclerInstall spec then [PVRecyclerStep False] else []) @
           mongoDBSteps spec creds)))))"

text \<open>The condition the builder gives the root user step.\<close>

definition rootUserCondition :: "('w, bool with_err) hop" where
  "rootUserCondition = cleanActiveCondition (\<lambda>spec. True)"

definition CalcDeployType :: "(smap \<Rightarrow> ('w, deploy_type with_err) hop) \<Rightarrow> ('w, deploy_type with_err) hop" where
  "CalcDeployType GetDeploymentTypeByPVC =
     andthen (GetDeploymentTypeByPVC [(Microservice, MongoCluster)]) (\<lambda>(deplType, err).
     andthen (modifyCtx (\<lambda>c. c\<lparr>CtxMongoDeployType := Some deplType\<rparr>)) (\<lambda>_. ret (deplType, err)))"

section \<open>The builder of the services\<close>

definition arbiterFunc :: "deployment_spec \<Rightarrow> int \<Rightarrow> int" where
  "arbiterFunc spec maxReplicaSize =
     (let sch = SchemaSettings spec in
      if SchemaType sch = Arbiter
      then (if ArbiterIndex sch \<ge> 0 then ArbiterIndex sch else go_div maxReplicaSize 2)
      else -1)"

definition defaultCommand :: "deployment_spec \<Rightarrow> string" where
  "defaultCommand spec =
     (let cmd = Sprintf MongoCMD [Str (MongoBinary (DockerImage (MongoDB spec))), Str (AuthDb spec)] in
      if TLSEnabled (TLSField spec)
      then cmd @ Sprintf '' --tls --tlsCAFile %s%s --tlsAllowInvalidCertificates'' [Str RootCertPath, Str (RootCAFileName (TLSField spec))]
      else cmd)"

definition defaultMongoHelper :: "'w kube \<Rightarrow> string \<Rightarrow> deployment_spec \<Rightarrow> 'w helper" where
  "defaultMongoHelper k namespace spec =
     \<lparr>KubeImpl = k, Namespace = namespace, Tries = 5, RetryInterval = 10, WaitSeconds = WaitSecondsField spec,
      Sharded = SchemaSharded (SchemaSettings spec), Single = (SchemaType (SchemaSettings spec) = SingleSchema)\<rparr>"

text \<open>Whether one of the common fields (name and value) differs from the stored configuration.\<close>

definition commonChanges :: "(smap \<Rightarrow> 'a \<Rightarrow> string \<Rightarrow> bool) \<Rightarrow> (string \<times> 'a) list \<Rightarrow> smap \<Rightarrow> bool" where
  "commonChanges CompareSpecToCM names cfgTemplate =
     fold (\<lambda>(specKey, specToCheck) resultCheck. if CompareSpecToCM cfgTemplate specToCheck specKey then True else resultCheck) names False"

definition metricsAddress :: "bool \<Rightarrow> string" where
  "metricsAddress ipv6 = (let address = ''%(ip)s'' in if ipv6 then ''['' @ address @ '']'' else address)"

definition MongoServiceBuild :: "'w kube \<Rightarrow> string \<Rightarrow> (smap \<Rightarrow> 'a \<Rightarrow> string \<Rightarrow> bool) \<Rightarrow> (deployment_spec \<Rightarrow> (string \<times> 'a) list) \<Rightarrow>
    ((smap \<Rightarrow> bool) \<Rightarrow> ('w, bool with_err) hop) \<Rightarrow> ('w, step list) hop" where
  "MongoServiceBuild k namespace CompareSpecToCM commonFields HasSpecChanged =
     andthen getSpec (\<lambda>spec.
     andthen (HasSpecChanged (commonChanges CompareSpecToCM (commonFields spec))) (\<lambda>(isAnyParamChanged, commonParamCheckErr).
     andthen (PanicError k commonParamCheckErr ''Error happened during checking common parameters for changes'') (\<lambda>_.
     andthen (modifyCtx (\<lambda>c. c\<lparr>CtxCommonChanged := isAnyParamChanged\<rparr>)) (\<lambda>_.
     andthen (if ClusterAuthMode (MongoDB spec) = X509AuthMode \<and> \<not> TLSEnabled (TLSField spec)
              then PanicError k (Some (GoError ''Cluster Auth Mode '')) ''For x509 TLS has to be enabled'' else ret ()) (\<lambda>_.
     (let r = defaultMongoHelper k namespace spec in
      andthen (setCmd (defaultCommand spec)) (\<lambda>_.
      andthen (modifyCtx (\<lambda>c. c\<lparr>CtxIPTemplate := metricsAddress (IpV6 spec)\<rparr>)) (\<lambda>_.
      andthen (if SchemaType (SchemaSettings spec) = UnsetSchema
               then modifyCtx (\<lambda>c. c\<lparr>CtxSpec := spec\<lparr>SchemaSettings := (SchemaSettings spec)\<lparr>SchemaType := HA\<rparr>\<rparr>\<rparr>)
               else ret ()) (\<lambda>_.
      andthen getSpec (\<lambda>spec.
      andthen (modifyCtx (\<lambda>c. c\<lparr>CtxArbiterFunc := arbiterFunc spec\<rparr>)) (\<lambda>_.
      if SchemaType (SchemaSettings spec) = DR \<and> drMode spec = DisableMode then ret []
      else
        andthen (if MongoInstall (MongoDB spec) then andthen (MongoDBBuild r) (\<lambda>mongo. ret [mongo]) else ret []) (\<lambda>mongo.
        ret ([CalculateMaxReplicaSizeStep] @ mongo @ [UpdateContextAuthMongoStep [] []])))))))))))))"

definition PreDeployBuild :: "bool \<Rightarrow> step list" where
  "PreDeployBuild specHasChanges =
     (if \<not> specHasChanges then [UpdateContextAuthMongoStep [] []] else []) @ [RunFiberServerStep]"

definition UpdatePassword :: "step list" where
  "UpdatePassword = [UpdateMongoDBCredentialsStep, UpdateContextAuthMongoStep [] []]"

section \<open>The builder of a switch\<close>

definition DRBuild :: "deployment_spec \<Rightarrow> step list" where
  "DRBuild spec =
     (if SchemaType (SchemaSettings spec) = DR then
        (if drMode spec = DisableMode
         then [ScaleMongosStep 0, ScaleBackupDaemonStep 0, ScaleDbaasAdapterStep 0, ScaleCNFRSStep 0, ScaleDATARSStep 0]
         else
           (if drMode spec = ActiveMode \<and> \<not> NoWait (DisasterRecovery spec) then [WaitExpectedClusterStatusStep Up True] else []) @
           [ReconfigureCnfrsStep, ReconfigureDataRSStep] @
           (if drMode spec = ActiveMode
            then [UpdateShardsStep, RestartConfigRSStep, ScaleMongosStep (MongosReplicas (SchemaSettings spec)),
                  ScaleBackupDaemonStep 1, ScaleDbaasAdapterStep 1]
            else if drMode spec = StandbyMode
            then [ScaleMongosStep 0, ScaleBackupDaemonStep 0, ScaleDbaasAdapterStep 0]
            else []) @
           [UpdatePrometheusExporterStep (drMode spec = ActiveMode), WaitReplicationLagStep 30, WaitExpectedClusterStatusStep Up False])
      else [])"

text \<open>\<^verbatim>\<open>SetAdditionalLabelsForProjectStep.Execute\<close>, whose body is commented out.\<close>

definition SetAdditionalLabels_Execute :: "('w, goerror option) hop" where
  "SetAdditionalLabels_Execute = ret None"

section \<open>Conditions of the compounds\<close>

definition MongoDB_Condition :: "nat list \<Rightarrow> 'w helper \<Rightarrow> ('w, bool with_err) hop \<Rightarrow> ('w, bool with_err) hop" where
  "MongoDB_Condition order r CheckSpecChange =
     andthen CheckSpecChange (\<lambda>(microServiceCheck, microserviceCheckErr).
     andthen getCtx (\<lambda>ctx.
     (let spec = CtxSpec ctx in
      andthen (if \<not> microServiceCheck \<and> SchemaType (SchemaSettings spec) = DR \<and> drMode spec \<noteq> ActiveMode
               then andthen (UpdateContextAuthMongo_Execute r [] []) (\<lambda>_.
                    andthen (clusterStatusOf order r (drMode spec) spec) (\<lambda>(st, err). ret (err \<noteq> None \<or> st = Down)))
               else ret False) (\<lambda>starts.
      if starts then ret (True, None)
      else if microserviceCheckErr \<noteq> None then ret (microServiceCheck, microserviceCheckErr)
      else ret (microServiceCheck \<or> CtxCommonChanged ctx, None)))))"

definition DeleteStatefulsets_Condition :: "nat list \<Rightarrow> 'w helper \<Rightarrow> 'w http \<Rightarrow> ('w, bool with_err) hop" where
  "DeleteStatefulsets_Condition order r h =
     andthen getCtx (\<lambda>ctx.
     (let spec = CtxSpec ctx; sch = SchemaSettings spec in
      if drMode spec = ActiveMode \<or> SchemaType sch \<noteq> DR \<or> CtxDeployType ctx = CleanDeploy then ret (False, None)
      else
        andthen (GetStatus h (operatorUrl (Namespace r) (OtherDomainName sch))) (\<lambda>(st, err).
        if err \<noteq> None then ret (False, None)
        else if st \<noteq> Up then ret (False, None)
        else
          andthen (UpdateContextAuthMongo_Execute r [] []) (\<lambda>_.
          andthen (clusterStatusOf order r (drMode spec) spec) (\<lambda>(st, err).
          if err \<noteq> None then ret (True, None)
          else ret (st = Down, None))))))"

section \<open>Restart after a volume expansion\<close>

definition groupOfVolume :: "schema_settings \<Rightarrow> nat \<Rightarrow> string list" where
  "groupOfVolume sch N =
     (if N < CnfReplicaSize sch then [Sprintf ''cnfrs%d'' [Num (int N)]] else []) @
     concat (map (\<lambda>shard. if N < DataReplicaSize sch then [Sprintf ''datars%d%d'' [Num (int shard), Num (int N)]] else [])
       [1..<ShardCount sch + 1])"

definition ownersOfPods :: "pod list \<Rightarrow> string list" where
  "ownersOfPods pods =
     fold (\<lambda>(kind, name) acc. if kind = ''StatefulSet'' \<and> name \<notin> set acc then acc @ [name] else acc) (concat (map pod_owners pods)) []"

definition volumeGroup :: "'w helper \<Rightarrow> deployment_spec \<Rightarrow> nat \<Rightarrow> ('w, goerror + string list) hop" where
  "volumeGroup r spec N =
     (if SchemaType (SchemaSettings spec) \<noteq> SingleSchema then ret (Inr (groupOfVolume (SchemaSettings spec) N))
      else andthen (kListPods r [(Microservice, MongoCluster)]) (\<lambda>(pods, err). case err of
             Some e \<Rightarrow> ret (Inl (Wrapped (Sprintf ''listing MongoDB pods: %s'' [Str (errStr (KubeImpl r) e)]) e))
           | None \<Rightarrow> ret (Inr (ownersOfPods pods))))"

definition scaleDown :: "'w helper \<Rightarrow> int \<Rightarrow> string \<Rightarrow> (string \<times> int) list \<Rightarrow> ('w, goerror + (string \<times> int) list) hop" where
  "scaleDown r wait ssName originalReplicas =
     andthen (callW (GetStatefulSetByName (KubeImpl r) ssName (Namespace r))) (\<lambda>(ss, err). case err of
       Some e \<Rightarrow> ret (Inl (Wrapped (Sprintf ''getting StatefulSet %s: %s'' [Str ssName, Str (errStr (KubeImpl r) e)]) e))
     | None \<Rightarrow>
         (let replicas = (case ss_replicas ss of Some n \<Rightarrow> n | None \<Rightarrow> 1) in
          andthen (callW (ScaleStatefulSetByName (KubeImpl r) ssName (Namespace r) 0 wait)) (\<lambda>err. case err of
            Some e \<Rightarrow> ret (Inl (Wrapped (Sprintf ''scaling down %s: %s'' [Str ssName, Str (errStr (KubeImpl r) e)]) e))
          | None \<Rightarrow> ret (Inr (smap_put ssName replicas originalReplicas)))))"

definition scaleUp :: "'w helper \<Rightarrow> int \<Rightarrow> (string \<times> int) list \<Rightarrow> string \<Rightarrow> ('w, goerror option) hop" where
  "scaleUp r wait originalReplicas ssName =
     andthen (callW (ScaleStatefulSetByName (KubeImpl r) ssName (Namespace r)
        (case map_of originalReplicas ssName of Some n \<Rightarrow> n | None \<Rightarrow> 0) wait)) (\<lambda>err.
     ret (map_option (\<lambda>e. Wrapped (Sprintf ''scaling up %s: %s'' [Str ssName, Str (errStr (KubeImpl r) e)]) e) err))"

definition healthyCluster :: "nat list \<Rightarrow> 'w helper \<Rightarrow> deployment_spec \<Rightarrow> 'w cond" where
  "healthyCluster order r spec =
     andthen (clusterStatusOf order r (drMode spec) spec) (\<lambda>(st, err). ret (if err \<noteq> None then False else st = Up, None))"

definition restartVolume :: "nat list \<Rightarrow> 'w helper \<Rightarrow> deployment_spec \<Rightarrow> nat \<Rightarrow> string \<Rightarrow> ('w, goerror option) hop" where
  "restartVolume order r spec N pvcName =
     (let wait = WaitSecondsField spec in
      andthen (volumeGroup r spec N) (\<lambda>g. case g of
        Inl err \<Rightarrow> ret (Some err)
      | Inr ssNames \<Rightarrow>
          if ssNames = [] then ret None
          else
            andthen (forFold ssNames (scaleDown r wait) []) (\<lambda>x. case x of
              Inl err \<Rightarrow> ret (Some err)
            | Inr originalReplicas \<Rightarrow>
                andthen (sleep r 60) (\<lambda>_.
                andthen (forRange ssNames (scaleUp r wait originalReplicas)) (\<lambda>err. case err of
                  Some e \<Rightarrow> ret (Some e)
                | None \<Rightarrow>
                    andthen (UpdateContextAuthMongo_Execute r [] []) (\<lambda>_.
                    andthen (PollImmediate (KubeImpl r) 10 wait (healthyCluster order r spec)) (\<lambda>err.
                    ret (map_option (\<lambda>e. Wrapped (Sprintf ''MongoDB not healthy after PVC %s expansion: %s''
                      [Str pvcName, Str (errStr (KubeImpl r) e)]) e) err))))))))"

definition OnNeedsRestart :: "nat list \<Rightarrow> 'w helper \<Rightarrow> ('w, goerror option) hop" where
  "OnNeedsRestart order r =
     andthen getCtx (\<lambda>ctx.
     forRange (enumerate 0 (CtxPvcNames ctx)) (\<lambda>(N, pvcName). restartVolume order r (CtxSpec ctx) N pvcName))"

section \<open>Properties\<close>

lemma nth_prefix_mem: "i < length xs \<Longrightarrow> (xs @ ys) ! i \<in> set xs"
  by (simp add: nth_append)

lemma cleanup_facts:
  assumes "DeleteStatefulsets_Condition order r h s = (Ret (True, err), s')"
  shows "SchemaType (schemaOf s) = DR \<and> drMode (specOf s) \<noteq> ActiveMode \<and> CtxDeployType (Ctx s) \<noteq> CleanDeploy \<and>
     (\<exists>t. GetStatus h (operatorUrl (Namespace r) (OtherDomainName (schemaOf s))) s = (Ret (Up, None), t)) \<and>
     (\<exists>t st e. clusterStatusOf order r (drMode (specOf s)) (specOf s) t = (Ret (st, e), s') \<and> (e \<noteq> None \<or> st = Down))"
proof -
  have guard: "SchemaType (schemaOf s) = DR" "drMode (specOf s) \<noteq> ActiveMode" "CtxDeployType (Ctx s) \<noteq> CleanDeploy"
    using assms by (auto simp: DeleteStatefulsets_Condition_def Let_def split: if_splits)
  then obtain st e t where other: "GetStatus h (operatorUrl (Namespace r) (OtherDomainName (schemaOf s))) s = (Ret (st, e), t)"
    and rest: "(if e \<noteq> None then ret (False, None) else if st \<noteq> Up then ret (False, None)
        else andthen (UpdateContextAuthMongo_Execute r [] []) (\<lambda>_.
          andthen (clusterStatusOf order r (drMode (specOf s)) (specOf s)) (\<lambda>(st, err).
          if err \<noteq> None then ret (True, None) else ret (st = Down, None)))) t = (Ret (True, err), s')"
    using assms by (auto simp: DeleteStatefulsets_Condition_def Let_def elim!: andthen_RetE)
  then have up: "e = None" "st = Up" by (auto split: if_splits)
  then obtain st' e' u where "clusterStatusOf order r (drMode (specOf s)) (specOf s) u = (Ret (st', e'), s')" "e' \<noteq> None \<or> st' = Down"
    using rest by (auto elim!: andthen_RetE split: if_splits)
  then show ?thesis using guard other up by blast
qed

text \<open>C9: the stateful sets of a site are only removed for a disaster recovery schema that is not active and not
  freshly installed, after the other site's operator answered up, and when this site's own status is down or
  could not be determined.\<close>

theorem cleanup_guarded:
  assumes "DeleteStatefulsets_Condition order r h s = (Ret (True, err), s')"
  shows "SchemaType (schemaOf s) = DR \<and> drMode (specOf s) \<noteq> ActiveMode \<and> CtxDeployType (Ctx s) \<noteq> CleanDeploy \<and>
     (\<exists>t. GetStatus h (operatorUrl (Namespace r) (OtherDomainName (schemaOf s))) s = (Ret (Up, None), t)) \<and>
     (\<exists>t st e. clusterStatusOf order r (drMode (specOf s)) (specOf s) t = (Ret (st, e), s') \<and> (e \<noteq> None \<or> st = Down))"
  using assms by (rule cleanup_facts)

text \<open>In a switch, mongos is scaled up in active mode only, and after the step that reconfigures the shards.\<close>

theorem scale_up_after_reconfigure:
  assumes "i < length (DRBuild spec)" "DRBuild spec ! i = ScaleMongosStep n" "n \<noteq> 0"
  shows "drMode spec = ActiveMode \<and> n = MongosReplicas (SchemaSettings spec) \<and>
     (\<exists>j < i. DRBuild spec ! j = ReconfigureDataRSStep)"
proof -
  have mem: "ScaleMongosStep n \<in> set (DRBuild spec)" using assms(1,2) by (metis nth_mem)
  then have active: "drMode spec = ActiveMode" "n = MongosReplicas (SchemaSettings spec)" "SchemaType (SchemaSettings spec) = DR"
    using assms(3) by (auto simp: DRBuild_def split: if_splits)
  let ?pre = "if \<not> NoWait (DisasterRecovery spec) then [WaitExpectedClusterStatusStep Up True] else []"
  have build: "DRBuild spec = (?pre @ [ReconfigureCnfrsStep, ReconfigureDataRSStep]) @
      [UpdateShardsStep, RestartConfigRSStep, ScaleMongosStep n, ScaleBackupDaemonStep 1, ScaleDbaasAdapterStep 1,
       UpdatePrometheusExporterStep True, WaitReplicationLagStep 30, WaitExpectedClusterStatusStep Up False]"
    using active by (simp add: DRBuild_def)
  have "Suc (length ?pre) < i"
  proof (rule ccontr)
    assume "\<not> ?thesis"
    then have "i < length (?pre @ [ReconfigureCnfrsStep, ReconfigureDataRSStep])" by simp
    then have "DRBuild spec ! i \<in> set (?pre @ [ReconfigureCnfrsStep, ReconfigureDataRSStep])"
      unfolding build by (rule nth_prefix_mem)
    then show False using assms(2) by (auto split: if_splits)
  qed
  moreover have "DRBuild spec ! Suc (length ?pre) = ReconfigureDataRSStep"
    unfolding build by (simp add: nth_append)
  ultimately show ?thesis using active by blast
qed

text \<open>A mode that is none of active, standby and disable, such as the disabled of the documentation, reconfigures
  the replica sets and waits for the cluster, but scales nothing down.\<close>

theorem unknown_mode_scales_nothing:
  assumes "SchemaType (SchemaSettings spec) = DR" "drMode spec = ''disabled''"
  shows "DRBuild spec = [ReconfigureCnfrsStep, ReconfigureDataRSStep, UpdatePrometheusExporterStep False,
     WaitReplicationLagStep 30, WaitExpectedClusterStatusStep Up False]"
  using assms by (simp add: DRBuild_def ActiveMode_def StandbyMode_def DisableMode_def)

section \<open>Volume groups\<close>

lemma groupOfVolume_eq:
  "groupOfVolume sch N =
     (if N < CnfReplicaSize sch then [cnfStatefulSetName N] else []) @
     (if N < DataReplicaSize sch then map (\<lambda>s. dataStatefulSetName s N) [0..<ShardCount sch] else [])"
proof -
  have "concat (map (\<lambda>shard. [Sprintf ''datars%d%d'' [Num (int shard), Num (int N)]]) [1..<n + 1]) =
        map (\<lambda>s. dataStatefulSetName s N) [0..<n]" for n
    by (induction n) (simp_all add: dataStatefulSetName_eq Sprintf_simps)
  then show ?thesis
    by (simp add: groupOfVolume_def Sprintf_simps del: upt_Suc)
qed

lemma distinct_groupOfVolume: "distinct (groupOfVolume sch N)"
  by (auto simp: groupOfVolume_eq dataStatefulSetName_eq distinct_map inj_on_def)

text \<open>A stateful set that has n replicas (one when it does not say) is scaled to zero; it is scaled to n.\<close>

definition scaledToZero :: "'w helper \<Rightarrow> int \<Rightarrow> string \<Rightarrow> int \<Rightarrow> 'w hstate \<Rightarrow> 'w hstate \<Rightarrow> bool" where
  "scaledToZero r wait name n s s' =
     (\<exists>ss t. callW (GetStatefulSetByName (KubeImpl r) name (Namespace r)) s = (Ret (ss, None), t) \<and>
        n = (case ss_replicas ss of Some n \<Rightarrow> n | None \<Rightarrow> 1) \<and>
        callW (ScaleStatefulSetByName (KubeImpl r) name (Namespace r) 0 wait) t = (Ret None, s'))"

definition scaledTo :: "'w helper \<Rightarrow> int \<Rightarrow> string \<Rightarrow> int \<Rightarrow> 'w hstate \<Rightarrow> 'w hstate \<Rightarrow> bool" where
  "scaledTo r wait name n s s' = (callW (ScaleStatefulSetByName (KubeImpl r) name (Namespace r) n wait) s = (Ret None, s'))"

lemma scaleDown_Inr:
  assumes "scaleDown r wait name m s = (Ret (Inr m'), s')"
  shows "\<exists>n. scaledToZero r wait name n s s' \<and> m' = smap_put name n m"
  using assms by (fastforce simp: scaleDown_def scaledToZero_def Let_def elim!: andthen_RetE split: option.splits)

lemma scaleDown_all:
  "forFold names (scaleDown r wait) m s = (Ret (Inr m'), s') \<Longrightarrow> distinct names \<Longrightarrow>
   \<exists>orig. chained (\<lambda>i. scaledToZero r wait (names ! i) (orig i)) (length names) s s' \<and>
     (\<forall>i < length names. map_of m' (names ! i) = Some (orig i)) \<and> (\<forall>k. k \<notin> set names \<longrightarrow> map_of m' k = map_of m k)"
proof (induction names arbitrary: m s)
  case (Cons x xs)
  obtain m1 t where t: "scaleDown r wait x m s = (Ret (Inr m1), t)" "forFold xs (scaleDown r wait) m1 t = (Ret (Inr m'), s')"
    using Cons.prems(1) by (auto elim!: andthen_RetE split: sum.splits)
  obtain n where n: "scaledToZero r wait x n s t" "m1 = smap_put x n m" using scaleDown_Inr [OF t(1)] by blast
  obtain orig where o: "chained (\<lambda>i. scaledToZero r wait (xs ! i) (orig i)) (length xs) t s'"
    "\<forall>i < length xs. map_of m' (xs ! i) = Some (orig i)" "\<forall>k. k \<notin> set xs \<longrightarrow> map_of m' k = map_of m1 k"
    using Cons.IH [OF t(2)] Cons.prems(2) by auto
  let ?orig = "case_nat n orig"
  have "chained (\<lambda>i. scaledToZero r wait ((x # xs) ! i) (?orig i)) (Suc (length xs)) s s'"
    by (rule chained_Suc [where t = t]) (use n(1) o(1) in simp_all)
  moreover have "map_of m' x = Some n" using o(3) n(2) Cons.prems(2) by simp
  then have "\<forall>i < length (x # xs). map_of m' ((x # xs) ! i) = Some (?orig i)" using o(2) by (auto simp: less_Suc_eq_0_disj)
  moreover have "\<forall>k. k \<notin> set (x # xs) \<longrightarrow> map_of m' k = map_of m k" using o(3) n(2) by simp
  ultimately show ?case by (intro exI [of _ ?orig]) simp
qed (auto simp: chained_0)

lemma scaleUp_all:
  assumes "forRange names (scaleUp r wait m) s = (Ret None, s')" "\<forall>i < length names. map_of m (names ! i) = Some (orig i)"
  shows "chained (\<lambda>i. scaledTo r wait (names ! i) (orig i)) (length names) s s'"
  using forRange_chained [OF assms(1)]
proof (rule chained_mono)
  fix i t u assume "i < length names" "scaleUp r wait m (names ! i) t = (Ret None, u)"
  then show "scaledTo r wait (names ! i) (orig i) t u"
    using assms(2) by (auto simp: scaleUp_def scaledTo_def elim!: andthen_RetE)
qed

text \<open>What the restart does for the volume with the index N: the stateful sets of its group are scaled to zero one by
  one, and after the pause of a minute each to the replicas it had; from there the health of the cluster is waited for,
  until the last look finds it up.\<close>

definition volumeRestarted :: "nat list \<Rightarrow> 'w helper \<Rightarrow> deployment_spec \<Rightarrow> nat \<Rightarrow> 'w hstate \<Rightarrow> 'w hstate \<Rightarrow> bool" where
  "volumeRestarted order r spec N s s' =
     (let group = groupOfVolume (SchemaSettings spec) N; wait = WaitSecondsField spec in
      if group = [] then s' = s
      else \<exists>orig a b c d x z.
        chained (\<lambda>i. scaledToZero r wait (group ! i) (orig i)) (length group) s a \<and> sleep r 60 a = (Ret (), b) \<and>
        chained (\<lambda>i. scaledTo r wait (group ! i) (orig i)) (length group) b c \<and>
        UpdateContextAuthMongo_Execute r [] [] c = (Ret x, d) \<and>
        PollImmediate (KubeImpl r) 10 wait (healthyCluster order r spec) d = (Ret None, s') \<and>
        clusterStatusOf order r (drMode spec) spec z = (Ret (Up, None), s'))"

lemma restartVolume_None:
  assumes "poll_law (PollImmediate (KubeImpl r) 10 (WaitSecondsField spec))" "SchemaType (SchemaSettings spec) \<noteq> SingleSchema"
    and "restartVolume order r spec N pvc s = (Ret None, s')"
  shows "volumeRestarted order r spec N s s'"
proof (cases "groupOfVolume (SchemaSettings spec) N = []")
  case True
  then show ?thesis using assms(2,3) by (simp add: restartVolume_def volumeGroup_def volumeRestarted_def Let_def ret_apply)
next
  case False
  let ?group = "groupOfVolume (SchemaSettings spec) N" and ?wait = "WaitSecondsField spec"
  obtain m a b c x d where "forFold ?group (scaleDown r ?wait) [] s = (Ret (Inr m), a)" and b: "sleep r 60 a = (Ret (), b)"
    and up: "forRange ?group (scaleUp r ?wait m) b = (Ret None, c)" and auth: "UpdateContextAuthMongo_Execute r [] [] c = (Ret x, d)"
    and poll: "PollImmediate (KubeImpl r) 10 ?wait (healthyCluster order r spec) d = (Ret None, s')"
    using assms(2,3) False
    by (auto simp: restartVolume_def volumeGroup_def Let_def elim!: andthen_RetE split: sum.splits option.splits)
  then obtain orig where o: "chained (\<lambda>i. scaledToZero r ?wait (?group ! i) (orig i)) (length ?group) s a"
    "\<forall>i < length ?group. map_of m (?group ! i) = Some (orig i)"
    using scaleDown_all [OF _ distinct_groupOfVolume] by blast
  obtain z where "healthyCluster order r spec z = (Ret (True, None), s')" using poll_lawD [OF assms(1) poll] by blast
  then have "clusterStatusOf order r (drMode spec) spec z = (Ret (Up, None), s')"
    unfolding healthyCluster_def by (elim andthen_RetE) (auto split: if_splits)
  then show ?thesis
    unfolding volumeRestarted_def Let_def if_not_P [OF False] using o(1) b scaleUp_all [OF up o(2)] auth poll by blast
qed


lemma dummy_volumes:
  assumes "[] \<notin> set pvcs"
  shows "goodElements (GetDummyPvcMap pvcs)" "length (GetDummyPvcMap pvcs) = length pvcs"
    "i < length pvcs \<Longrightarrow> hd (GetDummyPvcMap pvcs ! i) = (KubeHostName, pvcs ! i)"
  using assms by (auto simp: goodElements_def GetDummyPvcMap_def list_all_iff)

text \<open>C31: when every replica set has one replica per volume, the group restarted for a volume consists of the
  config server replica and the replicas of all shards that are placed on it.\<close>

theorem expansion_group_exact:
  assumes "core_laws cl" "[] \<notin> set pvcs" "odd (length pvcs)" "N < length pvcs"
    and "CnfReplicaSize sch = length pvcs" "DataReplicaSize sch = length pvcs"
  shows "groupOfVolume sch N = cnfStatefulSetName N # map (\<lambda>s. dataStatefulSetName s N) [0..<ShardCount sch] \<and>
     ElementsDistribution cl (GetDummyPvcMap pvcs) (CnfReplicaSize sch) N 1 0 = (ret (KubeHostName, pvcs ! N) :: ('s, _) op) \<and>
     (\<forall>s < ShardCount sch. ElementsDistribution cl (GetDummyPvcMap pvcs) (DataReplicaSize sch) N (ShardCount sch) s =
        (ret (KubeHostName, pvcs ! N) :: ('s, _) op))"
  using full_placement [OF assms(1) dummy_volumes(1) [OF assms(2)], where i = N and 's = 's] assms dummy_volumes [OF assms(2)]
  by (simp add: groupOfVolume_eq)

text \<open>With fewer config server replicas than volumes, some config server is placed on a volume whose group does
  not contain it, and keeps running while that volume's group is restarted.\<close>

theorem expansion_misses_config_server:
  assumes "core_laws cl" "[] \<notin> set pvcs" "odd (length pvcs)" "odd (CnfReplicaSize sch)" "CnfReplicaSize sch < length pvcs"
  shows "\<exists>i < CnfReplicaSize sch. \<exists>j < length pvcs.
     ElementsDistribution cl (GetDummyPvcMap pvcs) (CnfReplicaSize sch) i 1 0 = (ret (KubeHostName, pvcs ! j) :: ('s, _) op) \<and>
     cnfStatefulSetName i \<notin> set (groupOfVolume sch j)"
proof -
  let ?vs = "GetDummyPvcMap pvcs"
  note vs = dummy_volumes [OF assms(2)]
  obtain js where js: "length js = CnfReplicaSize sch" "sorted_wrt (<) js" "set js \<subseteq> {0..<length pvcs}"
      "\<forall>j \<in> set js. length pvcs - 1 - j \<in> set js"
    and run: "\<forall>i < CnfReplicaSize sch. ElementsDistribution cl ?vs (CnfReplicaSize sch) i 1 0 =
        (ret (fst (hd (?vs ! i)), snd (hd (?vs ! (js ! i)))) :: ('s, _) op)"
    using symmetric_placement [OF assms(1) vs(1), of "CnfReplicaSize sch" 0 1] assms(3-5) vs(2) by auto
  have "js \<noteq> []" using js(1) assms(4) by auto
  then obtain i where i: "i < CnfReplicaSize sch" "js ! i \<noteq> i"
    using symmetric_positions_move [OF js(2-4)] js(1) assms(5) by auto
  then have "js ! i < length pvcs" using js(1,3) by (metis atLeastLessThan_iff nth_mem subsetD)
  moreover have "cnfStatefulSetName i \<notin> set (groupOfVolume sch (js ! i))"
    using i(2) by (auto simp: groupOfVolume_eq dataStatefulSetName_eq)
  ultimately show ?thesis using run i(1) vs(3) assms(5) by (intro exI [of _ i] conjI exI [of _ "js ! i"]) simp_all
qed

lemma expansion_group_exact_witness:
  "groupOfVolume (SchemaSettings baseSpec) 2 = [cnfStatefulSetName 2, dataStatefulSetName 0 2] \<and>
     ElementsDistribution plainCore (GetDummyPvcMap [''v0'', ''v1'', ''v2'']) 3 2 1 0 = (ret (KubeHostName, ''v2'') :: (unit, _) op)"
  using expansion_group_exact [OF plainCore_laws, of "[''v0'', ''v1'', ''v2'']" 2 "SchemaSettings baseSpec", where 's = unit]
  by (simp add: baseSpec_def)

lemma expansion_misses_config_server_witness:
  "\<exists>i < CnfReplicaSize (SchemaSettings baseSpec). \<exists>j < length [''v0'', ''v1'', ''v2'', ''v3'', ''v4''].
     ElementsDistribution plainCore fiveVolumes (CnfReplicaSize (SchemaSettings baseSpec)) i 1 0 =
        (ret (KubeHostName, [''v0'', ''v1'', ''v2'', ''v3'', ''v4''] ! j) :: (unit, _) op) \<and>
     cnfStatefulSetName i \<notin> set (groupOfVolume (SchemaSettings baseSpec) j)"
  by (rule expansion_misses_config_server [OF plainCore_laws]) (simp_all add: baseSpec_def)

section \<open>Examples\<close>

definition drSpec :: deployment_spec where
  "drSpec = baseSpec\<lparr>SchemaSettings := (SchemaSettings baseSpec)\<lparr>SchemaType := DR\<rparr>\<rparr>"

definition standbyState :: "unit hstate" where
  "standbyState = \<lparr>Cmd = [], Ctx = baseCtx\<lparr>CtxSpec := drSpec\<rparr>, World = ()\<rparr>"

lemma standbyState_simps [simp]:
  "CtxSpec (Ctx standbyState) = drSpec" "drMode drSpec = StandbyMode" "SchemaType (SchemaSettings drSpec) = DR"
  "CtxDeployType (Ctx standbyState) = UpdateDeploy"
  by (simp_all add: standbyState_def drSpec_def baseSpec_def baseCtx_def)

text \<open>A site all of whose pods are gone.\<close>

abbreviation lostSite :: "'w helper" where
  "lostSite \<equiv> baseHelper (cannedKube (\<lambda>l. []) [])"

lemma lostSite_status:
  "clusterStatusOf [Suc 0, 0] lostSite StandbyMode drSpec = ret (Down, None)"
  by (simp add: clusterStatusOf_def GetClusterStatus_def runTasks_def statusTask_def GetReplicaSetStatus_def canned_simps
      drSpec_def baseSpec_def Let_def hasCnf_def channelFailed_def dataStatuses_def cnfStatusOf_def shardedVerdict_def)


lemma lostSite_cleaned:
  "\<exists>s'. DeleteStatefulsets_Condition [1, 0] lostSite (answering (statusBody Up)) standbyState = (Ret (True, None), s')"
proof -
  have other: "GetStatus (answering (statusBody Up)) host s = (Ret (Up, None), s)" for host and s :: "unit hstate"
    using status_roundtrip [of "answering (statusBody Up)" host Up s "\<lparr>StatusCode = 200, BodyRead = (statusBody Up, None)\<rparr>" "World s"]
    by (simp add: ret_apply Up_def plain_char_def)
  have secret: "ReadSecret lostSite n ns s = (Ret (\<lparr>sec_meta = plainMeta n, sec_data = [], sec_type = []\<rparr>, None), s)"
    for n ns and s :: "unit hstate"
    by (simp add: ReadSecret_def cannedKube_def baseKube_def ret_apply)
  show ?thesis
    by (simp add: lostSite_status DeleteStatefulsets_Condition_def UpdateContextAuthMongo_Execute_def SetMongoCMD_def andthen_apply other secret
        getCtx_def getSpec_def modifyState_def ret_apply setCmd_def Let_def)
qed

lemma cleanup_guarded_witness:
  "\<exists>s' :: unit hstate. SchemaType (schemaOf standbyState) = DR \<and> drMode (specOf standbyState) \<noteq> ActiveMode \<and>
     CtxDeployType (Ctx standbyState) \<noteq> CleanDeploy \<and>
     (\<exists>t. GetStatus (answering (statusBody Up)) (operatorUrl (Namespace (lostSite :: unit helper)) (OtherDomainName (schemaOf standbyState)))
        standbyState = (Ret (Up, None), t)) \<and>
     (\<exists>t st e. clusterStatusOf [1, 0] lostSite (drMode (specOf standbyState)) (specOf standbyState) t = (Ret (st, e), s') \<and>
        (e \<noteq> None \<or> st = Down))"
proof -
  obtain s' where "DeleteStatefulsets_Condition [1, 0] lostSite (answering (statusBody Up)) standbyState = (Ret (True, None), s')"
    using lostSite_cleaned by blast
  from cleanup_guarded [OF this] show ?thesis by (rule exI)
qed

lemma scale_up_after_reconfigure_witness:
  "\<exists>spec. drMode spec = ActiveMode \<and> (2 :: int) = MongosReplicas (SchemaSettings spec) \<and>
     (\<exists>j < 5. DRBuild spec ! j = ReconfigureDataRSStep)"
proof -
  let ?spec = "drSpec\<lparr>DisasterRecovery := (DisasterRecovery drSpec)\<lparr>Mode := ActiveMode\<rparr>,
     SchemaSettings := (SchemaSettings drSpec)\<lparr>MongosReplicas := 2\<rparr>\<rparr>"
  have "DRBuild ?spec ! 5 = ScaleMongosStep 2" "5 < length (DRBuild ?spec)"
    by (simp_all add: DRBuild_def drSpec_def baseSpec_def)
  from scale_up_after_reconfigure [OF this(2,1)] show ?thesis by (intro exI [of _ ?spec]) simp
qed

lemma unknown_mode_scales_nothing_witness:
  "DRBuild (drSpec\<lparr>DisasterRecovery := (DisasterRecovery drSpec)\<lparr>Mode := ''disabled''\<rparr>\<rparr>) =
     [ReconfigureCnfrsStep, ReconfigureDataRSStep, UpdatePrometheusExporterStep False,
      WaitReplicationLagStep 30, WaitExpectedClusterStatusStep Up False]"
  by (rule unknown_mode_scales_nothing) (simp_all add: drSpec_def)

definition expandingState :: "unit hstate" where
  "expandingState = activeState\<lparr>Ctx := (Ctx activeState)\<lparr>CtxPvcNames := [''pvc-0'']\<rparr>\<rparr>"

lemma expandingState_simps [simp]:
  "CtxSpec (Ctx expandingState) = activeSpec" "CtxPvcNames (Ctx expandingState) = [''pvc-0'']"
  by (simp_all add: expandingState_def)


end
