(* ===== verification/Fiber.thy ===== *)
theory Fiber
  imports HttpClient
begin

text \<open>
  The web framework both services answer with (\<^verbatim>\<open>gofiber/fiber\<close>), a library: a record of the functions of a
  request context the code calls, over a type of contexts, and of what the server does with the error a handler
  returns or panics with (the recover middleware hands a panic to the error handler).

  \<^verbatim>\<open>fiber_laws\<close> is the documented behaviour the theorems rely on; \<^verbatim>\<open>plainFiber\<close>, a status code with a body,
  satisfies it.
\<close>

record 'c fiber =
  NewCtx :: "string \<Rightarrow> string \<Rightarrow> string \<Rightarrow> 'c"
  SetJSON :: "string \<Rightarrow> 'c \<Rightarrow> goerror option \<times> 'c"
  SetStatus :: "int \<Rightarrow> 'c \<Rightarrow> 'c"
  SendString :: "string \<Rightarrow> 'c \<Rightarrow> goerror option \<times> 'c"
  SendStatus :: "int \<Rightarrow> 'c \<Rightarrow> goerror option \<times> 'c"
  Params :: "'c \<Rightarrow> string \<Rightarrow> string"
  BodyParser :: "'c \<Rightarrow> goerror + json"
  RouteMatches :: "string \<Rightarrow> string \<Rightarrow> bool"
  ErrorHandler :: "goerror \<Rightarrow> 'c \<Rightarrow> 'c"
  NotFoundHandler :: "'c \<Rightarrow> 'c"
  Answer :: "'c \<Rightarrow> int \<times> string"

text \<open>A pattern without parameters matches without regard to case and to a slash at the end, the defaults.\<close>

definition sameRoute :: "string \<Rightarrow> string \<Rightarrow> bool" where
  "sameRoute p path =
     (let p = map to_lower p; path = map to_lower path in p = path \<or> p @ ''/'' = path \<or> p = path @ ''/'')"

text \<open>\<^verbatim>\<open>NewCtx method pattern path\<close> is the context of a request that a pattern has matched.\<close>

definition fiber_laws :: "'c fiber \<Rightarrow> bool" where
  "fiber_laws f =
     ((\<forall>m p path. Answer f (NewCtx f m p path) = (200, [])) \<and>
      (\<forall>b c. fst (SetJSON f b c) = None \<and> Answer f (snd (SetJSON f b c)) = (fst (Answer f c), b)) \<and>
      (\<forall>n c. Answer f (SetStatus f n c) = (n, snd (Answer f c))) \<and>
      (\<forall>b c. fst (SendString f b c) = None \<and> Answer f (snd (SendString f b c)) = (fst (Answer f c), b)) \<and>
      (\<forall>n c. fst (SendStatus f n c) = None \<and> fst (Answer f (snd (SendStatus f n c))) = n \<and>
         (snd (Answer f c) \<noteq> [] \<longrightarrow> snd (Answer f (snd (SendStatus f n c))) = snd (Answer f c))) \<and>
      (\<forall>e c. fst (Answer f (ErrorHandler f e c)) = 500) \<and>
      (\<forall>p path. CHR '':'' \<notin> set p \<longrightarrow> (RouteMatches f p path \<longleftrightarrow> sameRoute p path)))"

lemma fiber_lawsD:
  assumes "fiber_laws f"
  shows "Answer f (NewCtx f m p path) = (200, [])"
    "fst (SetJSON f b c) = None" "Answer f (snd (SetJSON f b c)) = (fst (Answer f c), b)"
    "Answer f (SetStatus f n c) = (n, snd (Answer f c))"
    "fst (SendString f b c) = None" "Answer f (snd (SendString f b c)) = (fst (Answer f c), b)"
    "fst (SendStatus f n c) = None" "fst (Answer f (snd (SendStatus f n c))) = n"
    "snd (Answer f c) \<noteq> [] \<Longrightarrow> snd (Answer f (snd (SendStatus f n c))) = snd (Answer f c)"
    "fst (Answer f (ErrorHandler f e c)) = 500" "CHR '':'' \<notin> set p \<Longrightarrow> RouteMatches f p path \<longleftrightarrow> sameRoute p path"
  using assms by (auto simp: fiber_laws_def)

text \<open>A context that is its answer; the parameters of a pattern are read off segment by segment.\<close>

fun bindParams :: "string list \<Rightarrow> string list \<Rightarrow> smap option" where
  "bindParams [] [] = Some []"
| "bindParams (p # ps) (x # xs) =
     (case bindParams ps xs of None \<Rightarrow> None
      | Some m \<Rightarrow> if HasPrefix p '':'' then Some ((tl p, x) # m) else if p = x then Some m else None)"
| "bindParams ps xs = None"

definition plainFiber :: "((int \<times> string) \<times> smap) fiber" where
  "plainFiber =
     \<lparr>NewCtx = (\<lambda>m p path. ((200, []), case bindParams (Split p ''/'') (Split path ''/'') of Some b \<Rightarrow> b | None \<Rightarrow> [])),
      SetJSON = (\<lambda>b c. (None, ((fst (fst c), b), snd c))),
      SetStatus = (\<lambda>n c. ((n, snd (fst c)), snd c)),
      SendString = (\<lambda>b c. (None, ((fst (fst c), b), snd c))),
      SendStatus = (\<lambda>n c. (None, ((n, if snd (fst c) = [] then ''OK'' else snd (fst c)), snd c))),
      Params = (\<lambda>c k. smap_get (snd c) k),
      BodyParser = (\<lambda>c. Inr (JObj [])),
      RouteMatches = (\<lambda>p path. if CHR '':'' \<notin> set p then sameRoute p path else bindParams (Split p ''/'') (Split path ''/'') \<noteq> None),
      ErrorHandler = (\<lambda>e c. ((500, ''Internal Server Error''), snd c)),
      NotFoundHandler = (\<lambda>c. ((404, ''Not Found''), snd c)),
      Answer = fst\<rparr>"

lemma plainFiber_laws: "fiber_laws plainFiber"
  by (simp add: fiber_laws_def plainFiber_def)

end
