(* ===== verification/FiberService.thy ===== *)
theory FiberService
  imports Fiber Builders
begin

text \<open>
  The HTTP service of the operator: \<^verbatim>\<open>src/operator/pkg/fiber\<close> and \<^verbatim>\<open>src/operator/pkg/common\<close>, and two operators that
  talk to each other.

  A service operation runs in the execution context the service was last given.  A handler has the request's
  context of the web framework as an argument and returns the error it ends with and the context; one that
  compacts returns \<^verbatim>\<open>None\<close> while a wait for a new primary has not ended.  The lemmas connect the client of one
  site with the handlers of the other, so that the properties speak of both sites: what one operator acts on is
  what the other computed.
\<close>

section \<open>Documents\<close>

record rs_status =
  RsName :: string
  RsStateStr :: string

definition store_rs_field :: "rs_status \<times> bool \<Rightarrow> string \<times> json \<Rightarrow> rs_status \<times> bool" where
  "store_rs_field rb kv = (case rb of (rs, ok) \<Rightarrow> case kv of (k, v) \<Rightarrow>
     if field_eq k ''name'' then (case store_string v (RsName rs) of (x, b) \<Rightarrow> (rs\<lparr>RsName := x\<rparr>, ok \<and> b))
     else if field_eq k ''stateStr'' then (case store_string v (RsStateStr rs) of (x, b) \<Rightarrow> (rs\<lparr>RsStateStr := x\<rparr>, ok \<and> b))
     else (rs, ok))"

definition store_rs :: "json \<Rightarrow> rs_status \<times> bool" where
  "store_rs v = (case v of
       JObj kvs \<Rightarrow> foldl store_rs_field (\<lparr>RsName = [], RsStateStr = []\<rparr>, True) kvs
     | JNull \<Rightarrow> (\<lparr>RsName = [], RsStateStr = []\<rparr>, True)
     | _ \<Rightarrow> (\<lparr>RsName = [], RsStateStr = []\<rparr>, False))"

definition unmarshal_rs :: "string \<Rightarrow> rs_status list with_err" where
  "unmarshal_rs s =
     (case parse_json s of
        None \<Rightarrow> ([], Some (JsonError s))
      | Some JNull \<Rightarrow> ([], None)
      | Some (JArr vs) \<Rightarrow> (map (fst \<circ> store_rs) vs, if list_all (snd \<circ> store_rs) vs then None else Some (JsonError s))
      | Some _ \<Rightarrow> ([], Some (JsonError s)))"

definition marshalRS :: "rs_status list \<Rightarrow> string" where
  "marshalRS rss =
     (let member = (\<lambda>k v. if v = [] then [] else [json_string k @ '':'' @ marshalString v]) in
      ''['' @ Join '','' (map (\<lambda>rs. ''{'' @ Join '','' (member ''name'' (RsName rs) @ member ''stateStr'' (RsStateStr rs)) @ ''}'') rss) @ '']'')"

section \<open>The service\<close>

definition serviceGetKeyFile :: "'w helper \<Rightarrow> ('w, string) hop" where
  "serviceGetKeyFile r =
     andthen (ReadSecret r MongoSecret (Namespace r)) (\<lambda>(sec, err).
     andthen (PanicError (KubeImpl r) err (Sprintf ''Could not recieve secret %s'' [Str MongoSecret])) (\<lambda>_.
     ret (smap_get (sec_data sec) MongoSecretKeyFile)))"

definition serviceHealth :: "nat list \<Rightarrow> 'w helper \<Rightarrow> ('w, string) hop" where
  "serviceHealth order r =
     andthen getSpec (\<lambda>spec.
     andthen (clusterStatusOf order r (drMode spec) spec) (\<lambda>(st, err).
     andthen (PanicError (KubeImpl r) err ''Could not get cluster status'') (\<lambda>_. ret st)))"

definition serviceRSStatus :: "'w helper \<Rightarrow> ('w, rs_status list) hop" where
  "serviceRSStatus r =
     andthen getSpec (\<lambda>spec.
     (let sch = SchemaSettings spec in
      andthen (GetClusterRSStatus r (CnfReplicaSize sch) (ShardCount sch) (SchemaSharded sch)) (\<lambda>items.
      andthen (forFold items (\<lambda>item rsstatus.
        (let (temprsstatus, err) = unmarshal_rs item in
         andthen (PanicError (KubeImpl r) err ''Could not get cluster status'') (\<lambda>_.
         ret (Inr (rsstatus @ temprsstatus) :: unit + rs_status list)))) [])
        (\<lambda>x. case x of Inl _ \<Rightarrow> ret [] | Inr rsstatus \<Rightarrow> ret rsstatus))))"

definition serviceAddDRReplicas :: "'w helper \<Rightarrow> ('w, goerror option) hop" where
  "serviceAddDRReplicas r =
     andthen (AddCNFReplicas_Execute r) (\<lambda>err. case err of
       Some e \<Rightarrow> ret (Some e) | None \<Rightarrow> AddDATAReplicas_Execute r)"

definition serviceFlush :: "'w helper \<Rightarrow> ('w, goerror option) hop" where
  "serviceFlush r =
     andthen getSpec (\<lambda>spec.
     andthen (ExecuteFlushData r (ShardCount (SchemaSettings spec))) (\<lambda>err.
     andthen (PanicError (KubeImpl r) err ''Mongodb shards flush command failed.'') (\<lambda>_. ret err)))"

definition serviceCompact :: "nat \<Rightarrow> 'w helper \<Rightarrow> string \<Rightarrow> string \<Rightarrow> ('w, goerror option option) hop" where
  "serviceCompact fuel r dbName collectionName =
     andthen getSpec (\<lambda>spec.
     andthen (Compact fuel r (ShardCount (SchemaSettings spec)) dbName collectionName) (\<lambda>x. case x of
       None \<Rightarrow> ret None
     | Some err \<Rightarrow> andthen (PanicError (KubeImpl r) err ''Mongodb disk space free command failed.'') (\<lambda>_. ret (Some err))))"

definition serviceCompactAll :: "'w helper \<Rightarrow> string \<Rightarrow> ('w, goerror option) hop" where
  "serviceCompactAll r dbName =
     andthen getSpec (\<lambda>spec.
     andthen (CompactAll r (ShardCount (SchemaSettings spec)) dbName) (\<lambda>err.
     andthen (PanicError (KubeImpl r) err ''Compact command failed while running for all collection.'') (\<lambda>_. ret err)))"

section \<open>The handlers\<close>

datatype handler =
    GetMongoKeyFileHandler
  | HealthHandler
  | GetRSStatusHandler
  | AddDRReplicasHandler
  | FlushHandler
  | CompactHandler
  | CompactAllHandler

text \<open>\<^verbatim>\<open>json.Marshal\<close> of an error value: null for nil; an error never reaches it, the service panics first.\<close>

definition marshalError :: "goerror option \<Rightarrow> string" where
  "marshalError err = (case err of None \<Rightarrow> ''null'' | Some e \<Rightarrow> ''{}'')"

text \<open>The end of the handlers that answer with a status: \<^verbatim>\<open>err := c.JSON(...)\<close>, then 500 with its text, or 200.\<close>

definition answerJSON :: "'c fiber \<Rightarrow> 'w kube \<Rightarrow> goerror option \<Rightarrow> 'c \<Rightarrow> goerror option \<times> 'c" where
  "answerJSON f k result c =
     (case SetJSON f (marshalError result) c of
        (Some e, c) \<Rightarrow> SendString f (errStr k e) (SetStatus f 500 c)
      | (None, c) \<Rightarrow> SendStatus f 200 c)"

definition handle :: "'c fiber \<Rightarrow> nat list \<Rightarrow> nat \<Rightarrow> 'w helper \<Rightarrow> handler \<Rightarrow> 'c \<Rightarrow> ('w, (goerror option \<times> 'c) option) hop" where
  "handle f order fuel r h c =
     (case h of
        GetMongoKeyFileHandler \<Rightarrow> andthen (serviceGetKeyFile r) (\<lambda>key. ret (Some (SetJSON f (marshalString key) c)))
      | HealthHandler \<Rightarrow> andthen (serviceHealth order r) (\<lambda>st. ret (Some (SetJSON f (statusBody st) c)))
      | GetRSStatusHandler \<Rightarrow> andthen (serviceRSStatus r) (\<lambda>rss. ret (Some (SetJSON f (marshalRS rss) c)))
      | AddDRReplicasHandler \<Rightarrow> andthen (serviceAddDRReplicas r) (\<lambda>err.
          ret (Some (case err of Some e \<Rightarrow> SendString f (errStr (KubeImpl r) e) (SetStatus f 500 c) | None \<Rightarrow> SendStatus f 200 c)))
      | FlushHandler \<Rightarrow> andthen (serviceFlush r) (\<lambda>err. ret (Some (answerJSON f (KubeImpl r) err c)))
      | CompactHandler \<Rightarrow> andthen (serviceCompact fuel r (Params f c ''dbName'') (Params f c ''collectionName'')) (\<lambda>x.
          ret (map_option (\<lambda>err. answerJSON f (KubeImpl r) err c) x))
      | CompactAllHandler \<Rightarrow> andthen (serviceCompactAll r (Params f c ''dbName'')) (\<lambda>err. ret (Some (answerJSON f (KubeImpl r) err c))))"

definition mongoRoutes :: "(string \<times> string \<times> handler) list" where
  "mongoRoutes =
     [(MethodGet, Sprintf ''/%s'' [Str KeyFileURI], GetMongoKeyFileHandler),
      (MethodGet, Sprintf ''/%s'' [Str HealthURI], HealthHandler),
      (MethodGet, Sprintf ''/%s'' [Str RSStatusURI], GetRSStatusHandler),
      (MethodPost, Sprintf ''/%s'' [Str AddDRReplicasURI], AddDRReplicasHandler),
      (MethodPost, Sprintf ''/%s'' [Str FlushURI], FlushHandler),
      (MethodPost, Sprintf ''/%s/:dbName/:collectionName'' [Str CompactURI], CompactHandler),
      (MethodPost, Sprintf ''/%s/:dbName'' [Str CompactURI], CompactAllHandler)]"

text \<open>A request: the first route of the method whose pattern matches; a panic of the handler is recovered.\<close>

definition serve :: "'c fiber \<Rightarrow> nat list \<Rightarrow> nat \<Rightarrow> 'w helper \<Rightarrow> string \<Rightarrow> string \<Rightarrow> ('w, 'c option) hop" where
  "serve f order fuel r method path =
     (case find (\<lambda>(m, p, h). m = method \<and> RouteMatches f p path) mongoRoutes of
        None \<Rightarrow> ret (Some (NotFoundHandler f (NewCtx f method [] path)))
      | Some (_, p, h) \<Rightarrow> (\<lambda>s.
          (let c = NewCtx f method p path in
           case handle f order fuel r h c s of
             (Ret None, s') \<Rightarrow> (Ret None, s')
           | (Ret (Some (err, c')), s') \<Rightarrow> (Ret (Some (case err of None \<Rightarrow> c' | Some e \<Rightarrow> ErrorHandler f e c')), s')
           | (Panic e, s') \<Rightarrow> (Ret (Some (ErrorHandler f e c)), s'))))"

section \<open>Starting the server\<close>

text \<open>
  The package variables: the service with its execution context, and the two \<^verbatim>\<open>sync.Once\<close>.  Creating the server
  is the operator core library's; an execution context is any value here.
\<close>

record 'x globals =
  FiberService :: "'x option"
  ServerOnce :: bool

definition RunFiberServer :: "('s, goerror option) op \<Rightarrow> ('x globals \<times> 's, goerror option) op" where
  "RunFiberServer create =
     (\<lambda>(g, s). if ServerOnce g then (Ret None, (g, s))
               else case create s of (r, s') \<Rightarrow> (r, (g\<lparr>ServerOnce := True\<rparr>, s')))"

definition NewMongoFiberService :: "'x \<Rightarrow> 'x globals \<Rightarrow> 'x globals" where
  "NewMongoFiberService ctx g = (case FiberService g of None \<Rightarrow> g\<lparr>FiberService := Some ctx\<rparr> | Some _ \<Rightarrow> g)"

definition UpdateCtx :: "'x \<Rightarrow> 'x globals \<Rightarrow> 'x globals" where
  "UpdateCtx ctx g = g\<lparr>FiberService := Some ctx\<rparr>"

definition RunFiberServer_Execute :: "('s, goerror option) op \<Rightarrow> 'x \<Rightarrow> ('x globals \<times> 's, goerror option) op" where
  "RunFiberServer_Execute create ctx =
     (\<lambda>(g, s). RunFiberServer create (UpdateCtx ctx (NewMongoFiberService ctx g), s))"

section \<open>Two sites\<close>

text \<open>
  The network between the sites: a request to \<^verbatim>\<open>host\<close> is served by the other operator, whose state is a part of
  the world; a handler that has not ended is a time-out.
\<close>

definition siteHttp :: "'c fiber \<Rightarrow> nat list \<Rightarrow> nat \<Rightarrow> 'v helper \<Rightarrow> ('w \<Rightarrow> 'v hstate) \<Rightarrow> ('v hstate \<Rightarrow> 'w \<Rightarrow> 'w) \<Rightarrow> string \<Rightarrow> 'w http" where
  "siteHttp f order fuel r get put host =
     \<lparr>HttpDo = (\<lambda>url method body.
        lift_op get put (andthen (serve f order fuel r method (drop (length host) url)) (\<lambda>a.
          ret (case a of None \<Rightarrow> Inl (GoError ''context deadline exceeded'')
               | Some c \<Rightarrow> Inr \<lparr>StatusCode = fst (Answer f c), BodyRead = (snd (Answer f c), None)\<rparr>)))),
      HttpUrlError = (\<lambda>url. None)\<rparr>"

section \<open>Routes\<close>

lemma route_texts:
  "Sprintf ''/%s'' [Str KeyFileURI] = ''/keyfile''" "Sprintf ''/%s'' [Str HealthURI] = ''/healthz''"
  "Sprintf ''/%s'' [Str RSStatusURI] = ''/rs-status''"
  by (simp_all add: Sprintf_simps KeyFileURI_def HealthURI_def RSStatusURI_def)

lemma sameRoute_table:
  "sameRoute ''/keyfile'' ''/keyfile''" "sameRoute ''/healthz'' ''/healthz''" "sameRoute ''/rs-status'' ''/rs-status''"
  "\<not> sameRoute ''/keyfile'' ''/healthz''" "\<not> sameRoute ''/keyfile'' ''/rs-status''" "\<not> sameRoute ''/healthz'' ''/rs-status''"
  by code_simp+

lemma find_get_routes:
  assumes "fiber_laws f"
  shows "find (\<lambda>(m, p, h). m = MethodGet \<and> RouteMatches f p ''/keyfile'') mongoRoutes = Some (MethodGet, ''/keyfile'', GetMongoKeyFileHandler)"
    "find (\<lambda>(m, p, h). m = MethodGet \<and> RouteMatches f p ''/healthz'') mongoRoutes = Some (MethodGet, ''/healthz'', HealthHandler)"
    "find (\<lambda>(m, p, h). m = MethodGet \<and> RouteMatches f p ''/rs-status'') mongoRoutes = Some (MethodGet, ''/rs-status'', GetRSStatusHandler)"
  by (simp_all add: mongoRoutes_def route_texts fiber_lawsD(11) [OF assms] sameRoute_table)

section \<open>What the other site reads\<close>

lemma serve_found:
  assumes "find (\<lambda>(m, p, h). m = method \<and> RouteMatches f p path) mongoRoutes = Some (m, p, h)"
  shows "serve f order fuel r method path s =
     (case handle f order fuel r h (NewCtx f method p path) s of
        (Ret None, s') \<Rightarrow> (Ret None, s')
      | (Ret (Some (err, c')), s') \<Rightarrow> (Ret (Some (case err of None \<Rightarrow> c' | Some e \<Rightarrow> ErrorHandler f e c')), s')
      | (Panic e, s') \<Rightarrow> (Ret (Some (ErrorHandler f e (NewCtx f method p path))), s'))"
  using assms by (simp add: serve_def Let_def)

lemma serve_healthz:
  assumes "fiber_laws f" "clusterStatusOf order r (drMode (specOf p)) (specOf p) p = (Ret (st, None), p')"
  shows "\<exists>c. serve f order fuel r MethodGet ''/healthz'' p = (Ret (Some c), p') \<and> Answer f c = (200, statusBody st)"
proof -
  let ?c = "NewCtx f MethodGet ''/healthz'' ''/healthz''"
  obtain c where c: "SetJSON f (statusBody st) ?c = (None, c)" using fiber_lawsD(2) [OF assms(1)] by (metis prod.collapse)
  then have "Answer f c = (200, statusBody st)" using fiber_lawsD(1,3) [OF assms(1)] by (metis fst_conv snd_conv)
  moreover have "handle f order fuel r HealthHandler ?c p = (Ret (Some (None, c)), p')"
    using assms(2) c by (simp add: handle_def serviceHealth_def andthen_apply getSpec_def ret_apply)
  ultimately show ?thesis by (simp add: serve_found [OF find_get_routes(2) [OF assms(1)]])
qed

text \<open>A health check that fails or panics is answered with an error.\<close>

lemma serve_healthz_failed:
  assumes "fiber_laws f" "clusterStatusOf order r (drMode (specOf p)) (specOf p) p = (res, p')" "\<nexists>st. res = Ret (st, None)"
  shows "\<exists>c q. serve f order fuel r MethodGet ''/healthz'' p = (Ret (Some c), q) \<and> fst (Answer f c) = 500"
proof -
  let ?c = "NewCtx f MethodGet ''/healthz'' ''/healthz''"
  obtain e where "serviceHealth order r p = (Panic e, p')"
  proof (cases res)
    case (Ret x)
    then show ?thesis using assms(2,3) that
      by (cases x) (auto simp: serviceHealth_def andthen_apply getSpec_def PanicError_def panic_apply split: option.splits)
  next
    case (Panic e)
    then show ?thesis using assms(2) that by (simp add: serviceHealth_def andthen_apply getSpec_def)
  qed
  then have "handle f order fuel r HealthHandler ?c p = (Panic e, p')" by (simp add: handle_def andthen_Panic)
  then show ?thesis using fiber_lawsD(10) [OF assms(1)]
    by (auto simp: serve_found [OF find_get_routes(2) [OF assms(1)]])
qed

lemma siteHttp_get:
  assumes "serve f order fuel r MethodGet path (get (World s)) = (Ret (Some c), p')"
  shows "SendRequest (siteHttp f order fuel r get put host) (host @ path) MethodGet body s =
     (Ret (Inr \<lparr>StatusCode = fst (Answer f c), BodyRead = (snd (Answer f c), None)\<rparr>), s\<lparr>World := put p' (World s)\<rparr>)"
  using assms
  by (simp add: SendRequest_def siteHttp_def MethodGet_def MethodPost_def callW_apply lift_op_apply andthen_Ret ret_apply)

lemma GetStatus_site:
  assumes "fiber_laws f"
    and "clusterStatusOf order r (drMode (specOf (get (World s)))) (specOf (get (World s))) (get (World s)) = (Ret (st, None), p')"
  shows "GetStatus (siteHttp f order fuel r get put host) host s = (Ret (st, None), s\<lparr>World := put p' (World s)\<rparr>)"
proof -
  obtain c where c: "serve f order fuel r MethodGet ''/healthz'' (get (World s)) = (Ret (Some c), p')" "Answer f c = (200, statusBody st)"
    using serve_healthz [OF assms] by blast
  have "st \<in> statusValues" using assms(2) by (auto simp: clusterStatusOf_def Let_def dest: cluster_status_values)
  then have "unmarshal_smap (statusBody st) = ((if st = [] then [] else [(''status'', st)]), None)"
    by (intro unmarshal_statusBody status_values_plain)
  then show ?thesis using c
    by (simp add: GetStatus_def HealthURI_def Sprintf_simps andthen_apply siteHttp_get [where get = get and s = s and put = put and host = host, OF c(1)] ReadResponseBody_def smap_get_def)
qed

lemma GetStatus_site_failed:
  assumes "fiber_laws f" "\<nexists>st p'. clusterStatusOf order r (drMode (specOf (get (World s)))) (specOf (get (World s))) (get (World s)) = (Ret (st, None), p')"
  shows "\<exists>e t. GetStatus (siteHttp f order fuel r get put host) host s = (Ret ([], Some e), t)"
proof -
  obtain res p' where "clusterStatusOf order r (drMode (specOf (get (World s)))) (specOf (get (World s))) (get (World s)) = (res, p')"
    by fastforce
  then obtain c q where c: "serve f order fuel r MethodGet ''/healthz'' (get (World s)) = (Ret (Some c), q)" "fst (Answer f c) = 500"
    using serve_healthz_failed [OF assms(1)] assms(2) by metis
  then show ?thesis
    by (simp add: GetStatus_def HealthURI_def Sprintf_simps andthen_apply siteHttp_get [where get = get and s = s and put = put and host = host, OF c(1)] ReadResponseBody_def ret_apply)
qed

lemma GetKeyFile_site:
  assumes "fiber_laws f" "ReadSecret r MongoSecret (Namespace r) (get (World s)) = (Ret (sec, None), p')"
    and "\<forall>c \<in> set (smap_get (sec_data sec) MongoSecretKeyFile). (of_char c :: nat) < 128"
  shows "GetKeyFile (siteHttp f order fuel r get put host) host s =
     (Ret (smap_get (sec_data sec) MongoSecretKeyFile, None), s\<lparr>World := put p' (World s)\<rparr>)"
proof -
  let ?c = "NewCtx f MethodGet ''/keyfile'' ''/keyfile''" and ?key = "smap_get (sec_data sec) MongoSecretKeyFile"
  obtain c where c: "SetJSON f (marshalString ?key) ?c = (None, c)" using fiber_lawsD(2) [OF assms(1)] by (metis prod.collapse)
  then have answer: "Answer f c = (200, marshalString ?key)" using fiber_lawsD(1,3) [OF assms(1)] by (metis fst_conv snd_conv)
  have "handle f order fuel r GetMongoKeyFileHandler ?c (get (World s)) = (Ret (Some (None, c)), p')"
    using assms(2) c by (simp add: handle_def serviceGetKeyFile_def andthen_apply ret_apply)
  then have serve: "serve f order fuel r MethodGet ''/keyfile'' (get (World s)) = (Ret (Some c), p')"
    by (simp add: serve_found [OF find_get_routes(1) [OF assms(1)]])
  show ?thesis using answer parse_marshalString [OF assms(3)]
    by (simp add: GetKeyFile_def KeyFileURI_def Sprintf_simps andthen_apply siteHttp_get [where get = get and s = s and put = put and host = host, OF serve]
        ReadResponseBody_def unmarshal_string_def store_string_def)
qed

section \<open>Properties\<close>

text \<open>C34: the status one site reads from the other is the cluster status the other site computes, for every status
  it can have.\<close>

theorem status_end_to_end:
  assumes "fiber_laws f"
    and "clusterStatusOf order r (drMode (specOf (get (World s)))) (specOf (get (World s))) (get (World s)) = (Ret (st, None), p')"
  shows "GetStatus (siteHttp f order fuel r get put host) host s = (Ret (st, None), s\<lparr>World := put p' (World s)\<rparr>)"
  using assms by (rule GetStatus_site)

text \<open>C3: the stateful sets of a site are only removed when the cluster status the other site computes is up: an
  unreadable status, an error or a panic over there keeps them.\<close>

theorem cleanup_needs_peer_up:
  assumes "fiber_laws f" "host = operatorUrl (Namespace r) (OtherDomainName (schemaOf s))"
    and "DeleteStatefulsets_Condition order r (siteHttp f order' fuel r' get put host) s = (Ret (True, err), s')"
  shows "\<exists>p'. clusterStatusOf order' r' (drMode (specOf (get (World s)))) (specOf (get (World s))) (get (World s)) = (Ret (Up, None), p')"
proof -
  obtain t where up: "GetStatus (siteHttp f order' fuel r' get put host) host s = (Ret (Up, None), t)"
    using cleanup_facts [OF assms(3)] assms(2) by blast
  then obtain st p' where st: "clusterStatusOf order' r' (drMode (specOf (get (World s)))) (specOf (get (World s))) (get (World s)) = (Ret (st, None), p')"
    using GetStatus_site_failed [OF assms(1), where get = get and s = s and put = put and host = host and order = order' and fuel = fuel and r = r'] by fastforce
  then show ?thesis using GetStatus_site [where s = s and get = get and put = put and host = host and fuel = fuel, OF assms(1) st] up by auto
qed

text \<open>C38: in a disaster recovery schema a site creates its key file secret with the key the other site has in its
  secret, so that the members of both sites authenticate to each other.\<close>

theorem sites_share_key:
  assumes "fiber_laws f" "SchemaType (schemaOf s) = DR" "host = operatorUrl (Namespace r) (OtherDomainName (schemaOf s))"
    and "ReadSecret r' MongoSecret (Namespace r') (get (World s)) = (Ret (sec, None), p')"
    and "key = smap_get (sec_data sec) MongoSecretKeyFile" "\<forall>c \<in> set key. (of_char c :: nat) < 128"
    and "CreateRuntimeObject (KubeImpl r) (SecretObj (SecretTemplate MongoSecret [(MongoSecretKeyFile, key)] (Namespace r))) (put p' (World s)) = (Ret None, w)"
  shows "CreateSSLSecret_Execute r (siteHttp f order fuel r' get put host) s = (Ret None, s\<lparr>World := w\<rparr>)"
  using assms GetKeyFile_site [where s = s and get = get and put = put and host = host and order = order and fuel = fuel, OF assms(1,4) assms(6) [unfolded assms(5)]]
  by (simp add: CreateSSLSecret_Execute_def keyText_def Let_def andthen_apply getCtx_def
      CreateRuntimeObjectContextWrapper_def callW_apply ret_apply)

text \<open>The status of the replica sets is all or nothing: when the document of one replica set cannot be read, for
  example because its pods cannot be listed, the whole request panics.\<close>

theorem rs_status_all_or_nothing:
  assumes "GetClusterRSStatus r (CnfReplicaSize (schemaOf s)) (ShardCount (schemaOf s)) (SchemaSharded (schemaOf s)) s = (Ret items, s')"
    and "item \<in> set items" "snd (unmarshal_rs item) \<noteq> None"
  shows "\<exists>e. serviceRSStatus r s = (Panic e, s')"
proof -
  let ?body = "\<lambda>item rsstatus. (let (temprsstatus, err) = unmarshal_rs item in
         andthen (PanicError (KubeImpl r) err ''Could not get cluster status'') (\<lambda>_.
         ret (Inr (rsstatus @ temprsstatus) :: unit + rs_status list)))"
  have "\<exists>e. forFold items ?body acc s' = (Panic e, s')" for acc
    using assms(2)
  proof (induction items arbitrary: acc)
    case (Cons x items)
    obtain rs err where x: "unmarshal_rs x = (rs, err)" by fastforce
    show ?case
    proof (cases err)
      case None
      then have "x \<noteq> item" using x assms(3) by auto
      then show ?thesis using Cons None x by simp
    next
      case (Some e)
      then show ?thesis using x by simp
    qed
  qed simp
  then obtain e where "forFold items ?body [] s' = (Panic e, s')" by blast
  then show ?thesis using assms(1) by (simp add: serviceRSStatus_def Let_def andthen_apply getSpec_def)
qed

text \<open>The server is created at most once: when that failed, every later run of the step reports success.\<close>

theorem failed_start_reported_once:
  assumes "RunFiberServer_Execute create ctx (g, s) = (res, (g', s'))"
  shows "RunFiberServer_Execute create ctx' (g', s'') = (Ret None, (g'\<lparr>FiberService := Some ctx'\<rparr>, s''))"
proof -
  have "ServerOnce g'" using assms
    by (auto simp: RunFiberServer_Execute_def RunFiberServer_def UpdateCtx_def NewMongoFiberService_def split: if_splits prod.splits option.splits)
  then show ?thesis
    by (auto simp: RunFiberServer_Execute_def RunFiberServer_def UpdateCtx_def NewMongoFiberService_def split: option.splits)
qed

section \<open>Examples\<close>

text \<open>A standby site without pods, whose world is the state of a healthy active site.\<close>

definition twoSites :: "unit hstate hstate" where
  "twoSites = \<lparr>Cmd = [], Ctx = baseCtx\<lparr>CtxSpec := drSpec\<rparr>, World = activeState\<rparr>"

abbreviation peerHttp :: "string \<Rightarrow> unit hstate http" where
  "peerHttp host \<equiv> siteHttp plainFiber [1, 0] 0 healthy (\<lambda>w. w) (\<lambda>p w. p) host"

lemma twoSites_simps [simp]:
  "CtxSpec (Ctx twoSites) = drSpec" "World twoSites = activeState" "CtxDeployType (Ctx twoSites) = UpdateDeploy"
  by (simp_all add: twoSites_def baseCtx_def)

lemma peer_status: "clusterStatusOf [1, 0] healthy (drMode (specOf activeState)) (specOf activeState) activeState = (Ret (Up, None), activeState)"
  using healthy_status by (simp add: ret_apply)

lemma status_end_to_end_witness:
  "GetStatus (peerHttp ''http://peer'') ''http://peer'' twoSites = (Ret (Up, None), twoSites\<lparr>World := activeState\<rparr>)"
  using status_end_to_end [OF plainFiber_laws, where s = twoSites and get = "\<lambda>w. w" and put = "\<lambda>p w. p"] peer_status by simp

lemma twoSites_cleaned:
  "\<exists>s'. DeleteStatefulsets_Condition [1, 0] lostSite (peerHttp (operatorUrl ''mongo'' (OtherDomainName (SchemaSettings drSpec)))) twoSites
     = (Ret (True, None), s')"
proof -
  let ?host = "operatorUrl ''mongo'' (OtherDomainName (SchemaSettings drSpec))"
  have other: "GetStatus (peerHttp ?host) ?host twoSites = (Ret (Up, None), twoSites\<lparr>World := activeState\<rparr>)"
    using GetStatus_site [OF plainFiber_laws, where s = twoSites and get = "\<lambda>w. w" and put = "\<lambda>p w. p" and fuel = 0] peer_status by simp
  have same: "twoSites\<lparr>World := activeState\<rparr> = twoSites" by (simp add: twoSites_def)
  have secret: "ReadSecret lostSite n ns s = (Ret (\<lparr>sec_meta = plainMeta n, sec_data = [], sec_type = []\<rparr>, None), s)"
    for n ns and s :: "unit hstate hstate"
    by (simp add: ReadSecret_def cannedKube_def baseKube_def ret_apply)
  show ?thesis using other same
    by (simp add: lostSite_status DeleteStatefulsets_Condition_def UpdateContextAuthMongo_Execute_def SetMongoCMD_def andthen_apply secret
        getCtx_def getSpec_def modifyState_def ret_apply setCmd_def Let_def)
qed

lemma cleanup_needs_peer_up_witness:
  "\<exists>p'. clusterStatusOf [1, 0] healthy (drMode (specOf (World twoSites))) (specOf (World twoSites)) (World twoSites) = (Ret (Up, None), p')"
proof -
  obtain s' where "DeleteStatefulsets_Condition [1, 0] lostSite (peerHttp (operatorUrl ''mongo'' (OtherDomainName (SchemaSettings drSpec)))) twoSites
     = (Ret (True, None), s')" using twoSites_cleaned by blast
  from cleanup_needs_peer_up [OF plainFiber_laws _ this] show ?thesis by simp
qed

text \<open>The other site has a key.\<close>

definition keyKube :: "'w kube" where
  "keyKube = baseKube\<lparr>GetSecret := (\<lambda>n ns. ret (\<lparr>sec_meta = plainMeta n, sec_data = [(MongoSecretKeyFile, ''aB+/'')], sec_type = []\<rparr>, None))\<rparr>"

lemma sites_share_key_witness:
  "CreateSSLSecret_Execute (baseHelper baseKube)
     (siteHttp plainFiber [] 0 (baseHelper keyKube) (\<lambda>w. w) (\<lambda>p w. p) (operatorUrl ''mongo'' (OtherDomainName (SchemaSettings drSpec)))) twoSites =
   (Ret None, twoSites\<lparr>World := activeState\<rparr>)"
  by (rule sites_share_key [OF plainFiber_laws, where key = "''aB+/''" and p' = activeState])
    (simp_all add: ReadSecret_def keyKube_def baseKube_def ret_apply smap_get_def)+

lemma rs_status_all_or_nothing_witness:
  "\<exists>e. serviceRSStatus (baseHelper (cannedKube (\<lambda>l. []) [])) (baseState ()) = (Panic e, baseState ())"
proof (rule rs_status_all_or_nothing)
  show "GetClusterRSStatus (baseHelper (cannedKube (\<lambda>l. []) [])) (CnfReplicaSize (schemaOf (baseState ()))) (ShardCount (schemaOf (baseState ())))
      (SchemaSharded (schemaOf (baseState ()))) (baseState ()) =
    (Ret [''Error while fetching pod list'', ''Error while fetching pod list''], baseState ())"
    by (simp add: GetClusterRSStatus_def GetRSStatus_def canned_simps baseSpec_def)
  have "parse_json ''Error while fetching pod list'' = None" by code_simp
  then show "snd (unmarshal_rs ''Error while fetching pod list'') \<noteq> None" by (simp add: unmarshal_rs_def)
qed simp

lemma failed_start_reported_once_witness:
  "RunFiberServer_Execute (ret (Some (GoError ''address already in use''))) (2 :: nat)
     (\<lparr>FiberService = Some 1, ServerOnce = True\<rparr>, ()) = (Ret None, (\<lparr>FiberService = Some 1, ServerOnce = True\<rparr>\<lparr>FiberService := Some 2\<rparr>, ()))"
  by (rule failed_start_reported_once [where ctx = "1 :: nat" and g = "\<lparr>FiberService = None, ServerOnce = False\<rparr>" and s = "()"])
    (simp add: RunFiberServer_Execute_def RunFiberServer_def UpdateCtx_def NewMongoFiberService_def ret_apply)

end
