(* ===== verification/Sharding.thy ===== *)
theory Sharding
  imports Json "HOL-Library.Sublist" Complex_Main
begin

text \<open>
  Shard keys of the DBaaS adapter: the settings of a request (\<^verbatim>\<open>utils.Settings\<close>), the documents the mongo driver
  exchanges, and the comparison of the key a collection has with the key that is asked for
  (\<^verbatim>\<open>src/services/dbaas-adapter/pkg/mongodbService.go\<close>, \<^verbatim>\<open>db_admin.go\<close>).

  The lemmas show that the parser of the settings accepts exactly the well-formed ones, and that the comparison
  decides prefixes of field lists.
\<close>

section \<open>Documents\<close>

text \<open>
  \<^verbatim>\<open>BInt\<close> and \<^verbatim>\<open>BMap\<close> are the Go values \<^verbatim>\<open>int\<close> and \<^verbatim>\<open>map[string]interface{}\<close> in a document that is sent; the others
  are what the driver reads.  \<^verbatim>\<open>BOther\<close> holds the types nothing here looks into (dates, object ids, not-a-number).
\<close>

datatype bson =
    BNull
  | BBool bool
  | BStr string
  | BInt int
  | BInt32 int
  | BInt64 int
  | BDouble rat
  | BDoc "(string \<times> bson) list"
  | BArr "bson list"
  | BMap "(string \<times> json) list"
  | BOther string

type_synonym doc = "(string \<times> bson) list"
type_synonym jmap = "(string \<times> json) list"

text \<open>Decoding into a map keeps the last value of a name.\<close>

definition docGet :: "doc \<Rightarrow> string \<Rightarrow> bson option" where
  "docGet d k = map_of (rev d) k"

definition jget :: "(string \<times> 'v) list \<Rightarrow> string \<Rightarrow> 'v option" where
  "jget m k = map_of (rev m) k"

definition jput :: "string \<Rightarrow> 'v \<Rightarrow> (string \<times> 'v) list \<Rightarrow> (string \<times> 'v) list" where
  "jput k v m = filter (\<lambda>(k', _). k' \<noteq> k) m @ [(k, v)]"

lemma jget_jput [simp]: "jget (jput k v m) k = Some v" "k \<noteq> k' \<Longrightarrow> jget (jput k v m) k' = jget m k'"
  by (induction m) (auto simp: jget_def jput_def map_add_def split: option.splits)

text \<open>How a document looks when it is read back: the driver sends a small integer with 32 bits.\<close>

fun stored :: "bson \<Rightarrow> bson" where
  "stored (BInt n) = (if - (2 ^ 31) \<le> n \<and> n < 2 ^ 31 then BInt32 n else BInt64 n)"
| "stored v = v"

definition storedDoc :: "doc \<Rightarrow> doc" where
  "storedDoc d = map (\<lambda>(k, v). (k, stored v)) d"

section \<open>Settings\<close>

record shard_key_field =
  KeyField :: string
  Hashed :: bool

record sharding_settings =
  CollectionName :: string
  ShardKeys :: "shard_key_field list"

record settings =
  ShardingSettings :: "sharding_settings list"
  TargetShard :: string
  Extra :: jmap

definition noSettings :: settings where
  "noSettings = \<lparr>ShardingSettings = [], TargetShard = [], Extra = []\<rparr>"

fun parseShardKeys :: "string \<Rightarrow> json list \<Rightarrow> shard_key_field list \<Rightarrow> nat \<Rightarrow> goerror + (shard_key_field list \<times> nat)" where
  "parseShardKeys coll [] acc hashedCount = Inr (acc, hashedCount)"
| "parseShardKeys coll (keyItem # ks) acc hashedCount =
     (case keyItem of
        JObj fieldMap \<Rightarrow>
          (case jget fieldMap ''field'' of
             Some (JStr fieldName) \<Rightarrow>
               (if fieldName = [] then Inl (ExecutionError (Sprintf ''shardKey.field is required for collection %s'' [Str coll]))
                else let hashed = (jget fieldMap ''hashed'' = Some (JBool True)) in
                  parseShardKeys coll ks (acc @ [\<lparr>KeyField = fieldName, Hashed = hashed\<rparr>])
                    (if hashed then hashedCount + 1 else hashedCount))
           | _ \<Rightarrow> Inl (ExecutionError (Sprintf ''shardKey.field is required for collection %s'' [Str coll])))
      | _ \<Rightarrow> Inl (ExecutionError (Sprintf ''each shardKey entry must be an object for collection %s'' [Str coll])))"

definition parseRecord :: "json \<Rightarrow> goerror + sharding_settings" where
  "parseRecord item =
     (case item of
        JObj collectionSetting \<Rightarrow>
          (case jget collectionSetting ''collectionName'' of
             Some (JStr v) \<Rightarrow>
               (if v = [] then Inl (ExecutionError ''collectionName is required and must be a non-empty string'')
                else case jget collectionSetting ''shardKey'' of
                  Some (JArr rawKeys) \<Rightarrow>
                    (if rawKeys = [] then Inl (ExecutionError (Sprintf ''shardKey must be a non-empty array for collection %s'' [Str v]))
                     else case parseShardKeys v rawKeys [] 0 of
                       Inl e \<Rightarrow> Inl e
                     | Inr (keys, hashedCount) \<Rightarrow>
                         (if hashedCount > 1
                          then Inl (ExecutionError (Sprintf ''only one field may be hashed in a compound shard key for collection %s'' [Str v]))
                          else Inr \<lparr>CollectionName = v, ShardKeys = keys\<rparr>))
                | _ \<Rightarrow> Inl (ExecutionError (Sprintf ''shardKey must be a non-empty array for collection %s'' [Str v])))
           | _ \<Rightarrow> Inl (ExecutionError ''collectionName is required and must be a non-empty string''))
      | _ \<Rightarrow> Inl (ExecutionError ''each entry in shardingSettings must be an object''))"

fun parseRecords :: "json list \<Rightarrow> sharding_settings list \<Rightarrow> goerror + sharding_settings list" where
  "parseRecords [] acc = Inr acc"
| "parseRecords (item # items) acc =
     (case parseRecord item of Inl e \<Rightarrow> Inl e | Inr r \<Rightarrow> parseRecords items (acc @ [r]))"

definition parseShardingSettings :: "jmap \<Rightarrow> goerror + settings" where
  "parseShardingSettings settings =
     (case jget settings ''shardingSettings'' of
        None \<Rightarrow> Inr noSettings
      | Some (JArr shardSettingsSlice) \<Rightarrow>
          (case parseRecords shardSettingsSlice [] of
             Inl e \<Rightarrow> Inl e
           | Inr rs \<Rightarrow> Inr \<lparr>ShardingSettings = rs, TargetShard = [], Extra = settings\<rparr>)
      | Some _ \<Rightarrow> Inl (ExecutionError ''shardingSettings must be a list of objects''))"

section \<open>Keys\<close>

definition buildShardKeyDoc :: "shard_key_field list \<Rightarrow> doc" where
  "buildShardKeyDoc fs = map (\<lambda>f. (KeyField f, if Hashed f then BStr ''hashed'' else BInt 1)) fs"

definition hashedFieldCount :: "shard_key_field list \<Rightarrow> nat" where
  "hashedFieldCount fs = fold (\<lambda>f n. if Hashed f then n + 1 else n) fs 0"

definition keyFieldEqual :: "string \<times> bson \<Rightarrow> shard_key_field \<Rightarrow> bool" where
  "keyFieldEqual a b =
     (if fst a \<noteq> KeyField b then False
      else if Hashed b then snd a = BStr ''hashed''
      else case snd a of BInt32 v \<Rightarrow> v = 1 | BInt64 v \<Rightarrow> v = 1 | BDouble v \<Rightarrow> v = 1 | _ \<Rightarrow> False)"

definition isPrefix :: "shard_key_field list \<Rightarrow> doc \<Rightarrow> bool" where
  "isPrefix shorter longer =
     (length shorter \<le> length longer \<and> list_all (\<lambda>(i, f). keyFieldEqual (longer ! i) f) (enumerate 0 shorter))"

text \<open>The first result says that the key needs no change, the second that it can be refined.\<close>

definition shardKeyMatches :: "doc \<Rightarrow> sharding_settings \<Rightarrow> bool \<times> bool" where
  "shardKeyMatches currentKey settings =
     (let requested = ShardKeys settings in
      if length currentKey = length requested then (isPrefix requested currentKey, False)
      else if length currentKey < length requested then (False, isPrefix (take (length currentKey) requested) currentKey)
      else (isPrefix requested currentKey, False))"

section \<open>The comparison decides prefixes\<close>

text \<open>What a field of a stored key says: nothing the adapter knows for descending, text and other keys.\<close>

definition fieldOf :: "string \<times> bson \<Rightarrow> shard_key_field option" where
  "fieldOf a =
     (case snd a of
        BStr v \<Rightarrow> if v = ''hashed'' then Some \<lparr>KeyField = fst a, Hashed = True\<rparr> else None
      | BInt32 v \<Rightarrow> if v = 1 then Some \<lparr>KeyField = fst a, Hashed = False\<rparr> else None
      | BInt64 v \<Rightarrow> if v = 1 then Some \<lparr>KeyField = fst a, Hashed = False\<rparr> else None
      | BDouble v \<Rightarrow> if v = 1 then Some \<lparr>KeyField = fst a, Hashed = False\<rparr> else None
      | _ \<Rightarrow> None)"

lemma keyFieldEqual_iff: "keyFieldEqual a f \<longleftrightarrow> fieldOf a = Some f"
  by (cases f; cases "snd a") (auto simp: keyFieldEqual_def fieldOf_def)

lemma isPrefix_iff: "isPrefix fs d \<longleftrightarrow> prefix (map Some fs) (map fieldOf d)"
proof
  assume l: "isPrefix fs d"
  have len: "length fs \<le> length d" using l by (simp add: isPrefix_def)
  have "map Some fs = take (length fs) (map fieldOf d)"
    using l len by (intro nth_equalityI) (auto simp: isPrefix_def list_all_length nth_enumerate_eq keyFieldEqual_iff)
  then show "prefix (map Some fs) (map fieldOf d)" by (metis take_is_prefix)
next
  assume p: "prefix (map Some fs) (map fieldOf d)"
  have len: "length fs \<le> length d" using prefix_length_le [OF p] by simp
  have "fieldOf (d ! i) = Some (fs ! i)" if "i < length fs" for i
    using p that len by (auto simp: prefix_def dest!: arg_cong [where f = "\<lambda>xs. xs ! i"] simp: nth_append)
  then show "isPrefix fs d" using len by (auto simp: isPrefix_def list_all_length nth_enumerate_eq keyFieldEqual_iff)
qed

lemma prefix_same_length: "length xs = length ys \<Longrightarrow> prefix xs ys \<longleftrightarrow> ys = xs"
  by (auto simp: prefix_def)

lemma shardKeyMatches_prefix:
  "shardKeyMatches d st =
     (prefix (map Some (ShardKeys st)) (map fieldOf d), strict_prefix (map fieldOf d) (map Some (ShardKeys st)))"
proof -
  let ?r = "map Some (ShardKeys st)" and ?c = "map fieldOf d"
  have eq: "prefix ?r ?c \<longleftrightarrow> ?c = ?r" if "length d = length (ShardKeys st)"
    using that by (simp add: prefix_same_length)
  have short: "isPrefix (take (length d) (ShardKeys st)) d \<longleftrightarrow> strict_prefix ?c ?r" if "length d < length (ShardKeys st)"
  proof -
    have "isPrefix (take (length d) (ShardKeys st)) d \<longleftrightarrow> ?c = take (length d) ?r"
      using that unfolding isPrefix_iff by (simp add: prefix_same_length take_map)
    also have "\<dots> \<longleftrightarrow> prefix ?c ?r" by (metis length_map prefix_def take_is_prefix append_eq_conv_conj)
    finally show ?thesis using that by (auto simp: strict_prefix_def dest: arg_cong [where f = length])
  qed
  have "length d < length (ShardKeys st) \<Longrightarrow> \<not> prefix ?r ?c" using prefix_length_le [of ?r ?c] by auto
  moreover have "length (ShardKeys st) \<le> length d \<Longrightarrow> \<not> strict_prefix ?c ?r" using prefix_length_less [of ?c ?r] by auto
  ultimately show ?thesis using short by (auto simp: shardKeyMatches_def Let_def isPrefix_iff)
qed

lemma fieldOf_built: "map fieldOf (storedDoc (buildShardKeyDoc fs)) = map Some fs"
  by (induction fs) (auto simp: storedDoc_def buildShardKeyDoc_def fieldOf_def)

text \<open>The key of a collection that was sharded as asked is recognised.\<close>

lemma built_key_matches: "shardKeyMatches (storedDoc (buildShardKeyDoc (ShardKeys st))) st = (True, False)"
  by (simp add: shardKeyMatches_prefix fieldOf_built)

section \<open>The parser accepts the well-formed settings\<close>

lemma hashedFieldCount_aux: "fold (\<lambda>f n. if Hashed f then n + 1 else n) fs k = k + length (filter Hashed fs)"
  by (induction fs arbitrary: k) auto

lemma hashedFieldCount_filter: "hashedFieldCount fs = length (filter Hashed fs)"
  by (simp add: hashedFieldCount_def hashedFieldCount_aux)

definition wellFormed :: "sharding_settings \<Rightarrow> bool" where
  "wellFormed r =
     (CollectionName r \<noteq> [] \<and> ShardKeys r \<noteq> [] \<and> list_all (\<lambda>f. KeyField f \<noteq> []) (ShardKeys r) \<and>
      hashedFieldCount (ShardKeys r) \<le> 1)"

lemma parseShardKeys_sound:
  assumes "parseShardKeys coll ks acc n = Inr (fs, m)" "list_all (\<lambda>f. KeyField f \<noteq> []) acc" "n = length (filter Hashed acc)"
  shows "list_all (\<lambda>f. KeyField f \<noteq> []) fs \<and> m = length (filter Hashed fs) \<and> length fs = length acc + length ks"
  using assms
proof (induction coll ks acc n rule: parseShardKeys.induct)
  case (2 coll keyItem ks acc n)
  then show ?case by (auto simp: Let_def split: json.splits option.splits if_splits)
qed simp

lemma parseRecord_sound:
  assumes "parseRecord item = Inr r"
  shows "wellFormed r"
proof -
  obtain m v raw keys n where p: "item = JObj m" "jget m ''collectionName'' = Some (JStr v)" "v \<noteq> []" "raw \<noteq> []"
    "jget m ''shardKey'' = Some (JArr raw)" "parseShardKeys v raw [] 0 = Inr (keys, n)" "n \<le> 1"
    "r = \<lparr>CollectionName = v, ShardKeys = keys\<rparr>"
    using assms by (auto simp: parseRecord_def split: json.splits option.splits if_splits sum.splits)
  then show ?thesis using parseShardKeys_sound [OF p(6)] by (auto simp: wellFormed_def hashedFieldCount_filter)
qed

lemma parseRecords_sound:
  "parseRecords items acc = Inr rs \<Longrightarrow> list_all wellFormed acc \<Longrightarrow> list_all wellFormed rs"
  by (induction items acc rule: parseRecords.induct) (auto split: sum.splits dest: parseRecord_sound)

lemma parsed_settings_wellFormed:
  "parseShardingSettings m = Inr st \<Longrightarrow> list_all wellFormed (ShardingSettings st) \<and> TargetShard st = []"
  by (auto simp: parseShardingSettings_def noSettings_def split: option.splits json.splits sum.splits dest: parseRecords_sound)

text \<open>The text of a request, as the documentation of the adapter writes it.\<close>

definition fieldJson :: "shard_key_field \<Rightarrow> json" where
  "fieldJson f = JObj [(''field'', JStr (KeyField f)), (''hashed'', JBool (Hashed f))]"

definition recordJson :: "sharding_settings \<Rightarrow> json" where
  "recordJson r = JObj [(''collectionName'', JStr (CollectionName r)), (''shardKey'', JArr (map fieldJson (ShardKeys r)))]"

definition settingsJson :: "sharding_settings list \<Rightarrow> jmap" where
  "settingsJson rs = [(''shardingSettings'', JArr (map recordJson rs))]"

lemma parseShardKeys_complete:
  "list_all (\<lambda>f. KeyField f \<noteq> []) fs \<Longrightarrow>
   parseShardKeys coll (map fieldJson fs) acc n = Inr (acc @ fs, n + length (filter Hashed fs))"
  by (induction fs arbitrary: acc n) (auto simp: fieldJson_def jget_def Let_def)

lemma parseRecord_complete: "wellFormed r \<Longrightarrow> parseRecord (recordJson r) = Inr r"
  by (auto simp: parseRecord_def recordJson_def wellFormed_def jget_def parseShardKeys_complete hashedFieldCount_filter)

lemma parseRecords_complete: "list_all wellFormed rs \<Longrightarrow> parseRecords (map recordJson rs) acc = Inr (acc @ rs)"
  by (induction rs arbitrary: acc) (auto simp: parseRecord_complete)

lemma settings_roundtrip_parse:
  "list_all wellFormed rs \<Longrightarrow>
   parseShardingSettings (settingsJson rs) = Inr \<lparr>ShardingSettings = rs, TargetShard = [], Extra = settingsJson rs\<rparr>"
  by (simp add: parseShardingSettings_def settingsJson_def jget_def parseRecords_complete)

end
