(* ===== verification/DbaasClient.thy ===== *)
theory DbaasClient
  imports Sharding GoUrl
begin

text \<open>
  The mongo client of the DBaaS adapter: its configuration, the text it connects with and the clients it keeps
  (\<^verbatim>\<open>src/services/dbaas-adapter/pkg/mongoClient.go\<close> and the configuration of \<^verbatim>\<open>mongodbService.go\<close>).

  The mongo driver is a library: a record of functions over a type of clients and a world.  The state of the
  adapter is the list of its clients, the background tasks it has started, and the world.  The lemmas show that
  there is one client for a configuration and which credentials a server reads from the connection text.
\<close>

section \<open>Configuration, driver and state\<close>

record mongo_conf =
  ConfHost :: string
  ConfPort :: int
  ConfUser :: string
  ConfPass :: string
  ConfAuthDb :: string

text \<open>
  A single result or the cursor of a collection is the error it holds or the documents; a document of a cursor can
  fail to be decoded.  \<^verbatim>\<open>DecodeError\<close> is the error of a value that does not fit a field; \<^verbatim>\<open>DrvErrText\<close> and \<^verbatim>\<open>DrvErrType\<close>
  are the text and the type of an error of a library, \<^verbatim>\<open>DrvShowDoc\<close> the text of a document.
\<close>

record ('c, 'w) driver =
  Connect :: "string \<Rightarrow> ('w, goerror + 'c) op"
  DisconnectClient :: "'c \<Rightarrow> ('w, unit) op"
  RunCommand :: "'c \<Rightarrow> string \<Rightarrow> doc \<Rightarrow> ('w, goerror + doc) op"
  DropDb :: "'c \<Rightarrow> string \<Rightarrow> ('w, goerror option) op"
  ListDatabaseNames :: "'c \<Rightarrow> ('w, string list with_err) op"
  FindOne :: "'c \<Rightarrow> string \<Rightarrow> string \<Rightarrow> doc \<Rightarrow> ('w, goerror + doc) op"
  FindAll :: "'c \<Rightarrow> string \<Rightarrow> string \<Rightarrow> ('w, goerror + doc list) op"
  CreateColl :: "'c \<Rightarrow> string \<Rightarrow> string \<Rightarrow> ('w, goerror option) op"
  InsertDoc :: "'c \<Rightarrow> string \<Rightarrow> string \<Rightarrow> doc \<Rightarrow> ('w, goerror option) op"
  UpdateManyUpsert :: "'c \<Rightarrow> string \<Rightarrow> string \<Rightarrow> doc \<Rightarrow> doc \<Rightarrow> ('w, goerror option) op"
  CreateIndex :: "'c \<Rightarrow> string \<Rightarrow> string \<Rightarrow> doc \<Rightarrow> ('w, goerror option) op"
  EstimatedDocumentCount :: "'c \<Rightarrow> string \<Rightarrow> string \<Rightarrow> ('w, goerror + int) op"
  SleepMs :: "int \<Rightarrow> ('w, unit) op"
  GenerateUUID :: "('w, string) op"
  DecodeError :: "string \<Rightarrow> bson \<Rightarrow> goerror"
  DecodeMetadata :: "doc \<Rightarrow> goerror + jmap"
  DrvErrText :: "goerror \<Rightarrow> string"
  DrvErrType :: "goerror \<Rightarrow> string"
  DrvShowDoc :: "doc \<Rightarrow> string"

text \<open>A \<^verbatim>\<open>MongoServiceImpl\<close>, with the process environment it reads: whether TLS is on and the path of the root certificate.\<close>

record ('c, 'w) mongo_service =
  Drv :: "('c, 'w) driver"
  Conf :: mongo_conf
  TLSMain :: bool
  RootCert :: string

record ('c, 'w) astate =
  Clients :: "(mongo_conf \<times> 'c) list"
  Started :: "(string \<times> sharding_settings) list"
  AWorld :: 'w

type_synonym ('c, 'w, 'a) aop = "(('c, 'w) astate, 'a) op"

definition callA :: "('w, 'a) op \<Rightarrow> ('c, 'w, 'a) aop" where
  "callA f = (\<lambda>s. case f (AWorld s) of (r, w) \<Rightarrow> (r, s\<lparr>AWorld := w\<rparr>))"

lemma callA_apply [op_simps]: "callA f s = (case f (AWorld s) of (r, w) \<Rightarrow> (r, s\<lparr>AWorld := w\<rparr>))"
  by (simp add: callA_def)

lemma callA_frame: "callA f s = (r, s') \<Longrightarrow> Clients s' = Clients s \<and> Started s' = Started s"
  by (auto simp: callA_def split: prod.splits)

definition errorText :: "('c, 'w) mongo_service \<Rightarrow> goerror \<Rightarrow> string" where
  "errorText sv e = errText (DrvErrText (Drv sv)) e"

section \<open>The connection text\<close>

definition connectionURI :: "bool \<Rightarrow> string \<Rightarrow> mongo_conf \<Rightarrow> string" where
  "connectionURI tls cert conf =
     (let (mainURI, URIOptions) =
        (if ConfAuthDb conf \<noteq> []
         then (Sprintf ''mongodb://%s:%s@%s/'' [Str (QueryEscape (ConfUser conf)), Str (QueryEscape (ConfPass conf)), Str (ConfHost conf)],
               Sprintf ''?authSource=%s'' [Str (ConfAuthDb conf)])
         else (Sprintf ''mongodb://%s/'' [Str (ConfHost conf)], [])) in
      if tls
      then (let tlsOptions = Sprintf ''tls=true&tlsCAFile=%s'' [Str cert] @ ''&tlsInsecure=true'' in
            mainURI @ (if length URIOptions > 0 then URIOptions @ ''&'' @ tlsOptions else ''?'' @ tlsOptions))
      else mainURI @ URIOptions)"

section \<open>The clients\<close>

definition createMongoClient :: "('c, 'w) mongo_service \<Rightarrow> mongo_conf \<Rightarrow> ('c, 'w, goerror + 'c) aop" where
  "createMongoClient sv conf = callA (Connect (Drv sv) (connectionURI (TLSMain sv) (RootCert sv) conf))"

definition GetMongoClient :: "('c, 'w) mongo_service \<Rightarrow> mongo_conf \<Rightarrow> ('c, 'w, goerror + 'c) aop" where
  "GetMongoClient sv conf =
     andthen getState (\<lambda>s.
     case find (\<lambda>(configuration, client). configuration = conf) (Clients s) of
       Some (_, client) \<Rightarrow> ret (Inr client)
     | None \<Rightarrow> andthen (createMongoClient sv conf) (\<lambda>x. case x of
         Inl err \<Rightarrow> ret (Inl err)
       | Inr client \<Rightarrow> andthen (modifyState (\<lambda>s. s\<lparr>Clients := Clients s @ [(conf, client)]\<rparr>)) (\<lambda>_. ret (Inr client))))"

text \<open>The index of the last client of the configuration.\<close>

definition clientIndex :: "mongo_conf \<Rightarrow> (mongo_conf \<times> 'c) list \<Rightarrow> nat option" where
  "clientIndex conf cs = fold (\<lambda>(i, (configuration, _)) index. if configuration = conf then Some i else index) (enumerate 0 cs) None"

definition DisconnectMongoClient :: "('c, 'w) mongo_service \<Rightarrow> mongo_conf \<Rightarrow> ('c, 'w, goerror option) aop" where
  "DisconnectMongoClient sv conf =
     andthen getState (\<lambda>s.
     andthen (forRange (Clients s) (\<lambda>(configuration, client).
       if configuration = conf then andthen (callA (DisconnectClient (Drv sv) client)) (\<lambda>_. ret (None :: unit option)) else ret None)) (\<lambda>_.
     case clientIndex conf (Clients s) of
       None \<Rightarrow> ret None
     | Some index \<Rightarrow> andthen (modifyState (\<lambda>s. s\<lparr>Clients := take index (Clients s) @ drop (index + 1) (Clients s)\<rparr>)) (\<lambda>_. ret None)))"

text \<open>\<^verbatim>\<open>client, err := GetMongoClient(conf); if err != nil \{ return ... \}\<close>, with which most operations start.\<close>

definition withClient :: "('c, 'w) mongo_service \<Rightarrow> mongo_conf \<Rightarrow> (goerror \<Rightarrow> 'a) \<Rightarrow> ('c \<Rightarrow> ('c, 'w, 'a) aop) \<Rightarrow> ('c, 'w, 'a) aop" where
  "withClient sv conf onError f =
     andthen (GetMongoClient sv conf) (\<lambda>x. case x of Inl err \<Rightarrow> ret (onError err) | Inr client \<Rightarrow> f client)"

section \<open>One client for a configuration\<close>

lemma GetMongoClient_cached:
  "map_of (Clients s) conf = Some c \<Longrightarrow> GetMongoClient sv conf s = (Ret (Inr c), s)"
proof -
  assume m: "map_of (Clients s) conf = Some c"
  have "map_of xs conf = map_option snd (find (\<lambda>(configuration, client). configuration = conf) xs)" for xs :: "(mongo_conf \<times> 'a) list"
    by (induction xs) auto
  then obtain k where "find (\<lambda>(configuration, client). configuration = conf) (Clients s) = Some (k, c)"
    using m by (metis (no_types, lifting) map_option_eq_Some prod.collapse)
  then show ?thesis by (simp add: GetMongoClient_def ret_apply)
qed

lemma GetMongoClient_fresh:
  assumes "map_of (Clients s) conf = None"
  shows "GetMongoClient sv conf s =
     (case Connect (Drv sv) (connectionURI (TLSMain sv) (RootCert sv) conf) (AWorld s) of
        (Ret (Inr c), w) \<Rightarrow> (Ret (Inr c), s\<lparr>AWorld := w, Clients := Clients s @ [(conf, c)]\<rparr>)
      | (Ret (Inl e), w) \<Rightarrow> (Ret (Inl e), s\<lparr>AWorld := w\<rparr>)
      | (Panic e, w) \<Rightarrow> (Panic e, s\<lparr>AWorld := w\<rparr>))"
proof -
  have "find (\<lambda>(configuration, client). configuration = conf) (Clients s) = None"
    using assms by (auto simp: find_None_iff dest: map_of_SomeD weak_map_of_SomeI)
  then show ?thesis
    by (simp add: GetMongoClient_def createMongoClient_def andthen_apply callA_apply ret_apply modifyState_apply
        split: prod.split res.split sum.split)
qed

lemma GetMongoClient_Ret:
  assumes "GetMongoClient sv conf s = (Ret (Inr c), s')"
  shows "map_of (Clients s') conf = Some c"
proof (cases "map_of (Clients s) conf")
  case None
  then show ?thesis using assms by (auto simp: GetMongoClient_fresh map_add_def split: prod.splits res.splits sum.splits)
next
  case (Some d)
  then show ?thesis using assms by (simp add: GetMongoClient_cached)
qed

text \<open>The step of the cache: nothing or one client more, of a configuration that had none.\<close>

lemma GetMongoClient_clients:
  assumes "GetMongoClient sv conf s = (r, s')"
  shows "Started s' = Started s \<and>
    (Clients s' = Clients s \<or> map_of (Clients s) conf = None \<and> (\<exists>c. Clients s' = Clients s @ [(conf, c)]))"
proof (cases "map_of (Clients s) conf")
  case None
  then show ?thesis using assms by (auto simp: GetMongoClient_fresh split: prod.splits res.splits sum.splits)
next
  case (Some d)
  then show ?thesis using assms by (simp add: GetMongoClient_cached)
qed

definition oneClientEach :: "('c, 'w) astate \<Rightarrow> bool" where
  "oneClientEach s = distinct (map fst (Clients s))"

lemma GetMongoClient_keeps:
  "GetMongoClient sv conf s = (r, s') \<Longrightarrow> oneClientEach s \<Longrightarrow> oneClientEach s'"
  by (drule GetMongoClient_clients) (auto simp: oneClientEach_def map_of_eq_None_iff)

lemma DisconnectMongoClient_clients:
  assumes "DisconnectMongoClient sv conf s = (r, s')"
  shows "Clients s' = Clients s \<or> (\<exists>i. Clients s' = take i (Clients s) @ drop (i + 1) (Clients s))"
proof -
  let ?body = "\<lambda>(configuration, client).
       if configuration = conf then andthen (callA (DisconnectClient (Drv sv) client)) (\<lambda>_. ret (None :: unit option)) else ret None"
  obtain l t where l: "forRange (Clients s) ?body s = (l, t)" by fastforce
  have "Clients t = Clients s"
    by (rule forRange_invariant [OF l, where P = "\<lambda>t. Clients t = Clients s"])
      (auto simp: andthen_apply callA_apply split: if_splits prod.splits res.splits)
  then show ?thesis using assms l
    by (auto simp: DisconnectMongoClient_def andthen_apply modifyState_apply split: res.splits option.splits)
qed

lemma DisconnectMongoClient_keeps:
  assumes "DisconnectMongoClient sv conf s = (r, s')" "oneClientEach s"
  shows "oneClientEach s'"
proof -
  have "distinct (take i xs @ drop (i + 1) xs)" if "distinct xs" for i and xs :: "mongo_conf list"
    using that distinct_append [of "take i xs" "drop i xs"] set_drop_subset_set_drop [of i "i + 1" xs]
    by auto
  note gone = this [of "map fst (Clients s)"]
  have "distinct (map fst (take i (Clients s) @ drop (i + 1) (Clients s)))" for i
    using gone [of i] assms(2) by (simp only: oneClientEach_def take_map drop_map map_append)
  then show ?thesis using DisconnectMongoClient_clients [OF assms(1)] assms(2) by (auto simp only: oneClientEach_def)
qed

section \<open>What the server reads\<close>

text \<open>The user and the password in a connection text, as the specification of the format reads them.\<close>

definition uriCredentials :: "string \<Rightarrow> (string \<times> string) option" where
  "uriCredentials uri =
     (let info = takeWhile (\<lambda>c. c \<noteq> CHR ''@'') (drop (length ''mongodb://'') uri) in
      case (PathUnescape (takeWhile (\<lambda>c. c \<noteq> CHR '':'') info), PathUnescape (drop 1 (dropWhile (\<lambda>c. c \<noteq> CHR '':'') info))) of
        (Some user, Some pass) \<Rightarrow> Some (user, pass) | _ \<Rightarrow> None)"

lemma connectionURI_auth:
  assumes "ConfAuthDb conf \<noteq> []"
  shows "\<exists>rest. connectionURI tls cert conf =
     ''mongodb://'' @ QueryEscape (ConfUser conf) @ '':'' @ QueryEscape (ConfPass conf) @ ''@'' @ rest"
  using assms by (auto simp: connectionURI_def Sprintf_simps Let_def)

lemma uriCredentials_connectionURI:
  assumes "ConfAuthDb conf \<noteq> []"
  shows "uriCredentials (connectionURI tls cert conf) =
     (case (PathUnescape (QueryEscape (ConfUser conf)), PathUnescape (QueryEscape (ConfPass conf))) of
        (Some user, Some pass) \<Rightarrow> Some (user, pass) | _ \<Rightarrow> None)"
proof -
  let ?u = "QueryEscape (ConfUser conf)" and ?p = "QueryEscape (ConfPass conf)"
  obtain rest where uri: "connectionURI tls cert conf = ''mongodb://'' @ ?u @ '':'' @ ?p @ ''@'' @ rest"
    using connectionURI_auth [OF assms] by blast
  have info: "takeWhile (\<lambda>c. c \<noteq> CHR ''@'') (?u @ '':'' @ ?p @ ''@'' @ rest) = ?u @ '':'' @ ?p"
    using QueryEscape_delimiters(1) [of "ConfUser conf"] QueryEscape_delimiters(1) [of "ConfPass conf"]
    by (subst takeWhile_append2; auto)+
  have colon: "takeWhile (\<lambda>c. c \<noteq> CHR '':'') (?u @ CHR '':'' # ?p) = ?u"
    using QueryEscape_delimiters(2) [of "ConfUser conf"] by (subst takeWhile_append2; auto)+
  have rest: "dropWhile (\<lambda>c. c \<noteq> CHR '':'') (?u @ CHR '':'' # ?p) = CHR '':'' # ?p"
    using QueryEscape_delimiters(2) [of "ConfUser conf"] by (subst dropWhile_append2; auto)+
  then have pass: "drop (Suc 0) (dropWhile (\<lambda>c. c \<noteq> CHR '':'') (?u @ CHR '':'' # ?p)) = ?p" by (simp only: drop_Suc_Cons drop_0)
  show ?thesis unfolding uriCredentials_def uri by (simp add: info [simplified] colon pass Let_def cong: option.case_cong)
qed

end
