(* ===== verification/DbaasMongo.thy ===== *)
theory DbaasMongo
  imports DbaasClient
begin

text \<open>
  The operations of the DBaaS adapter on the cluster: \<^verbatim>\<open>MongoServiceImpl\<close> in
  \<^verbatim>\<open>src/services/dbaas-adapter/pkg/mongodbService.go\<close>, one definition for every method.

  The methods run commands with a client of the adapter's configuration.  Some run a function between the grant
  and the revocation of a role of the adapter's own user; the locale \<^verbatim>\<open>role_bracket\<close> is the contract of these two,
  and its lemmas say what becomes of the function's error.
\<close>

section \<open>Vocabulary\<close>

definition readWrite :: string where "readWrite = ''readWrite''"
definition dbOwner :: string where "dbOwner = ''dbOwner''"
definition clusterAdmin :: string where "clusterAdmin = ''clusterAdmin''"
definition streaming :: string where "streaming = ''streaming''"
definition read :: string where "read = ''read''"
definition enableShardingCmd :: string where "enableShardingCmd = ''enableSharding''"

text \<open>\<^verbatim>\<open>mongo.ErrNoDocuments\<close>, and the panic of a type assertion.\<close>

definition errNoDocuments :: goerror where
  "errNoDocuments = GoError ''mongo: no documents in result''"

definition interface_conversion :: goerror where
  "interface_conversion = RuntimeError ''interface conversion''"

text \<open>A string field of a struct a document is decoded into.\<close>

definition decodeString :: "('c, 'w) mongo_service \<Rightarrow> doc \<Rightarrow> string \<Rightarrow> goerror + string" where
  "decodeString sv d k =
     (case docGet d k of None \<Rightarrow> Inr [] | Some BNull \<Rightarrow> Inr [] | Some (BStr s) \<Rightarrow> Inr s
      | Some v \<Rightarrow> Inl (DecodeError (Drv sv) k v))"

definition runCommand :: "('c, 'w) mongo_service \<Rightarrow> 'c \<Rightarrow> string \<Rightarrow> doc \<Rightarrow> ('c, 'w, goerror + doc) aop" where
  "runCommand sv client db cmd = callA (RunCommand (Drv sv) client db cmd)"

text \<open>\<^verbatim>\<open>RunCommand(...).Err()\<close>.\<close>

definition commandErr :: "goerror + doc \<Rightarrow> goerror option" where
  "commandErr x = (case x of Inl e \<Rightarrow> Some e | Inr _ \<Rightarrow> None)"

lemma commandErr_simps [simp]: "commandErr (Inl e) = Some e" "commandErr (Inr d) = None"
  by (simp_all add: commandErr_def)

text \<open>\<^verbatim>\<open>fmt.Errorf\<close> with \<^verbatim>\<open>%w\<close> at its end.\<close>

definition wrapErr :: "('c, 'w) mongo_service \<Rightarrow> string \<Rightarrow> goerror \<Rightarrow> goerror" where
  "wrapErr sv txt e = Wrapped (txt @ errorText sv e) e"

text \<open>
  A function with a deferred one, which sees the outcome of the first and has the last word on it.
\<close>

definition deferred :: "('s, 'a) op \<Rightarrow> ('a res \<Rightarrow> ('s, 'a res) op) \<Rightarrow> ('s, 'a) op" where
  "deferred body fin =
     (\<lambda>s. case body s of (r, t) \<Rightarrow> (case fin r t of (Ret r', u) \<Rightarrow> (r', u) | (Panic e, u) \<Rightarrow> (Panic e, u)))"

section \<open>Roles of the adapter's user\<close>

definition roleDoc :: "string \<Rightarrow> string \<Rightarrow> bson" where
  "roleDoc role db = BDoc [(''role'', BStr role), (''db'', BStr db)]"

definition grantDoc :: "string \<Rightarrow> string \<Rightarrow> string \<Rightarrow> doc" where
  "grantDoc user role db = [(''grantRolesToUser'', BStr user), (''roles'', BArr [roleDoc role db])]"

definition revokeDoc :: "string \<Rightarrow> string \<Rightarrow> string \<Rightarrow> doc" where
  "revokeDoc user role db = [(''revokeRolesFromUser'', BStr user), (''roles'', BArr [roleDoc role db])]"

text \<open>The result is an error (of the client) or a single result, which can hold an error.\<close>

definition GrantRole :: "('c, 'w) mongo_service \<Rightarrow> string \<Rightarrow> string \<Rightarrow> ('c, 'w, goerror + (goerror + doc)) aop" where
  "GrantRole sv dbName role =
     withClient sv (Conf sv) Inl (\<lambda>client.
       andthen (runCommand sv client (ConfAuthDb (Conf sv)) (grantDoc (ConfUser (Conf sv)) role dbName)) (\<lambda>x. ret (Inr x)))"

definition RevokeRole :: "('c, 'w) mongo_service \<Rightarrow> string \<Rightarrow> string \<Rightarrow> ('c, 'w, goerror + (goerror + doc)) aop" where
  "RevokeRole sv dbName role =
     withClient sv (Conf sv) Inl (\<lambda>client.
       andthen (runCommand sv client (ConfAuthDb (Conf sv)) (revokeDoc (ConfUser (Conf sv)) role dbName)) (\<lambda>x. ret (Inr x)))"

definition resultErr :: "goerror + (goerror + doc) \<Rightarrow> goerror option" where
  "resultErr x = (case x of Inl e \<Rightarrow> Some e | Inr y \<Rightarrow> commandErr y)"

text \<open>The deferred revocation assigns the named result: the error of \<^verbatim>\<open>ff\<close> is overwritten.\<close>

definition RunWithGrants :: "('c, 'w) mongo_service \<Rightarrow> string \<Rightarrow> ('c, 'w, goerror option) aop \<Rightarrow> ('c, 'w, goerror option) aop" where
  "RunWithGrants sv dbName ff =
     andthen (GrantRole sv dbName dbOwner) (\<lambda>result. case resultErr result of
       Some e \<Rightarrow> ret (Some e)
     | None \<Rightarrow> deferred ff (\<lambda>r. andthen (RevokeRole sv dbName dbOwner) (\<lambda>result.
         ret (case r of Ret _ \<Rightarrow> Ret (resultErr result) | Panic e \<Rightarrow> Panic e))))"

definition RunWithClusterGrants :: "('c, 'w) mongo_service \<Rightarrow> string \<Rightarrow> ('c, 'w, goerror option) aop \<Rightarrow> ('c, 'w, goerror option) aop" where
  "RunWithClusterGrants sv dbName ff =
     andthen (GrantRole sv dbName clusterAdmin) (\<lambda>result. case resultErr result of
       Some e \<Rightarrow> ret (Some e)
     | None \<Rightarrow> deferred ff (\<lambda>r. andthen (RevokeRole sv dbName clusterAdmin) (\<lambda>result.
         ret (case r of Ret _ \<Rightarrow> Ret (resultErr result) | Panic e \<Rightarrow> Panic e))))"

section \<open>Users\<close>

definition userRoles :: "string \<Rightarrow> string \<Rightarrow> bson" where
  "userRoles role database =
     BArr (if role = [] \<or> role = dbOwner then [roleDoc dbOwner database]
           else if role = ''streaming'' then [roleDoc read database, roleDoc ''streaming'' ''admin'']
           else [roleDoc role database])"

definition createUser :: "('c, 'w) mongo_service \<Rightarrow> string \<Rightarrow> string \<Rightarrow> string \<Rightarrow> string \<Rightarrow> string \<Rightarrow> 'c \<Rightarrow> ('c, 'w, goerror option) aop" where
  "createUser sv username pass database authDb role client =
     andthen (runCommand sv client authDb
       [(''createUser'', BStr username), (''pwd'', BStr pass), (''roles'', userRoles role database)]) (\<lambda>x. ret (commandErr x))"

definition updateUser :: "('c, 'w) mongo_service \<Rightarrow> string \<Rightarrow> string \<Rightarrow> string \<Rightarrow> string \<Rightarrow> string \<Rightarrow> 'c \<Rightarrow> ('c, 'w, goerror option) aop" where
  "updateUser sv username pass database authDb role client =
     andthen (runCommand sv client (if authDb \<noteq> [] then authDb else database)
       ([(''updateUser'', BStr username), (''roles'', userRoles role database)] @
        (if pass = [] then [] else [(''pwd'', BStr pass)]))) (\<lambda>x. ret (commandErr x))"

definition IsUserExist :: "('c, 'w) mongo_service \<Rightarrow> mongo_conf \<Rightarrow> string \<Rightarrow> string \<Rightarrow> ('c, 'w, bool with_err) aop" where
  "IsUserExist sv conf username dbName =
     withClient sv conf (\<lambda>err. (False, None)) (\<lambda>client.
     andthen (runCommand sv client dbName [(''usersInfo'', BStr username)]) (\<lambda>userInfo. case userInfo of
       Inl e \<Rightarrow> ret (False, Some e)
     | Inr user \<Rightarrow> (case docGet user ''users'' of
         Some (BArr users) \<Rightarrow> ret (users \<noteq> [], None)
       | _ \<Rightarrow> panic interface_conversion)))"

definition shardHost :: "bson \<Rightarrow> ('s, string) op" where
  "shardHost shard =
     (case shard of
        BDoc s \<Rightarrow> (case docGet s ''host'' of Some (BStr host) \<Rightarrow> nth_or_panic (Split host ''/'') 1 | _ \<Rightarrow> panic interface_conversion)
      | _ \<Rightarrow> panic interface_conversion)"

definition GetReplicaSetHosts :: "('c, 'w) mongo_service \<Rightarrow> ('c, 'w, goerror + string list) aop" where
  "GetReplicaSetHosts sv =
     withClient sv (Conf sv) Inl (\<lambda>client.
     andthen (runCommand sv client ''admin'' [(''listShards'', BInt 1)]) (\<lambda>listShards. case listShards of
       Inl e \<Rightarrow> ret (Inl e)
     | Inr shardsResponse \<Rightarrow> (case docGet shardsResponse ''shards'' of
         Some (BArr shards) \<Rightarrow>
           (if shards = [] then ret (Inl (GoError ''Shard list is empty''))
            else andthen (forFold shards (\<lambda>shard hosts.
                   andthen (shardHost shard) (\<lambda>h. ret (Inr (hosts @ [h]) :: unit + string list))) []) (\<lambda>x. case x of
                Inl _ \<Rightarrow> ret (Inr []) | Inr hosts \<Rightarrow> ret (Inr hosts)))
       | _ \<Rightarrow> panic interface_conversion)))"

text \<open>The user of a streaming role in the replica sets of the shards.\<close>

definition streamingUser :: "('c, 'w) mongo_service \<Rightarrow> string \<Rightarrow> string \<Rightarrow> string \<Rightarrow> string \<Rightarrow> string \<Rightarrow> string \<Rightarrow> ('c, 'w, goerror option) aop" where
  "streamingUser sv username pass database authDb role host =
     (let conf = (Conf sv)\<lparr>ConfHost := host\<rparr> in
      andthen (IsUserExist sv conf username database) (\<lambda>(exists, err). case err of
        Some e \<Rightarrow> ret (Some e)
      | None \<Rightarrow> withClient sv conf Some (\<lambda>client.
          if exists then updateUser sv username pass database authDb role client
          else createUser sv username pass database authDb role client)))"

definition CreateOrUpdateUser :: "('c, 'w) mongo_service \<Rightarrow> string \<Rightarrow> string \<Rightarrow> string \<Rightarrow> string \<Rightarrow> string \<Rightarrow> bool \<Rightarrow> ('c, 'w, goerror option) aop" where
  "CreateOrUpdateUser sv username pass database authDb role force =
     andthen (IsUserExist sv (Conf sv) username authDb) (\<lambda>(exists, err). case err of
       Some e \<Rightarrow> ret (Some e)
     | None \<Rightarrow> withClient sv (Conf sv) Some (\<lambda>client.
         andthen (if \<not> exists \<or> force then createUser sv username pass database authDb role client
                  else updateUser sv username pass database authDb role client) (\<lambda>err. case err of
           Some e \<Rightarrow> ret (Some e)
         | None \<Rightarrow>
             if role = streaming
             then andthen (GetReplicaSetHosts sv) (\<lambda>x. case x of
                 Inl _ \<Rightarrow> ret None
               | Inr rsHosts \<Rightarrow> forRange rsHosts (streamingUser sv username pass database authDb role))
             else ret None)))"

definition UpdateUserPassword :: "('c, 'w) mongo_service \<Rightarrow> string \<Rightarrow> string \<Rightarrow> string \<Rightarrow> ('c, 'w, goerror option) aop" where
  "UpdateUserPassword sv username password dbName =
     withClient sv (Conf sv) Some (\<lambda>client.
       andthen (runCommand sv client dbName [(''updateUser'', BStr username), (''pwd'', BStr password)]) (\<lambda>x. ret (commandErr x)))"

text \<open>A user that does not exist is not dropped, which is no error.\<close>

definition dropUserIn :: "('c, 'w) mongo_service \<Rightarrow> string \<Rightarrow> string \<Rightarrow> ('c, 'w, goerror option) aop" where
  "dropUserIn sv dbName username =
     withClient sv (Conf sv) Some (\<lambda>client.
     andthen (runCommand sv client dbName [(''usersInfo'', BStr username)]) (\<lambda>x. case x of
       Inl err \<Rightarrow> ret (Some (wrapErr sv ''error checking user existence: '' err))
     | Inr result \<Rightarrow> (case docGet result ''users'' of
         Some (BArr (u # us)) \<Rightarrow>
           andthen (runCommand sv client dbName [(''dropUser'', BStr username)]) (\<lambda>x.
             ret (map_option (wrapErr sv (Sprintf ''failed to drop user %s: '' [Str username])) (commandErr x)))
       | _ \<Rightarrow> ret None)))"

definition DropUser :: "('c, 'w) mongo_service \<Rightarrow> string \<Rightarrow> ('c, 'w, goerror option) aop" where
  "DropUser sv username =
     (let entities = Split username '':'' in
      if length entities \<noteq> 2
      then ret (Some (GoError (''The format of the incoming data is incorrect. Name must be '' @ [CHR 0x22] @ ''dbName:username'' @ [CHR 0x22])))
      else dropUserIn sv (entities ! 0) (entities ! 1))"

text \<open>The users of a database by the name \<^verbatim>\<open>user\<close> of their documents.\<close>

definition userNameOf :: "bson \<Rightarrow> ('s, string) op" where
  "userNameOf user =
     (case user of
        BDoc u \<Rightarrow> (case docGet u ''user'' of Some (BStr name) \<Rightarrow> ret name | _ \<Rightarrow> panic interface_conversion)
      | _ \<Rightarrow> panic interface_conversion)"

definition GetRoles :: "('c, 'w) mongo_service \<Rightarrow> string \<Rightarrow> ('c, 'w, goerror + string list) aop" where
  "GetRoles sv dbName =
     withClient sv (Conf sv) Inl (\<lambda>client.
     andthen (runCommand sv client dbName [(''usersInfo'', BInt 1)]) (\<lambda>x. case x of
       Inl err \<Rightarrow> ret (Inl err)
     | Inr bRoles \<Rightarrow> (case docGet bRoles ''users'' of
         Some (BArr users) \<Rightarrow>
           andthen (forFold users (\<lambda>user roles. andthen (userNameOf user) (\<lambda>n. ret (Inr (roles @ [n]) :: unit + string list))) [])
             (\<lambda>x. case x of Inl _ \<Rightarrow> ret (Inr []) | Inr roles \<Rightarrow> ret (Inr roles))
       | _ \<Rightarrow> ret (Inr []))))"

definition findDbOwner :: "('c, 'w) mongo_service \<Rightarrow> 'c \<Rightarrow> string \<Rightarrow> string \<Rightarrow> ('c, 'w, goerror + string) aop" where
  "findDbOwner sv client dbName authDb =
     andthen (runCommand sv client authDb
       [(''usersInfo'', BInt 1), (''filter'', BDoc [(''roles'', roleDoc ''dbOwner'' dbName)])]) (\<lambda>x. case x of
       Inl err \<Rightarrow> ret (Inl err)
     | Inr responseMap \<Rightarrow> (case docGet responseMap ''users'' of
         Some (BArr []) \<Rightarrow> ret (Inl errNoDocuments)
       | Some (BArr (user # us)) \<Rightarrow> andthen (userNameOf user) (\<lambda>n. ret (Inr n))
       | _ \<Rightarrow> panic interface_conversion))"

text \<open>One round of the loop of \<^verbatim>\<open>GetDbOwner\<close>.\<close>

definition dbOwnerAttempt :: "('c, 'w) mongo_service \<Rightarrow> 'c \<Rightarrow> string \<Rightarrow> ('c, 'w, string option) aop" where
  "dbOwnerAttempt sv client dbName =
     andthen (findDbOwner sv client dbName dbName) (\<lambda>x. case x of
       Inr user \<Rightarrow> ret (Some user)
     | Inl _ \<Rightarrow> andthen (findDbOwner sv client dbName ''admin'') (\<lambda>x. case x of
         Inr user \<Rightarrow> ret (Some user)
       | Inl _ \<Rightarrow> andthen (callA (SleepMs (Drv sv) 500)) (\<lambda>_. ret None)))"

definition GetDbOwner :: "('c, 'w) mongo_service \<Rightarrow> string \<Rightarrow> ('c, 'w, goerror + string) aop" where
  "GetDbOwner sv dbName =
     withClient sv (Conf sv) Inl (\<lambda>client.
     andthen (forRange (upto_int 3) (\<lambda>i. dbOwnerAttempt sv client dbName)) (\<lambda>x. case x of
       Some user \<Rightarrow> ret (Inr user)
     | None \<Rightarrow> ret (Inl (GoError ''can't find user''))))"

section \<open>Databases\<close>

definition DropDatabase :: "('c, 'w) mongo_service \<Rightarrow> string \<Rightarrow> ('c, 'w, goerror option) aop" where
  "DropDatabase sv dbName = withClient sv (Conf sv) Some (\<lambda>client. callA (DropDb (Drv sv) client dbName))"

definition ListDatabases :: "('c, 'w) mongo_service \<Rightarrow> ('c, 'w, string list with_err) aop" where
  "ListDatabases sv = withClient sv (Conf sv) (\<lambda>err. ([], Some err)) (\<lambda>client. callA (ListDatabaseNames (Drv sv) client))"

definition IsDatabaseAvailable :: "('c, 'w) mongo_service \<Rightarrow> string \<Rightarrow> ('c, 'w, bool with_err) aop" where
  "IsDatabaseAvailable sv dbName =
     andthen (ListDatabases sv) (\<lambda>(dbs, err). case err of
       Some e \<Rightarrow> ret (False, Some e)
     | None \<Rightarrow> ret (list_all (\<lambda>name. name \<noteq> dbName) dbs, None))"

definition GetOne :: "('c, 'w) mongo_service \<Rightarrow> string \<Rightarrow> string \<Rightarrow> ('c, 'w, goerror + (goerror + doc)) aop" where
  "GetOne sv dbName collection =
     withClient sv (Conf sv) Inl (\<lambda>client. andthen (callA (FindOne (Drv sv) client dbName collection [])) (\<lambda>x. ret (Inr x)))"

definition CreateCollection :: "('c, 'w) mongo_service \<Rightarrow> string \<Rightarrow> string \<Rightarrow> ('c, 'w, goerror option) aop" where
  "CreateCollection sv dbName collection =
     withClient sv (Conf sv) Some (\<lambda>client. callA (CreateColl (Drv sv) client dbName collection))"

definition InsertOrUpdate :: "('c, 'w) mongo_service \<Rightarrow> string \<Rightarrow> string \<Rightarrow> doc \<Rightarrow> ('c, 'w, goerror option) aop" where
  "InsertOrUpdate sv dbName collection data =
     withClient sv (Conf sv) Some (\<lambda>client. callA (UpdateManyUpsert (Drv sv) client dbName collection [] [(''$set'', BDoc data)]))"

definition InsertOne :: "('c, 'w) mongo_service \<Rightarrow> string \<Rightarrow> string \<Rightarrow> doc \<Rightarrow> ('c, 'w, goerror option) aop" where
  "InsertOne sv dbName collection data =
     withClient sv (Conf sv) Some (\<lambda>client. callA (InsertDoc (Drv sv) client dbName collection data))"

section \<open>Placement of databases\<close>

definition MovePrimary :: "('c, 'w) mongo_service \<Rightarrow> string \<Rightarrow> string \<Rightarrow> ('c, 'w, goerror option) aop" where
  "MovePrimary sv dbName targetShard =
     withClient sv (Conf sv) Some (\<lambda>client.
     andthen (callA (FindOne (Drv sv) client ''config'' ''databases'' [(''_id'', BStr dbName)])) (\<lambda>found.
     (let dbInfo = (case found of Inl e \<Rightarrow> Inl e
                    | Inr d \<Rightarrow> (case decodeString sv d ''primary'' of Inl e \<Rightarrow> Inl e
                               | Inr primary \<Rightarrow> (case decodeString sv d ''db'' of Inl e \<Rightarrow> Inl e | Inr _ \<Rightarrow> Inr primary)));
          run = (\<lambda>primary.
            if primary = targetShard then ret None
            else andthen (runCommand sv client ''admin'' [(''movePrimary'', BStr dbName), (''to'', BStr targetShard)]) (\<lambda>x.
              ret (map_option (wrapErr sv ''movePrimary failed: '') (commandErr x)))) in
      case dbInfo of
        Inl err \<Rightarrow> if err = errNoDocuments then run [] else ret (Some (wrapErr sv ''failed to read config.databases: '' err))
      | Inr primary \<Rightarrow> run primary)))"

text \<open>The format of the error has no verb for its last operand.\<close>

definition EnsureDBOnShard :: "('c, 'w) mongo_service \<Rightarrow> string \<Rightarrow> string \<Rightarrow> ('c, 'w, goerror option) aop" where
  "EnsureDBOnShard sv dbName primaryName =
     RunWithClusterGrants sv ''admin''
       (andthen (MovePrimary sv dbName primaryName) (\<lambda>err. ret (case err of
          Some e \<Rightarrow> if \<not> Contains (errorText sv e) ''already enabled''
                    then Some (GoError (Sprintf ''failed to move db [%s] on shard [%s] error : '' [Str dbName, Str primaryName] @
                      ''%!(EXTRA '' @ DrvErrType (Drv sv) e @ ''='' @ errorText sv e @ '')''))
                    else None
        | None \<Rightarrow> None)))"

text \<open>A cursor that fails ends its loop like one at its end.\<close>

definition IsValidShard :: "('c, 'w) mongo_service \<Rightarrow> string \<Rightarrow> ('c, 'w, bool with_err) aop" where
  "IsValidShard sv shardName =
     withClient sv (Conf sv) (\<lambda>err. (False, Some err)) (\<lambda>client.
     andthen (callA (FindAll (Drv sv) client ''config'' ''shards'')) (\<lambda>cur. case cur of
       Inl err \<Rightarrow> ret (False, Some err)
     | Inr docs \<Rightarrow> andthen (forRange docs (\<lambda>d. case decodeString sv d ''_id'' of
           Inl err \<Rightarrow> ret (Some (False, Some err))
         | Inr ID \<Rightarrow> if ID = shardName then ret (Some (True, None)) else ret None)) (\<lambda>x. case x of
         Some r \<Rightarrow> ret r | None \<Rightarrow> ret (False, None))))"

section \<open>Sharding\<close>

definition namespaceOf :: "string \<Rightarrow> sharding_settings \<Rightarrow> string" where
  "namespaceOf dbName st = Sprintf ''%s.%s'' [Str dbName, Str (CollectionName st)]"

definition EnableSharding :: "('c, 'w) mongo_service \<Rightarrow> string \<Rightarrow> ('c, 'w, goerror option) aop" where
  "EnableSharding sv dbName =
     withClient sv (Conf sv) Some (\<lambda>client.
     andthen (runCommand sv client ''admin'' [(enableShardingCmd, BStr dbName)]) (\<lambda>x. ret (case commandErr x of
       Some e \<Rightarrow> if \<not> Contains (errorText sv e) ''already enabled''
                 then Some (wrapErr sv (Sprintf ''failed to enable sharding on db %s: '' [Str dbName]) e) else None
     | None \<Rightarrow> None)))"

definition ShardCollection :: "('c, 'w) mongo_service \<Rightarrow> string \<Rightarrow> sharding_settings \<Rightarrow> ('c, 'w, goerror option) aop" where
  "ShardCollection sv dbName st =
     withClient sv (Conf sv) Some (\<lambda>client.
     andthen (runCommand sv client ''admin''
       [(''shardCollection'', BStr (namespaceOf dbName st)), (''key'', BDoc (buildShardKeyDoc (ShardKeys st)))]) (\<lambda>x.
     ret (map_option (wrapErr sv (Sprintf ''failed to shard collection %s.%s: '' [Str dbName, Str (CollectionName st)])) (commandErr x))))"

definition RefineShardKey :: "('c, 'w) mongo_service \<Rightarrow> string \<Rightarrow> sharding_settings \<Rightarrow> ('c, 'w, goerror option) aop" where
  "RefineShardKey sv dbName st =
     withClient sv (Conf sv) Some (\<lambda>client.
     andthen (runCommand sv client ''admin''
       [(''refineCollectionShardKey'', BStr (namespaceOf dbName st)), (''key'', BDoc (buildShardKeyDoc (ShardKeys st)))]) (\<lambda>x.
     ret (map_option (wrapErr sv (Sprintf ''failed to refine shard key for %s: '' [Str (namespaceOf dbName st)])) (commandErr x))))"

definition ForceRedistribute :: "('c, 'w) mongo_service \<Rightarrow> string \<Rightarrow> sharding_settings \<Rightarrow> ('c, 'w, goerror option) aop" where
  "ForceRedistribute sv dbName st =
     withClient sv (Conf sv) Some (\<lambda>client.
     andthen (runCommand sv client ''admin''
       [(''reshardCollection'', BStr (namespaceOf dbName st)), (''key'', BDoc (buildShardKeyDoc (ShardKeys st))),
        (''forceRedistribution'', BBool True)]) (\<lambda>x.
     ret (map_option (wrapErr sv (Sprintf ''failed to force-redistribute %s: '' [Str (namespaceOf dbName st)])) (commandErr x))))"

text \<open>\<^verbatim>\<open>%v\<close> of the fields of a key.\<close>

definition showFields :: "shard_key_field list \<Rightarrow> string" where
  "showFields fs = ''['' @ Join '' '' (map (\<lambda>f. ''{'' @ KeyField f @ '' '' @ (if Hashed f then ''true'' else ''false'') @ ''}'') fs) @ '']''"

definition CreateShardKeyIndex :: "('c, 'w) mongo_service \<Rightarrow> string \<Rightarrow> sharding_settings \<Rightarrow> ('c, 'w, goerror option) aop" where
  "CreateShardKeyIndex sv dbName st =
     withClient sv (Conf sv) Some (\<lambda>client.
     andthen (callA (CreateIndex (Drv sv) client dbName (CollectionName st) (buildShardKeyDoc (ShardKeys st)))) (\<lambda>err.
     ret (map_option (wrapErr sv (Sprintf ''failed to create index on %s.%s for shard key %v: ''
       [Str dbName, Str (CollectionName st), Str (showFields (ShardKeys st))])) err)))"

text \<open>None for a collection that is not sharded, else the key it is sharded with.\<close>

definition IsCollectionSharded :: "('c, 'w) mongo_service \<Rightarrow> string \<Rightarrow> sharding_settings \<Rightarrow> ('c, 'w, goerror + doc option) aop" where
  "IsCollectionSharded sv dbName st =
     withClient sv (Conf sv) Inl (\<lambda>client.
     andthen (callA (FindOne (Drv sv) client ''config'' ''collections'' [(''_id'', BStr (namespaceOf dbName st))])) (\<lambda>found.
     (let failed = (\<lambda>err. if err = errNoDocuments then ret (Inr None)
            else ret (Inl (wrapErr sv (Sprintf ''failed to check sharding status for %s: '' [Str (namespaceOf dbName st)]) err))) in
      case found of
        Inl err \<Rightarrow> failed err
      | Inr d \<Rightarrow> (case docGet d ''key'' of
          None \<Rightarrow> ret (Inr (Some []))
        | Some BNull \<Rightarrow> ret (Inr (Some []))
        | Some (BDoc key) \<Rightarrow> ret (Inr (Some key))
        | Some v \<Rightarrow> failed (DecodeError (Drv sv) ''key'' v)))))"

definition indexWithGrants :: "('c, 'w) mongo_service \<Rightarrow> string \<Rightarrow> sharding_settings \<Rightarrow> ('c, 'w, goerror option) aop" where
  "indexWithGrants sv dbName st = RunWithGrants sv dbName (CreateShardKeyIndex sv dbName st)"

definition refineCollection :: "('c, 'w) mongo_service \<Rightarrow> string \<Rightarrow> sharding_settings \<Rightarrow> ('c, 'w, goerror option) aop" where
  "refineCollection sv dbName st =
     andthen (indexWithGrants sv dbName st) (\<lambda>err. case err of
       Some e \<Rightarrow> ret (Some e)
     | None \<Rightarrow> RunWithClusterGrants sv ''admin''
         (andthen (RefineShardKey sv dbName st) (\<lambda>err.
           ret (map_option (wrapErr sv (Sprintf ''failed to refine shard key for %s: '' [Str (CollectionName st)])) err))))"

text \<open>A collection that held documents is redistributed in the background.\<close>

definition shardFreshCollection :: "('c, 'w) mongo_service \<Rightarrow> string \<Rightarrow> sharding_settings \<Rightarrow> ('c, 'w, goerror option) aop" where
  "shardFreshCollection sv dbName st =
     withClient sv (Conf sv) Some (\<lambda>client.
     andthen (callA (EstimatedDocumentCount (Drv sv) client dbName (CollectionName st))) (\<lambda>count. case count of
       Inl err \<Rightarrow> ret (Some (wrapErr sv (Sprintf ''failed to check document count for %s.%s: '' [Str dbName, Str (CollectionName st)]) err))
     | Inr preExistingCount \<Rightarrow>
         andthen (indexWithGrants sv dbName st) (\<lambda>err. case err of
           Some e \<Rightarrow> ret (Some e)
         | None \<Rightarrow> andthen (RunWithClusterGrants sv ''admin''
               (andthen (ShardCollection sv dbName st) (\<lambda>err.
                 ret (map_option (wrapErr sv (Sprintf ''failed to shard collection %s: '' [Str (CollectionName st)])) err)))) (\<lambda>err. case err of
             Some e \<Rightarrow> ret (Some e)
           | None \<Rightarrow>
               if preExistingCount > 0
               then andthen (modifyState (\<lambda>s. s\<lparr>Started := Started s @ [(dbName, st)]\<rparr>)) (\<lambda>_. ret None)
               else ret None))))"

definition ShardNonShardedCollection :: "('c, 'w) mongo_service \<Rightarrow> string \<Rightarrow> sharding_settings \<Rightarrow> ('c, 'w, goerror option) aop" where
  "ShardNonShardedCollection sv dbName st =
     (if hashedFieldCount (ShardKeys st) > 1
      then ret (Some (GoError (Sprintf ''invalid shard key for %s.%s: only one field may be hashed, got %d''
        [Str dbName, Str (CollectionName st), Num (int (hashedFieldCount (ShardKeys st)))])))
      else andthen (IsCollectionSharded sv dbName st) (\<lambda>sharded. case sharded of
        Inl err \<Rightarrow> ret (Some err)
      | Inr (Some currentKey) \<Rightarrow>
          (let (exact, needsRefine) = shardKeyMatches currentKey st in
           if exact then ret None
           else if needsRefine then refineCollection sv dbName st
           else ret (Some (GoError (Sprintf ''collection %s.%s is already sharded with a different key %v''
             [Str dbName, Str (CollectionName st), Str (DrvShowDoc (Drv sv) currentKey)]))))
      | Inr None \<Rightarrow> shardFreshCollection sv dbName st))"

text \<open>The background task that was started; its error is only logged.\<close>

definition redistributeTask :: "('c, 'w) mongo_service \<Rightarrow> string \<times> sharding_settings \<Rightarrow> ('c, 'w, unit) aop" where
  "redistributeTask sv task =
     andthen (RunWithClusterGrants sv ''admin'' (ForceRedistribute sv (fst task) (snd task))) (\<lambda>_. ret ())"

definition enableWithGrants :: "('c, 'w) mongo_service \<Rightarrow> string \<Rightarrow> ('c, 'w, goerror option) aop" where
  "enableWithGrants sv dbName =
     RunWithClusterGrants sv ''admin''
       (andthen (EnableSharding sv dbName) (\<lambda>err. ret (case err of
          Some e \<Rightarrow> if \<not> Contains (errorText sv e) ''already enabled''
                    then Some (wrapErr sv (Sprintf ''failed to enable sharding on db %s: '' [Str dbName]) e) else None
        | None \<Rightarrow> None)))"

definition collectionWithGrants :: "('c, 'w) mongo_service \<Rightarrow> string \<Rightarrow> sharding_settings \<Rightarrow> ('c, 'w, goerror option) aop" where
  "collectionWithGrants sv dbName record =
     RunWithGrants sv dbName
       (andthen (CreateCollection sv dbName (CollectionName record)) (\<lambda>err. ret (case err of
          Some e \<Rightarrow> if \<not> Contains (errorText sv e) ''already exists''
                    then Some (wrapErr sv (Sprintf ''failed to create collection %s: '' [Str (CollectionName record)]) e) else None
        | None \<Rightarrow> None)))"

definition EnableShardingAndCreateCollection :: "('c, 'w) mongo_service \<Rightarrow> string \<Rightarrow> settings \<Rightarrow> ('c, 'w, goerror option) aop" where
  "EnableShardingAndCreateCollection sv dbName settings =
     andthen (enableWithGrants sv dbName) (\<lambda>err. case err of
       Some e \<Rightarrow> ret (Some e)
     | None \<Rightarrow> forRange (ShardingSettings settings) (\<lambda>record.
         andthen (collectionWithGrants sv dbName record) (\<lambda>err. case err of
           Some e \<Rightarrow> ret (Some e)
         | None \<Rightarrow> ShardNonShardedCollection sv dbName record)))"

end
