(* ===== verification/AdapterUtils.thy ===== *)
theory AdapterUtils
  imports Fiber GoUrl
begin

text \<open>
  The helpers of the DBaaS adapter: \<^verbatim>\<open>src/services/dbaas-adapter/utils\<close> and the expressions the names of databases and
  users are checked with (\<^verbatim>\<open>pkg/db_admin.go\<close>).

  The environment is a function from names to values, the file system one from paths to contents.  The lemmas
  give the language of the checks.
\<close>

section \<open>Environment\<close>

definition FeatureMultiUsers :: string where "FeatureMultiUsers = ''multiusers''"
definition FeatureTLS :: string where "FeatureTLS = ''tls''"
definition DefaultPort :: int where "DefaultPort = 8080"

text \<open>\<^verbatim>\<open>strconv.ParseBool\<close>.\<close>

definition ParseBool :: "string \<Rightarrow> goerror + bool" where
  "ParseBool s =
     (if s \<in> {''1'', ''t'', ''T'', ''TRUE'', ''true'', ''True''} then Inr True
      else if s \<in> {''0'', ''f'', ''F'', ''FALSE'', ''false'', ''False''} then Inr False
      else Inl (NumError ''ParseBool'' s))"

definition IsTLSEnabled :: "(string \<Rightarrow> string option) \<Rightarrow> bool" where
  "IsTLSEnabled env = (ParseBool (case env ''TLS_ENABLED'' of Some v \<Rightarrow> v | None \<Rightarrow> []) = Inr True)"

definition GetCACert :: "(string \<Rightarrow> string option) \<Rightarrow> string" where
  "GetCACert env = (case env ''TLS_ROOTCERT'' of Some v \<Rightarrow> v | None \<Rightarrow> [])"

definition GetEnvBool :: "(string \<Rightarrow> string option) \<Rightarrow> string \<Rightarrow> bool \<Rightarrow> ('s, bool) op" where
  "GetEnvBool env key fallback =
     (case env key of
        None \<Rightarrow> ret fallback
      | Some value \<Rightarrow> (case ParseBool value of Inl err \<Rightarrow> panic err | Inr bvalue \<Rightarrow> ret bvalue))"

text \<open>\<^verbatim>\<open>os.ReadFile\<close> gives the content of a path.\<close>

definition GetSecretValue :: "(string \<Rightarrow> goerror + string) \<Rightarrow> string \<Rightarrow> string \<Rightarrow> string" where
  "GetSecretValue readFile path fallback =
     (case readFile path of
        Inl err \<Rightarrow> fallback
      | Inr data \<Rightarrow> (let val = TrimSpace data in if val = [] then fallback else val))"

lemma GetSecretValue_nonempty: "fallback \<noteq> [] \<Longrightarrow> GetSecretValue readFile path fallback \<noteq> []"
  by (simp add: GetSecretValue_def Let_def split: sum.split)

section \<open>Names\<close>

text \<open>\<^verbatim>\<open>^[_A-z0-9\-]*$\<close>, the expression of database names, of prefixes and of user names.\<close>

definition nameClass :: rex where
  "nameClass = Cls [(CHR ''_'', CHR ''_''), (CHR ''A'', CHR ''z''), (CHR ''0'', CHR ''9''), (CHR ''-'', CHR ''-'')]"

definition nameRegexp :: rex where
  "nameRegexp = Star nameClass"

definition nameRegexpExpression :: string where
  "nameRegexpExpression = ''^[_A-z0-9'' @ [CHR 0x5C] @ ''-]*$''"

text \<open>An empty value is valid; nothing else is done than matching.\<close>

definition ValidateDbIdentifierParam :: "(string \<Rightarrow> string option) \<Rightarrow> string \<Rightarrow> rex \<Rightarrow> ('s, bool) op" where
  "ValidateDbIdentifierParam env paramValue pattern =
     andthen (GetEnvBool env ''LOG_DEBUG'' False) (\<lambda>_.
       if paramValue \<noteq> [] then ret (MatchWhole pattern paramValue) else ret True)"

definition SendInvalidParameterResponse :: "'c fiber \<Rightarrow> 'c \<Rightarrow> string \<Rightarrow> string \<Rightarrow> string \<Rightarrow> goerror option \<times> 'c" where
  "SendInvalidParameterResponse f c paramName paramValue pattern =
     SendString f (''Invalid '' @ [CHR 0x27] @ paramName @ [CHR 0x27] @ '' param provided: '' @ paramValue @ ''. '' @ [CHR 0x27] @ paramName @
       [CHR 0x27] @ '' param must comply to the pattern '' @ pattern) (SetStatus f 400 c)"

text \<open>The names that pass: letters, digits, hyphen, underscore, and the characters between the two alphabets.\<close>

definition nameChar :: "char \<Rightarrow> bool" where
  "nameChar c =
     ((CHR ''A'' \<le> c \<and> c \<le> CHR ''Z'') \<or> (CHR ''a'' \<le> c \<and> c \<le> CHR ''z'') \<or> isDigit c \<or>
      c \<in> {CHR ''-'', CHR ''_'', CHR ''['', CHR 0x5C, CHR '']'', CHR ''^'', CHR 0x60})"

lemma lang_Star_Cls: "lang (Star (Cls rs)) s \<longleftrightarrow> list_all (in_class rs) s"
proof
  have "lang r s \<Longrightarrow> r = Star (Cls rs) \<Longrightarrow> list_all (in_class rs) s" for r
    by (induction rule: lang.induct) (auto elim: lang.cases)
  then show "lang (Star (Cls rs)) s \<Longrightarrow> list_all (in_class rs) s" by blast
next
  show "list_all (in_class rs) s \<Longrightarrow> lang (Star (Cls rs)) s"
  proof (induction s)
    case Nil
    show ?case by (rule lang.Star0)
  next
    case (Cons c s)
    then have "lang (Cls rs) [c]" "lang (Star (Cls rs)) s" by (auto intro: lang.intros)
    then show ?case by (metis append_Cons append_Nil lang.intros(7))
  qed
qed

lemma nameClass_char:
  "in_class [(CHR ''_'', CHR ''_''), (CHR ''A'', CHR ''z''), (CHR ''0'', CHR ''9''), (CHR ''-'', CHR ''-'')] c = nameChar c"
proof -
  have eq: "c = d \<longleftrightarrow> (of_char c :: nat) = of_char d" for d by simp
  show ?thesis
    unfolding in_class_def nameChar_def isDigit_def less_eq_char_def insert_iff empty_iff eq
    by (simp del: of_char_eq_iff) arith
qed

lemma MatchWhole_nameRegexp: "MatchWhole nameRegexp s \<longleftrightarrow> list_all nameChar s"
  by (simp add: MatchWhole_iff nameRegexp_def nameClass_def lang_Star_Cls list_all_iff nameClass_char)

end
