(* ===== verification/DbaasAdmin.thy ===== *)
theory DbaasAdmin
  imports DbaasMongo AdapterUtils
begin

text \<open>
  The administration of databases behind the DBaaS interface: \<^verbatim>\<open>MongoDbAdministration\<close> in
  \<^verbatim>\<open>src/services/dbaas-adapter/pkg/db_admin.go\<close>, one definition for every method, and the descriptor of
  \<^verbatim>\<open>physical_database.go\<close>.

  The types of requests and answers are the DBaaS core library's; the records hold the fields the code uses.  A
  \<^verbatim>\<open>map[string]interface{}\<close> is a list of names and JSON values.
\<close>

section \<open>Requests and answers\<close>

record db_create_request =
  ReqDbName :: string
  ReqNamePrefix :: "string option"
  ReqMetadata :: jmap
  ReqUsername :: string
  ReqPassword :: string
  ReqSettings :: jmap

record user_create_request =
  UcrDbName :: string
  UcrPassword :: string
  UcrRole :: string

record db_resource =
  ResKind :: string
  ResName :: string
  ResStatus :: string
  ResError :: string

record described =
  DescConnection :: "jmap list"
  DescResources :: "db_resource list"

record created_user =
  CuConnection :: jmap
  CuResources :: "db_resource list"
  CuName :: string
  CuRole :: string

record additional_role =
  ArId :: string
  ArDbName :: string
  ArConnection :: "jmap list"

record success =
  SucId :: string
  SucConnection :: "jmap list"
  SucResources :: "db_resource list"
  SucDbName :: string

record failure =
  FailId :: string
  FailMessage :: string

text \<open>
  A \<^verbatim>\<open>MongoDbAdministration\<close>: its service, the fields, the environment of the process, and what it calls of the core
  library: the generation and the shortening of names and the texts of two states.
\<close>

record ('c, 'w) administration =
  Service :: "('c, 'w) mongo_service"
  ApiVersion :: string
  SupportedRoles :: "string list"
  SupportedFeatures :: "(string \<times> bool) list"
  ProcessEnv :: "string \<Rightarrow> string option"
  RegenerateDbName :: "string \<Rightarrow> int \<Rightarrow> ('w, string) op"
  PrepareDatabaseName :: "string \<Rightarrow> string \<Rightarrow> int \<Rightarrow> goerror + string"
  DELETED :: string
  DELETE_FAILED :: string

definition UserResourceKind :: string where "UserResourceKind = ''user''"
definition DbResourceKind :: string where "DbResourceKind = ''database''"
definition DbKind :: string where "DbKind = ''database''"
definition dbaasMetadata :: string where "dbaasMetadata = ''_dbaas_metadata''"

definition rolesMapping :: "string \<Rightarrow> string" where
  "rolesMapping role =
     (case map_of [(''admin'', dbOwner), (''rw'', readWrite), (''ro'', read), (''streaming'', streaming)] role of
        Some r \<Rightarrow> r | None \<Rightarrow> [])"

definition resourceOf :: "string \<Rightarrow> string \<Rightarrow> db_resource" where
  "resourceOf kind name = \<lparr>ResKind = kind, ResName = name, ResStatus = [], ResError = []\<rparr>"

text \<open>A string of a map: \<^verbatim>\<open>v, _ := m[k].(string)\<close>.\<close>

definition jstring :: "jmap \<Rightarrow> string \<Rightarrow> string" where
  "jstring m k = (case jget m k of Some (JStr s) \<Rightarrow> s | _ \<Rightarrow> [])"

section \<open>Small operations\<close>

definition GetSupportedRoles :: "('c, 'w) administration \<Rightarrow> string list" where
  "GetSupportedRoles adm =
     (if jget (SupportedFeatures adm) FeatureMultiUsers = Some True then SupportedRoles adm else [''admin''])"

definition generateUUID :: "('c, 'w) administration \<Rightarrow> ('c, 'w, string) aop" where
  "generateUUID adm = callA (GenerateUUID (Drv (Service adm)))"

definition GetDefaultCreateRequest :: "('c, 'w) administration \<Rightarrow> ('c, 'w, db_create_request) aop" where
  "GetDefaultCreateRequest adm =
     andthen (generateUUID adm) (\<lambda>p. andthen (generateUUID adm) (\<lambda>u.
     ret \<lparr>ReqDbName = [], ReqNamePrefix = None, ReqMetadata = [], ReqUsername = u, ReqPassword = p, ReqSettings = []\<rparr>))"

definition GetDefaultUserCreateRequest :: "('c, 'w) administration \<Rightarrow> ('c, 'w, user_create_request) aop" where
  "GetDefaultUserCreateRequest adm = andthen (generateUUID adm) (\<lambda>p. ret \<lparr>UcrDbName = [], UcrPassword = p, UcrRole = []\<rparr>)"

definition GetDBPrefix :: string where "GetDBPrefix = ''dbaas''"
definition GetDBPrefixDelimiter :: string where "GetDBPrefixDelimiter = ''-''"

definition getConnectionProperties :: "('c, 'w) administration \<Rightarrow> string \<Rightarrow> string \<Rightarrow> string \<Rightarrow> string \<Rightarrow> jmap" where
  "getConnectionProperties adm dbName username password role =
     (let authDbName = dbName; conf = Conf (Service adm) in
      [(''url'', JStr (Sprintf ''mongodb://%s:%d/%s'' [Str (ConfHost conf), Num (ConfPort conf), Str authDbName])),
       (''username'', JStr username), (''password'', JStr password), (''authDbName'', JStr authDbName), (''dbName'', JStr dbName)] @
      (if length role > 0 \<and> ApiVersion adm \<noteq> ''v1'' then [(''role'', JStr role)] else []))"

definition userResourceName :: "string \<Rightarrow> string \<Rightarrow> string" where
  "userResourceName authDb username = Sprintf ''%s:%s'' [Str authDb, Str username]"

section \<open>Creating a database\<close>

text \<open>\<^verbatim>\<open>:/'\"%?.,@#&*()\<close>, the characters the messages name.\<close>

definition forbiddenText :: string where
  "forbiddenText = '':/'' @ [CHR 0x27, CHR 0x5C, CHR 0x22] @ ''%?.,@#&*()''"

definition namingError :: "string \<Rightarrow> goerror" where
  "namingError what = ExecutionError (what @ '' must not contain the following characters '' @ forbiddenText)"

text \<open>The name a request asks for; without a name, a prefix or a classifier it is empty.\<close>

definition requestedName :: "('c, 'w) administration \<Rightarrow> db_create_request \<Rightarrow> ('c, 'w, goerror + string) aop" where
  "requestedName adm req =
     (if ReqDbName req \<noteq> [] then ret (Inr (ReqDbName req))
      else case ReqNamePrefix req of
        Some namePrefix \<Rightarrow>
          (if length namePrefix > 0
           then if \<not> MatchWhole nameRegexp namePrefix then ret (Inl (namingError ''namePrefix''))
                else andthen (callA (RegenerateDbName adm namePrefix 63)) (\<lambda>n. ret (Inr n))
           else ret (Inr []))
      | None \<Rightarrow>
          (case jget (ReqMetadata req) ''classifier'' of
             Some (JObj classifier) \<Rightarrow>
               (case (jget classifier ''namespace'', jget classifier ''microserviceName'') of
                  (Some (JStr namespace), Some (JStr microserviceName)) \<Rightarrow>
                    (case PrepareDatabaseName adm namespace microserviceName 63 of
                       Inl err \<Rightarrow> panic err | Inr shrinkedName \<Rightarrow> ret (Inr shrinkedName))
                | _ \<Rightarrow> ret (Inr []))
           | _ \<Rightarrow> ret (Inr [])))"

text \<open>The shard a request asks for has to be one of the cluster; the empty string stands for none.\<close>

definition checkTargetShard :: "('c, 'w) administration \<Rightarrow> string \<Rightarrow> ('c, 'w, goerror option) aop" where
  "checkTargetShard adm targetShard =
     (if targetShard = [] then ret None
      else andthen (IsValidShard (Service adm) targetShard) (\<lambda>(valid, err). case err of
        Some e \<Rightarrow> ret (Some (ExecutionError (Sprintf ''error getting shard details %v'' [Str (errorText (Service adm) e)])))
      | None \<Rightarrow> if valid then ret None
                else ret (Some (ExecutionError (Sprintf ''Shard [%v] is not a valid shard'' [Str targetShard])))))"

text \<open>The name, the settings, whether to move the database and whether to shard collections.\<close>

definition validateRequestParamsAndGetLogicalDbName ::
  "('c, 'w) administration \<Rightarrow> db_create_request \<Rightarrow> ('c, 'w, goerror + (string \<times> settings \<times> bool \<times> bool)) aop" where
  "validateRequestParamsAndGetLogicalDbName adm req =
     andthen (requestedName adm req) (\<lambda>x. case x of
       Inl e \<Rightarrow> ret (Inl e)
     | Inr dbName \<Rightarrow>
         if \<not> MatchWhole nameRegexp dbName then ret (Inl (namingError ''dbName''))
         else if \<not> MatchWhole nameRegexp (ReqUsername req) then ret (Inl (namingError ''userName''))
         else andthen (IsDatabaseAvailable (Service adm) dbName) (\<lambda>(available, err). case err of
           Some e \<Rightarrow> ret (Inl (ExecutionError (Sprintf ''error getting database list %v'' [Str (errorText (Service adm) e)])))
         | None \<Rightarrow>
             if \<not> available then ret (Inl (ExecutionError ''Database already exists''))
             else (let targetShard = jstring (ReqSettings req) ''targetShard'' in
               andthen (checkTargetShard adm targetShard) (\<lambda>err. case err of
                 Some e \<Rightarrow> ret (Inl e)
               | None \<Rightarrow> (case parseShardingSettings (ReqSettings req) of
                   Inl e \<Rightarrow> ret (Inl e)
                 | Inr parsed \<Rightarrow>
                     ret (Inr (dbName, parsed\<lparr>TargetShard := targetShard\<rparr>, targetShard \<noteq> [], ShardingSettings parsed \<noteq> [])))))))"

definition createRoleUser :: "('c, 'w) administration \<Rightarrow> db_create_request \<Rightarrow> string \<Rightarrow> string \<Rightarrow> ('c, 'w, goerror + (jmap \<times> db_resource)) aop" where
  "createRoleUser adm req logicalDatabaseName role =
     (let authDb = logicalDatabaseName in
      andthen (if role = ''admin'' then ret (ReqUsername req, ReqPassword req)
               else andthen (generateUUID adm) (\<lambda>u. andthen (generateUUID adm) (\<lambda>p. ret (Sprintf ''dbaas_%s'' [Str u], p))))
        (\<lambda>(username, password).
      andthen (CreateOrUpdateUser (Service adm) username password logicalDatabaseName authDb (rolesMapping role) False) (\<lambda>err. case err of
        Some e \<Rightarrow> ret (Inl e)
      | None \<Rightarrow> ret (Inr (getConnectionProperties adm logicalDatabaseName username password role,
                          resourceOf UserResourceKind (userResourceName authDb username))))))"

definition createDatabaseUsers :: "('c, 'w) administration \<Rightarrow> db_create_request \<Rightarrow> string \<Rightarrow> ('c, 'w, goerror + (jmap list \<times> db_resource list)) aop" where
  "createDatabaseUsers adm req logicalDatabaseName =
     (if ApiVersion adm = ''v2''
      then forFold (GetSupportedRoles adm) (\<lambda>role (connectionProps, resources).
        andthen (createRoleUser adm req logicalDatabaseName role) (\<lambda>x. ret (case x of
          Inl e \<Rightarrow> Inl e | Inr (props, res) \<Rightarrow> Inr (connectionProps @ [props], resources @ [res])))) ([], [])
      else andthen (CreateOrUpdateUser (Service adm) (ReqUsername req) (ReqPassword req) logicalDatabaseName logicalDatabaseName [] False) (\<lambda>err. case err of
        Some e \<Rightarrow> ret (Inl e)
      | None \<Rightarrow> ret (Inr ([getConnectionProperties adm logicalDatabaseName (ReqUsername req) (ReqPassword req) []],
                          [resourceOf UserResourceKind (userResourceName logicalDatabaseName (ReqUsername req))]))))"

text \<open>Everything between the validation and \<^verbatim>\<open>dbCreated = true\<close>.\<close>

definition setUpDatabase ::
  "('c, 'w) administration \<Rightarrow> db_create_request \<Rightarrow> string \<Rightarrow> settings \<Rightarrow> bool \<Rightarrow> ('c, 'w, goerror + (jmap list \<times> db_resource list)) aop" where
  "setUpDatabase adm req name shardSettings shardCollection =
     andthen (createDatabaseUsers adm req name) (\<lambda>x. case x of
       Inl e \<Rightarrow> ret (Inl e)
     | Inr users \<Rightarrow>
         andthen (RunWithGrants (Service adm) name (InsertOne (Service adm) name dbaasMetadata [(''metadata'', BMap (ReqMetadata req))])) (\<lambda>err. case err of
           Some e \<Rightarrow> ret (Inl e)
         | None \<Rightarrow>
             if shardCollection
             then andthen (EnableShardingAndCreateCollection (Service adm) name shardSettings) (\<lambda>err. case err of
               Some e \<Rightarrow> ret (Inl e) | None \<Rightarrow> ret (Inr users))
             else ret (Inr users)))"

text \<open>The deferred function drops the database unless it was created; the error of the drop is logged.\<close>

definition CreateDatabase :: "('c, 'w) administration \<Rightarrow> db_create_request \<Rightarrow> ('c, 'w, goerror + (string \<times> described)) aop" where
  "CreateDatabase adm req =
     andthen (validateRequestParamsAndGetLogicalDbName adm req) (\<lambda>x. case x of
       Inl validationError \<Rightarrow> ret (Inl validationError)
     | Inr (name, shardSettings, moveShard, shardCollection) \<Rightarrow>
         andthen (deferred (setUpDatabase adm req name shardSettings shardCollection) (\<lambda>r. case r of
             Ret (Inr _) \<Rightarrow> ret r
           | _ \<Rightarrow> andthen (DropDatabase (Service adm) name) (\<lambda>_. ret r))) (\<lambda>x. case x of
           Inl e \<Rightarrow> ret (Inl e)
         | Inr (connectionProps, resources) \<Rightarrow>
             andthen (if moveShard then EnsureDBOnShard (Service adm) name (TargetShard shardSettings) else ret None) (\<lambda>_.
             ret (Inr (name, \<lparr>DescConnection = connectionProps, DescResources = resources @ [resourceOf DbResourceKind name]\<rparr>)))))"

section \<open>Describing and dropping\<close>

definition describeDatabase :: "('c, 'w) administration \<Rightarrow> string \<Rightarrow> ('c, 'w, described) aop" where
  "describeDatabase adm name =
     andthen (GetRoles (Service adm) name) (\<lambda>x. case x of
       Inl e \<Rightarrow> panic e
     | Inr roles \<Rightarrow> andthen (GetDbOwner (Service adm) name) (\<lambda>x. case x of
         Inl e \<Rightarrow> panic e
       | Inr user \<Rightarrow> ret
           \<lparr>DescConnection = [getConnectionProperties adm name user [] []],
            DescResources = resourceOf DbResourceKind name # map (\<lambda>role. resourceOf UserResourceKind (name @ '':'' @ role)) roles\<rparr>))"

definition DescribeDatabases :: "('c, 'w) administration \<Rightarrow> string list \<Rightarrow> ('c, 'w, (string \<times> described) list) aop" where
  "DescribeDatabases adm logicalDatabases =
     andthen (forFold logicalDatabases (\<lambda>name dbsDescription.
       andthen (describeDatabase adm name) (\<lambda>d. ret (Inr (jput name d dbsDescription) :: unit + (string \<times> described) list))) [])
       (\<lambda>x. case x of Inl _ \<Rightarrow> ret [] | Inr m \<Rightarrow> ret m)"

definition GetDatabases :: "('c, 'w) administration \<Rightarrow> ('c, 'w, string list) aop" where
  "GetDatabases adm = andthen (ListDatabases (Service adm)) (\<lambda>(dbs, err). case err of Some e \<Rightarrow> panic e | None \<Rightarrow> ret dbs)"

definition dropResource :: "('c, 'w) administration \<Rightarrow> db_resource \<Rightarrow> ('c, 'w, db_resource) aop" where
  "dropResource adm resource =
     andthen (if ResKind resource = UserResourceKind then DropUser (Service adm) (ResName resource)
              else if ResKind resource = DbResourceKind
              then RunWithGrants (Service adm) (ResName resource) (DropDatabase (Service adm) (ResName resource))
              else ret None) (\<lambda>dropError.
     ret (case dropError of
       Some e \<Rightarrow> resource\<lparr>ResStatus := DELETE_FAILED adm, ResError := errorText (Service adm) e\<rparr>
     | None \<Rightarrow> resource\<lparr>ResStatus := DELETED adm\<rparr>))"

definition DropResources :: "('c, 'w) administration \<Rightarrow> db_resource list \<Rightarrow> ('c, 'w, db_resource list) aop" where
  "DropResources adm resources =
     andthen (forFold resources (\<lambda>resource dropStatuses.
       andthen (dropResource adm resource) (\<lambda>d. ret (Inr (dropStatuses @ [d]) :: unit + db_resource list))) [])
       (\<lambda>x. case x of Inl _ \<Rightarrow> ret [] | Inr ds \<Rightarrow> ret ds)"

section \<open>Metadata\<close>

text \<open>The comparison with \<^verbatim>\<open>mongo.ErrNoDocuments\<close> looks at the error of the client, not at that of the single result.\<close>

definition GetMetadata :: "('c, 'w) administration \<Rightarrow> string \<Rightarrow> ('c, 'w, jmap) aop" where
  "GetMetadata adm logicalDatabase =
     andthen (GetOne (Service adm) logicalDatabase dbaasMetadata) (\<lambda>x. case x of
       Inl err \<Rightarrow> if err = errNoDocuments then ret [] else panic err
     | Inr (Inl err) \<Rightarrow> panic err
     | Inr (Inr d) \<Rightarrow> (case DecodeMetadata (Drv (Service adm)) d of Inl err \<Rightarrow> panic err | Inr m \<Rightarrow> ret m))"

definition UpdateMetadata :: "('c, 'w) administration \<Rightarrow> jmap \<Rightarrow> string \<Rightarrow> ('c, 'w, unit) aop" where
  "UpdateMetadata adm newMetadata serviceName =
     andthen (RunWithGrants (Service adm) serviceName
       (InsertOrUpdate (Service adm) serviceName dbaasMetadata [(''metadata'', BMap newMetadata)])) (\<lambda>err. case err of
       Some e \<Rightarrow> panic e | None \<Rightarrow> ret ())"

section \<open>Users and roles\<close>

definition CreateDbUser :: "('c, 'w) administration \<Rightarrow> string \<Rightarrow> user_create_request \<Rightarrow> ('c, 'w, goerror + created_user) aop" where
  "CreateDbUser adm userName req =
     (let logicalDbName = (if UcrDbName req = [] then ConfAuthDb (Conf (Service adm)) else UcrDbName req); authDb = logicalDbName in
      andthen (if userName = [] then generateUUID adm else ret userName) (\<lambda>userName.
      andthen (if UcrPassword req = [] then generateUUID adm else ret (UcrPassword req)) (\<lambda>password.
      if \<not> MatchWhole nameRegexp userName then ret (Inl (namingError ''userName''))
      else andthen (CreateOrUpdateUser (Service adm) userName password logicalDbName authDb (rolesMapping (UcrRole req)) False) (\<lambda>err. case err of
        Some e \<Rightarrow> ret (Inl e)
      | None \<Rightarrow> ret (Inr
          \<lparr>CuConnection = getConnectionProperties adm logicalDbName userName password [],
           CuResources = [resourceOf UserResourceKind (userResourceName authDb userName), resourceOf DbKind logicalDbName],
           CuName = logicalDbName, CuRole = UcrRole req\<rparr>)))))"

definition MigrateToVault :: "('c, 'w) administration \<Rightarrow> string \<Rightarrow> string \<Rightarrow> ('c, 'w, goerror option) aop" where
  "MigrateToVault adm dbName userName =
     (let sv = Service adm; authDb = ConfAuthDb (Conf sv) in
      andthen (IsUserExist sv (Conf sv) userName authDb) (\<lambda>(userMigrated, err). case err of
        Some e \<Rightarrow> ret (Some e)
      | None \<Rightarrow>
          andthen (if \<not> userMigrated then CreateOrUpdateUser sv userName userName dbName authDb [] True else ret None) (\<lambda>err. case err of
            Some e \<Rightarrow> ret (Some e)
          | None \<Rightarrow> andthen (IsUserExist sv (Conf sv) userName dbName) (\<lambda>(oldUserCleanupNeeded, err).
              if oldUserCleanupNeeded
              then (case err of Some e \<Rightarrow> ret (Some e) | None \<Rightarrow> DropUser sv (userResourceName dbName userName))
              else ret None))))"

text \<open>The roles a database has users of; a missing role is a panic.\<close>

fun existingRoles :: "jmap list \<Rightarrow> ('s, string list) op" where
  "existingRoles [] = ret []"
| "existingRoles (props # ps) =
     (case jget props ''role'' of
        Some (JStr r) \<Rightarrow> andthen (existingRoles ps) (\<lambda>rs. ret (r # rs))
      | _ \<Rightarrow> panic interface_conversion)"

definition ContainsElement :: "string list \<Rightarrow> string \<Rightarrow> bool" where
  "ContainsElement slice element = list_ex (\<lambda>v. v = element) slice"

text \<open>The users of the missing roles of one database, until one cannot be created.\<close>

fun createMissing :: "('c, 'w) administration \<Rightarrow> string \<Rightarrow> string list \<Rightarrow> string list \<Rightarrow> jmap list \<Rightarrow> db_resource list \<Rightarrow>
    ('c, 'w, goerror option \<times> jmap list \<times> db_resource list) aop" where
  "createMissing adm dbName existing [] conProps resources = ret (None, conProps, resources)"
| "createMissing adm dbName existing (role # roles) conProps resources =
     (if ContainsElement existing role then createMissing adm dbName existing roles conProps resources
      else andthen (CreateDbUser adm [] \<lparr>UcrDbName = dbName, UcrPassword = [], UcrRole = rolesMapping role\<rparr>) (\<lambda>x. case x of
        Inl e \<Rightarrow> ret (Some e, conProps, resources)
      | Inr createdUser \<Rightarrow> createMissing adm dbName existing roles
          (conProps @ [jput ''role'' (JStr role) (CuConnection createdUser)]) (resources @ CuResources createdUser)))"

definition createRole :: "('c, 'w) administration \<Rightarrow> additional_role \<Rightarrow> ('c, 'w, goerror option \<times> success) aop" where
  "createRole adm additionalRole =
     andthen (existingRoles (ArConnection additionalRole)) (\<lambda>existing.
     andthen (createMissing adm (ArDbName additionalRole) existing (GetSupportedRoles adm) [] []) (\<lambda>(err, conProps, resources).
     ret (err, \<lparr>SucId = ArId additionalRole, SucConnection = conProps, SucResources = resources, SucDbName = ArDbName additionalRole\<rparr>)))"

text \<open>A panic ends the loop and is recovered; what was done before is returned.\<close>

fun createRolesFrom :: "('c, 'w) administration \<Rightarrow> additional_role list \<Rightarrow> success list \<Rightarrow> failure option \<Rightarrow>
    ('c, 'w, success list \<times> failure option) aop" where
  "createRolesFrom adm [] successes fail = ret (successes, fail)"
| "createRolesFrom adm (r # rs) successes fail =
     (\<lambda>s. case createRole adm r s of
        (Ret (err, suc), s') \<Rightarrow>
          createRolesFrom adm rs (successes @ [suc])
            (case err of Some e \<Rightarrow> Some \<lparr>FailId = ArId r, FailMessage = errorText (Service adm) e\<rparr> | None \<Rightarrow> fail) s'
      | (Panic e, s') \<Rightarrow>
          (Ret (successes, case fail of Some f \<Rightarrow> Some f
                           | None \<Rightarrow> Some \<lparr>FailId = ArId r, FailMessage = errorText (Service adm) e\<rparr>), s'))"

definition CreateRoles :: "('c, 'w) administration \<Rightarrow> additional_role list \<Rightarrow> ('c, 'w, success list \<times> failure option) aop" where
  "CreateRoles adm roles = createRolesFrom adm roles [] None"

section \<open>The handler of the settings\<close>

text \<open>The body is stored into a struct with two maps; a later member is added to an earlier one of its name.\<close>

definition storeMap :: "json \<Rightarrow> jmap \<Rightarrow> goerror + jmap" where
  "storeMap v m = (case v of JObj kvs \<Rightarrow> Inr (m @ kvs) | JNull \<Rightarrow> Inr [] | _ \<Rightarrow> Inl (JsonError ''map''))"

fun storeRequest :: "(string \<times> json) list \<Rightarrow> jmap \<times> jmap \<Rightarrow> goerror option \<Rightarrow> (jmap \<times> jmap) \<times> goerror option" where
  "storeRequest [] ms err = (ms, err)"
| "storeRequest ((k, v) # kvs) (current, new) err =
     (if field_eq k ''currentSettings''
      then (case storeMap v current of
              Inr m \<Rightarrow> storeRequest kvs (m, new) err
            | Inl e \<Rightarrow> storeRequest kvs (current, new) (case err of None \<Rightarrow> Some e | Some e' \<Rightarrow> Some e'))
      else if field_eq k ''newSettings''
      then (case storeMap v new of
              Inr m \<Rightarrow> storeRequest kvs (current, m) err
            | Inl e \<Rightarrow> storeRequest kvs (current, new) (case err of None \<Rightarrow> Some e | Some e' \<Rightarrow> Some e'))
      else storeRequest kvs (current, new) err)"

definition decodeUpdateRequest :: "json \<Rightarrow> goerror + (jmap \<times> jmap)" where
  "decodeUpdateRequest body =
     (case body of
        JObj kvs \<Rightarrow> (case storeRequest kvs ([], []) None of (ms, None) \<Rightarrow> Inr ms | (ms, Some e) \<Rightarrow> Inl e)
      | JNull \<Rightarrow> Inr ([], [])
      | _ \<Rightarrow> Inl (JsonError ''object''))"

definition UpdateMongodbSettingsHandler :: "'f fiber \<Rightarrow> ('c, 'w) administration \<Rightarrow> 'f \<Rightarrow> ('c, 'w, goerror option \<times> 'f) aop" where
  "UpdateMongodbSettingsHandler f adm ctx =
     (let dbName = Params f ctx ''dbName''; txt = errorText (Service adm) in
      andthen (ValidateDbIdentifierParam (ProcessEnv adm) dbName nameRegexp) (\<lambda>valid.
      if \<not> valid then ret (SendInvalidParameterResponse f ctx ''dbName'' dbName nameRegexpExpression)
      else case (case BodyParser f ctx of Inl e \<Rightarrow> Inl e | Inr body \<Rightarrow> decodeUpdateRequest body) of
        Inl err \<Rightarrow> ret (SendString f (txt err) (SetStatus f 500 ctx))
      | Inr (currentSettings, newSettings) \<Rightarrow> (case parseShardingSettings newSettings of
          Inl parseErr \<Rightarrow> ret (SendString f (txt parseErr) (SetStatus f 400 ctx))
        | Inr shardSettings \<Rightarrow>
            if ShardingSettings shardSettings = [] then ret (SendStatus f 200 ctx)
            else andthen (EnableShardingAndCreateCollection (Service adm) dbName shardSettings) (\<lambda>err. case err of
              Some e \<Rightarrow> ret (SendString f (txt e) (SetStatus f 500 ctx))
            | None \<Rightarrow> ret (SendStatus f 200 ctx)))))"

section \<open>The descriptor of the physical database\<close>

definition DescriptorPath :: string where "DescriptorPath = ''/api/v2/adapter/physical_database''"

text \<open>The API versions are values of the core library, of any type.\<close>

record 'v descriptor =
  PhysicalDatabaseId :: string
  DbType :: string
  DescriptorLabels :: smap
  ApiVersions :: 'v
  DescriptorFeatures :: "(string \<times> bool) list"
  DescriptorRoles :: "string list"
  ReadOnlyHost :: string

definition BuildDescriptor :: "string \<Rightarrow> string \<Rightarrow> smap option \<Rightarrow> 'v \<Rightarrow> (string \<times> bool) list \<Rightarrow> string list \<Rightarrow> string \<Rightarrow> 'v descriptor" where
  "BuildDescriptor physicalDatabaseId dbType labels versions features roles roHost =
     \<lparr>PhysicalDatabaseId = physicalDatabaseId, DbType = dbType,
      DescriptorLabels = (case labels of None \<Rightarrow> [] | Some l \<Rightarrow> l),
      ApiVersions = versions, DescriptorFeatures = features, DescriptorRoles = roles, ReadOnlyHost = roHost\<rparr>"

text \<open>The handler behind the basic authentication of the library; \<^verbatim>\<open>marshal\<close> is \<^verbatim>\<open>json.Marshal\<close> of a descriptor.\<close>

definition descriptorHandler :: "'f fiber \<Rightarrow> ('v descriptor \<Rightarrow> string) \<Rightarrow> 'v descriptor \<Rightarrow> 'f \<Rightarrow> goerror option \<times> 'f" where
  "descriptorHandler f marshal d c =
     (if PhysicalDatabaseId d = [] \<or> DbType d = []
      then SendString f ''Physical database identifier is not specified'' (SetStatus f 503 c)
      else SetJSON f (marshal d) c)"

end
