(* ===== verification/DbaasServer.thy ===== *)
theory DbaasServer
  imports DbaasMongo
begin

text \<open>
  A small mongo server on which the examples of the DBaaS adapter run: it answers the commands the adapter sends
  as the documentation of MongoDB describes them, keeps the roles of the adapter's user, the databases, the users,
  the keys of sharded collections and the number of their documents, and refuses the operations named in
  \<^verbatim>\<open>Failing\<close>.  \<^verbatim>\<open>Log\<close> is the sequence of operations.
\<close>

record mongod =
  HeldRoles :: "(string \<times> string) list"
  Dbs :: "string list"
  Users :: "(string \<times> string) list"
  CollKeys :: "(string \<times> doc) list"
  DocCount :: int
  Failing :: "string list"
  Log :: "string list"
  Fresh :: nat

definition logged :: "string \<Rightarrow> (mongod \<Rightarrow> 'a \<times> mongod) \<Rightarrow> 'a \<Rightarrow> (mongod, 'a) op" where
  "logged name f refusal =
     (\<lambda>w. let w = w\<lparr>Log := Log w @ [name]\<rparr> in
          if name \<in> set (Failing w) then (Ret refusal, w) else case f w of (x, w') \<Rightarrow> (Ret x, w'))"

definition refusalOf :: "string \<Rightarrow> goerror" where
  "refusalOf name = GoError (name @ '' refused'')"

definition usersDoc :: "string \<Rightarrow> (string \<Rightarrow> bool) \<Rightarrow> mongod \<Rightarrow> doc" where
  "usersDoc db P w = [(''users'', BArr (map (\<lambda>(d, u). BDoc [(''user'', BStr u), (''db'', BStr d)]) (filter (\<lambda>(d, u). d = db \<and> P u) (Users w))))]"

definition answerTo :: "string \<Rightarrow> doc \<Rightarrow> mongod \<Rightarrow> (goerror + doc) \<times> mongod" where
  "answerTo db cmd w =
     (case cmd of
        [(k, BStr u), (k', BArr [BDoc [(k1, BStr role), (k2, BStr d)]])] \<Rightarrow>
          (Inr [], if k = ''grantRolesToUser'' then w\<lparr>HeldRoles := List.insert (role, d) (HeldRoles w)\<rparr>
                   else if k = ''revokeRolesFromUser'' then w\<lparr>HeldRoles := removeAll (role, d) (HeldRoles w)\<rparr> else w)
      | (k, BStr u) # rest \<Rightarrow>
          (if k = ''usersInfo'' then (Inr (usersDoc db (\<lambda>n. n = u) w), w)
           else if k = ''createUser'' then (Inr [], w\<lparr>Users := List.insert (db, u) (Users w)\<rparr>)
           else if k = ''dropUser'' then (Inr [], w\<lparr>Users := removeAll (db, u) (Users w)\<rparr>)
           else if k = ''shardCollection'' \<or> k = ''refineCollectionShardKey''
           then (Inr [], case rest of (_, BDoc key) # _ \<Rightarrow> w\<lparr>CollKeys := (u, storedDoc key) # CollKeys w\<rparr> | _ \<Rightarrow> w)
           else (Inr [], w))
      | (k, BInt n) # rest \<Rightarrow>
          (if k = ''usersInfo'' then (Inr (usersDoc db (\<lambda>n. True) w), w)
           else if k = ''listShards'' then (Inr [(''shards'', BArr [BDoc [(''host'', BStr ''datars1/datars10:27017'')]])], w)
           else (Inr [], w))
      | _ \<Rightarrow> (Inr [], w))"

definition plainDriver :: "(nat, mongod) driver" where
  "plainDriver =
     \<lparr>Connect = (\<lambda>uri. logged ''connect'' (\<lambda>w. (Inr (length uri), w)) (Inl (refusalOf ''connect''))),
      DisconnectClient = (\<lambda>c. logged ''disconnect'' (\<lambda>w. ((), w)) ()),
      RunCommand = (\<lambda>c db cmd. let name = (case cmd of [] \<Rightarrow> [] | (k, v) # _ \<Rightarrow> k) in
        logged name (answerTo db cmd) (Inl (refusalOf name))),
      DropDb = (\<lambda>c db. logged ''dropDatabase'' (\<lambda>w. (None, w\<lparr>Dbs := removeAll db (Dbs w)\<rparr>)) (Some (refusalOf ''dropDatabase''))),
      ListDatabaseNames = (\<lambda>c. logged ''listDatabases'' (\<lambda>w. ((Dbs w, None), w)) ([], Some (refusalOf ''listDatabases''))),
      FindOne = (\<lambda>c db coll flt. logged ''find'' (\<lambda>w.
        (case flt of [(k, BStr ns)] \<Rightarrow>
            (case map_of (CollKeys w) ns of Some key \<Rightarrow> Inr [(''key'', BDoc key)] | None \<Rightarrow> Inl errNoDocuments)
          | _ \<Rightarrow> Inl errNoDocuments, w)) (Inl (refusalOf ''find''))),
      FindAll = (\<lambda>c db coll. logged ''find'' (\<lambda>w. (Inr [[(''_id'', BStr ''datars1'')]], w)) (Inl (refusalOf ''find''))),
      CreateColl = (\<lambda>c db coll. logged ''create'' (\<lambda>w. (None, w)) (Some (refusalOf ''create''))),
      InsertDoc = (\<lambda>c db coll d. logged ''insert'' (\<lambda>w. (None, w\<lparr>Dbs := List.insert db (Dbs w)\<rparr>)) (Some (refusalOf ''insert''))),
      UpdateManyUpsert = (\<lambda>c db coll flt d. logged ''update'' (\<lambda>w. (None, w)) (Some (refusalOf ''update''))),
      CreateIndex = (\<lambda>c db coll d. logged ''createIndexes'' (\<lambda>w. (None, w)) (Some (refusalOf ''createIndexes''))),
      EstimatedDocumentCount = (\<lambda>c db coll. logged ''count'' (\<lambda>w. (Inr (DocCount w), w)) (Inl (refusalOf ''count''))),
      SleepMs = (\<lambda>n. logged ''sleep'' (\<lambda>w. ((), w)) ()),
      GenerateUUID = (\<lambda>w. (Ret (''uuid'' @ show_nat (Fresh w)), w\<lparr>Fresh := Suc (Fresh w)\<rparr>)),
      DecodeError = (\<lambda>k v. GoError (''error decoding key '' @ k)),
      DecodeMetadata = (\<lambda>d. Inr []),
      DrvErrText = (\<lambda>e. ''error''),
      DrvErrType = (\<lambda>e. ''*errors.errorString''),
      DrvShowDoc = (\<lambda>d. ''key'')\<rparr>"

definition plainService :: "(nat, mongod) mongo_service" where
  "plainService =
     \<lparr>Drv = plainDriver,
      Conf = \<lparr>ConfHost = ''mongos.mongo'', ConfPort = 27, ConfUser = ''dbaas'', ConfPass = ''secret'', ConfAuthDb = ''admin''\<rparr>,
      TLSMain = False, RootCert = []\<rparr>"

definition emptyServer :: mongod where
  "emptyServer =
     \<lparr>HeldRoles = [], Dbs = [''admin''], Users = [], CollKeys = [], DocCount = 0, Failing = [], Log = [], Fresh = 0\<rparr>"

definition adapterOn :: "mongod \<Rightarrow> (nat, mongod) astate" where
  "adapterOn w = \<lparr>Clients = [(Conf plainService, 1)], Started = [], AWorld = w\<rparr>"

lemmas server_defs = plainService_def adapterOn_def emptyServer_def plainDriver_def logged_def refusalOf_def answerTo_def
  usersDoc_def grantDoc_def revokeDoc_def roleDoc_def

end
