(* ===== verification/DbaasGrants.thy ===== *)
theory DbaasGrants
  imports DbaasServer
begin

text \<open>
  The roles the adapter grants to its own user for the time of an operation: the contract of \<^verbatim>\<open>RunWithGrants\<close> and
  \<^verbatim>\<open>RunWithClusterGrants\<close>, what becomes of the error of the function they run, and what happens when several
  requests, which the server handles at the same time, grant and revoke the same role.
\<close>

section \<open>The contract of a bracket\<close>

locale role_bracket =
  fixes acquire release :: "('s, goerror + (goerror + doc)) op"
    and run :: "('s, goerror option) op \<Rightarrow> ('s, goerror option) op"
  assumes refused: "acquire s = (Ret x, t) \<Longrightarrow> resultErr x = Some e \<Longrightarrow> run ff s = (Ret (Some e), t)"
    and stuck: "acquire s = (Panic e, t) \<Longrightarrow> run ff s = (Panic e, t)"
    and ran: "acquire s = (Ret x, t) \<Longrightarrow> resultErr x = None \<Longrightarrow> ff t = (r, u) \<Longrightarrow> release u = (Ret y, v) \<Longrightarrow>
      run ff s = (case r of Ret _ \<Rightarrow> Ret (resultErr y) | Panic e \<Rightarrow> Panic e, v)"
    and unreleased: "acquire s = (Ret x, t) \<Longrightarrow> resultErr x = None \<Longrightarrow> ff t = (r, u) \<Longrightarrow> release u = (Panic e, v) \<Longrightarrow>
      run ff s = (Panic e, v)"
begin

text \<open>The error of the function is lost when the release succeeds.\<close>

lemma error_lost:
  "acquire s = (Ret x, t) \<Longrightarrow> resultErr x = None \<Longrightarrow> ff t = (Ret r, u) \<Longrightarrow> release u = (Ret y, v) \<Longrightarrow>
   run ff s = (Ret (resultErr y), v)"
  by (simp add: ran)

text \<open>What the function reports is of no account.\<close>

lemma error_ignored: "run ff s = run (andthen ff (\<lambda>_. ret None)) s"
proof (cases "acquire s")
  case (Pair a t)
  show ?thesis
  proof (cases a)
    case (Panic e)
    then show ?thesis using stuck [where s = s and e = e and t = t] Pair by simp
  next
    case (Ret x)
    obtain r u where f: "ff t = (r, u)" by fastforce
    obtain b w where g: "release u = (b, w)" by fastforce
    have f': "andthen ff (\<lambda>_. ret (None :: goerror option)) t = (case r of Ret _ \<Rightarrow> Ret None | Panic e \<Rightarrow> Panic e, u)"
      using f by (cases r) (simp_all add: andthen_apply ret_apply)
    show ?thesis
    proof (cases "resultErr x")
      case (Some e)
      then show ?thesis using refused [where s = s and x = x and t = t] Pair Ret by simp
    next
      case None
      let ?ff = "andthen ff (\<lambda>_. ret None)" and ?r = "case r of Ret _ \<Rightarrow> Ret None | Panic e \<Rightarrow> Panic e"
      show ?thesis
      proof (cases b)
        case (Ret y)
        then show ?thesis
          using ran [where ff = ff and s = s and x = x and t = t and r = r and u = u and y = y and v = w]
            ran [where ff = ?ff and s = s and x = x and t = t and r = ?r and u = u and y = y and v = w]
            Pair \<open>a = Ret x\<close> None f f' g by (cases r) simp_all
      next
        case (Panic e)
        then show ?thesis
          using unreleased [where ff = ff and s = s and x = x and t = t and r = r and u = u and e = e and v = w]
            unreleased [where ff = ?ff and s = s and x = x and t = t and r = ?r and u = u and e = e and v = w]
            Pair \<open>a = Ret x\<close> None f f' g by simp
      qed
    qed
  qed
qed

text \<open>However the bracket ends, it was refused or its last act was the release.\<close>

lemma ends_with_release:
  assumes "run ff s = (z, v)"
  obtains (NotGranted) x e where "acquire s = (Ret x, v)" "resultErr x = Some e" "z = Ret (Some e)"
    | (Died) e where "acquire s = (Panic e, v)" "z = Panic e"
    | (Released) x t r u where "acquire s = (Ret x, t)" "resultErr x = None" "ff t = (r, u)" "snd (release u) = v"
proof (cases "acquire s")
  case (Pair a t)
  show thesis
  proof (cases a)
    case (Panic e)
    then show thesis using stuck [of s e t ff] Pair assms that(2) by simp
  next
    case (Ret x)
    obtain r u where f: "ff t = (r, u)" by fastforce
    obtain b w where g: "release u = (b, w)" by fastforce
    show thesis
    proof (cases "resultErr x")
      case None
      have "run ff s = ((case b of Ret y \<Rightarrow> (case r of Ret _ \<Rightarrow> Ret (resultErr y) | Panic e \<Rightarrow> Panic e) | Panic e \<Rightarrow> Panic e), w)"
        using ran [where s = s and x = x and t = t and ff = ff and r = r and u = u]
          unreleased [where s = s and x = x and t = t and ff = ff and r = r and u = u] Pair Ret g None f
        by (cases b) simp_all
      then show thesis using that(3) Pair Ret None f g assms by simp
    next
      case (Some e)
      then show thesis using refused [where s = s and x = x and t = t and ff = ff] Pair Ret assms that(1) by simp
    qed
  qed
qed

lemma success:
  assumes "run ff s = (Ret None, v)"
  obtains x t r u y where "acquire s = (Ret x, t)" "resultErr x = None" "ff t = (Ret r, u)" "release u = (Ret y, v)" "resultErr y = None"
proof (cases rule: ends_with_release [OF assms])
  case (3 x t r u)
  obtain b where g: "release u = (b, v)" using 3(4) by (metis prod.collapse)
  show thesis
    using ran [where s = s and x = x and t = t and ff = ff and r = r and u = u]
      unreleased [where s = s and x = x and t = t and ff = ff and r = r and u = u] g assms that [where x = x and t = t and u = u] 3
    by (cases b; cases r) simp_all
qed auto

end

lemma bracket_facts:
  assumes "\<And>ff. run ff = andthen acquire (\<lambda>result. case resultErr result of
       Some e \<Rightarrow> ret (Some e)
     | None \<Rightarrow> deferred ff (\<lambda>r. andthen release (\<lambda>result. ret (case r of Ret _ \<Rightarrow> Ret (resultErr result) | Panic e \<Rightarrow> Panic e))))"
  shows "role_bracket acquire release run"
  by unfold_locales (auto simp: assms andthen_apply deferred_def ret_apply)

interpretation db_grants: role_bracket "GrantRole sv db dbOwner" "RevokeRole sv db dbOwner" "RunWithGrants sv db" for sv db
  by (rule bracket_facts) (simp add: RunWithGrants_def)

interpretation cluster_grants: role_bracket "GrantRole sv db clusterAdmin" "RevokeRole sv db clusterAdmin" "RunWithClusterGrants sv db" for sv db
  by (rule bracket_facts) (simp add: RunWithClusterGrants_def)

section \<open>Held roles\<close>

text \<open>
  What the server documents of the two commands, and that connecting changes no role; \<^verbatim>\<open>held w\<close> are the roles of the
  adapter's user.
\<close>

definition grant_laws :: "('c, 'w) driver \<Rightarrow> string \<Rightarrow> ('w \<Rightarrow> (string \<times> string) set) \<Rightarrow> bool" where
  "grant_laws d user held =
     ((\<forall>c adb role db w x w'. RunCommand d c adb (grantDoc user role db) w = (Ret (Inr x), w') \<longrightarrow> held w' = insert (role, db) (held w)) \<and>
      (\<forall>c adb role db w x w'. RunCommand d c adb (revokeDoc user role db) w = (Ret (Inr x), w') \<longrightarrow> held w' = held w - {(role, db)}) \<and>
      (\<forall>uri w r w'. Connect d uri w = (r, w') \<longrightarrow> held w' = held w))"

lemma grant_lawsD:
  assumes "grant_laws d user held"
  shows "RunCommand d c adb (grantDoc user role db) w = (Ret (Inr x), w') \<Longrightarrow> held w' = insert (role, db) (held w)"
    "RunCommand d c adb (revokeDoc user role db) w = (Ret (Inr x), w') \<Longrightarrow> held w' = held w - {(role, db)}"
    "Connect d uri w = (r, w') \<Longrightarrow> held w' = held w"
proof -
  note laws = assms [unfolded grant_laws_def]
  show "RunCommand d c adb (grantDoc user role db) w = (Ret (Inr x), w') \<Longrightarrow> held w' = insert (role, db) (held w)"
    by (rule laws [THEN conjunct1, rule_format])
  show "RunCommand d c adb (revokeDoc user role db) w = (Ret (Inr x), w') \<Longrightarrow> held w' = held w - {(role, db)}"
    by (rule laws [THEN conjunct2, THEN conjunct1, rule_format])
  show "Connect d uri w = (r, w') \<Longrightarrow> held w' = held w"
    by (rule laws [THEN conjunct2, THEN conjunct2, rule_format])
qed

abbreviation heldIn :: "('w \<Rightarrow> (string \<times> string) set) \<Rightarrow> ('c, 'w) astate \<Rightarrow> (string \<times> string) set" where
  "heldIn held s \<equiv> held (AWorld s)"

lemma GetMongoClient_held:
  assumes "grant_laws (Drv sv) user held" "GetMongoClient sv conf s = (r, t)"
  shows "heldIn held t = heldIn held s"
proof (cases "map_of (Clients s) conf")
  case None
  obtain x w where c: "Connect (Drv sv) (connectionURI (TLSMain sv) (RootCert sv) conf) (AWorld s) = (x, w)" by fastforce
  then have "held w = heldIn held s" by (rule grant_lawsD(3) [OF assms(1)])
  moreover have "AWorld t = w"
    using assms(2) c unfolding GetMongoClient_fresh [OF None] by (auto split: res.splits sum.splits)
  ultimately show ?thesis by simp
next
  case (Some c)
  then show ?thesis using assms(2) by (simp add: GetMongoClient_cached)
qed

lemma roleCommand_held:
  assumes "grant_laws (Drv sv) user held" "resultErr x = None"
    and "withClient sv conf Inl (\<lambda>client. andthen (runCommand sv client adb cmd) (\<lambda>x. ret (Inr x))) s = (Ret x, t)"
  obtains w c d where "held w = heldIn held s" "RunCommand (Drv sv) c adb cmd w = (Ret (Inr d), AWorld t)"
proof -
  obtain m u where m: "GetMongoClient sv conf s = (Ret m, u)" and rest:
    "(case m of Inl err \<Rightarrow> ret (Inl err) | Inr client \<Rightarrow> andthen (runCommand sv client adb cmd) (\<lambda>x. ret (Inr x))) u = (Ret x, t)"
    using assms(3) by (auto simp: withClient_def elim: andthen_RetE)
  have held: "heldIn held u = heldIn held s" by (rule GetMongoClient_held [OF assms(1) m])
  obtain c where c: "m = Inr c" using rest assms(2) by (cases m) (auto simp: resultErr_def)
  obtain y w where y: "RunCommand (Drv sv) c adb cmd (AWorld u) = (Ret y, w)" "x = Inr y" "t = u\<lparr>AWorld := w\<rparr>"
    using rest c by (auto simp: runCommand_def andthen_apply callA_apply ret_apply split: prod.splits res.splits)
  obtain d where "y = Inr d" using y(2) assms(2) by (cases y) (auto simp: resultErr_def)
  then show thesis using that [where w = "AWorld u" and c = c and d = d] held y by simp
qed

lemma GrantRole_held:
  assumes "grant_laws (Drv sv) (ConfUser (Conf sv)) held" "GrantRole sv db role s = (Ret x, t)" "resultErr x = None"
  shows "heldIn held t = insert (role, db) (heldIn held s)"
proof -
  obtain w c d where "held w = heldIn held s"
    "RunCommand (Drv sv) c (ConfAuthDb (Conf sv)) (grantDoc (ConfUser (Conf sv)) role db) w = (Ret (Inr d), AWorld t)"
    using roleCommand_held [OF assms(1,3) assms(2) [unfolded GrantRole_def]] by blast
  then show ?thesis using grant_lawsD [OF assms(1)] by metis
qed

lemma RevokeRole_held:
  assumes "grant_laws (Drv sv) (ConfUser (Conf sv)) held" "RevokeRole sv db role s = (Ret x, t)" "resultErr x = None"
  shows "heldIn held t = heldIn held s - {(role, db)}"
proof -
  obtain w c d where "held w = heldIn held s"
    "RunCommand (Drv sv) c (ConfAuthDb (Conf sv)) (revokeDoc (ConfUser (Conf sv)) role db) w = (Ret (Inr d), AWorld t)"
    using roleCommand_held [OF assms(1,3) assms(2) [unfolded RevokeRole_def]] by blast
  then show ?thesis using grant_lawsD [OF assms(1)] by metis
qed

text \<open>C4: after a bracket that reports success the adapter's user does not hold the role, and the function ran while the
  user held it.\<close>

theorem grants_are_revoked:
  assumes "grant_laws (Drv sv) (ConfUser (Conf sv)) held" "RunWithGrants sv db ff s = (Ret None, s')"
  shows "(dbOwner, db) \<notin> heldIn held s' \<and> (\<exists>t r u. ff t = (Ret r, u) \<and> (dbOwner, db) \<in> heldIn held t)"
proof -
  obtain x t r u y where b: "GrantRole sv db dbOwner s = (Ret x, t)" "resultErr x = None" "ff t = (Ret r, u)"
    "RevokeRole sv db dbOwner u = (Ret y, s')" "resultErr y = None"
    by (rule db_grants.success [OF assms(2)])
  show ?thesis using GrantRole_held [OF assms(1) b(1,2)] RevokeRole_held [OF assms(1) b(4,5)] b(3) by auto
qed

section \<open>Requests at the same time\<close>

text \<open>
  Several brackets for the same role and database, each at a point of its run: before the grant, between the grant
  and the function, between the function and the revocation, at its end.  A step is one of these acts of one
  bracket.  A grant or a revocation that is answered with an error leaves its bracket failed.
\<close>

datatype phase = Waiting | Granted | Worked | Ended | Failed

definition bracketPhase :: "phase \<Rightarrow> goerror + (goerror + doc) \<Rightarrow> phase" where
  "bracketPhase p x = (if resultErr x = None then p else Failed)"

inductive bracket_step ::
  "('c, 'w) mongo_service \<Rightarrow> string \<Rightarrow> string \<Rightarrow> ('c, 'w, goerror option) aop list \<Rightarrow>
   phase list \<times> ('c, 'w) astate \<Rightarrow> phase list \<times> ('c, 'w) astate \<Rightarrow> bool"
  for sv :: "('c, 'w) mongo_service" and db role :: string and jobs :: "('c, 'w, goerror option) aop list" where
  grant: "i < length ps \<Longrightarrow> ps ! i = Waiting \<Longrightarrow> GrantRole sv db role s = (Ret x, t) \<Longrightarrow>
    bracket_step sv db role jobs (ps, s) (ps[i := bracketPhase Granted x], t)"
| work: "i < length ps \<Longrightarrow> ps ! i = Granted \<Longrightarrow> (jobs ! i) s = (r, t) \<Longrightarrow>
    bracket_step sv db role jobs (ps, s) (ps[i := Worked], t)"
| revoke: "i < length ps \<Longrightarrow> ps ! i = Worked \<Longrightarrow> RevokeRole sv db role s = (Ret x, t) \<Longrightarrow>
    bracket_step sv db role jobs (ps, s) (ps[i := bracketPhase Ended x], t)"

inductive_cases bracket_stepE: "bracket_step sv db role jobs (ps, s) (ps', s')"

text \<open>A bracket that runs alone and succeeds is a path of these steps.\<close>

lemma bracket_alone:
  assumes "RunWithGrants sv db ff s = (Ret None, s')"
  shows "(bracket_step sv db dbOwner [ff])\<^sup>*\<^sup>* ([Waiting], s) ([Ended], s')"
proof -
  obtain x t r u y where b: "GrantRole sv db dbOwner s = (Ret x, t)" "resultErr x = None" "ff t = (Ret r, u)"
    "RevokeRole sv db dbOwner u = (Ret y, s')" "resultErr y = None"
    by (rule db_grants.success [OF assms])
  have "bracket_step sv db dbOwner [ff] ([Waiting], s) ([Granted], t)"
    using bracket_step.grant [where i = 0 and ps = "[Waiting]", OF _ _ b(1)] b(2) by (simp add: bracketPhase_def)
  moreover have "bracket_step sv db dbOwner [ff] ([Granted], t) ([Worked], u)"
    using bracket_step.work [where i = 0 and ps = "[Granted]" and jobs = "[ff]" and s = t] b(3) by simp
  moreover have "bracket_step sv db dbOwner [ff] ([Worked], u) ([Ended], s')"
    using bracket_step.revoke [where i = 0 and ps = "[Worked]", OF _ _ b(4)] b(5) by (simp add: bracketPhase_def)
  ultimately show ?thesis by (meson converse_rtranclp_into_rtranclp rtranclp.rtrancl_refl)
qed

text \<open>A bracket that has not ended accounts for a role that is held.\<close>

definition unfinished :: "phase list \<Rightarrow> bool" where
  "unfinished ps = list_ex (\<lambda>p. p \<in> {Granted, Worked, Failed}) ps"

lemma unfinished_set: "unfinished ps \<longleftrightarrow> (\<exists>p \<in> set ps. p \<in> {Granted, Worked, Failed})"
  by (auto simp: unfinished_def list_ex_iff)

lemma unfinished_update: "i < length ps \<Longrightarrow> p \<in> {Granted, Worked, Failed} \<Longrightarrow> unfinished (ps[i := p])"
  unfolding unfinished_set by (rule bexI) (auto simp: set_update_memI)

definition accounted :: "('w \<Rightarrow> (string \<times> string) set) \<Rightarrow> string \<Rightarrow> string \<Rightarrow> phase list \<times> ('c, 'w) astate \<Rightarrow> bool" where
  "accounted held db role c = ((role, db) \<in> heldIn held (snd c) \<longrightarrow> unfinished (fst c))"

lemma bracket_step_accounted:
  assumes "bracket_step sv db role jobs c c'" "accounted held db role c"
    and "grant_laws (Drv sv) (ConfUser (Conf sv)) held"
  shows "accounted held db role c'"
  using assms(1,2)
proof (cases rule: bracket_step.cases)
  case (grant i ps s x t)
  then show ?thesis by (auto simp: accounted_def bracketPhase_def intro!: unfinished_update)
next
  case (work i ps s r t)
  then show ?thesis by (auto simp: accounted_def intro!: unfinished_update)
next
  case (revoke i ps s x t)
  then show ?thesis
    using RevokeRole_held [OF assms(3) revoke(5)]
    by (cases "resultErr x") (auto simp: accounted_def bracketPhase_def intro!: unfinished_update)
qed

text \<open>C23: when requests that ran at the same time have all ended, in whatever order their acts were interleaved and
  whatever their functions did, the adapter's user does not hold the role, if it did not before and no grant and no
  revocation was answered with an error.\<close>

theorem no_role_left_behind:
  assumes "(bracket_step sv db role jobs)\<^sup>*\<^sup>* (ps, s) (ps', s')" "grant_laws (Drv sv) (ConfUser (Conf sv)) held"
    and "(role, db) \<notin> heldIn held s" "set ps' \<subseteq> {Ended}"
  shows "(role, db) \<notin> heldIn held s'"
proof -
  have "accounted held db role (ps', s')"
    using assms(1)
  proof (induction rule: rtranclp_induct)
    case base
    then show ?case using assms(3) by (simp add: accounted_def)
  next
    case (step y z)
    then show ?case using bracket_step_accounted assms(2) by blast
  qed
  then show ?thesis using assms(4) by (auto simp: accounted_def unfinished_set)
qed

section \<open>Examples\<close>

lemma plainDriver_grant_laws: "grant_laws plainDriver user (\<lambda>w. set (HeldRoles w))"
  by (auto simp: grant_laws_def server_defs Let_def split: if_splits)

lemma plainService_grant_laws: "grant_laws (Drv plainService) (ConfUser (Conf plainService)) (\<lambda>w. set (HeldRoles w))"
  by (simp add: plainService_def plainDriver_grant_laws)

definition shopKey :: sharding_settings where
  "shopKey = \<lparr>CollectionName = ''orders'', ShardKeys = [\<lparr>KeyField = ''customerId'', Hashed = True\<rparr>]\<rparr>"

lemma grants_are_revoked_witness:
  "\<exists>s'. RunWithGrants plainService ''shop'' (CreateShardKeyIndex plainService ''shop'' shopKey) (adapterOn emptyServer) = (Ret None, s') \<and>
     (dbOwner, ''shop'') \<notin> set (HeldRoles (AWorld s'))"
proof -
  obtain s' where r: "RunWithGrants plainService ''shop'' (CreateShardKeyIndex plainService ''shop'' shopKey) (adapterOn emptyServer) = (Ret None, s')"
    by (rule that) code_simp
  show ?thesis using grants_are_revoked [OF plainService_grant_laws r] r by auto
qed

lemma no_role_left_behind_witness:
  "\<exists>s'. (bracket_step plainService ''shop'' dbOwner [CreateShardKeyIndex plainService ''shop'' shopKey])\<^sup>*\<^sup>*
       ([Waiting], adapterOn emptyServer) ([Ended], s') \<and> (dbOwner, ''shop'') \<notin> set (HeldRoles (AWorld s'))"
proof -
  obtain s' where r: "RunWithGrants plainService ''shop'' (CreateShardKeyIndex plainService ''shop'' shopKey) (adapterOn emptyServer) = (Ret None, s')"
    by (rule that) code_simp
  show ?thesis
    using no_role_left_behind [OF bracket_alone [OF r] plainService_grant_laws] bracket_alone [OF r] by (auto simp: server_defs)
qed

end
