(* ===== verification/DbaasOps.thy ===== *)
theory DbaasOps
  imports DbaasGrants
begin

text \<open>
  Properties of the operations of \<^verbatim>\<open>MongoServiceImpl\<close>: sharding as the guide of the settings documents it, the
  settings a request is parsed into, the search for the owner of a database, the credentials of a connection.
\<close>

section \<open>Sharding\<close>

text \<open>
  The table of the guide (\<^verbatim>\<open>src/docs/public/installation_guide.md\<close>, What the API Does With Your Settings) for a
  collection that is sharded: the requested key is a prefix of the current one or the same (nothing happens), the
  current one is a strict prefix of the requested one (the key is refined), or neither (an error).
\<close>

datatype decision = Satisfied | Refinable | Unrelated

definition documentedDecision :: "'a list \<Rightarrow> 'a list \<Rightarrow> decision" where
  "documentedDecision current requested =
     (if prefix requested current then Satisfied else if strict_prefix current requested then Refinable else Unrelated)"

lemma ShardNonSharded_sharded:
  assumes "IsCollectionSharded sv db st s = (Ret (Inr (Some key)), t)" "hashedFieldCount (ShardKeys st) \<le> 1"
  shows "ShardNonShardedCollection sv db st s =
    (case documentedDecision (map fieldOf key) (map Some (ShardKeys st)) of
       Satisfied \<Rightarrow> (Ret None, t)
     | Refinable \<Rightarrow> refineCollection sv db st t
     | Unrelated \<Rightarrow> (Ret (Some (GoError (Sprintf ''collection %s.%s is already sharded with a different key %v''
         [Str db, Str (CollectionName st), Str (DrvShowDoc (Drv sv) key)]))), t))"
  using assms by (simp add: ShardNonShardedCollection_def shardKeyMatches_prefix documentedDecision_def andthen_apply Let_def ret_apply)

text \<open>C7: a collection that is sharded already is treated as the guide says: the request is skipped when its key is a
  prefix of the current key or the same, the key is refined when the current key is a strict prefix of it, and the
  request is rejected otherwise.  A field of the current key that is not ascending or hashed matches none.\<close>

theorem sharding_as_documented:
  assumes "IsCollectionSharded sv db st s = (Ret (Inr (Some key)), t)" "hashedFieldCount (ShardKeys st) \<le> 1"
  shows "ShardNonShardedCollection sv db st s =
    (case documentedDecision (map fieldOf key) (map Some (ShardKeys st)) of
       Satisfied \<Rightarrow> (Ret None, t)
     | Refinable \<Rightarrow> refineCollection sv db st t
     | Unrelated \<Rightarrow> (Ret (Some (GoError (Sprintf ''collection %s.%s is already sharded with a different key %v''
         [Str db, Str (CollectionName st), Str (DrvShowDoc (Drv sv) key)]))), t))"
  by (rule ShardNonSharded_sharded [OF assms])

text \<open>Sending the same settings again is safe: for a collection that has the key the adapter builds from them, as the
  server stores it, nothing but the lookup happens.\<close>

theorem resubmission_skipped:
  assumes "IsCollectionSharded sv db st s = (Ret (Inr (Some (storedDoc (buildShardKeyDoc (ShardKeys st))))), t)"
    and "wellFormed st"
  shows "ShardNonShardedCollection sv db st s = (Ret None, t)"
  using ShardNonSharded_sharded [OF assms(1)] assms(2) by (simp add: wellFormed_def documentedDecision_def fieldOf_built)

section \<open>Settings\<close>

text \<open>C36: settings that are accepted have a name and a key for every collection, every field of a key has a name, and at
  most one is hashed, so that the same check before sharding never fails.\<close>

theorem accepted_settings_well_formed:
  assumes "parseShardingSettings m = Inr st" "r \<in> set (ShardingSettings st)"
  shows "CollectionName r \<noteq> [] \<and> ShardKeys r \<noteq> [] \<and> (\<forall>f \<in> set (ShardKeys r). KeyField f \<noteq> []) \<and> hashedFieldCount (ShardKeys r) \<le> 1"
  using parsed_settings_wellFormed [OF assms(1)] assms(2) by (auto simp: list_all_iff wellFormed_def)

text \<open>C35: every well-formed list of settings, written as the guide shows, is accepted and read back as it is.\<close>

theorem settings_roundtrip:
  assumes "list_all wellFormed rs"
  shows "parseShardingSettings (settingsJson rs) = Inr \<lparr>ShardingSettings = rs, TargetShard = [], Extra = settingsJson rs\<rparr>"
  by (rule settings_roundtrip_parse [OF assms])

section \<open>The owner of a database\<close>

text \<open>The states of successive attempts.\<close>

primrec attemptState :: "('c, 'w) mongo_service \<Rightarrow> 'c \<Rightarrow> string \<Rightarrow> ('c, 'w) astate \<Rightarrow> nat \<Rightarrow> ('c, 'w) astate" where
  "attemptState sv client db s 0 = s"
| "attemptState sv client db s (Suc n) = snd (dbOwnerAttempt sv client db (attemptState sv client db s n))"

lemma forRange_first:
  assumes "\<And>i. i < k \<Longrightarrow> body (st i) = (Ret None, st (Suc i))" "body (st k) = (Ret (Some u), t)" "k < length xs"
  shows "forRange xs (\<lambda>_. body) (st 0) = (Ret (Some u), t)"
  using assms
proof (induction k arbitrary: xs st)
  case 0
  then show ?case by (cases xs) (auto simp: andthen_apply ret_apply)
next
  case (Suc k)
  obtain y ys where xs: "xs = y # ys" using Suc.prems(3) by (cases xs) auto
  have "forRange ys (\<lambda>_. body) (st (Suc 0)) = (Ret (Some u), t)"
    using Suc.IH [of "\<lambda>i. st (Suc i)" ys] Suc.prems xs by simp
  then show ?case using Suc.prems(1) [of 0] xs by (simp add: andthen_apply)
qed

text \<open>The owner is found when one of the first three attempts finds a user, in the database or else in admin, and the
  attempts before it only found none.\<close>

theorem db_owner_found:
  assumes "map_of (Clients s) (Conf sv) = Some client" "k < 3"
    and "\<forall>i < k. fst (dbOwnerAttempt sv client db (attemptState sv client db s i)) = Ret None"
    and "dbOwnerAttempt sv client db (attemptState sv client db s k) = (Ret (Some user), t)"
  shows "GetDbOwner sv db s = (Ret (Inr user), t)"
proof -
  have "forRange (upto_int 3) (\<lambda>_. dbOwnerAttempt sv client db) (attemptState sv client db s 0) = (Ret (Some user), t)"
    by (rule forRange_first [where st = "attemptState sv client db s" and k = k]) (use assms(2-4) in \<open>auto simp: prod_eq_iff\<close>)
  then show ?thesis
    by (simp add: GetDbOwner_def withClient_def GetMongoClient_cached [OF assms(1)] andthen_apply ret_apply)
qed

section \<open>Connections\<close>

text \<open>A server that decodes the credentials of the connection text reads the configured user and password, except
  that every space has become a plus.\<close>

theorem uri_credentials:
  assumes "ConfAuthDb conf \<noteq> []"
  shows "uriCredentials (connectionURI tls cert conf) =
     Some (map (\<lambda>c. if c = CHR 0x20 then CHR ''+'' else c) (ConfUser conf),
           map (\<lambda>c. if c = CHR 0x20 then CHR ''+'' else c) (ConfPass conf))"
  by (simp add: uriCredentials_connectionURI [OF assms] PathUnescape_Escape)

text \<open>The port of the configuration is no part of the text.\<close>

lemma port_ignored: "connectionURI tls cert (conf\<lparr>ConfPort := p\<rparr>) = connectionURI tls cert conf"
  by (simp add: connectionURI_def)

section \<open>Examples\<close>

text \<open>A cluster with a sharded collection, and a request for a longer key.\<close>

definition shardedServer :: mongod where
  "shardedServer = emptyServer\<lparr>CollKeys := [(''shop.orders'', [(''customerId'', BStr ''hashed'')])]\<rparr>"

definition longerKey :: sharding_settings where
  "longerKey = \<lparr>CollectionName = ''orders'',
     ShardKeys = [\<lparr>KeyField = ''customerId'', Hashed = True\<rparr>, \<lparr>KeyField = ''createdAt'', Hashed = False\<rparr>]\<rparr>"

lemma sharding_as_documented_witness:
  "\<exists>t. IsCollectionSharded plainService ''shop'' longerKey (adapterOn shardedServer) = (Ret (Inr (Some [(''customerId'', BStr ''hashed'')])), t) \<and>
     ShardNonShardedCollection plainService ''shop'' longerKey (adapterOn shardedServer) = refineCollection plainService ''shop'' longerKey t"
proof -
  obtain t where t: "IsCollectionSharded plainService ''shop'' longerKey (adapterOn shardedServer) = (Ret (Inr (Some [(''customerId'', BStr ''hashed'')])), t)"
    by (rule that) code_simp
  have h: "hashedFieldCount (ShardKeys longerKey) \<le> 1" by code_simp
  show ?thesis using sharding_as_documented [OF t h] t by (simp add: documentedDecision_def fieldOf_def longerKey_def strict_prefix_def)
qed

lemma resubmission_skipped_witness:
  "\<exists>t. ShardNonShardedCollection plainService ''shop'' shopKey (adapterOn shardedServer) = (Ret None, t) \<and> Log (AWorld t) = [''find'']"
proof -
  obtain t where t: "IsCollectionSharded plainService ''shop'' shopKey (adapterOn shardedServer) =
      (Ret (Inr (Some (storedDoc (buildShardKeyDoc (ShardKeys shopKey))))), t)" "Log (AWorld t) = [''find'']"
    by (rule that) code_simp+
  have "wellFormed shopKey" by code_simp
  then show ?thesis using resubmission_skipped [OF t(1)] t(2) by blast
qed

lemma accepted_settings_well_formed_witness:
  "\<exists>st. parseShardingSettings (settingsJson [longerKey]) = Inr st \<and> hashedFieldCount (ShardKeys (hd (ShardingSettings st))) \<le> 1"
proof -
  obtain st where p: "parseShardingSettings (settingsJson [longerKey]) = Inr st" and r: "longerKey \<in> set (ShardingSettings st)"
    and h: "hd (ShardingSettings st) = longerKey"
    by (rule that [of "\<lparr>ShardingSettings = [longerKey], TargetShard = [], Extra = settingsJson [longerKey]\<rparr>"]) (code_simp, simp_all)
  show ?thesis using accepted_settings_well_formed [OF p r] p h by auto
qed

lemma settings_roundtrip_witness:
  "parseShardingSettings (settingsJson [shopKey, longerKey]) =
     Inr \<lparr>ShardingSettings = [shopKey, longerKey], TargetShard = [], Extra = settingsJson [shopKey, longerKey]\<rparr>"
  by (rule settings_roundtrip) code_simp

text \<open>A database whose owner appears while the adapter waits.\<close>

definition lateService :: "(nat, mongod) mongo_service" where
  "lateService = plainService\<lparr>Drv := plainDriver\<lparr>SleepMs := (\<lambda>n w. (Ret (), w\<lparr>Users := [(''shop'', ''owner'')]\<rparr>))\<rparr>\<rparr>"

lemma db_owner_found_witness:
  "\<exists>t. GetDbOwner lateService ''shop'' (adapterOn emptyServer) = (Ret (Inr ''owner''), t)"
proof -
  have c: "map_of (Clients (adapterOn emptyServer)) (Conf lateService) = Some 1" by (simp add: lateService_def adapterOn_def)
  have a: "\<forall>i < 1. fst (dbOwnerAttempt lateService 1 ''shop'' (attemptState lateService 1 ''shop'' (adapterOn emptyServer) i)) = Ret None"
    by code_simp
  obtain t where "dbOwnerAttempt lateService 1 ''shop'' (attemptState lateService 1 ''shop'' (adapterOn emptyServer) 1) = (Ret (Some ''owner''), t)"
    by (rule that) code_simp
  then show ?thesis using db_owner_found [OF c _ a] by auto
qed

lemma uri_credentials_witness:
  "uriCredentials (connectionURI True ''/tls/ca.crt''
      \<lparr>ConfHost = ''mongos'', ConfPort = 27017, ConfUser = ''db:aas'', ConfPass = ''p@ss word/'', ConfAuthDb = ''admin''\<rparr>) =
    Some (''db:aas'', ''p@ss+word/'')"
  by (subst uri_credentials) simp_all

end
