(* ===== verification/DbaasProps.thy ===== *)
theory DbaasProps
  imports DbaasAdmin DbaasOps
begin

text \<open>
  Properties of the administration of databases: which names and databases a creation accepts, what a failed one
  leaves, what dropping reports, which users it registers and which roles they get, and the handler of the
  settings.
\<close>

section \<open>Names\<close>

lemma nameChar_colon: "list_all nameChar a \<Longrightarrow> CHR '':'' \<notin> set a"
  by (auto simp: list_all_iff nameChar_def isDigit_def)

lemma userResourceName_eq: "userResourceName db u = db @ CHR '':'' # u"
  by (simp add: userResourceName_def Sprintf_simps)

lemma Split_userResourceName:
  "CHR '':'' \<notin> set db \<Longrightarrow> CHR '':'' \<notin> set u \<Longrightarrow> Split (userResourceName db u) '':'' = [db, u]"
  by (simp add: userResourceName_eq Split_char Split_char_plain)

text \<open>The check of database names, prefixes and user names accepts letters, digits, hyphen and underscore, and the
  characters between the two alphabets in ASCII: brackets, backslash, caret and back quote.\<close>

theorem name_check_exact: "MatchWhole nameRegexp s \<longleftrightarrow> list_all nameChar s"
  by (rule MatchWhole_nameRegexp)


section \<open>Creating a database\<close>

lemma validate_facts:
  assumes "validateRequestParamsAndGetLogicalDbName adm req s = (Ret (Inr (name, st, mv, sh)), s')"
  shows "list_all nameChar name \<and> list_all nameChar (ReqUsername req) \<and>
    (\<exists>t u dbs. ListDatabases (Service adm) t = (Ret (dbs, None), u) \<and> name \<notin> set dbs) \<and>
    (\<exists>parsed. parseShardingSettings (ReqSettings req) = Inr parsed \<and> ShardingSettings st = ShardingSettings parsed)"
proof -
  obtain x t where r: "requestedName adm req s = (Ret x, t)" and
    v: "(case x of Inl e \<Rightarrow> ret (Inl e) | Inr dbName \<Rightarrow>
         if \<not> MatchWhole nameRegexp dbName then ret (Inl (namingError ''dbName''))
         else if \<not> MatchWhole nameRegexp (ReqUsername req) then ret (Inl (namingError ''userName''))
         else andthen (IsDatabaseAvailable (Service adm) dbName) (\<lambda>(available, err). case err of
           Some e \<Rightarrow> ret (Inl (ExecutionError (Sprintf ''error getting database list %v'' [Str (errorText (Service adm) e)])))
         | None \<Rightarrow>
             if \<not> available then ret (Inl (ExecutionError ''Database already exists''))
             else (let targetShard = jstring (ReqSettings req) ''targetShard'' in
               andthen (checkTargetShard adm targetShard) (\<lambda>err. case err of
                 Some e \<Rightarrow> ret (Inl e)
               | None \<Rightarrow> (case parseShardingSettings (ReqSettings req) of
                   Inl e \<Rightarrow> ret (Inl e)
                 | Inr parsed \<Rightarrow>
                     ret (Inr (dbName, parsed\<lparr>TargetShard := targetShard\<rparr>, targetShard \<noteq> [], ShardingSettings parsed \<noteq> []))))))) t
      = (Ret (Inr (name, st, mv, sh)), s')"
    using assms unfolding validateRequestParamsAndGetLogicalDbName_def by (elim andthen_RetE)
  obtain dbName where x: "x = Inr dbName" using v by (cases x) auto
  have m: "MatchWhole nameRegexp dbName" "MatchWhole nameRegexp (ReqUsername req)" using v x by (auto split: if_splits)
  then obtain available u where av: "IsDatabaseAvailable (Service adm) dbName t = (Ret (available, None), u)" "available"
    and rest: "andthen (checkTargetShard adm (jstring (ReqSettings req) ''targetShard'')) (\<lambda>err. case err of
                 Some e \<Rightarrow> ret (Inl e)
               | None \<Rightarrow> (case parseShardingSettings (ReqSettings req) of
                   Inl e \<Rightarrow> ret (Inl e)
                 | Inr parsed \<Rightarrow>
                     ret (Inr (dbName, parsed\<lparr>TargetShard := jstring (ReqSettings req) ''targetShard''\<rparr>,
                        jstring (ReqSettings req) ''targetShard'' \<noteq> [], ShardingSettings parsed \<noteq> [])))) u = (Ret (Inr (name, st, mv, sh)), s')"
    using v x by (auto simp: Let_def elim!: andthen_RetE split: option.splits if_splits prod.splits)
  obtain parsed where p: "parseShardingSettings (ReqSettings req) = Inr parsed" "name = dbName" "ShardingSettings st = ShardingSettings parsed"
    using rest by (auto elim!: andthen_RetE split: option.splits sum.splits)
  obtain dbs where "ListDatabases (Service adm) t = (Ret (dbs, None), u)" "list_all (\<lambda>name. name \<noteq> dbName) dbs"
    using av by (auto simp: IsDatabaseAvailable_def elim!: andthen_RetE split: option.splits prod.splits)
  then have "ListDatabases (Service adm) t = (Ret (dbs, None), u)" "dbName \<notin> set dbs" by (auto simp: list_all_iff)
  then show ?thesis using m p by (auto simp: MatchWhole_nameRegexp)
qed

lemma CreateDatabase_validated:
  assumes "CreateDatabase adm req s = (Ret (Inr (name, d)), s')"
  obtains st mv sh t users u where "validateRequestParamsAndGetLogicalDbName adm req s = (Ret (Inr (name, st, mv, sh)), t)"
    "setUpDatabase adm req name st sh t = (Ret (Inr users), u)" "d = \<lparr>DescConnection = fst users, DescResources = snd users @ [resourceOf DbResourceKind name]\<rparr>"
proof -
  obtain x t where v: "validateRequestParamsAndGetLogicalDbName adm req s = (Ret x, t)" and
    rest: "(case x of
       Inl validationError \<Rightarrow> ret (Inl validationError)
     | Inr (name, shardSettings, moveShard, shardCollection) \<Rightarrow>
         andthen (deferred (setUpDatabase adm req name shardSettings shardCollection) (\<lambda>r. case r of
             Ret (Inr _) \<Rightarrow> ret r
           | _ \<Rightarrow> andthen (DropDatabase (Service adm) name) (\<lambda>_. ret r))) (\<lambda>x. case x of
           Inl e \<Rightarrow> ret (Inl e)
         | Inr (connectionProps, resources) \<Rightarrow>
             andthen (if moveShard then EnsureDBOnShard (Service adm) name (TargetShard shardSettings) else ret None) (\<lambda>_.
             ret (Inr (name, \<lparr>DescConnection = connectionProps, DescResources = resources @ [resourceOf DbResourceKind name]\<rparr>))))) t =
      (Ret (Inr (name, d)), s')"
    using assms unfolding CreateDatabase_def by (elim andthen_RetE)
  obtain n st mv sh where x: "x = Inr (n, st, mv, sh)" using rest by (cases x) auto
  obtain y u where y: "deferred (setUpDatabase adm req n st sh) (\<lambda>r. case r of
             Ret (Inr _) \<Rightarrow> ret r | _ \<Rightarrow> andthen (DropDatabase (Service adm) n) (\<lambda>_. ret r)) t = (Ret y, u)"
    and z: "(case y of Inl e \<Rightarrow> ret (Inl e)
         | Inr (connectionProps, resources) \<Rightarrow>
             andthen (if mv then EnsureDBOnShard (Service adm) n (TargetShard st) else ret None) (\<lambda>_.
             ret (Inr (n, \<lparr>DescConnection = connectionProps, DescResources = resources @ [resourceOf DbResourceKind n]\<rparr>)))) u =
       (Ret (Inr (name, d)), s')"
    using rest x by (auto elim: andthen_RetE)
  obtain users where users: "y = Inr users" using z by (cases y) auto
  have n: "n = name" "d = \<lparr>DescConnection = fst users, DescResources = snd users @ [resourceOf DbResourceKind name]\<rparr>"
    using z users by (auto elim!: andthen_RetE split: prod.splits)
  have "setUpDatabase adm req n st sh t = (Ret (Inr users), u)"
    using y users by (auto simp: deferred_def andthen_apply ret_apply split: prod.splits res.splits sum.splits)
  then show thesis using that v x n by simp
qed

text \<open>C24: a database is created only under a name of valid characters that the cluster did not list, for a user name of
  valid characters, and with settings that are well-formed.\<close>

theorem created_under_fresh_name:
  assumes "CreateDatabase adm req s = (Ret (Inr (name, d)), s')"
  shows "list_all nameChar name \<and> list_all nameChar (ReqUsername req) \<and>
    (\<exists>t u dbs. ListDatabases (Service adm) t = (Ret (dbs, None), u) \<and> name \<notin> set dbs) \<and>
    (\<exists>parsed. parseShardingSettings (ReqSettings req) = Inr parsed)"
proof -
  obtain st mv sh t where "validateRequestParamsAndGetLogicalDbName adm req s = (Ret (Inr (name, st, mv, sh)), t)"
    by (rule CreateDatabase_validated [OF assms])
  from validate_facts [OF this] show ?thesis by blast
qed

text \<open>A request that names a database with a character outside the checked ones is rejected before anything is asked
  of the cluster.\<close>

theorem bad_name_rejected:
  assumes "ReqDbName req \<noteq> []" "\<not> list_all nameChar (ReqDbName req)"
  shows "CreateDatabase adm req s = (Ret (Inl (namingError ''dbName'')), s)"
  using assms by (simp add: CreateDatabase_def validateRequestParamsAndGetLogicalDbName_def requestedName_def
      MatchWhole_nameRegexp andthen_apply ret_apply)

text \<open>
  What the server documents of dropping: a drop that is executed removes that database and no other, a refused one
  none, and it is refused to a user without the role of an owner, whose other roles, as the installation guide gives
  them, do not allow it.  Connecting changes nothing.  \<^verbatim>\<open>dbs w\<close> are the databases there are, \<^verbatim>\<open>held w\<close> the roles of
  the adapter's user.
\<close>

definition drop_laws :: "('c, 'w) driver \<Rightarrow> ('w \<Rightarrow> (string \<times> string) set) \<Rightarrow> ('w \<Rightarrow> string set) \<Rightarrow> bool" where
  "drop_laws d held dbs =
     ((\<forall>c db w. \<exists>x w'. DropDb d c db w = (Ret x, w') \<and> dbs w' = (if x = None then dbs w - {db} else dbs w) \<and>
        ((dbOwner, db) \<notin> held w \<longrightarrow> x \<noteq> None)) \<and>
      (\<forall>uri w. \<exists>x w'. Connect d uri w = (Ret x, w') \<and> dbs w' = dbs w \<and> held w' = held w))"

lemma drop_lawsD:
  assumes "drop_laws d held dbs"
  shows "\<exists>x w'. DropDb d c db w = (Ret x, w') \<and> dbs w' = (if x = None then dbs w - {db} else dbs w) \<and> ((dbOwner, db) \<notin> held w \<longrightarrow> x \<noteq> None)"
    "\<exists>x w'. Connect d uri w = (Ret x, w') \<and> dbs w' = dbs w \<and> held w' = held w"
  using assms unfolding drop_laws_def by blast+

lemma DropDatabase_dbs:
  assumes "drop_laws (Drv sv) held dbs"
  shows "\<exists>x t. DropDatabase sv db s = (Ret x, t) \<and>
    dbs (AWorld t) = (if x = None then dbs (AWorld s) - {db} else dbs (AWorld s)) \<and> ((dbOwner, db) \<notin> heldIn held s \<longrightarrow> x \<noteq> None)"
proof (cases "map_of (Clients s) (Conf sv)")
  case (Some c)
  obtain x w where "DropDb (Drv sv) c db (AWorld s) = (Ret x, w)" "dbs w = (if x = None then dbs (AWorld s) - {db} else dbs (AWorld s))"
    "(dbOwner, db) \<notin> heldIn held s \<longrightarrow> x \<noteq> None"
    using drop_lawsD(1) [OF assms] by blast
  then show ?thesis
    by (simp add: DropDatabase_def withClient_def GetMongoClient_cached [OF Some] andthen_apply callA_apply)
next
  case None
  obtain y v where y: "Connect (Drv sv) (connectionURI (TLSMain sv) (mongo_service.RootCert sv) (Conf sv)) (AWorld s) = (Ret y, v)" "dbs v = dbs (AWorld s)"
    "held v = heldIn held s"
    using drop_lawsD(2) [OF assms] by blast
  show ?thesis
  proof (cases y)
    case (Inl e)
    then show ?thesis using y by (simp add: DropDatabase_def withClient_def GetMongoClient_fresh [OF None] andthen_apply ret_apply)
  next
    case (Inr c)
    obtain x w where "DropDb (Drv sv) c db v = (Ret x, w)" "dbs w = (if x = None then dbs v - {db} else dbs v)" "(dbOwner, db) \<notin> held v \<longrightarrow> x \<noteq> None"
      using drop_lawsD(1) [OF assms] by blast
    then show ?thesis using y Inr
      by (simp add: DropDatabase_def withClient_def GetMongoClient_fresh [OF None] andthen_apply callA_apply)
  qed
qed

text \<open>C8: when the set-up of a validated database fails, with an error or with a panic, one drop is attempted in the
  state the set-up left, with the roles the adapter's user has there: if the server executes it the database is gone
  and every other one stays; if it refuses, as it does to a user without the role of an owner of the database, every
  database stays.  In both cases the answer is the failure of the set-up and tells nothing of the drop.\<close>

theorem failed_creation_drops:
  assumes "drop_laws (Drv (Service adm)) held dbs"
    and "validateRequestParamsAndGetLogicalDbName adm req s = (Ret (Inr (name, st, mv, sh)), t)"
    and "setUpDatabase adm req name st sh t = (res, u)" "\<forall>users. res \<noteq> Ret (Inr users)"
    and "CreateDatabase adm req s = (answer, s')"
  shows "answer = (case res of Ret (Inl e) \<Rightarrow> Ret (Inl e) | Panic e \<Rightarrow> Panic e) \<and>
    (\<exists>dropped. DropDatabase (Service adm) name u = (Ret dropped, s') \<and>
      dbs (AWorld s') = (if dropped = None then dbs (AWorld u) - {name} else dbs (AWorld u)) \<and>
      ((dbOwner, name) \<notin> heldIn held u \<longrightarrow> dropped \<noteq> None))"
proof -
  obtain dropped v where d: "DropDatabase (Service adm) name u = (Ret dropped, v)"
    "dbs (AWorld v) = (if dropped = None then dbs (AWorld u) - {name} else dbs (AWorld u))"
    "(dbOwner, name) \<notin> heldIn held u \<longrightarrow> dropped \<noteq> None"
    using DropDatabase_dbs [OF assms(1)] by blast
  have "CreateDatabase adm req s = (case res of Ret (Inl e) \<Rightarrow> Ret (Inl e) | Panic e \<Rightarrow> Panic e, v)"
    using assms(2-4) d(1) by (auto simp: CreateDatabase_def andthen_apply deferred_def ret_apply split: res.splits sum.splits)
  then show ?thesis using assms(5) d by simp
qed

section \<open>Dropping\<close>

text \<open>When a database cannot be dropped but the role for it can be granted and revoked, the resource is reported as
  deleted.\<close>

theorem drop_failure_reported_deleted:
  assumes "ResKind resource = DbResourceKind" "GrantRole (Service adm) (ResName resource) dbOwner s = (Ret granted, t)" "resultErr granted = None"
    and "DropDatabase (Service adm) (ResName resource) t = (Ret (Some e), u)"
    and "RevokeRole (Service adm) (ResName resource) dbOwner u = (Ret revoked, v)" "resultErr revoked = None"
  shows "dropResource adm resource s = (Ret (resource\<lparr>ResStatus := DELETED adm\<rparr>), v)"
proof -
  have "RunWithGrants (Service adm) (ResName resource) (DropDatabase (Service adm) (ResName resource)) s = (Ret None, v)"
    using db_grants.error_lost [OF assms(2,3), where ff = "DropDatabase (Service adm) (ResName resource)" and u = u] assms(4-6) by simp
  then show ?thesis
    using assms(1) by (simp add: dropResource_def UserResourceKind_def DbResourceKind_def andthen_apply ret_apply)
qed

text \<open>A resource of another kind is reported as deleted as well.\<close>

lemma other_kind_deleted:
  "ResKind resource \<noteq> UserResourceKind \<Longrightarrow> ResKind resource \<noteq> DbResourceKind \<Longrightarrow>
   dropResource adm resource s = (Ret (resource\<lparr>ResStatus := DELETED adm\<rparr>), s)"
  by (simp add: dropResource_def andthen_apply ret_apply)

section \<open>Roles\<close>

text \<open>The roles of the interface are mapped once by \<^verbatim>\<open>CreateRoles\<close> and once by \<^verbatim>\<open>CreateUser\<close>.\<close>

lemma rolesMapping_twice: "r \<in> {''admin'', ''rw'', ''ro''} \<Longrightarrow> rolesMapping (rolesMapping r) = []"
  by (auto simp: rolesMapping_def dbOwner_def readWrite_def read_def streaming_def)

lemma userRoles_none: "userRoles [] db = userRoles dbOwner db"
  by (simp add: userRoles_def)

lemma CreateOrUpdateUser_none: "CreateOrUpdateUser sv u p db adb [] force = CreateOrUpdateUser sv u p db adb dbOwner force"
proof -
  have "createUser sv u p db adb [] = createUser sv u p db adb dbOwner" "updateUser sv u p db adb [] = updateUser sv u p db adb dbOwner"
    by (auto simp: createUser_def updateUser_def userRoles_none)
  note same = this
  show ?thesis unfolding CreateOrUpdateUser_def same by (simp add: dbOwner_def streaming_def)
qed

text \<open>The reference: for every supported role a database has no user of, a user with a generated name and password is
  created with the role of an owner of the database.  The loop over the databases is the one of \<^verbatim>\<open>CreateRoles\<close>, for any
  operation on one of them.\<close>

definition createOwner :: "('c, 'w) administration \<Rightarrow> string \<Rightarrow> ('c, 'w, goerror + (string \<times> string)) aop" where
  "createOwner adm db =
     andthen (generateUUID adm) (\<lambda>user. andthen (generateUUID adm) (\<lambda>password.
     if \<not> MatchWhole nameRegexp user then ret (Inl (namingError ''userName''))
     else andthen (CreateOrUpdateUser (Service adm) user password db db dbOwner False) (\<lambda>err. ret (case err of
       Some e \<Rightarrow> Inl e | None \<Rightarrow> Inr (user, password)))))"

fun createOwners :: "('c, 'w) administration \<Rightarrow> string \<Rightarrow> string list \<Rightarrow> jmap list \<Rightarrow> db_resource list \<Rightarrow>
    ('c, 'w, goerror option \<times> jmap list \<times> db_resource list) aop" where
  "createOwners adm db [] conProps resources = ret (None, conProps, resources)"
| "createOwners adm db (role # roles) conProps resources =
     andthen (createOwner adm db) (\<lambda>x. case x of
       Inl e \<Rightarrow> ret (Some e, conProps, resources)
     | Inr (user, password) \<Rightarrow> createOwners adm db roles
         (conProps @ [jput ''role'' (JStr role) (getConnectionProperties adm db user password [])])
         (resources @ [resourceOf UserResourceKind (userResourceName db user), resourceOf DbKind db]))"

definition ownersOf :: "('c, 'w) administration \<Rightarrow> additional_role \<Rightarrow> ('c, 'w, goerror option \<times> success) aop" where
  "ownersOf adm r =
     andthen (existingRoles (ArConnection r)) (\<lambda>existing.
     andthen (createOwners adm (if ArDbName r = [] then ConfAuthDb (Conf (Service adm)) else ArDbName r)
       (filter (\<lambda>role. role \<notin> set existing) (GetSupportedRoles adm)) [] []) (\<lambda>(err, conProps, resources).
     ret (err, \<lparr>SucId = ArId r, SucConnection = conProps, SucResources = resources, SucDbName = ArDbName r\<rparr>)))"

fun recoveredLoop :: "('c, 'w) administration \<Rightarrow> (additional_role \<Rightarrow> ('c, 'w, goerror option \<times> success) aop) \<Rightarrow> additional_role list \<Rightarrow>
    success list \<Rightarrow> failure option \<Rightarrow> ('c, 'w, success list \<times> failure option) aop" where
  "recoveredLoop adm one [] successes fail = ret (successes, fail)"
| "recoveredLoop adm one (r # rs) successes fail =
     (\<lambda>s. case one r s of
        (Ret (err, suc), s') \<Rightarrow>
          recoveredLoop adm one rs (successes @ [suc])
            (case err of Some e \<Rightarrow> Some \<lparr>FailId = ArId r, FailMessage = errorText (Service adm) e\<rparr> | None \<Rightarrow> fail) s'
      | (Panic e, s') \<Rightarrow>
          (Ret (successes, case fail of Some f \<Rightarrow> Some f
                           | None \<Rightarrow> Some \<lparr>FailId = ArId r, FailMessage = errorText (Service adm) e\<rparr>), s'))"

lemma createRolesFrom_loop: "createRolesFrom adm rs ss f s = recoveredLoop adm (createRole adm) rs ss f s"
  by (induction rs arbitrary: ss f s) (simp_all split: prod.split res.split)

text \<open>The request of \<^verbatim>\<open>CreateRoles\<close> carries the mapped role, which \<^verbatim>\<open>CreateUser\<close> maps again.\<close>

lemma CreateDbUser_owner:
  assumes "r \<in> {''admin'', ''rw'', ''ro''}"
  shows "CreateDbUser adm [] \<lparr>UcrDbName = db, UcrPassword = [], UcrRole = rolesMapping r\<rparr> =
    (let db' = if db = [] then ConfAuthDb (Conf (Service adm)) else db in
     andthen (createOwner adm db') (\<lambda>x. ret (case x of Inl e \<Rightarrow> Inl e | Inr (user, password) \<Rightarrow> Inr
       \<lparr>CuConnection = getConnectionProperties adm db' user password [],
        CuResources = [resourceOf UserResourceKind (userResourceName db' user), resourceOf DbKind db'], CuName = db', CuRole = rolesMapping r\<rparr>)))"
  unfolding CreateDbUser_def createOwner_def user_create_request.simps rolesMapping_twice [OF assms] CreateOrUpdateUser_none
  by (rule ext) (simp add: Let_def andthen_apply ret_apply split: prod.split res.split option.split)

lemma createMissing_owners:
  assumes "set roles \<subseteq> {''admin'', ''rw'', ''ro''}"
  shows "createMissing adm db existing roles cs rs =
    createOwners adm (if db = [] then ConfAuthDb (Conf (Service adm)) else db) (filter (\<lambda>role. role \<notin> set existing) roles) cs rs"
  using assms
proof (induction roles arbitrary: cs rs)
  case (Cons r roles)
  have c: "ContainsElement existing r \<longleftrightarrow> r \<in> set existing" by (auto simp: ContainsElement_def list_ex_iff)
  have "r \<in> {''admin'', ''rw'', ''ro''}" using Cons.prems by simp
  note owner = CreateDbUser_owner [OF this, of adm db]
  show ?case
  proof (cases "r \<in> set existing")
    case False
    show ?thesis using Cons False
      by (intro ext) (simp add: c owner Let_def andthen_apply ret_apply split: prod.split res.split sum.split)
  qed (use Cons c in simp)
qed simp


lemma createRolesFrom_total: "\<exists>x s'. createRolesFrom adm roles successes fail s = (Ret x, s')"
proof (induction roles arbitrary: successes fail s)
  case (Cons r rs)
  show ?case
  proof (cases "createRole adm r s")
    case (Pair a t)
    then show ?thesis using Cons.IH by (cases a) auto
  qed
qed (simp add: ret_apply)

text \<open>The creation of roles never panics, whatever the request holds.\<close>

theorem create_roles_recovers: "\<exists>successes fail s'. CreateRoles adm roles s = (Ret (successes, fail), s')"
  using createRolesFrom_total [of adm roles "[]" None s] by (auto simp: CreateRoles_def)

lemma createRolesFrom_successes:
  "createRolesFrom adm roles successes fail s = (Ret (ss, f), s') \<Longrightarrow> set successes \<subseteq> set ss"
proof (induction roles arbitrary: successes fail s)
  case (Cons r rs)
  show ?case
  proof (cases "createRole adm r s")
    case (Pair a t)
    then show ?thesis using Cons.prems Cons.IH by (cases a) fastforce+
  qed
qed (simp add: ret_apply)

text \<open>A role whose users could not all be created is reported as a failure and as a success.\<close>

theorem failed_role_also_success:
  assumes "createRole adm r s = (Ret (Some e, suc), t)" "CreateRoles adm (r # rs) s = (Ret (successes, fail), s')"
  shows "suc \<in> set successes \<and> SucId suc = ArId r \<and> fail \<noteq> None"
proof -
  have f: "createRolesFrom adm rs [suc] (Some \<lparr>FailId = ArId r, FailMessage = errorText (Service adm) e\<rparr>) t = (Ret (successes, fail), s')"
    using assms by (simp add: CreateRoles_def)
  have "createRolesFrom adm rs ss (Some g) t = (Ret (successes, fail), s') \<Longrightarrow> fail \<noteq> None" for ss g t
  proof (induction rs arbitrary: ss g t)
    case (Cons q rs)
    show ?case
    proof (cases "createRole adm q t")
      case (Pair a u)
      then show ?thesis using Cons.prems Cons.IH by (cases a) (auto split: option.splits)
    qed
  qed (auto simp: ret_apply)
  moreover have "SucId suc = ArId r" using assms(1) by (auto simp: createRole_def elim!: andthen_RetE)
  ultimately show ?thesis using createRolesFrom_successes [OF f] f by auto
qed

section \<open>Metadata\<close>

text \<open>Asking for the metadata of a database that has none panics: the case for a missing document is never reached,
  because the error is in the single result.\<close>

theorem missing_metadata_panics:
  assumes "map_of (Clients s) (Conf (Service adm)) = Some c"
    and "FindOne (Drv (Service adm)) c db dbaasMetadata [] (AWorld s) = (Ret (Inl errNoDocuments), w)"
  shows "GetMetadata adm db s = (Panic errNoDocuments, s\<lparr>AWorld := w\<rparr>)"
  using assms by (simp add: GetMetadata_def GetOne_def withClient_def GetMongoClient_cached [OF assms(1)] andthen_apply callA_apply ret_apply panic_apply)

section \<open>The handler of the settings\<close>

lemma sendString_answer:
  assumes "fiber_laws f"
  shows "\<exists>c'. SendString f b (SetStatus f n c) = (None, c') \<and> fst (Answer f c') = n"
proof -
  obtain c' where c: "SendString f b (SetStatus f n c) = (None, c')" using fiber_lawsD(5) [OF assms] by (metis prod.collapse)
  then have "Answer f c' = (fst (Answer f (SetStatus f n c)), b)" using fiber_lawsD(6) [OF assms] by (metis snd_conv)
  then show ?thesis using c fiber_lawsD(4) [OF assms] by simp
qed

text \<open>C39: a request to change settings with a name of bad characters, or with settings that are not well-formed, is
  answered with 400 and nothing is asked of the cluster.\<close>

theorem bad_settings_rejected:
  assumes "fiber_laws f" "ProcessEnv adm ''LOG_DEBUG'' = None"
    and "\<not> list_all nameChar (Params f ctx ''dbName'') \<or>
      BodyParser f ctx = Inr body \<and> decodeUpdateRequest body = Inr (current, new) \<and> parseShardingSettings new = Inl e"
  shows "\<exists>ctx'. UpdateMongodbSettingsHandler f adm ctx s = (Ret (None, ctx'), s) \<and> fst (Answer f ctx') = 400"
proof -
  have env: "GetEnvBool (ProcessEnv adm) ''LOG_DEBUG'' False = ret False" by (simp add: GetEnvBool_def assms(2))
  have valid: "ValidateDbIdentifierParam (ProcessEnv adm) n nameRegexp = ret (list_all nameChar n)" for n
    by (cases n) (simp_all add: ValidateDbIdentifierParam_def env MatchWhole_nameRegexp)
  show ?thesis
  proof (cases "list_all nameChar (Params f ctx ''dbName'')")
    case True
    then show ?thesis using assms(3) sendString_answer [OF assms(1)]
      by (auto simp: UpdateMongodbSettingsHandler_def valid Let_def ret_apply)
  next
    case False
    then show ?thesis using sendString_answer [OF assms(1)]
      by (auto simp: UpdateMongodbSettingsHandler_def valid Let_def ret_apply SendInvalidParameterResponse_def)
  qed
qed

section \<open>Examples\<close>

definition plainAdm :: "(nat, mongod) administration" where
  "plainAdm =
     \<lparr>Service = plainService, ApiVersion = ''v2'', SupportedRoles = [''admin'', ''rw'', ''ro'', ''streaming''],
      SupportedFeatures = [(FeatureMultiUsers, True)], ProcessEnv = (\<lambda>n. None),
      RegenerateDbName = (\<lambda>p n. ret (p @ ''-1'')), PrepareDatabaseName = (\<lambda>ns m n. Inr (m @ ''-'' @ ns)),
      DELETED = ''DELETED'', DELETE_FAILED = ''DELETE_FAILED''\<rparr>"

definition shopRequest :: db_create_request where
  "shopRequest = \<lparr>ReqDbName = ''shop'', ReqNamePrefix = None, ReqMetadata = [], ReqUsername = ''seller'', ReqPassword = ''pw'', ReqSettings = []\<rparr>"

lemma shop_created:
  "\<exists>d s'. CreateDatabase plainAdm shopRequest (adapterOn emptyServer) = (Ret (Inr (''shop'', d)), s') \<and> map ResName (DescResources d) =
     [''shop:seller'', ''shop:dbaas_uuid0'', ''shop:dbaas_uuid2'', ''shop:dbaas_uuid4'', ''shop'']"
  by (rule exI, rule exI, rule conjI) code_simp+

lemma created_under_fresh_name_witness:
  "list_all nameChar ''shop'' \<and> list_all nameChar (ReqUsername shopRequest)"
proof -
  obtain d s' where "CreateDatabase plainAdm shopRequest (adapterOn emptyServer) = (Ret (Inr (''shop'', d)), s')" using shop_created by blast
  from created_under_fresh_name [OF this] show ?thesis by blast
qed

lemma bad_name_rejected_witness:
  "CreateDatabase plainAdm (shopRequest\<lparr>ReqDbName := ''shop.orders''\<rparr>) (adapterOn emptyServer) =
     (Ret (Inl (namingError ''dbName'')), adapterOn emptyServer)"
  by (rule bad_name_rejected) code_simp+

text \<open>A server that refuses to drop a database of which the user is no owner, and whose answer to a revocation is lost on
  the way.  The creation fails with that error after it has written the metadata, and the database stays.\<close>

definition guardedService :: "(nat, mongod) mongo_service" where
  "guardedService = plainService\<lparr>Drv := plainDriver
     \<lparr>RunCommand := (\<lambda>c db cmd w. case RunCommand plainDriver c db cmd w of (r, w') \<Rightarrow>
        (if docGet cmd ''revokeRolesFromUser'' = None then r else Ret (Inl (GoError ''timeout'')), w')),
      DropDb := (\<lambda>c db w. if (dbOwner, db) \<in> set (HeldRoles w) then DropDb plainDriver c db w
        else (Ret (Some (refusalOf ''dropDatabase'')), w))\<rparr>\<rparr>"

definition guardedAdm :: "(nat, mongod) administration" where
  "guardedAdm = plainAdm\<lparr>Service := guardedService, ApiVersion := ''v1''\<rparr>"

lemma guarded_drop_laws: "drop_laws (Drv (Service guardedAdm)) (\<lambda>w. set (HeldRoles w)) (\<lambda>w. set (Dbs w))"
  by (auto simp: drop_laws_def guardedAdm_def guardedService_def plainDriver_def logged_def Let_def)

lemma guarded_creation:
  "\<exists>st x t u. validateRequestParamsAndGetLogicalDbName guardedAdm shopRequest (adapterOn emptyServer) = (Ret (Inr (''shop'', st, False, False)), t) \<and>
     setUpDatabase guardedAdm shopRequest ''shop'' st False t = (Ret (Inl x), u) \<and> HeldRoles (AWorld u) = [] \<and> Dbs (AWorld u) = [''shop'', ''admin'']"
  by (rule exI, rule exI, rule exI, rule exI, intro conjI) code_simp+

lemma failed_creation_drops_witness:
  "\<exists>s' e. CreateDatabase guardedAdm shopRequest (adapterOn emptyServer) = (Ret (Inl e), s') \<and> ''shop'' \<in> set (Dbs (AWorld s'))"
proof -
  obtain st x t u where v: "validateRequestParamsAndGetLogicalDbName guardedAdm shopRequest (adapterOn emptyServer) = (Ret (Inr (''shop'', st, False, False)), t)"
    and u: "setUpDatabase guardedAdm shopRequest ''shop'' st False t = (Ret (Inl x), u)"
    and h: "HeldRoles (AWorld u) = []" "Dbs (AWorld u) = [''shop'', ''admin'']"
    using guarded_creation by blast
  obtain answer s' where s': "CreateDatabase guardedAdm shopRequest (adapterOn emptyServer) = (answer, s')" by fastforce
  have "answer = Ret (Inl x) \<and> set (Dbs (AWorld s')) = set (Dbs (AWorld u))"
    using failed_creation_drops [OF guarded_drop_laws v u _ s'] h(1) by fastforce
  then show ?thesis using s' h(2) by simp
qed


lemma drop_failure_reported_deleted_witness:
  "\<exists>v. dropResource plainAdm (resourceOf DbResourceKind ''shop'') (adapterOn (emptyServer\<lparr>Dbs := [''shop''], Failing := [''dropDatabase'']\<rparr>)) =
     (Ret ((resourceOf DbResourceKind ''shop'')\<lparr>ResStatus := DELETED plainAdm\<rparr>), v)"
proof -
  let ?s = "adapterOn (emptyServer\<lparr>Dbs := [''shop''], Failing := [''dropDatabase'']\<rparr>)" and ?r = "resourceOf DbResourceKind ''shop''"
  obtain g t e where g: "GrantRole (Service plainAdm) (ResName ?r) dbOwner ?s = (Ret g, t)" "resultErr g = None"
    and d: "fst (DropDatabase (Service plainAdm) (ResName ?r) t) = Ret (Some e)"
    and v: "fst (RevokeRole (Service plainAdm) (ResName ?r) dbOwner (snd (DropDatabase (Service plainAdm) (ResName ?r) t))) = Ret g"
    by (rule that) code_simp+
  obtain u where u: "DropDatabase (Service plainAdm) (ResName ?r) t = (Ret (Some e), u)" using d by (metis prod.collapse)
  obtain v where v: "RevokeRole (Service plainAdm) (ResName ?r) dbOwner u = (Ret g, v)" using v u by (metis prod.collapse snd_conv)
  have "ResKind ?r = DbResourceKind" by (simp add: resourceOf_def)
  from drop_failure_reported_deleted [OF this g u v g(2)] show ?thesis by blast
qed

text \<open>An adapter that supports the three roles: the user added for the read-only role is an owner of the database.\<close>

definition threeRoles :: "(nat, mongod) administration" where
  "threeRoles = plainAdm\<lparr>SupportedRoles := [''admin'', ''rw'', ''ro'']\<rparr>"


lemma failed_role_also_success_witness:
  "\<exists>successes fail s'. CreateRoles plainAdm [\<lparr>ArId = ''7'', ArDbName = ''shop'', ArConnection = []\<rparr>]
       (adapterOn (emptyServer\<lparr>Failing := [''createUser'']\<rparr>)) = (Ret (successes, fail), s') \<and> map SucId successes = [''7''] \<and> fail \<noteq> None"
proof -
  let ?s = "adapterOn (emptyServer\<lparr>Failing := [''createUser'']\<rparr>)" and ?r = "\<lparr>ArId = ''7'', ArDbName = ''shop'', ArConnection = []\<rparr>"
  obtain e suc t where c: "createRole plainAdm ?r ?s = (Ret (Some e, suc), t)" by (rule that) code_simp
  obtain successes fail s' where r: "CreateRoles plainAdm [?r] ?s = (Ret (successes, fail), s')" "map SucId successes = [''7'']"
    by (rule that) code_simp+
  show ?thesis using failed_role_also_success [OF c r(1)] r by (intro exI [of _ successes] exI [of _ fail] exI [of _ s']) simp
qed

lemma missing_metadata_panics_witness:
  "\<exists>s'. GetMetadata plainAdm ''shop'' (adapterOn emptyServer) = (Panic errNoDocuments, s')"
proof -
  have c: "map_of (Clients (adapterOn emptyServer)) (Conf (Service plainAdm)) = Some 1" by (simp add: adapterOn_def plainAdm_def)
  obtain w where w: "FindOne (Drv (Service plainAdm)) 1 ''shop'' dbaasMetadata [] (AWorld (adapterOn emptyServer)) = (Ret (Inl errNoDocuments), w)"
    by (rule that) code_simp
  from missing_metadata_panics [OF c w] show ?thesis by blast
qed

text \<open>A request for the settings of a database, with a body the framework has parsed.\<close>

definition bodyFiber :: "jmap \<Rightarrow> ((int \<times> string) \<times> smap) fiber" where
  "bodyFiber new = plainFiber\<lparr>BodyParser := (\<lambda>c. Inr (JObj [(''newSettings'', JObj new)]))\<rparr>"

lemma bodyFiber_laws: "fiber_laws (bodyFiber new)"
  using plainFiber_laws by (simp add: fiber_laws_def bodyFiber_def)

definition shopCtx :: "(int \<times> string) \<times> smap" where
  "shopCtx = NewCtx plainFiber ''PUT'' ''/databases/:dbName/settings'' ''/databases/shop/settings''"

lemma bad_settings_rejected_witness:
  "\<exists>ctx'. UpdateMongodbSettingsHandler (bodyFiber (settingsJson [\<lparr>CollectionName = ''orders'', ShardKeys = []\<rparr>])) plainAdm shopCtx
       (adapterOn emptyServer) = (Ret (None, ctx'), adapterOn emptyServer) \<and> fst (Answer (bodyFiber []) ctx') = 400"
proof -
  let ?new = "settingsJson [\<lparr>CollectionName = ''orders'', ShardKeys = []\<rparr>]"
  have e: "ProcessEnv plainAdm ''LOG_DEBUG'' = None" by (simp add: plainAdm_def)
  obtain err where p: "parseShardingSettings ?new = Inl err" by (rule that) code_simp
  have b: "BodyParser (bodyFiber ?new) shopCtx = Inr (JObj [(''newSettings'', JObj ?new)])" by (simp add: bodyFiber_def)
  have d: "decodeUpdateRequest (JObj [(''newSettings'', JObj ?new)]) = Inr ([], ?new)"
    by (simp add: decodeUpdateRequest_def storeMap_def field_eq_def to_lower_def)
  have "\<exists>ctx'. UpdateMongodbSettingsHandler (bodyFiber ?new) plainAdm shopCtx (adapterOn emptyServer) = (Ret (None, ctx'), adapterOn emptyServer) \<and>
      fst (Answer (bodyFiber ?new) ctx') = 400"
    by (rule bad_settings_rejected [OF bodyFiber_laws e]) (use b d p in blast)
  then show ?thesis by (simp add: bodyFiber_def)
qed

text \<open>Refused commands go unnoticed: with every command refused that enables sharding, creates, indexes or shards the
  collection, the request for its sharding is answered with 200 and the collection is not sharded.\<close>

theorem sharding_failures_unnoticed:
  "\<exists>ctx' s'. UpdateMongodbSettingsHandler (bodyFiber (settingsJson [shopKey])) plainAdm shopCtx
       (adapterOn (emptyServer\<lparr>Failing := [''enableSharding'', ''create'', ''createIndexes'', ''shardCollection'']\<rparr>)) = (Ret (None, ctx'), s') \<and>
     fst (Answer plainFiber ctx') = 200 \<and> CollKeys (AWorld s') = []"
  by (rule exI, rule exI, rule conjI, (code_simp)[1], rule conjI) code_simp+

text \<open>A request with an empty prefix creates a database without a name: the empty name passes the check.\<close>

theorem empty_prefix_empty_name:
  "\<exists>d s'. CreateDatabase plainAdm (shopRequest\<lparr>ReqDbName := [], ReqNamePrefix := Some []\<rparr>) (adapterOn emptyServer) = (Ret (Inr ([], d)), s')"
  by (rule exI, rule exI) code_simp

end
