(* ===== verification/DbaasInvariant.thy ===== *)
theory DbaasInvariant
  imports DbaasProps
begin

text \<open>
  The DBaaS adapter as a state machine: a step serves a request of the DBaaS interface or runs a background task
  that was started.  The invariant of its state is shown for every operation by rules for the combinators,
  collected in \<^verbatim>\<open>keeps_intros\<close>.
\<close>

named_theorems keeps_intros \<open>operations that keep the invariant of the adapter\<close>

section \<open>The invariant\<close>

text \<open>One client for a configuration, and background tasks only for keys with at most one hashed field.\<close>

definition adapterInv :: "('c, 'w) astate \<Rightarrow> bool" where
  "adapterInv s = (oneClientEach s \<and> list_all (\<lambda>t. hashedFieldCount (ShardKeys (snd t)) \<le> 1) (Started s))"

definition keeps :: "('c, 'w, 'a) aop \<Rightarrow> bool" where
  "keeps f = (\<forall>s r s'. f s = (r, s') \<longrightarrow> adapterInv s \<longrightarrow> adapterInv s')"

lemma keepsI: "(\<And>s r s'. f s = (r, s') \<Longrightarrow> adapterInv s \<Longrightarrow> adapterInv s') \<Longrightarrow> keeps f"
  by (simp add: keeps_def)

lemma keepsD: "keeps f \<Longrightarrow> f s = (r, s') \<Longrightarrow> adapterInv s \<Longrightarrow> adapterInv s'"
  by (auto simp: keeps_def)

section \<open>Combinators\<close>

lemma keeps_ret [keeps_intros]: "keeps (ret x)"
  by (rule keepsI) simp

lemma keeps_panic [keeps_intros]: "keeps (panic e)"
  by (rule keepsI) simp

lemma keeps_andthen [keeps_intros]:
  assumes "keeps f" "\<And>x. keeps (g x)"
  shows "keeps (andthen f g)"
proof (rule keepsI)
  fix s r s' assume a: "andthen f g s = (r, s')" "adapterInv s"
  obtain x t where f: "f s = (x, t)" by fastforce
  have "adapterInv t" by (rule keepsD [OF assms(1) f a(2)])
  then show "adapterInv s'" using a f keepsD [OF assms(2)] by (cases x) (auto simp: andthen_apply)
qed

lemma keeps_callA [keeps_intros]: "keeps (callA f)"
  by (rule keepsI) (auto simp: adapterInv_def oneClientEach_def dest!: callA_frame)

lemma keeps_GetMongoClient [keeps_intros]: "keeps (GetMongoClient sv conf)"
  by (rule keepsI) (auto simp: adapterInv_def dest: GetMongoClient_clients GetMongoClient_keeps)

lemma keeps_cases [keeps_intros]:
  "keeps f \<Longrightarrow> keeps g \<Longrightarrow> keeps (if b then f else g)"
  "keeps f \<Longrightarrow> (\<And>e. keeps (h e)) \<Longrightarrow> keeps (case o1 of None \<Rightarrow> f | Some e \<Rightarrow> h e)"
  "(\<And>e. keeps (k e)) \<Longrightarrow> (\<And>v. keeps (l v)) \<Longrightarrow> keeps (case su of Inl e \<Rightarrow> k e | Inr v \<Rightarrow> l v)"
  "(\<And>a b. keeps (m a b)) \<Longrightarrow> keeps (case p of (a, b) \<Rightarrow> m a b)"
  "keeps n \<Longrightarrow> (\<And>x xs. keeps (q x xs)) \<Longrightarrow> keeps (case xs1 of [] \<Rightarrow> n | x # xs \<Rightarrow> q x xs)"
  by (simp_all split: option.split sum.split prod.split list.split)

lemma keeps_case_bson [keeps_intros]:
  "keeps f1 \<Longrightarrow> (\<And>x. keeps (f2 x)) \<Longrightarrow> (\<And>x. keeps (f3 x)) \<Longrightarrow> (\<And>x. keeps (f4 x)) \<Longrightarrow> (\<And>x. keeps (f5 x)) \<Longrightarrow> (\<And>x. keeps (f6 x)) \<Longrightarrow>
   (\<And>x. keeps (f7 x)) \<Longrightarrow> (\<And>x. keeps (f8 x)) \<Longrightarrow> (\<And>x. keeps (f9 x)) \<Longrightarrow> (\<And>x. keeps (f10 x)) \<Longrightarrow> (\<And>x. keeps (f11 x)) \<Longrightarrow>
   keeps (case_bson f1 f2 f3 f4 f5 f6 f7 f8 f9 f10 f11 v)"
  by (cases v) simp_all

lemma keeps_case_json [keeps_intros]:
  "keeps f1 \<Longrightarrow> (\<And>x. keeps (f2 x)) \<Longrightarrow> (\<And>x. keeps (f3 x)) \<Longrightarrow> (\<And>x. keeps (f4 x)) \<Longrightarrow> (\<And>x. keeps (f5 x)) \<Longrightarrow> (\<And>x. keeps (f6 x)) \<Longrightarrow>
   keeps (case_json f1 f2 f3 f4 f5 f6 v)"
  by (cases v) simp_all

lemma keeps_case_res [keeps_intros]:
  "(\<And>x. keeps (f x)) \<Longrightarrow> (\<And>e. keeps (g e)) \<Longrightarrow> keeps (case r of Ret x \<Rightarrow> f x | Panic e \<Rightarrow> g e)"
  by (cases r) simp_all

lemma keeps_withClient [keeps_intros]: "(\<And>c. keeps (f c)) \<Longrightarrow> keeps (withClient sv conf onError f)"
  unfolding withClient_def by (intro keeps_intros)

lemma keeps_forRange [keeps_intros]:
  assumes "\<And>x. keeps (body x)"
  shows "keeps (forRange xs body)"
  by (induction xs) (auto intro!: keeps_intros assms)

lemma keeps_forFold [keeps_intros]:
  assumes "\<And>x a. keeps (body x a)"
  shows "keeps (forFold xs body a)"
  by (induction xs arbitrary: a) (auto intro!: keeps_intros assms)

lemma keeps_deferred [keeps_intros]:
  assumes "keeps f" "\<And>r. keeps (fin r)"
  shows "keeps (deferred f fin)"
proof (rule keepsI)
  fix s r s' assume a: "deferred f fin s = (r, s')" "adapterInv s"
  obtain x t where f: "f s = (x, t)" by fastforce
  obtain y u where g: "fin x t = (y, u)" by fastforce
  have "adapterInv u" by (rule keepsD [OF assms(2) g keepsD [OF assms(1) f a(2)]])
  then show "adapterInv s'" using a f g by (cases y) (auto simp: deferred_def)
qed

lemma keeps_nth_or_panic [keeps_intros]: "keeps (nth_or_panic xs i)"
  by (simp add: nth_or_panic_def keeps_intros)

lemma keeps_runCommand [keeps_intros]: "keeps (runCommand sv c db cmd)"
  by (simp add: runCommand_def keeps_intros)

section \<open>Every operation keeps the invariant\<close>

lemma keeps_GrantRole [keeps_intros]: "keeps (GrantRole sv db role)"
  unfolding GrantRole_def by (intro keeps_intros)

lemma keeps_RevokeRole [keeps_intros]: "keeps (RevokeRole sv db role)"
  unfolding RevokeRole_def by (intro keeps_intros)

lemma keeps_RunWithGrants [keeps_intros]: "keeps ff \<Longrightarrow> keeps (RunWithGrants sv db ff)"
  unfolding RunWithGrants_def by (intro keeps_intros)

lemma keeps_RunWithClusterGrants [keeps_intros]: "keeps ff \<Longrightarrow> keeps (RunWithClusterGrants sv db ff)"
  unfolding RunWithClusterGrants_def by (intro keeps_intros)

lemma keeps_users [keeps_intros]:
  "keeps (createUser sv u p db adb role client)"
  "keeps (updateUser sv u p db adb role client)"
  "keeps (IsUserExist sv conf u db)"
  "keeps (shardHost v)"
  "keeps (userNameOf v)"
  unfolding createUser_def updateUser_def IsUserExist_def shardHost_def userNameOf_def by (intro keeps_intros)+

lemma keeps_GetReplicaSetHosts [keeps_intros]: "keeps (GetReplicaSetHosts sv)"
  unfolding GetReplicaSetHosts_def by (intro keeps_intros)

lemma keeps_streamingUser [keeps_intros]: "keeps (streamingUser sv u p db adb role host)"
  unfolding streamingUser_def Let_def by (intro keeps_intros)

lemma keeps_CreateOrUpdateUser [keeps_intros]: "keeps (CreateOrUpdateUser sv u p db adb role force)"
  unfolding CreateOrUpdateUser_def by (intro keeps_intros)

lemma keeps_DropUser [keeps_intros]: "keeps (DropUser sv name)"
  unfolding DropUser_def dropUserIn_def Let_def by (intro keeps_intros)

lemma keeps_lookups [keeps_intros]:
  "keeps (GetRoles sv db)"
  "keeps (findDbOwner sv client db adb)"
  "keeps (DropDatabase sv db)"
  "keeps (ListDatabases sv)"
  "keeps (GetOne sv db coll)"
  "keeps (CreateCollection sv db coll)"
  "keeps (InsertOrUpdate sv db coll d)"
  "keeps (InsertOne sv db coll d)"
  "keeps (IsValidShard sv shard)"
  unfolding GetRoles_def findDbOwner_def DropDatabase_def ListDatabases_def GetOne_def CreateCollection_def
    InsertOrUpdate_def InsertOne_def IsValidShard_def by (intro keeps_intros)+

lemma keeps_IsDatabaseAvailable [keeps_intros]: "keeps (IsDatabaseAvailable sv db)"
  unfolding IsDatabaseAvailable_def by (intro keeps_intros)

lemma keeps_GetDbOwner [keeps_intros]: "keeps (GetDbOwner sv db)"
  unfolding GetDbOwner_def dbOwnerAttempt_def by (intro keeps_intros)

lemma keeps_EnsureDBOnShard [keeps_intros]: "keeps (EnsureDBOnShard sv db shard)"
  unfolding EnsureDBOnShard_def MovePrimary_def Let_def by (intro keeps_intros)

lemma keeps_sharding [keeps_intros]:
  "keeps (EnableSharding sv db)"
  "keeps (ShardCollection sv db st)"
  "keeps (RefineShardKey sv db st)"
  "keeps (ForceRedistribute sv db st)"
  "keeps (CreateShardKeyIndex sv db st)"
  "keeps (IsCollectionSharded sv db st)"
  unfolding EnableSharding_def ShardCollection_def RefineShardKey_def ForceRedistribute_def CreateShardKeyIndex_def
    IsCollectionSharded_def Let_def by (intro keeps_intros)+

lemma keeps_refineCollection [keeps_intros]: "keeps (refineCollection sv db st)"
  unfolding refineCollection_def indexWithGrants_def by (intro keeps_intros)

text \<open>A task is started for a key that was checked.\<close>

lemma keeps_start: "hashedFieldCount (ShardKeys st) \<le> 1 \<Longrightarrow> keeps (modifyState (\<lambda>s. s\<lparr>Started := Started s @ [(db, st)]\<rparr>))"
  by (rule keepsI) (auto simp: adapterInv_def oneClientEach_def)

lemma keeps_shardFreshCollection: "hashedFieldCount (ShardKeys st) \<le> 1 \<Longrightarrow> keeps (shardFreshCollection sv db st)"
  unfolding shardFreshCollection_def indexWithGrants_def by (intro keeps_intros keeps_start)

lemma keeps_ShardNonShardedCollection [keeps_intros]: "keeps (ShardNonShardedCollection sv db st)"
proof (cases "hashedFieldCount (ShardKeys st) > 1")
  case False
  then show ?thesis
    unfolding ShardNonShardedCollection_def Let_def by (intro keeps_intros keeps_shardFreshCollection) simp
qed (simp add: ShardNonShardedCollection_def keeps_intros)

lemma keeps_EnableShardingAndCreateCollection [keeps_intros]: "keeps (EnableShardingAndCreateCollection sv db st)"
  unfolding EnableShardingAndCreateCollection_def enableWithGrants_def collectionWithGrants_def by (intro keeps_intros)

lemma keeps_redistributeTask: "keeps (redistributeTask sv task)"
  unfolding redistributeTask_def by (intro keeps_intros)

lemma keeps_generateUUID [keeps_intros]: "keeps (generateUUID adm)"
  unfolding generateUUID_def by (intro keeps_intros)

lemma keeps_CreateDatabase [keeps_intros]: "keeps (CreateDatabase adm req)"
  unfolding CreateDatabase_def validateRequestParamsAndGetLogicalDbName_def requestedName_def checkTargetShard_def setUpDatabase_def
    createDatabaseUsers_def createRoleUser_def Let_def by (intro keeps_intros)

lemma keeps_CreateUser [keeps_intros]: "keeps (CreateDbUser adm name req)"
  unfolding CreateDbUser_def Let_def by (intro keeps_intros)

lemma keeps_administration [keeps_intros]:
  "keeps (DescribeDatabases adm dbs)"
  "keeps (GetDatabases adm)"
  "keeps (DropResources adm rs)"
  "keeps (GetMetadata adm db)"
  "keeps (UpdateMetadata adm m db)"
  "keeps (MigrateToVault adm db u)"
  unfolding DescribeDatabases_def describeDatabase_def GetDatabases_def DropResources_def dropResource_def GetMetadata_def
    UpdateMetadata_def MigrateToVault_def Let_def by (intro keeps_intros)+

lemma keeps_existingRoles [keeps_intros]: "keeps (existingRoles ps)"
  by (induction ps) (auto intro!: keeps_intros)

lemma keeps_createMissing [keeps_intros]: "keeps (createMissing adm db existing roles cs rs)"
  by (induction adm db existing roles cs rs rule: createMissing.induct) (auto intro!: keeps_intros)

lemma keeps_createRole [keeps_intros]: "keeps (createRole adm r)"
  unfolding createRole_def by (intro keeps_intros)

lemma keeps_CreateRoles [keeps_intros]: "keeps (CreateRoles adm roles)"
proof -
  have "createRolesFrom adm roles ss f s = (r, s') \<Longrightarrow> adapterInv s \<Longrightarrow> adapterInv s'" for ss f s r s'
  proof (induction roles arbitrary: ss f s)
    case (Cons q qs)
    obtain a t where a: "createRole adm q s = (a, t)" by fastforce
    have "adapterInv t" by (rule keepsD [OF keeps_createRole a Cons.prems(2)])
    then show ?case using Cons a by (cases a) auto
  qed (simp add: ret_apply)
  then show ?thesis by (auto simp: CreateRoles_def intro!: keepsI)
qed

lemma keeps_settings [keeps_intros]: "keeps (UpdateMongodbSettingsHandler f adm ctx)"
  unfolding UpdateMongodbSettingsHandler_def ValidateDbIdentifierParam_def GetEnvBool_def Let_def by (intro keeps_intros)

section \<open>The adapter\<close>

datatype 'f adm_request =
    CreateDatabaseRequest db_create_request
  | DescribeDatabasesRequest "string list"
  | GetDatabasesRequest
  | DropResourcesRequest "db_resource list"
  | GetMetadataRequest string
  | UpdateMetadataRequest jmap string
  | CreateUserRequest string user_create_request
  | MigrateToVaultRequest string string
  | CreateRolesRequest "additional_role list"
  | UpdateSettingsRequest 'f

definition serveAdm :: "'f fiber \<Rightarrow> ('c, 'w) administration \<Rightarrow> 'f adm_request \<Rightarrow> ('c, 'w, unit) aop" where
  "serveAdm f adm q =
     (case q of
        CreateDatabaseRequest req \<Rightarrow> andthen (CreateDatabase adm req) (\<lambda>_. ret ())
      | DescribeDatabasesRequest dbs \<Rightarrow> andthen (DescribeDatabases adm dbs) (\<lambda>_. ret ())
      | GetDatabasesRequest \<Rightarrow> andthen (GetDatabases adm) (\<lambda>_. ret ())
      | DropResourcesRequest rs \<Rightarrow> andthen (DropResources adm rs) (\<lambda>_. ret ())
      | GetMetadataRequest db \<Rightarrow> andthen (GetMetadata adm db) (\<lambda>_. ret ())
      | UpdateMetadataRequest m db \<Rightarrow> andthen (UpdateMetadata adm m db) (\<lambda>_. ret ())
      | CreateUserRequest name req \<Rightarrow> andthen (CreateDbUser adm name req) (\<lambda>_. ret ())
      | MigrateToVaultRequest db u \<Rightarrow> andthen (MigrateToVault adm db u) (\<lambda>_. ret ())
      | CreateRolesRequest roles \<Rightarrow> andthen (CreateRoles adm roles) (\<lambda>_. ret ())
      | UpdateSettingsRequest ctx \<Rightarrow> andthen (UpdateMongodbSettingsHandler f adm ctx) (\<lambda>_. ret ()))"

text \<open>A request, which may end in a panic the framework recovers, or one of the started tasks.\<close>

inductive adapter_step :: "'f fiber \<Rightarrow> ('c, 'w) administration \<Rightarrow> ('c, 'w) astate \<Rightarrow> ('c, 'w) astate \<Rightarrow> bool"
  for f :: "'f fiber" and adm :: "('c, 'w) administration" where
  request: "serveAdm f adm q s = (r, s') \<Longrightarrow> adapter_step f adm s s'"
| task: "Started s = before @ t # after \<Longrightarrow> redistributeTask (Service adm) t (s\<lparr>Started := before @ after\<rparr>) = (r, s') \<Longrightarrow>
    adapter_step f adm s s'"

lemma keeps_serveAdm: "keeps (serveAdm f adm q)"
  unfolding serveAdm_def by (cases q) (auto intro!: keeps_intros)

lemma adapter_step_inv: "adapter_step f adm s s' \<Longrightarrow> adapterInv s \<Longrightarrow> adapterInv s'"
proof (induction rule: adapter_step.induct)
  case (request q s r s')
  show ?case by (rule keepsD [OF keeps_serveAdm request])
next
  case (task s before t after r s')
  have "adapterInv (s\<lparr>Started := before @ after\<rparr>)" using task by (simp add: adapterInv_def oneClientEach_def)
  then show ?case by (rule keepsD [OF keeps_redistributeTask task(2)])
qed

text \<open>C26: whatever requests the adapter serves and however its background tasks fall between them, it keeps at most one
  client for a configuration, and every task it starts is for a key with at most one hashed field.\<close>

theorem one_client_each:
  assumes "(adapter_step f adm)\<^sup>*\<^sup>* s s'" "Clients s = []" "Started s = []"
  shows "distinct (map fst (Clients s')) \<and> (\<forall>t \<in> set (Started s'). hashedFieldCount (ShardKeys (snd t)) \<le> 1)"
proof -
  have "adapterInv s'" using assms(1)
  proof (induction rule: rtranclp_induct)
    case base
    then show ?case using assms(2,3) by (simp add: adapterInv_def oneClientEach_def)
  next
    case (step y z)
    then show ?case by (blast intro: adapter_step_inv)
  qed
  then show ?thesis by (auto simp: adapterInv_def oneClientEach_def list_all_iff)
qed

text \<open>A first request makes the adapter connect.\<close>

lemma one_client_each_witness:
  "\<exists>s'. (adapter_step plainFiber plainAdm)\<^sup>*\<^sup>* \<lparr>Clients = [], Started = [], AWorld = emptyServer\<rparr> s' \<and>
     Clients s' \<noteq> [] \<and> distinct (map fst (Clients s'))"
proof -
  let ?s = "\<lparr>Clients = [], Started = [], AWorld = emptyServer\<rparr>"
  obtain r s' where r: "serveAdm plainFiber plainAdm GetDatabasesRequest ?s = (Ret r, s')" "Clients s' \<noteq> []"
    by (rule that) code_simp+
  have "(adapter_step plainFiber plainAdm)\<^sup>*\<^sup>* ?s s'" using adapter_step.request [OF r(1)] by blast
  from this one_client_each [OF this] r(2) show ?thesis by auto
qed

end
