(* ===== verification/Suppl.thy ===== *)
theory Suppl
  imports ContainerArgs
begin

text \<open>
  The operator of the supplementary services (\<^verbatim>\<open>src/services/service\<close>): its custom resource
  (\<^verbatim>\<open>api/v1alpha1/mongodbsupplservice_types.go\<close>), the execution context its steps share, the services and libraries
  it calls, and the helpers of \<^verbatim>\<open>pkg/utils\<close> and \<^verbatim>\<open>pkg/common\<close>: host names, volume names, the wait for a rollout and
  the step that creates the users.

  A pointer of the custom resource is an option; reading through a missing one panics.  An entry of the context
  that was not set is \<^verbatim>\<open>None\<close>, and the type assertion on it panics.  The constants that \<^verbatim>\<open>pkg/utils/const.go\<close> shares with
  the operator's file of that name are those of the theory \<^theory_text>\<open>Consts\<close>.
\<close>

section \<open>Constants of the supplementary services\<close>

definition AppName :: string where "AppName = ''app.kubernetes.io/name''"
definition AppInstance :: string where "AppInstance = ''app.kubernetes.io/instance''"
definition AppVersion :: string where "AppVersion = ''app.kubernetes.io/version''"
definition AppComponent :: string where "AppComponent = ''app.kubernetes.io/component''"
definition AppManagedBy :: string where "AppManagedBy = ''app.kubernetes.io/managed-by''"
definition AppManagedByOperator :: string where "AppManagedByOperator = ''app.kubernetes.io/managed-by-operator''"
definition AppTechnology :: string where "AppTechnology = ''app.kubernetes.io/technology''"
definition AppPartOf :: string where "AppPartOf = ''app.kubernetes.io/part-of''"
definition DataValidationEnabledLabel :: string where
  "DataValidationEnabledLabel = ''cloud-backuper.netcracker.com/data-validation-enabled''"
definition DataValidationEnabledLabelValue :: string where "DataValidationEnabledLabelValue = ''true''"

lemmas suppl_label_defs = AppName_def AppInstance_def AppVersion_def AppComponent_def AppManagedBy_def AppManagedByOperator_def
  AppTechnology_def AppPartOf_def DataValidationEnabledLabel_def DataValidationEnabledLabelValue_def

section \<open>The custom resource\<close>

record suppl_schema =
  SupSchemaType :: schema_type
  SupSharded :: bool
  SupCnfReplicaSize :: nat
  SupDataReplicaSize :: nat
  SupShardCount :: nat
  SupThisDomain :: string
  SupOtherDomain :: string

record s3_backup =
  S3Enabled :: bool
  S3SecretName :: string
  S3BucketName :: string
  S3EndpointUrl :: string
  S3SslVerify :: bool
  S3SslSecretName :: string

text \<open>Of the library's storage requirements the code itself reads two fields; the rest is handed to library steps.\<close>

record storage_requirements =
  StEmptyDir :: bool
  StWaitPVCBound :: bool
  StRest :: string

record backup_spec =
  BkInstall :: bool
  BkStorageDirectory :: string
  BkDockerImage :: string
  BkSchedule :: string
  BkIncSchedule :: string
  BkEvictionPolicy :: string
  BkIncEvictionPolicy :: string
  BkPrefixPattern :: string
  BkStorage :: "storage_requirements option"
  BkResources :: "resources option"
  BkParallelConnections :: int
  BkGranularParallelConnections :: int
  BkBackupDB :: string
  BkSourceDB :: string
  BkEnableFullRestore :: bool
  BkConfigCollections :: "string list"
  BkAdditionalNodeLabels :: smap
  BkS3 :: s3_backup
  BkCASecretName :: string
  BkGranularSchedule :: string
  BkScheduledDbs :: "string list"
  BkPriorityClass :: string
  BkApiSecret :: string
  BkRestoreSecret :: string
  BkSecret :: string
  BkAffinity :: "affinity option"
  BkDataValidation :: bool

record dbaas_spec =
  DbInstall :: bool
  DbDockerImage :: string
  DbAdditionalNodeLabels :: smap
  DbResources :: "resources option"
  DbRegistrationAddress :: string
  DbCustomLabels :: smap
  DbPhysicalIdentifier :: string
  DbFixedDelayMS :: int
  DbRetryDelayMS :: int
  DbRetryTimeMS :: int
  DbMultiUsers :: bool
  DbOperatorNamespace :: string
  DbCASecretName :: string
  DbPriorityClass :: string
  DbAdminSecret :: string
  DbAggregatorSecret :: string
  DbRegistrationSecret :: string
  DbAdminRoleSecret :: string
  DbAffinity :: "affinity option"

record exporter_spec =
  ExInstall :: bool
  ExDockerImage :: string
  ExAdditionalNodeLabels :: smap
  ExResources :: "resources option"
  ExPriorityClass :: string
  ExMonitoringSecret :: string
  ExExporterSecret :: string

record atp_report =
  AtpEnabled :: bool
  AtpProvider :: string
  AtpServerUrl :: string
  AtpServerUiUrl :: string
  AtpBucket :: string
  AtpRegion :: string

record robot_spec =
  RtInstall :: bool
  RtDockerImage :: string
  RtResources :: "resources option"
  RtTags :: string
  RtNodeLabels :: smap
  RtExternalBackupPath :: string
  RtMainSide :: string
  RtLeftNodes :: string
  RtRightNodes :: string
  RtPriorityClass :: string
  RtAffinity :: "affinity option"
  RtAtpReport :: atp_report
  RtEnvironmentName :: string
  RtJiraIntegration :: bool
  RtAtpViewUiUrl :: string

record suppl_spec =
  SupRootSecret :: string
  SupBackup :: backup_spec
  SupDbaas :: dbaas_spec
  SupExporter :: exporter_spec
  SupRobot :: robot_spec
  SupTLS :: tls
  SupDeploymentVersion :: string
  SupWaitSeconds :: int
  SupPodSecurity :: "string option"
  SupServiceAccount :: string
  SupPullPolicy :: string
  SupPolicies :: "string list option"
  SupSchema :: suppl_schema
  SupDR :: "disaster_recovery option"
  SupDeletePVC :: bool
  SupAuthDb :: string
  SupIpV6 :: bool
  SupInstance :: string
  SupCloudPublicHost :: string

section \<open>Objects in the cluster\<close>

text \<open>A deployment with everything the templates set, as an extension of what the other operator reads of one.\<close>

record app_deployment = deployment +
  dep_selector :: smap
  dep_strategy :: string
  dep_pod_meta :: object_meta

record deployment_state =
  ds_object :: app_deployment
  ds_generation :: int
  ds_observed_generation :: int
  ds_replicas :: int
  ds_updated_replicas :: int
  ds_available_replicas :: int
  ds_ready_replicas :: int

record pod_state =
  pst_phase :: string
  pst_containers_ready :: "bool list"

datatype suppl_object =
    DeploymentObj app_deployment
  | SupplServiceObj service
  | ConfigMapObj object_meta smap

section \<open>Context and services\<close>

text \<open>The steps the builders put together; a step of the core library carries the fields the code gives it.\<close>

datatype suppl_step =
    AddServicesUsersStep
  | PrepareContextForBackupStep
  | BackupPVCStep "storage_requirements" string smap nat int bool bool
  | BackupStoreNodesStep "storage_requirements"
  | BackupWaitForExpansionStep int
  | BackupServiceStep
  | BackupConfigMapsStep
  | BackupDeploymentStep
  | BackupCompound "suppl_step list"
  | UpdateDbaasUserStep
  | DbaasServiceStep
  | DbaasDeploymentStep
  | DbaasCompound "suppl_step list"
  | ExporterServiceStep
  | ExporterDeploymentStep
  | ExporterCompound "suppl_step list"
  | RobotDeploymentStep
  | RobotCompound "suppl_step list"

text \<open>The endpoint of the \<^verbatim>\<open>MongoServiceImpl\<close> the builder makes.\<close>

record mongo_endpoint =
  EpHost :: string
  EpPort :: int
  EpUser :: string
  EpPass :: string
  EpAuthDb :: string
  EpTLS :: bool
  EpCAPath :: string

type_synonym suppl_user = "(unit \<Rightarrow> string) user_to_add"

record 'w suppl_state =
  SsSpec :: suppl_spec
  SsNamespace :: string
  SsDeployType :: deploy_type
  SsUsers :: "(string \<times> suppl_user) list option"
  SsRoles :: "(string \<times> role_to_add) list option"
  SsCommonChanged :: "bool option"
  SsMongoHost :: "string option"
  SsMongoService :: "mongo_endpoint option"
  SsIPTemplate :: "string option"
  SsPvcNames :: "string list option"
  SsPVNodes :: "smap list option"
  SsMaxPVCCount :: "int option"
  SsConfigNodes :: "int option"
  SsWorld :: 'w

type_synonym ('w, 'a) sop = "('w suppl_state, 'a) op"

datatype spec_part = BackupPart backup_spec | DbaasPart dbaas_spec | ExporterPart exporter_spec

text \<open>
  What the code calls: the operator core library, the credential manager, the Kubernetes client, \<^verbatim>\<open>wait\<close> and the
  mongo driver, over a world of any type.
\<close>

record 'w suppl_lib =
  LibReadSecret :: "string \<Rightarrow> string \<Rightarrow> ('w, secret with_err) op"
  LibCommonFields :: "suppl_spec \<Rightarrow> (string \<times> string) list"
  LibHasSpecChanged :: "(smap \<Rightarrow> bool) \<Rightarrow> ('w, bool with_err) op"
  LibCompareSpecToCM :: "smap \<Rightarrow> string \<Rightarrow> string \<Rightarrow> bool"
  LibCheckSpecChange :: "spec_part \<Rightarrow> string \<Rightarrow> ('w, bool with_err) op"
  LibDeployTypeByPVC :: "string \<Rightarrow> smap \<Rightarrow> ('w, deploy_type with_err) op"
  LibCreateObject :: "suppl_object \<Rightarrow> ('w, goerror option) op"
  LibDeleteObject :: "suppl_object \<Rightarrow> ('w, unit) op"
  LibWaitForPodsReady :: "smap \<Rightarrow> string \<Rightarrow> int \<Rightarrow> int \<Rightarrow> ('w, goerror option) op"
  LibDeleteDeploymentAndPods :: "string \<Rightarrow> string \<Rightarrow> int \<Rightarrow> ('w, goerror option) op"
  LibWaitForTestsReady :: "string \<Rightarrow> string \<Rightarrow> int \<Rightarrow> ('w, goerror option) op"
  LibCredHash :: "string list \<Rightarrow> app_deployment \<Rightarrow> ('w, goerror + app_deployment) op"
  LibTLSSpecUpdate :: "pod_spec \<Rightarrow> string \<Rightarrow> tls \<Rightarrow> pod_spec"
  LibTLSServerSpecUpdate :: "pod_spec \<Rightarrow> tls \<Rightarrow> string \<Rightarrow> string \<Rightarrow> pod_spec"
  LibHTTPPort :: "bool \<Rightarrow> int"
  LibHTTPProtocol :: "bool \<Rightarrow> string"
  LibTLSForDbaas :: "string \<Rightarrow> bool \<Rightarrow> bool"
  LibPlainEnvVar :: "string \<Rightarrow> string \<Rightarrow> env_var"
  LibOptionalString :: "string \<Rightarrow> string \<Rightarrow> string"
  LibConcatMaps :: "smap \<Rightarrow> smap \<Rightarrow> smap"
  LibSimpleService :: "string \<Rightarrow> smap \<Rightarrow> smap \<Rightarrow> (string \<times> int) list \<Rightarrow> string \<Rightarrow> service"
  LibMultiportService :: "string \<Rightarrow> smap \<Rightarrow> smap \<Rightarrow> (string \<times> int) list \<Rightarrow> string \<Rightarrow> service"
  LibAppKey :: string
  LibMicroserviceKey :: string
  LibGetenv :: "string \<Rightarrow> string"
  LibListPodStates :: "string \<Rightarrow> smap \<Rightarrow> ('w, goerror + pod_state list) op"
  LibGetDeployment :: "string \<Rightarrow> string \<Rightarrow> ('w, goerror + deployment_state) op"
  LibPatch :: "app_deployment \<Rightarrow> app_deployment \<Rightarrow> ('w, goerror + app_deployment) op"
  LibIsNotFound :: "goerror \<Rightarrow> bool"
  LibSleep :: "int \<Rightarrow> ('w, unit) op"
  LibPollImmediate :: "int \<Rightarrow> int \<Rightarrow> ('w, bool with_err) op \<Rightarrow> ('w, goerror option) op"
  LibErrorText :: "goerror \<Rightarrow> string"
  LibPanicValue :: "goerror \<Rightarrow> string \<Rightarrow> goerror"
  DrvCreateOrUpdateRole :: "mongo_endpoint \<Rightarrow> string \<Rightarrow> string \<Rightarrow> string \<Rightarrow> string \<Rightarrow> bool \<Rightarrow> ('w, goerror option) op"
  DrvCreateOrUpdateUser :: "mongo_endpoint \<Rightarrow> string \<Rightarrow> string \<Rightarrow> string \<Rightarrow> string \<Rightarrow> string \<Rightarrow> bool \<Rightarrow> bool \<Rightarrow> ('w, goerror option) op"
  DrvGrantRoleToUser :: "mongo_endpoint \<Rightarrow> string \<Rightarrow> string \<Rightarrow> string \<Rightarrow> ('w, goerror option) op"

definition callS :: "('w, 'a) op \<Rightarrow> ('w, 'a) sop" where
  "callS = lift_op SsWorld (\<lambda>w s. s\<lparr>SsWorld := w\<rparr>)"

lemma callS_apply [op_simps]: "callS f s = (case f (SsWorld s) of (r, w) \<Rightarrow> (r, s\<lparr>SsWorld := w\<rparr>))"
  by (simp add: callS_def lift_op_def)

lemma callS_frame: "callS f s = (r, t) \<Longrightarrow> t = s\<lparr>SsWorld := SsWorld t\<rparr>"
  by (auto simp: callS_apply split: prod.splits)

lemma callS_RetD: "callS f s = (Ret x, t) \<Longrightarrow> f (SsWorld s) = (Ret x, SsWorld t)"
  by (auto simp: callS_apply split: prod.splits)

text \<open>\<^verbatim>\<open>ctx.Get(key).(T)\<close> on an entry that was not set.\<close>

definition type_assertion :: goerror where
  "type_assertion = RuntimeError ''interface conversion: interface is nil''"

definition ctxGet :: "('w suppl_state \<Rightarrow> 'a option) \<Rightarrow> ('w, 'a) sop" where
  "ctxGet entry = andthen getState (\<lambda>s. case entry s of None \<Rightarrow> panic type_assertion | Some v \<Rightarrow> ret v)"

definition supplSpec :: "('w, suppl_spec) sop" where
  "supplSpec = andthen getState (\<lambda>s. ret (SsSpec s))"

lemma ctxGet_simps [simp]:
  "entry s = Some v \<Longrightarrow> ctxGet entry s = (Ret v, s)" "entry s = None \<Longrightarrow> ctxGet entry s = (Panic type_assertion, s)"
  by (simp_all add: ctxGet_def op_simps)

lemma supplSpec_apply [simp, op_simps]: "supplSpec s = (Ret (SsSpec s), s)"
  by (simp add: supplSpec_def op_simps)

lemma andthen_supplSpec [simp]: "andthen supplSpec g s = g (SsSpec s) s"
  by (simp add: andthen_Ret)

text \<open>\<^verbatim>\<open>*p\<close> for a pointer of the custom resource.\<close>

definition deref :: "'a option \<Rightarrow> ('s, 'a) op" where
  "deref p = (case p of None \<Rightarrow> panic nil_dereference | Some v \<Rightarrow> ret v)"

lemma deref_simps [simp]: "deref (Some v) = ret v" "deref None = panic nil_dereference"
  by (simp_all add: deref_def)

definition supplPanicError :: "'w suppl_lib \<Rightarrow> goerror option \<Rightarrow> string \<Rightarrow> ('s, unit) op" where
  "supplPanicError l err msg = (case err of None \<Rightarrow> ret () | Some e \<Rightarrow> panic (LibPanicValue l e msg))"

lemma supplPanicError_simps [simp]:
  "supplPanicError l None msg = ret ()" "supplPanicError l (Some e) msg = panic (LibPanicValue l e msg)"
  by (simp_all add: supplPanicError_def)

definition supplErr :: "'w suppl_lib \<Rightarrow> goerror \<Rightarrow> string" where
  "supplErr l e = errText (LibErrorText l) e"

section \<open>Parts the templates share\<close>

text \<open>A map literal whose keys may coincide: a later entry replaces an earlier one.\<close>

definition mapLiteral :: "(string \<times> string) list \<Rightarrow> smap" where
  "mapLiteral kvs = fold (\<lambda>(k, v). smap_put k v) kvs []"

lemma map_of_mapLiteral: "map_of (mapLiteral kvs) = map_of (rev kvs)"
proof -
  have "map_of (fold (\<lambda>(k, v). smap_put k v) kvs m) = map_of m ++ map_of (rev kvs)" for m
    by (induction kvs arbitrary: m) (auto simp: fun_eq_iff map_add_def split: option.splits)
  from this [of "[]"] show ?thesis by (simp add: mapLiteral_def)
qed

definition supplSecurity :: security_context where
  "supplSecurity = \<lparr>sc_readonly_root = True, sc_drop = [''ALL''], sc_privilege_escalation = False\<rparr>"

definition tcpProbe :: "int \<Rightarrow> probe" where
  "tcpProbe port = \<lparr>probe_exec = None, probe_tcp_port = Some port, probe_http = None, probe_initial_delay = 5, probe_timeout = 30,
     probe_period = 5, probe_failure = 12, probe_success = 1\<rparr>"

definition healthProbe :: "int \<Rightarrow> string \<Rightarrow> probe" where
  "healthProbe port uriScheme = \<lparr>probe_exec = None, probe_tcp_port = None, probe_http = Some (''/health'', port, uriScheme),
     probe_initial_delay = 5, probe_timeout = 30, probe_period = 5, probe_failure = 12, probe_success = 1\<rparr>"

definition objectMeta :: "string \<Rightarrow> string \<Rightarrow> smap \<Rightarrow> object_meta" where
  "objectMeta name namespace labels = \<lparr>meta_name = name, meta_namespace = namespace, meta_labels = labels, meta_annotations = []\<rparr>"

text \<open>The mode of the disaster recovery, through the pointer, and the replicas the deployments get from it.\<close>

definition supplMode :: "suppl_spec \<Rightarrow> ('s, string) op" where
  "supplMode spec = andthen (deref (SupDR spec)) (\<lambda>dr. ret (Mode dr))"

definition replicasOfMode :: "string \<Rightarrow> int" where
  "replicasOfMode mode = (if mode = ActiveMode then 1 else 0)"

lemma supplMode_simps [simp]:
  "SupDR spec = Some dr \<Longrightarrow> supplMode spec = ret (Mode dr)" "SupDR spec = None \<Longrightarrow> supplMode spec = panic nil_dereference"
  by (simp_all add: supplMode_def)

definition supplTolerations :: "suppl_spec \<Rightarrow> string list" where
  "supplTolerations spec = (case SupPolicies spec of None \<Rightarrow> [] | Some tolerations \<Rightarrow> tolerations)"

end
