(* ===== verification/SupplUtils.thy ===== *)
theory SupplUtils
  imports Suppl
begin

text \<open>
  The helpers of the supplementary operator (\<^verbatim>\<open>src/services/service/pkg/utils/utils.go\<close>, \<^verbatim>\<open>wait.go\<close>) and the step that
  creates the users of the services (\<^verbatim>\<open>pkg/common/add_services_users_step.go\<close>).

  The lemmas show that this operator computes the host names of the other one, what a successful wait for a rollout
  has seen, and which failures the user step reports.
\<close>

section \<open>Registries of users and roles\<close>

definition addServiceUser :: "suppl_user \<Rightarrow> ('w, unit) sop" where
  "addServiceUser usr =
     andthen getState (\<lambda>s.
     (let users = (case SsUsers s of None \<Rightarrow> [] | Some m \<Rightarrow> m) in
      modifyState (\<lambda>s. s\<lparr>SsUsers := Some (smap_put (AddUser usr) usr users)\<rparr>)))"

definition addServiceRole :: "role_to_add \<Rightarrow> ('w, unit) sop" where
  "addServiceRole role =
     andthen getState (\<lambda>s.
     (let roles = (case SsRoles s of None \<Rightarrow> [] | Some m \<Rightarrow> m) in
      modifyState (\<lambda>s. s\<lparr>SsRoles := Some (smap_put (AddRole role) role roles)\<rparr>)))"

section \<open>Names\<close>

definition supplReplicaSetHosts :: "nat \<Rightarrow> string \<Rightarrow> string list" where
  "supplReplicaSetHosts replicaSize fullDomain = map (\<lambda>i. Sprintf fullDomain [Num (int i)]) [0..<replicaSize]"

definition supplCnfHosts :: "nat \<Rightarrow> string \<Rightarrow> string \<Rightarrow> string list" where
  "supplCnfHosts replicaSize domain namespace =
     (let fullDomain = Sprintf ''%s-0.%s.%s.svc.%s:27017''
            [Str CnfNameWithIndexFormat, Str CnfNameKey, Str namespace, Str domain]
      in supplReplicaSetHosts replicaSize fullDomain)"

definition supplDataHosts :: "nat \<Rightarrow> nat \<Rightarrow> string \<Rightarrow> string \<Rightarrow> string list" where
  "supplDataHosts replicaSize shardIndex domain namespace =
     (let serviceName = Sprintf DataNameKey [Num (int shardIndex + 1)];
          podNamePattern = Sprintf DataNameWithIndexesFormat [Num (int shardIndex + 1), Str ''%v-0''];
          fullDomain = Sprintf ''%s.%s.%s:27017''
            [Str podNamePattern, Str serviceName, Str (Sprintf ''%s.svc.%s'' [Str namespace, Str domain])]
      in supplReplicaSetHosts replicaSize fullDomain)"

definition GetUriScheme :: "bool \<Rightarrow> string" where
  "GetUriScheme tlsEnabled = (if tlsEnabled then ''HTTPS'' else ''HTTP'')"

definition SanitizeVolumeName :: "string \<Rightarrow> string" where
  "SanitizeVolumeName name = ReplaceAll name ''.'' ''-''"

text \<open>The loop over the secrets of a deployment: a volume and a mount for each.\<close>

definition secretVolume :: "string \<Rightarrow> volume" where
  "secretVolume secretName = \<lparr>vol_name = SanitizeVolumeName secretName, vol_source = SecretSource secretName (Some 256)\<rparr>"

definition secretMount :: "string \<Rightarrow> string \<Rightarrow> volume_mount" where
  "secretMount secretName mountPath = \<lparr>mount_name = SanitizeVolumeName secretName, mount_readonly = True, mount_path = mountPath\<rparr>"

definition secretVolumesOf :: "smap \<Rightarrow> volume list \<times> volume_mount list" where
  "secretVolumesOf secretVolumes =
     fold (\<lambda>(secretName, mountPath) (volumes, volumeMounts).
       (volumes @ [secretVolume secretName], volumeMounts @ [secretMount secretName mountPath])) secretVolumes ([], [])"

section \<open>Waiting for a rollout\<close>

text \<open>The loop over the containers of a pod, and the one over the pods: \<^verbatim>\<open>None\<close> when it was not left early.\<close>

fun checkContainers :: "(bool \<Rightarrow> bool with_err) \<Rightarrow> bool list \<Rightarrow> bool with_err option" where
  "checkContainers containerCheckFunc [] = None"
| "checkContainers containerCheckFunc (status # rest) =
     (case containerCheckFunc status of
        (result, Some err) \<Rightarrow> Some (False, Some err)
      | (result, None) \<Rightarrow> if \<not> result then Some (False, None) else checkContainers containerCheckFunc rest)"

fun checkPods :: "string \<Rightarrow> (bool \<Rightarrow> bool with_err) \<Rightarrow> pod_state list \<Rightarrow> bool with_err" where
  "checkPods podPhase containerCheckFunc [] = (True, None)"
| "checkPods podPhase containerCheckFunc (pod # pods) =
     (if pst_phase pod = podPhase
      then (case checkContainers containerCheckFunc (pst_containers_ready pod) of
              Some early \<Rightarrow> early | None \<Rightarrow> checkPods podPhase containerCheckFunc pods)
      else (False, None))"

definition checkPodsByLabel ::
  "'w suppl_lib \<Rightarrow> smap \<Rightarrow> string \<Rightarrow> int \<Rightarrow> string \<Rightarrow> (bool \<Rightarrow> bool with_err) \<Rightarrow> ('w, bool with_err) op" where
  "checkPodsByLabel l labelSelectors namespace numberOfPods podPhase containerCheckFunc =
     andthen (LibListPodStates l namespace labelSelectors) (\<lambda>x. ret (case x of
       Inl err \<Rightarrow> if LibIsNotFound l err then (False, None) else (False, Some err)
     | Inr items \<Rightarrow> if int (length items) = numberOfPods then checkPods podPhase containerCheckFunc items else (False, None)))"

definition rolledOut :: "deployment_state \<Rightarrow> bool" where
  "rolledOut dep =
     (if ds_observed_generation dep < ds_generation dep then False
      else if ds_updated_replicas dep < dep_replicas (ds_object dep) then False
      else if ds_replicas dep > ds_updated_replicas dep then False
      else if ds_available_replicas dep < dep_replicas (ds_object dep) then False
      else True)"

definition deploymentReady :: "'w suppl_lib \<Rightarrow> smap \<Rightarrow> string \<Rightarrow> int \<Rightarrow> ('w, bool with_err) op" where
  "deploymentReady l labelSelectors namespace numberOfPods =
     andthen (checkPodsByLabel l labelSelectors namespace numberOfPods PodRunning (\<lambda>status. (status, None))) (\<lambda>(podsReady, err).
     if err \<noteq> None \<or> \<not> podsReady then ret (False, err)
     else andthen (LibGetDeployment l namespace BackupDaemon) (\<lambda>x. ret (case x of
       Inl err \<Rightarrow> (False, Some err)
     | Inr dep \<Rightarrow> (rolledOut dep, None))))"

definition WaitForDeploymentReady :: "'w suppl_lib \<Rightarrow> smap \<Rightarrow> string \<Rightarrow> int \<Rightarrow> int \<Rightarrow> ('w, goerror option) sop" where
  "WaitForDeploymentReady l labelSelectors namespace numberOfPods waitSeconds =
     callS (LibPollImmediate l 1 waitSeconds (deploymentReady l labelSelectors namespace numberOfPods))"

section \<open>The users of the services\<close>

definition addRoles :: "'w suppl_lib \<Rightarrow> mongo_endpoint \<Rightarrow> bool \<Rightarrow> (string \<times> role_to_add) list \<Rightarrow> ('w, goerror option) sop" where
  "addRoles l ms sharded roles =
     forRange roles (\<lambda>(_, role).
       callS (DrvCreateOrUpdateRole l ms ''admin'' (AddRole role) (AddRoles role) (AddPrivileges role) sharded))"

definition addUsers ::
  "'w suppl_lib \<Rightarrow> mongo_endpoint \<Rightarrow> string \<Rightarrow> bool \<Rightarrow> (string \<times> suppl_user) list \<Rightarrow> ('w, goerror option) sop" where
  "addUsers l ms authDb sharded users =
     forRange users (\<lambda>(_, user).
       andthen (callS (DrvCreateOrUpdateUser l ms (AddUser user) (AddPass user ()) authDb authDb (AddUserRole user) sharded False)) (\<lambda>err.
       ret None))"

definition AddServicesUsers_Execute :: "'w suppl_lib \<Rightarrow> ('w, goerror option) sop" where
  "AddServicesUsers_Execute l =
     andthen supplSpec (\<lambda>spec.
     andthen (ctxGet SsMongoService) (\<lambda>mongoService.
     (let sharded = SupSharded (SupSchema spec) in
      andthen getState (\<lambda>s.
      andthen (case SsRoles s of None \<Rightarrow> ret None | Some roles \<Rightarrow> addRoles l mongoService sharded roles) (\<lambda>err. case err of
        Some e \<Rightarrow> ret (Some e)
      | None \<Rightarrow> andthen getState (\<lambda>s. case SsUsers s of
          None \<Rightarrow> ret None
        | Some users \<Rightarrow> addUsers l mongoService (SupAuthDb spec) sharded users))))))"

section \<open>Properties\<close>

text \<open>Both operators compute the same host names.\<close>

lemma suppl_hosts_eq:
  "supplCnfHosts = GetCNFReplicaSetHostNames" "supplDataHosts = GetDATAReplicaSetHostName"
  by (simp_all add: fun_eq_iff supplCnfHosts_def supplDataHosts_def supplReplicaSetHosts_def GetCNFReplicaSetHostNames_def
      GetDATAReplicaSetHostName_def GetReplicaSetHostNames_def)

text \<open>A volume name is the secret's name with hyphens for its dots.\<close>

lemma ReplaceAll_char:
  "ReplaceAll s [c] [d] = map (\<lambda>x. if x = c then d else x) s"
proof (induction s rule: length_induct)
  case (1 s)
  show ?case
  proof (cases "c \<in> set s")
    case False
    then have "map (\<lambda>x. if x = c then d else x) s = s" by (induction s) auto
    then show ?thesis using False by (simp add: ReplaceAll_def Split_char_plain)
  next
    case True
    then obtain a b where s: "s = a @ c # b" "c \<notin> set a" by (meson split_list_first)
    from s(2) have a: "map (\<lambda>x. if x = c then d else x) a = a" by (induction a) auto
    have "Join [d] (Split b [c]) = map (\<lambda>x. if x = c then d else x) b" using 1 s by (simp add: ReplaceAll_def)
    then show ?thesis using s a by (simp add: ReplaceAll_def Split_char Join_Cons)
  qed
qed

lemma SanitizeVolumeName_eq: "SanitizeVolumeName name = map (\<lambda>x. if x = CHR ''.'' then CHR ''-'' else x) name"
  by (simp add: SanitizeVolumeName_def ReplaceAll_char)

lemma SanitizeVolumeName_no_dot: "CHR ''.'' \<notin> set (SanitizeVolumeName name)"
  by (auto simp: SanitizeVolumeName_eq)

lemma secretVolumesOf_eq:
  "secretVolumesOf m = (map (\<lambda>(n, p). secretVolume n) m, map (\<lambda>(n, p). secretMount n p) m)"
proof -
  have "fold (\<lambda>(n, p) (vs, ms). (vs @ [secretVolume n], ms @ [secretMount n p])) m (vs, ms) =
      (vs @ map (\<lambda>(n, p). secretVolume n) m, ms @ map (\<lambda>(n, p). secretMount n p) m)" for vs ms
    by (induction m arbitrary: vs ms) auto
  then show ?thesis by (simp add: secretVolumesOf_def)
qed

text \<open>The two registries.\<close>

lemma addServiceUser_apply [simp]:
  "addServiceUser u s = (Ret (), s\<lparr>SsUsers := Some (smap_put (AddUser u) u (case SsUsers s of None \<Rightarrow> [] | Some m \<Rightarrow> m))\<rparr>)"
  by (simp add: addServiceUser_def op_simps Let_def)

lemma addServiceRole_apply [simp]:
  "addServiceRole r s = (Ret (), s\<lparr>SsRoles := Some (smap_put (AddRole r) r (case SsRoles s of None \<Rightarrow> [] | Some m \<Rightarrow> m))\<rparr>)"
  by (simp add: addServiceRole_def op_simps Let_def)

text \<open>The check of the pods succeeds when every one is in the phase and all of its containers are ready.\<close>

definition podReady :: "string \<Rightarrow> pod_state \<Rightarrow> bool" where
  "podReady phase p = (pst_phase p = phase \<and> False \<notin> set (pst_containers_ready p))"

lemma checkContainers_ready:
  "checkContainers (\<lambda>status. (status, None)) cs = (if False \<in> set cs then Some (False, None) else None)"
  by (induction cs) auto

lemma checkPods_ready: "checkPods phase (\<lambda>status. (status, None)) pods = (list_all (podReady phase) pods, None)"
  by (induction pods) (auto simp: checkContainers_ready podReady_def)

lemma rolledOut_iff:
  "rolledOut dep \<longleftrightarrow> ds_generation dep \<le> ds_observed_generation dep \<and> dep_replicas (ds_object dep) \<le> ds_updated_replicas dep \<and>
     ds_replicas dep \<le> ds_updated_replicas dep \<and> dep_replicas (ds_object dep) \<le> ds_available_replicas dep"
  by (auto simp: rolledOut_def)

lemma deploymentReady_True:
  assumes "deploymentReady l labels ns n w = (Ret (True, None), w')"
  shows "\<exists>pods u dep. LibListPodStates l ns labels w = (Ret (Inr pods), u) \<and> int (length pods) = n \<and>
    list_all (podReady PodRunning) pods \<and>
    LibGetDeployment l ns BackupDaemon u = (Ret (Inr dep), w') \<and> rolledOut dep"
  using assms
  by (auto simp: deploymentReady_def checkPodsByLabel_def andthen_assoc checkPods_ready elim!: andthen_RetE split: sum.splits if_splits)

text \<open>A wait that ends with nil has seen the number of running pods with ready containers, and then the deployment of
  the backup daemon rolled out at its newest generation.\<close>

lemma wait_rolled_out:
  assumes "poll_law (LibPollImmediate l 1 secs)" "WaitForDeploymentReady l labels ns n secs s = (Ret None, s')"
  shows "\<exists>w u pods dep. LibListPodStates l ns labels w = (Ret (Inr pods), u) \<and> int (length pods) = n \<and>
    list_all (podReady PodRunning) pods \<and>
    LibGetDeployment l ns BackupDaemon u = (Ret (Inr dep), SsWorld s') \<and> rolledOut dep"
proof -
  have "LibPollImmediate l 1 secs (deploymentReady l labels ns n) (SsWorld s) = (Ret None, SsWorld s')"
    using assms(2) by (auto simp: WaitForDeploymentReady_def callS_apply split: prod.splits)
  from poll_lawD [OF assms(1) this] obtain w where "deploymentReady l labels ns n w = (Ret (True, None), SsWorld s')" ..
  from deploymentReady_True [OF this] show ?thesis by blast
qed

end
