(* ===== verification/SupplBackup.thy ===== *)
theory SupplBackup
  imports SupplUtils
begin

text \<open>
  The backup daemon of the supplementary operator (\<^verbatim>\<open>src/services/service/pkg/backup\<close>): its builder, its steps, the
  template of its deployment and the restart after an expansion of its volume.

  The lemmas show how the restart ends and how often it tries, and what it has seen when it reports success.
\<close>

section \<open>Service and config map\<close>

definition BackupService_Execute :: "'w suppl_lib \<Rightarrow> ('w, goerror option) sop" where
  "BackupService_Execute l =
     andthen getState (\<lambda>s.
     (let spec = SsSpec s;
          template = LibSimpleService l BackupDaemon
            [(LibAppKey l, MongoCluster), (LibMicroserviceKey l, BackupDaemon), (NameLabel, BackupDaemon), (AppName, BackupDaemon),
             (AppTechnology, ''python''), (AppComponent, ''backend''), (AppInstance, LibGetenv l ''RELEASE_NAME''),
             (AppManagedBy, ''operator''), (AppPartOf, ''mongodb-services''), (AppManagedByOperator, ''mongodb-services-operator''),
             (DataValidationEnabledLabel, DataValidationEnabledLabelValue)]
            [(NameLabel, BackupDaemon)] [(''http'', LibHTTPPort l (TLSEnabled (SupTLS spec)))] (SsNamespace s) in
      andthen (callS (LibDeleteObject l (SupplServiceObj template))) (\<lambda>_.
      callS (LibCreateObject l (SupplServiceObj template)))))"

definition BackupConfigMaps_Execute :: "'w suppl_lib \<Rightarrow> ('w, goerror option) sop" where
  "BackupConfigMaps_Execute l =
     andthen getState (\<lambda>s.
     andthen (ctxGet SsIPTemplate) (\<lambda>ip.
     callS (LibCreateObject l (ConfigMapObj (objectMeta BackupMonitoringConfig (SsNamespace s) [])
       [(''url.health'', Sprintf ''http://%s:8080/health'' [Str ip])]))))"

definition PrepareContextForBackup_Execute :: "('w, goerror option) sop" where
  "PrepareContextForBackup_Execute =
     andthen (modifyState (\<lambda>s. s\<lparr>SsMaxPVCCount := Some 1\<rparr>)) (\<lambda>_.
     andthen supplSpec (\<lambda>spec.
     (let sch = SupSchema spec in
      andthen (modifyState (\<lambda>s. s\<lparr>SsConfigNodes :=
        Some (if SupSchemaType sch = SingleSchema then 0 else int (SupCnfReplicaSize sch))\<rparr>)) (\<lambda>_. ret None))))"

section \<open>Deployment\<close>

text \<open>The certificates of the S3 storage.\<close>

definition withS3Certs :: "s3_backup \<Rightarrow> container \<Rightarrow> volume list \<Rightarrow> container \<times> volume list" where
  [simp]: "withS3Certs s3 container volumes =
     (if S3SslVerify s3
      then (container\<lparr>ctr_mounts := ctr_mounts container @
              [\<lparr>mount_name = ''s3-ssl-certs'', mount_readonly = True, mount_path = ''/s3Certs''\<rparr>]\<rparr>,
            volumes @ [\<lparr>vol_name = ''s3-ssl-certs'', vol_source = SecretSource (S3SslSecretName s3) None\<rparr>])
      else (container, volumes))"

definition BackupDeploymentTemplate ::
  "'w suppl_lib \<Rightarrow> suppl_spec \<Rightarrow> string \<Rightarrow> string \<Rightarrow> smap \<Rightarrow> env_var list \<Rightarrow> string list \<Rightarrow> string \<Rightarrow> bool \<Rightarrow> int \<Rightarrow> string \<Rightarrow>
   affinity option \<Rightarrow> volume_mount list \<Rightarrow> volume list \<Rightarrow> ('s, app_deployment) op" where
  "BackupDeploymentTemplate l spec pvcName namespace nodeSelector env tolerations storageDirectory emptyDir numberOfReplicas
     priorityClassName affinity volumeMounts volumes =
     (let backup = SupBackup spec; port = LibHTTPPort l (TLSEnabled (SupTLS spec));
          uriScheme = GetUriScheme (TLSEnabled (SupTLS spec));
          volumeSource = (if emptyDir then EmptyDirSource else PVCSource pvcName);
          volumeMounts = [\<lparr>mount_name = BackupStorage, mount_readonly = False, mount_path = storageDirectory\<rparr>,
                          \<lparr>mount_name = MongoSecret, mount_readonly = True, mount_path = ''/opt/'' @ MongoSecret\<rparr>] @ volumeMounts;
          volumes = [\<lparr>vol_name = BackupStorage, vol_source = volumeSource\<rparr>,
                     \<lparr>vol_name = MongoSecret, vol_source = SecretSource MongoSecret None\<rparr>] @ volumes in
      andthen (deref (BkResources backup)) (\<lambda>resources.
      (let container = (namedContainer BackupDaemon)\<lparr>ctr_image := BkDockerImage backup, ctr_pull_policy := SupPullPolicy spec,
             ctr_security := Some supplSecurity, ctr_ports := [\<lparr>port_name = ''http'', port_number = port, port_protocol = ''TCP''\<rparr>],
             ctr_env := env, ctr_resources := resources, ctr_liveness := Some (healthProbe port uriScheme),
             ctr_readiness := Some (healthProbe port uriScheme), ctr_mounts := volumeMounts\<rparr>;
           (container, volumes) = withS3Certs (BkS3 backup) container volumes;
           podSpec = emptyPodSpec\<lparr>ps_service_account := SupServiceAccount spec, ps_security := SupPodSecurity spec,
             ps_priority_class := priorityClassName, ps_containers := [container], ps_node_selector := nodeSelector,
             ps_affinity := affinity, ps_tolerations := tolerations, ps_volumes := volumes\<rparr>;
           podSpec = LibTLSSpecUpdate l podSpec RootCertPath (SupTLS spec);
           podSpec = LibTLSServerSpecUpdate l podSpec (SupTLS spec) (BkCASecretName backup) ServerCertsPath in
       ret \<lparr>dep_meta = objectMeta BackupDaemon namespace
              [(AppLabel, MongoCluster), (Microservice, BackupDaemon), (AppPartOf, ''mongodb-services''), (NameLabel, BackupDaemon),
               (AppName, BackupDaemon), (AppInstance, LibGetenv l ''RELEASE_NAME''), (AppVersion, LibGetenv l ''APP_VERSION''),
               (AppComponent, ''backend''), (AppManagedBy, ''operator''), (AppManagedByOperator, ''mongodb-services-operator''),
               (AppTechnology, ''python'')],
            dep_replicas = numberOfReplicas, dep_pod_spec = podSpec, dep_selector = [(NameLabel, BackupDaemon)],
            dep_strategy = ''Recreate'', dep_pod_meta = objectMeta [] namespace [(NameLabel, BackupDaemon)]\<rparr>)))"

definition backupEnvs :: "'w suppl_lib \<Rightarrow> suppl_spec \<Rightarrow> string \<Rightarrow> string \<Rightarrow> env_var list" where
  "backupEnvs l spec namespace mongoHost =
     (let backup = SupBackup spec; plain = LibPlainEnvVar l;
          mongoBackupDb = (if BkBackupDB backup = [] then mongoHost else BkBackupDB backup);
          mongoSourceDb = (if BkSourceDB backup = [] then mongoHost else BkSourceDB backup);
          bool = (\<lambda>b. if b then ''true'' else ''false'') in
      [plain ''INC_BACKUP_SCHEDULE'' (BkIncSchedule backup), plain ''BACKUP_SCHEDULE'' (BkSchedule backup),
       plain ''EVICTION_POLICY'' (BkEvictionPolicy backup), plain ''INC_EVICTION_POLICY'' (BkIncEvictionPolicy backup),
       plain ''MONGO_DATABASE_PREFIX_PATTERN'' (BkPrefixPattern backup),
       plain ''CONFIG_NODES'' (Sprintf ''cnfrs.%s'' [Str namespace]),
       plain ''CONFIG_COLLECTIONS'' (Join '' '' (BkConfigCollections backup)),
       plain ''ENABLE_FULL_RESTORE'' (bool (BkEnableFullRestore backup)),
       plain ''MONGO_BACKUP_DB'' mongoBackupDb, plain ''MONGO_SOURCE_DB'' mongoSourceDb,
       plain ''NUM_PARALLEL_CONNECTIONS'' (Sprintf ''%v'' [Num (BkParallelConnections backup)]),
       plain ''GRANULAR_NUM_PARALLEL_CONNECTIONS'' (Sprintf ''%v'' [Num (BkGranularParallelConnections backup)]),
       plain ''MONGO_AUTH_DB'' ''admin'', plain ''STORAGE'' (BkStorageDirectory backup),
       plain ''GRANULAR_SCHEDULE'' (BkGranularSchedule backup), plain ''SCHEDULED_DBS'' (Join '','' (BkScheduledDbs backup)),
       plain ''DATA_VALIDATION_ENABLED'' (bool (BkDataValidation backup))] @
      (if SupIpV6 spec then [plain ''BROADCAST_ADDRESS'' ''::''] else []) @
      (if S3Enabled (BkS3 backup)
       then [plain ''S3_ENABLED'' ''true'', plain ''S3_BUCKET'' (S3BucketName (BkS3 backup)), plain ''S3_URL'' (S3EndpointUrl (BkS3 backup)),
             plain ''BACKUP_DAEMON_SECRETS_DIR'' ''/var/run/secrets/mongodb/s3''] @
            (if S3SslVerify (BkS3 backup) then [plain ''S3_CERTS_PATH'' ''/s3Certs''] else [])
       else []))"

definition backupSecrets :: "backup_spec \<Rightarrow> smap" where
  "backupSecrets backup =
     mapLiteral ([(BkSecret backup, ''/var/run/secrets/mongodb/mongo-backup''),
                  (BkRestoreSecret backup, ''/var/run/secrets/mongodb/mongo-restore''),
                  (BkApiSecret backup, ''/var/run/secrets/mongodb/backup-api'')] @
                 (if S3Enabled (BkS3 backup) then [(S3SecretName (BkS3 backup), ''/var/run/secrets/mongodb/s3'')] else []))"

definition backupReady :: "'w suppl_lib \<Rightarrow> suppl_spec \<Rightarrow> string \<Rightarrow> int \<Rightarrow> ('w, goerror option) sop" where
  [simp]: "backupReady l spec namespace numberOfReplicas =
     andthen (WaitForDeploymentReady l [(NameLabel, BackupDaemon)] namespace numberOfReplicas (SupWaitSeconds spec)) (\<lambda>err. case err of
       Some e \<Rightarrow> ret (Some (ExecutionError (''Error happened while waiting backup pod is ready. Error: '' @ supplErr l e)))
     | None \<Rightarrow> ret None)"

definition BackupDeployment_Execute :: "'w suppl_lib \<Rightarrow> ('w, goerror option) sop" where
  "BackupDeployment_Execute l =
     andthen getState (\<lambda>s.
     (let namespace = SsNamespace s; spec = SsSpec s; backup = SupBackup spec in
      andthen (ctxGet SsMongoHost) (\<lambda>mongoHost.
      (let envs = backupEnvs l spec namespace mongoHost; secretVolumes = backupSecrets backup in
       andthen (deref (BkStorage backup)) (\<lambda>storage.
       andthen (if \<not> StEmptyDir storage
                then andthen (ctxGet SsPVNodes) (\<lambda>nodeLabels. ret (if length nodeLabels > 0 then nodeLabels ! 0 else []))
                else ret []) (\<lambda>nodeSelector.
       andthen (if \<not> StEmptyDir storage then andthen (ctxGet SsPvcNames) (\<lambda>names. nth_or_panic names 0) else ret []) (\<lambda>pvcName.
       andthen (supplMode spec) (\<lambda>mode.
       (let numberOfReplicas = replicasOfMode mode; (volumes, volumeMounts) = secretVolumesOf secretVolumes in
        andthen (BackupDeploymentTemplate l spec pvcName namespace (LibConcatMaps l (BkAdditionalNodeLabels backup) nodeSelector) envs
          (supplTolerations spec) (BkStorageDirectory backup) (StEmptyDir storage) numberOfReplicas (BkPriorityClass backup)
          (BkAffinity backup) volumeMounts volumes) (\<lambda>dc.
        andthen (callS (LibCredHash l [SupRootSecret spec] dc)) (\<lambda>x. case x of
          Inl err \<Rightarrow> ret (Some err)
        | Inr dc \<Rightarrow>
            andthen (callS (LibCreateObject l (DeploymentObj dc))) (\<lambda>err. case err of
              Some e \<Rightarrow> ret (Some (ExecutionError (''Error happened on processing backup deployment config. Error: '' @ supplErr l e)))
            | None \<Rightarrow> backupReady l spec namespace numberOfReplicas))))))))))))"

section \<open>Restart for a volume resize\<close>

definition daemonStopped :: "'w suppl_lib \<Rightarrow> string \<Rightarrow> ('w, bool with_err) op" where
  "daemonStopped l namespace =
     andthen (LibGetDeployment l namespace BackupDaemon) (\<lambda>x. ret (case x of
       Inl err \<Rightarrow> (False, Some err) | Inr cur \<Rightarrow> (ds_replicas cur = 0, None)))"

definition daemonStarted :: "'w suppl_lib \<Rightarrow> string \<Rightarrow> ('w, bool with_err) op" where
  "daemonStarted l namespace =
     andthen (LibGetDeployment l namespace BackupDaemon) (\<lambda>x. ret (case x of
       Inl err \<Rightarrow> (False, Some err) | Inr updated \<Rightarrow> (ds_available_replicas updated \<ge> 1 \<and> ds_ready_replicas updated \<ge> 1, None)))"

definition maxAttempts :: nat where
  "maxAttempts = 5"

definition attemptDelay :: "nat \<Rightarrow> int" where
  "attemptDelay attempt = 10 * 2 ^ (attempt - 1)"

text \<open>\<^verbatim>\<open>Some r\<close> when the attempt ends the restart with r.\<close>

definition startAttempt :: "'w suppl_lib \<Rightarrow> string \<Rightarrow> int \<Rightarrow> nat \<Rightarrow> ('w, goerror option option) sop" where
  "startAttempt l namespace backupWaitSeconds attempt =
     andthen (callS (LibSleep l (attemptDelay attempt))) (\<lambda>_.
     andthen (callS (LibGetDeployment l namespace BackupDaemon)) (\<lambda>x. case x of
       Inl err \<Rightarrow> ret (Some (Some (Wrapped (Sprintf ''getting deployment %s: %s'' [Str BackupDaemon, Str (supplErr l err)]) err)))
     | Inr cur \<Rightarrow>
         (let base = ds_object cur in
          andthen (callS (LibPatch l base (base\<lparr>dep_replicas := 1\<rparr>))) (\<lambda>x. case x of
            Inl err \<Rightarrow> ret (Some (Some (Wrapped (Sprintf ''scaling up %s: %s'' [Str BackupDaemon, Str (supplErr l err)]) err)))
          | Inr patched \<Rightarrow>
              andthen (callS (LibPollImmediate l 5 120 (daemonStarted l namespace))) (\<lambda>checkErr.
              if checkErr = None then ret (Some None)
              else if attempt < maxAttempts
              then andthen (callS (LibPatch l patched (patched\<lparr>dep_replicas := 0\<rparr>))) (\<lambda>_.
                   andthen (callS (LibPollImmediate l 2 backupWaitSeconds (daemonStopped l namespace))) (\<lambda>_. ret None))
              else ret None)))))"

text \<open>Scale up with retry.\<close>

definition startDaemon :: "'w suppl_lib \<Rightarrow> string \<Rightarrow> int \<Rightarrow> ('w, goerror option) sop" where
  "startDaemon l namespace backupWaitSeconds =
     andthen (forRange [1..<maxAttempts + 1] (startAttempt l namespace backupWaitSeconds)) (\<lambda>x. case x of
       Some result \<Rightarrow> ret result
     | None \<Rightarrow> ret (Some (GoError (Sprintf ''deployment %s failed to start after %d attempts'' [Str BackupDaemon, Num (int maxAttempts)]))))"

text \<open>Scale down, wait, and start again.\<close>

definition restartDaemon :: "'w suppl_lib \<Rightarrow> string \<Rightarrow> int \<Rightarrow> app_deployment \<Rightarrow> ('w, goerror option) sop" where
  "restartDaemon l namespace backupWaitSeconds depl =
     andthen (callS (LibPatch l depl (depl\<lparr>dep_replicas := 0\<rparr>))) (\<lambda>x. case x of
       Inl err \<Rightarrow> ret (Some (Wrapped (Sprintf ''scaling down %s: %s'' [Str BackupDaemon, Str (supplErr l err)]) err))
     | Inr _ \<Rightarrow>
         andthen (callS (LibPollImmediate l 2 backupWaitSeconds (daemonStopped l namespace))) (\<lambda>err. case err of
           Some e \<Rightarrow> ret (Some (Wrapped (Sprintf ''waiting for %s to scale down: %s'' [Str BackupDaemon, Str (supplErr l e)]) e))
         | None \<Rightarrow> startDaemon l namespace backupWaitSeconds))"

definition backupRestart :: "'w suppl_lib \<Rightarrow> int \<Rightarrow> ('w, goerror option) sop" where
  "backupRestart l backupWaitSeconds =
     andthen getState (\<lambda>s.
     (let namespace = SsNamespace s in
      andthen (callS (LibGetDeployment l namespace BackupDaemon)) (\<lambda>x. case x of
        Inl err \<Rightarrow> if LibIsNotFound l err then ret None
          else ret (Some (Wrapped (Sprintf ''getting deployment %s: %s'' [Str BackupDaemon, Str (supplErr l err)]) err))
      | Inr depl \<Rightarrow> restartDaemon l namespace backupWaitSeconds (ds_object depl))))"

section \<open>Builder\<close>

definition backupSelector :: smap where
  "backupSelector = [(NameLabel, BackupDaemon)]"

text \<open>A user of the services, from the secret of its credentials.\<close>

definition secretUser :: "secret \<Rightarrow> bool \<Rightarrow> suppl_user" where
  "secretUser creds shardLocal =
     \<lparr>AddUser = smap_get (sec_data creds) UsernameKey, AddPass = (\<lambda>_. smap_get (sec_data creds) PasswordKey),
      AddUserRole = smap_get (sec_data creds) RoleKey, AddUserShardLocal = shardLocal\<rparr>"

definition BackupBuild :: "'w suppl_lib \<Rightarrow> ('w, suppl_step) sop" where
  "BackupBuild l =
     andthen getState (\<lambda>s.
     (let spec = SsSpec s; namespace = SsNamespace s; backup = SupBackup spec in
      andthen (callS (LibReadSecret l (BkSecret backup) namespace)) (\<lambda>(backupCreds, bErr).
      andthen (callS (LibReadSecret l (BkRestoreSecret backup) namespace)) (\<lambda>(restoreCreds, rErr).
      andthen (supplPanicError l bErr ''Backup credentials secret reading failed'') (\<lambda>_.
      andthen (supplPanicError l rErr ''Restore credentials secret reading failed'') (\<lambda>_.
      andthen (addServiceUser (secretUser backupCreds False)) (\<lambda>_.
      andthen (addServiceUser (secretUser restoreCreds False)) (\<lambda>_.
      andthen (deref (BkStorage backup)) (\<lambda>storage.
      ret (BackupCompound ([PrepareContextForBackupStep] @
        (if \<not> StEmptyDir storage
         then [BackupPVCStep storage BackupPvcNameFormat backupSelector 1 (SupWaitSeconds spec) (SupDeletePVC spec) (StWaitPVCBound storage),
               BackupStoreNodesStep storage, BackupWaitForExpansionStep (SupWaitSeconds spec)]
         else []) @
        [BackupServiceStep, BackupConfigMapsStep, BackupDeploymentStep])))))))))))"

definition BackupCalcDeployType :: "'w suppl_lib \<Rightarrow> ('w, deploy_type with_err) sop" where
  "BackupCalcDeployType l = callS (LibDeployTypeByPVC l BackupKey backupSelector)"

definition Backup_Condition :: "'w suppl_lib \<Rightarrow> ('w, bool with_err) sop" where
  "Backup_Condition l =
     andthen supplSpec (\<lambda>spec.
     andthen (callS (LibCheckSpecChange l (BackupPart (SupBackup spec)) BackupDaemon)) (\<lambda>(microServiceCheck, microserviceCheckErr).
     andthen (ctxGet SsCommonChanged) (\<lambda>commonCheck.
     if microserviceCheckErr \<noteq> None then ret (microServiceCheck, microserviceCheckErr)
     else ret (microServiceCheck \<or> commonCheck, None))))"

end
