(* ===== verification/SupplDbaas.thy ===== *)
theory SupplDbaas
  imports SupplBackup
begin

text \<open>
  The deployment of the DBaaS adapter by the supplementary operator (\<^verbatim>\<open>src/services/service/pkg/dbaas\<close>): its builder, its
  service, its deployment with the environment and the secrets the adapter reads, and the step that grants a role.
\<close>

section \<open>Steps\<close>

definition UpdateDbaasUserStep_Execute :: "'w suppl_lib \<Rightarrow> ('w, goerror option) sop" where
  "UpdateDbaasUserStep_Execute l =
     andthen getState (\<lambda>s.
     andthen (callS (LibReadSecret l (DbAdminSecret (SupDbaas (SsSpec s))) (SsNamespace s))) (\<lambda>(creds, rErr).
     andthen (supplPanicError l rErr ''Dbaas credentials secret reading failed'') (\<lambda>_.
     andthen (ctxGet SsMongoService) (\<lambda>mongoService.
     callS (DrvGrantRoleToUser l mongoService ''admin'' (smap_get (sec_data creds) UsernameKey) ''readAnyDatabase'')))))"

definition UpdateDbaasUserStep_Condition :: "('w, bool with_err) sop" where
  "UpdateDbaasUserStep_Condition = andthen getState (\<lambda>s. ret (SsDeployType s = UpdateDeploy, None))"

text \<open>Whether the adapter serves with TLS.\<close>

definition dbaasTLS :: "'w suppl_lib \<Rightarrow> suppl_spec \<Rightarrow> bool" where
  "dbaasTLS l spec = LibTLSForDbaas l (DbRegistrationAddress (SupDbaas spec)) (TLSEnabled (SupTLS spec))"

definition DbaasService_Execute :: "'w suppl_lib \<Rightarrow> ('w, goerror option) sop" where
  "DbaasService_Execute l =
     andthen getState (\<lambda>s.
     (let spec = SsSpec s;
          template = LibSimpleService l DbaasName
            [(LibAppKey l, MongoCluster), (LibMicroserviceKey l, DbaasName), (NameLabel, DbaasName), (AppName, DbaasName),
             (AppTechnology, ''go''), (AppComponent, ''backend''), (AppInstance, LibGetenv l ''RELEASE_NAME''),
             (AppManagedBy, ''operator''), (AppPartOf, ''mongodb-services''), (AppManagedByOperator, ''mongodb-services-operator'')]
            [(NameLabel, DbaasName)] [(''http'', LibHTTPPort l (dbaasTLS l spec))] (SsNamespace s) in
      andthen (callS (LibDeleteObject l (SupplServiceObj template))) (\<lambda>_.
      callS (LibCreateObject l (SupplServiceObj template)))))"

section \<open>Deployment\<close>

definition DbaasDeploymentTemplate ::
  "'w suppl_lib \<Rightarrow> suppl_spec \<Rightarrow> string \<Rightarrow> string \<Rightarrow> smap \<Rightarrow> resources \<Rightarrow> env_var list \<Rightarrow> string list \<Rightarrow> int \<Rightarrow> int \<Rightarrow> string \<Rightarrow>
   affinity option \<Rightarrow> volume_mount list \<Rightarrow> volume list \<Rightarrow> app_deployment" where
  "DbaasDeploymentTemplate l spec namespace dockerImage nodeSelector resources env tolerations numberOfReplicas port priorityClassName
     affinity volumeMounts volumes =
     (let container = (namedContainer DbaasName)\<lparr>ctr_image := dockerImage, ctr_pull_policy := SupPullPolicy spec,
             ctr_security := Some supplSecurity, ctr_ports := [\<lparr>port_name = ''http'', port_number = port, port_protocol = ''TCP''\<rparr>],
             ctr_env := env, ctr_mounts := volumeMounts, ctr_resources := resources, ctr_liveness := Some (tcpProbe port),
             ctr_readiness := Some (tcpProbe port)\<rparr>;
          podSpec = emptyPodSpec\<lparr>ps_service_account := SupServiceAccount spec, ps_security := SupPodSecurity spec,
             ps_priority_class := priorityClassName, ps_containers := [container], ps_volumes := volumes,
             ps_node_selector := nodeSelector, ps_affinity := affinity, ps_tolerations := tolerations\<rparr> in
      \<lparr>dep_meta = objectMeta DbaasName namespace
         [(AppLabel, MongoCluster), (Microservice, DbaasName), (NameLabel, DbaasName), (AppName, DbaasName),
          (AppInstance, LibGetenv l ''RELEASE_NAME''), (AppVersion, LibGetenv l ''APP_VERSION''), (AppComponent, ''backend''),
          (AppPartOf, ''mongodb-services''), (AppManagedBy, ''operator''), (AppManagedByOperator, ''mongodb-services-operator''),
          (AppTechnology, ''go'')],
       dep_replicas = numberOfReplicas, dep_pod_spec = podSpec, dep_selector = [(NameLabel, DbaasName)], dep_strategy = [],
       dep_pod_meta = objectMeta [] namespace [(NameLabel, DbaasName)]\<rparr>)"

definition plainEnv :: "string \<times> string \<Rightarrow> env_var" where
  "plainEnv kv = \<lparr>env_name = fst kv, env_value = PlainEnv (snd kv)\<rparr>"

text \<open>\<^verbatim>\<open>strconv.FormatBool\<close>.\<close>

definition FormatBool :: "bool \<Rightarrow> string" where
  "FormatBool b = (if b then ''true'' else ''false'')"

definition backupDaemonAddress :: "'w suppl_lib \<Rightarrow> suppl_spec \<Rightarrow> string \<Rightarrow> string" where
  "backupDaemonAddress l spec namespace =
     (let tls = TLSEnabled (SupTLS spec) in
      Sprintf ''%s://%s.%s:%d'' [Str (LibHTTPProtocol l tls), Str BackupDaemon, Str namespace, Num (LibHTTPPort l tls)])"

definition dbaasKV :: "'w suppl_lib \<Rightarrow> suppl_spec \<Rightarrow> string \<Rightarrow> string \<Rightarrow> smap" where
  "dbaasKV l spec namespace mongoHost =
     (let dbaas = SupDbaas spec; tlsEnabled = dbaasTLS l spec; dbaasPort = LibHTTPPort l tlsEnabled in
      [(''MONGO_HOST'', mongoHost), (''MONGO_PORT'', ''27017''), (''CLOUD_PUBLIC_HOST'', SupCloudPublicHost spec),
       (''BACKUP_DAEMON_ADDRESS'', backupDaemonAddress l spec namespace),
       (''DBAAS_AGGREGATOR_PHYSICAL_DATABASE_IDENTIFIER'', LibOptionalString l (DbPhysicalIdentifier dbaas) namespace),
       (''DBAAS_ADAPTER_ADDRESS'', Sprintf ''%s://%s.%s:%d''
          [Str (LibHTTPProtocol l tlsEnabled), Str DbaasName, Str namespace, Num dbaasPort]),
       (''DBAAS_AGGREGATOR_REGISTRATION_ADDRESS'', DbRegistrationAddress dbaas),
       (''DBAAS_DECLARATIVE_REGISTRATION_ENABLED'', FormatBool (DbOperatorNamespace dbaas \<noteq> [])),
       (''DBAAS_AGGREGATOR_REGISTRATION_FIXED_DELAY_MS'', Sprintf ''%v'' [Num (DbFixedDelayMS dbaas)]),
       (''DBAAS_AGGREGATOR_REGISTRATION_RETRY_DELAY_MS'', Sprintf ''%v'' [Num (DbRetryDelayMS dbaas)]),
       (''DBAAS_AGGREGATOR_REGISTRATION_RETRY_TIME_MS'', Sprintf ''%v'' [Num (DbRetryTimeMS dbaas)]),
       (''PORT'', show_int dbaasPort)])"

definition dbaasEnvs :: "'w suppl_lib \<Rightarrow> suppl_spec \<Rightarrow> string \<Rightarrow> string \<Rightarrow> env_var list" where
  "dbaasEnvs l spec namespace mongoHost =
     [\<lparr>env_name = ''NAMESPACE'', env_value = FieldEnv ''metadata.namespace''\<rparr>,
      LibPlainEnvVar l ''MULTI_USERS_ENABLED'' (FormatBool (DbMultiUsers (SupDbaas spec)))] @
     map plainEnv (dbaasKV l spec namespace mongoHost)"

definition dbaasSecrets :: "suppl_spec \<Rightarrow> smap" where
  "dbaasSecrets spec =
     (let dbaas = SupDbaas spec in
      mapLiteral ([(DbAggregatorSecret dbaas, ''/var/run/secrets/mongodb/dbaas-aggregator''),
                   (DbAdminSecret dbaas, ''/var/run/secrets/mongodb/mongo-admin''),
                   (DbRegistrationSecret dbaas, ''/var/run/secrets/mongodb/dbaas-registration'')] @
                  (if BkInstall (SupBackup spec)
                   then [(BkApiSecret (SupBackup spec), ''/var/run/secrets/mongodb/backup-api'')] else [])))"

text \<open>The deployment the step makes before the credential hash and TLS are added.\<close>

definition dbaasDeploymentOf :: "'w suppl_lib \<Rightarrow> suppl_spec \<Rightarrow> string \<Rightarrow> string \<Rightarrow> string \<Rightarrow> resources \<Rightarrow> app_deployment" where
  "dbaasDeploymentOf l spec namespace mongoHost mode resources =
     (let dbaas = SupDbaas spec; (volumes, volumeMounts) = secretVolumesOf (dbaasSecrets spec) in
      DbaasDeploymentTemplate l spec namespace (DbDockerImage dbaas) (DbAdditionalNodeLabels dbaas) resources
        (dbaasEnvs l spec namespace mongoHost) (supplTolerations spec) (replicasOfMode mode) (LibHTTPPort l (dbaasTLS l spec))
        (DbPriorityClass dbaas) (DbAffinity dbaas) volumeMounts volumes)"

definition withDbaasTLS :: "'w suppl_lib \<Rightarrow> suppl_spec \<Rightarrow> app_deployment \<Rightarrow> app_deployment" where
  "withDbaasTLS l spec dc =
     (let dc = dc\<lparr>dep_pod_spec := LibTLSSpecUpdate l (dep_pod_spec dc) RootCertPath (SupTLS spec)\<rparr> in
      if dbaasTLS l spec
      then dc\<lparr>dep_pod_spec := LibTLSServerSpecUpdate l (dep_pod_spec dc) (SupTLS spec) (DbCASecretName (SupDbaas spec)) ServerCertsPath\<rparr>
      else dc)"

definition DbaasDeployment_Execute :: "'w suppl_lib \<Rightarrow> ('w, goerror option) sop" where
  "DbaasDeployment_Execute l =
     andthen getState (\<lambda>s.
     (let namespace = SsNamespace s; spec = SsSpec s in
      andthen (ctxGet SsMongoHost) (\<lambda>mongoHost.
      andthen (supplMode spec) (\<lambda>mode.
      andthen (deref (DbResources (SupDbaas spec))) (\<lambda>resources.
      andthen (callS (LibCredHash l [SupRootSecret spec] (dbaasDeploymentOf l spec namespace mongoHost mode resources))) (\<lambda>x. case x of
        Inl err \<Rightarrow> ret (Some err)
      | Inr dc \<Rightarrow>
          andthen (callS (LibCreateObject l (DeploymentObj (withDbaasTLS l spec dc)))) (\<lambda>err. case err of
            Some e \<Rightarrow> ret (Some (ExecutionError (''Error happened on processing dbaas deployment config. Error: '' @ supplErr l e)))
          | None \<Rightarrow>
              andthen (callS (LibWaitForPodsReady l [(NameLabel, DbaasName)] namespace (replicasOfMode mode) (SupWaitSeconds spec))) (\<lambda>err.
              case err of
                Some e \<Rightarrow> ret (Some (ExecutionError (''Error happened while waiting dbaas pod is ready. Error: '' @ supplErr l e)))
              | None \<Rightarrow> ret None))))))))"

section \<open>Builder\<close>

definition DbaasBuild :: "'w suppl_lib \<Rightarrow> ('w, suppl_step) sop" where
  "DbaasBuild l =
     andthen getState (\<lambda>s.
     (let dbaas = SupDbaas (SsSpec s); namespace = SsNamespace s in
      andthen (callS (LibReadSecret l (DbAdminSecret dbaas) namespace)) (\<lambda>(creds, rErr).
      andthen (supplPanicError l rErr ''Dbaas credentials secret reading failed'') (\<lambda>_.
      andthen (callS (LibReadSecret l (DbAdminRoleSecret dbaas) namespace)) (\<lambda>(dbaasAdminRole, dbARErr).
      andthen (supplPanicError l dbARErr ''Dbaas Admin Role secret reading failed'') (\<lambda>_.
      andthen (addServiceUser (secretUser creds True)) (\<lambda>_.
      andthen (addServiceRole
        \<lparr>AddRole = smap_get (sec_data dbaasAdminRole) ''name'', AddPrivileges = smap_get (sec_data dbaasAdminRole) ''privileges'',
         AddRoles = smap_get (sec_data dbaasAdminRole) ''roles'', AddRoleShardLocal = True\<rparr>) (\<lambda>_.
      ret (DbaasCompound [DbaasServiceStep, DbaasDeploymentStep])))))))))"

definition Dbaas_Condition :: "'w suppl_lib \<Rightarrow> ('w, bool with_err) sop" where
  "Dbaas_Condition l =
     andthen supplSpec (\<lambda>spec.
     andthen (callS (LibCheckSpecChange l (DbaasPart (SupDbaas spec)) DbaasName)) (\<lambda>(microServiceCheck, microserviceCheckErr).
     andthen (ctxGet SsCommonChanged) (\<lambda>commonCheck.
     if microserviceCheckErr \<noteq> None then ret (microServiceCheck, microserviceCheckErr)
     else ret (microServiceCheck \<or> commonCheck, None))))"

end
