(* ===== verification/SupplExporter.thy ===== *)
theory SupplExporter
  imports SupplDbaas
begin

text \<open>
  The Prometheus exporter and the robot tests of the supplementary operator
  (\<^verbatim>\<open>src/services/service/pkg/prometheus_exporter\<close> and \<^verbatim>\<open>pkg/robotTests\<close>): builders, services, deployments.
\<close>

section \<open>Service of the exporter\<close>

definition exporterPorts :: "(string \<times> int) list" where
  "exporterPorts = [(''mongos'', 9216), (''cnfrs'', 9217), (''datars1'', 9218), (''datars2'', 9219), (''datars3'', 9220)]"

definition ExporterService_Execute :: "'w suppl_lib \<Rightarrow> ('w, goerror option) sop" where
  "ExporterService_Execute l =
     andthen getState (\<lambda>s.
     (let template = LibMultiportService l MongoPrometheusExporter
            [(AppLabel, MongoCluster), (Microservice, MongoPrometheusExporter), (''app.kubernetes.io/part-of'', ''mongodb-services''),
             (''name'', MongoPrometheusExporter), (''app.kubernetes.io/name'', MongoPrometheusExporter),
             (''app.kubernetes.io/managed-by'', ''operator''),
             (''app.kubernetes.io/managed-by-operator'', ''mongodb-services-operator'')]
            [(NameLabel, MongoPrometheusExporter)] exporterPorts (SsNamespace s) in
      andthen (callS (LibDeleteObject l (SupplServiceObj template))) (\<lambda>_.
      callS (LibCreateObject l (SupplServiceObj template)))))"

section \<open>Deployment of the exporter\<close>

text \<open>\<^verbatim>\<open>PrometheusExporterURI\<close> and its JSON, without the fields that are empty.\<close>

record exporter_uri =
  UriShardMembers :: "string list"
  UriCnfrsMembers :: string

definition marshalURI :: "exporter_uri \<Rightarrow> string" where
  "marshalURI uri =
     ''{'' @ Join '',''
       ((if UriShardMembers uri \<noteq> [] then [json_string ''shardMembers'' @ '':'' @ json_strings (UriShardMembers uri)] else []) @
        (if UriCnfrsMembers uri \<noteq> [] then [json_string ''cnfrsMembers'' @ '':'' @ json_string (UriCnfrsMembers uri)] else [])) @ ''}''"

definition exporterMembers :: "suppl_schema \<Rightarrow> string \<Rightarrow> string list" where
  "exporterMembers sch namespace =
     (if SupSchemaType sch \<noteq> SingleSchema then supplCnfHosts (SupCnfReplicaSize sch) (SupThisDomain sch) namespace else [])"

definition exporterShards :: "suppl_schema \<Rightarrow> string \<Rightarrow> string list" where
  "exporterShards sch namespace =
     (if SupSchemaType sch \<noteq> SingleSchema
      then map (\<lambda>s. Join '','' (supplDataHosts (SupDataReplicaSize sch) s (SupThisDomain sch) namespace)) [0..<SupShardCount sch]
      else [])"

definition exporterURI :: "suppl_schema \<Rightarrow> string \<Rightarrow> exporter_uri" where
  "exporterURI sch namespace =
     \<lparr>UriShardMembers = exporterShards sch namespace,
      UriCnfrsMembers = (if \<not> SupSharded sch then [] else Join '','' (exporterMembers sch namespace))\<rparr>"

definition exporterKV :: "suppl_spec \<Rightarrow> string \<Rightarrow> ('s, smap) op" where
  "exporterKV spec namespace =
     (let sch = SupSchema spec; uri = (''MONGO_URI'', marshalURI (exporterURI sch namespace)) in
      if \<not> SupSharded sch then ret [uri, (''EXPORT_MONGOS'', FormatBool False)]
      else if SupSchemaType sch = DR
      then andthen (supplMode spec) (\<lambda>mode. ret [uri, (''EXPORT_MONGOS'', FormatBool (mode = ActiveMode))])
      else ret [uri])"

definition exporterHealthzPort :: "suppl_schema \<Rightarrow> smap \<Rightarrow> string list \<Rightarrow> int" where
  "exporterHealthzPort sch simpleKV members =
     (if \<not> SupSharded sch then 9218
      else if smap_get simpleKV ''EXPORT_MONGOS'' = ''false'' \<and> length members > 0 then 9217
      else 9216)"

definition exporterSecrets :: "exporter_spec \<Rightarrow> smap" where
  "exporterSecrets exporter =
     mapLiteral [(ExMonitoringSecret exporter, ''/var/run/secrets/mongodb/mongo-monitoring''),
                 (ExExporterSecret exporter, ''/var/run/secrets/mongodb/prom-exporter'')]"

definition PrometheusExporterDeploymentTemplate ::
  "'w suppl_lib \<Rightarrow> string \<Rightarrow> string \<Rightarrow> smap \<Rightarrow> string \<Rightarrow> resources \<Rightarrow> env_var list \<Rightarrow> string option \<Rightarrow> string list \<Rightarrow> string \<Rightarrow> tls \<Rightarrow>
   string \<Rightarrow> int \<Rightarrow> volume_mount list \<Rightarrow> volume list \<Rightarrow> app_deployment" where
  "PrometheusExporterDeploymentTemplate l namespace dockerImage nodeSelector serviceAccountName resources env securityContext
     tolerations pullPolicy t priorityClassName healthzPort volumeMounts volumes =
     (let container = (namedContainer MongoPrometheusExporter)\<lparr>ctr_image := dockerImage, ctr_pull_policy := pullPolicy,
             ctr_command := [''bash'', ''-c'', ''/opt/run.sh''], ctr_env := env, ctr_mounts := volumeMounts,
             ctr_resources := resources, ctr_security := Some supplSecurity, ctr_liveness := Some (tcpProbe healthzPort),
             ctr_readiness := Some (tcpProbe healthzPort)\<rparr>;
          podSpec = emptyPodSpec\<lparr>ps_service_account := serviceAccountName, ps_security := securityContext,
             ps_priority_class := priorityClassName, ps_tolerations := tolerations, ps_containers := [container],
             ps_volumes := volumes, ps_node_selector := nodeSelector\<rparr> in
      \<lparr>dep_meta = objectMeta MongoPrometheusExporter namespace
         [(NameLabel, MongoPrometheusExporter), (Microservice, MongoPrometheusExporter), (AppPartOf, ''mongodb-services''),
          (AppName, MongoPrometheusExporter), (AppInstance, LibGetenv l ''RELEASE_NAME''), (AppVersion, LibGetenv l ''APP_VERSION''),
          (AppComponent, ''backend''), (AppManagedBy, ''operator''), (AppManagedByOperator, ''mongodb-services-operator''),
          (AppTechnology, ''go'')],
       dep_replicas = 1, dep_pod_spec = LibTLSSpecUpdate l podSpec RootCertPath t, dep_selector = [(NameLabel, MongoPrometheusExporter)],
       dep_strategy = [], dep_pod_meta = objectMeta [] namespace [(NameLabel, MongoPrometheusExporter)]\<rparr>)"

text \<open>The deployment of given variables.\<close>

definition exporterDeploymentOf :: "'w suppl_lib \<Rightarrow> suppl_spec \<Rightarrow> string \<Rightarrow> smap \<Rightarrow> resources \<Rightarrow> app_deployment" where
  "exporterDeploymentOf l spec namespace simpleKV resources =
     (let exporter = SupExporter spec;
          envs = [\<lparr>env_name = ''NAMESPACE'', env_value = FieldEnv ''metadata.namespace''\<rparr>] @ map plainEnv simpleKV;
          (volumes, volumeMounts) = secretVolumesOf (exporterSecrets exporter);
          healthzPort = exporterHealthzPort (SupSchema spec) simpleKV (exporterMembers (SupSchema spec) namespace) in
      PrometheusExporterDeploymentTemplate l namespace (ExDockerImage exporter) (ExAdditionalNodeLabels exporter) (SupServiceAccount spec)
        resources envs (SupPodSecurity spec) (supplTolerations spec) (SupPullPolicy spec) (SupTLS spec) (ExPriorityClass exporter)
        healthzPort volumeMounts volumes)"

definition exporterReady :: "'w suppl_lib \<Rightarrow> suppl_spec \<Rightarrow> string \<Rightarrow> ('w, goerror option) sop" where
  [simp]: "exporterReady l spec namespace =
     andthen (callS (LibWaitForPodsReady l [(NameLabel, MongoPrometheusExporter)] namespace 1 (SupWaitSeconds spec))) (\<lambda>err. case err of
       Some e \<Rightarrow> ret (Some (ExecutionError (''Error happened while waiting prometheus exporter pod is ready. Error: '' @ supplErr l e)))
     | None \<Rightarrow> ret None)"

definition ExporterDeployment_Execute :: "'w suppl_lib \<Rightarrow> ('w, goerror option) sop" where
  "ExporterDeployment_Execute l =
     andthen getState (\<lambda>s.
     (let namespace = SsNamespace s; spec = SsSpec s in
      andthen (exporterKV spec namespace) (\<lambda>simpleKV.
      andthen (deref (ExResources (SupExporter spec))) (\<lambda>resources.
      andthen (callS (LibCredHash l [SupRootSecret spec] (exporterDeploymentOf l spec namespace simpleKV resources))) (\<lambda>x. case x of
        Inl err \<Rightarrow> ret (Some err)
      | Inr dc \<Rightarrow>
          andthen (callS (LibCreateObject l (DeploymentObj dc))) (\<lambda>err. case err of
            Some e \<Rightarrow> ret (Some (ExecutionError (''Error happened on processing prometheus exporter deployment config. Error: '' @ supplErr l e)))
          | None \<Rightarrow> exporterReady l spec namespace))))))"

definition ExporterBuild :: "'w suppl_lib \<Rightarrow> ('w, suppl_step) sop" where
  "ExporterBuild l =
     andthen getState (\<lambda>s.
     andthen (callS (LibReadSecret l (ExMonitoringSecret (SupExporter (SsSpec s))) (SsNamespace s))) (\<lambda>(creds, rErr).
     andthen (supplPanicError l rErr ''Prometheus credentials secret reading failed'') (\<lambda>_.
     andthen (addServiceUser (secretUser creds True)) (\<lambda>_.
     ret (ExporterCompound [ExporterServiceStep, ExporterDeploymentStep])))))"

definition Exporter_Condition :: "'w suppl_lib \<Rightarrow> ('w, bool with_err) sop" where
  "Exporter_Condition l =
     andthen supplSpec (\<lambda>spec.
     andthen (callS (LibCheckSpecChange l (ExporterPart (SupExporter spec)) MongoPrometheusExporter)) (\<lambda>(microServiceCheck, microserviceCheckErr).
     andthen (ctxGet SsCommonChanged) (\<lambda>commonCheck.
     if microserviceCheckErr \<noteq> None then ret (microServiceCheck, microserviceCheckErr)
     else ret (microServiceCheck \<or> commonCheck, None))))"

section \<open>Robot tests\<close>

definition robotTestsAtpStorageSecretName :: string where
  "robotTestsAtpStorageSecretName = ''mongodb-robot-tests-atp-storage-secret''"

definition robotTestsPodSecretsMountPath :: string where
  "robotTestsPodSecretsMountPath = ''/etc/secrets/robot-tests-pod-secrets''"

definition robotServiceName :: string where
  "robotServiceName = ''robot-tests''"

definition RobotTemplate ::
  "'w suppl_lib \<Rightarrow> string \<Rightarrow> string \<Rightarrow> resources \<Rightarrow> smap \<Rightarrow> string list \<Rightarrow> env_var list \<Rightarrow> string option \<Rightarrow> tls \<Rightarrow> string \<Rightarrow> string \<Rightarrow>
   affinity option \<Rightarrow> string \<Rightarrow> volume_mount list \<Rightarrow> volume list \<Rightarrow> app_deployment" where
  "RobotTemplate l namespace dockerImage resources nodeSelector tolerations env securityContext t priorityClassName serviceAccountName
     affinity pullPolicy volumeMounts volumes =
     (let volumes = volumes @ [\<lparr>vol_name = ''output'', vol_source = EmptyDirSource\<rparr>, \<lparr>vol_name = ''tmp'', vol_source = EmptyDirMega 32\<rparr>];
          volumeMounts = volumeMounts @ [\<lparr>mount_name = ''output'', mount_readonly = False, mount_path = ''/opt/robot/output''\<rparr>,
                                         \<lparr>mount_name = ''tmp'', mount_readonly = False, mount_path = ''/tmp''\<rparr>];
          container = (namedContainer RobotKey)\<lparr>ctr_image := dockerImage, ctr_env := env, ctr_mounts := volumeMounts,
             ctr_resources := resources, ctr_pull_policy := pullPolicy, ctr_security := Some supplSecurity\<rparr>;
          podSpec = emptyPodSpec\<lparr>ps_service_account := serviceAccountName, ps_restart_policy := ''Always'', ps_security := securityContext,
             ps_priority_class := priorityClassName, ps_containers := [container], ps_node_selector := nodeSelector,
             ps_volumes := volumes, ps_affinity := affinity, ps_tolerations := tolerations\<rparr> in
      \<lparr>dep_meta = objectMeta robotServiceName namespace [(''app'', robotServiceName)], dep_replicas = 1,
       dep_pod_spec = LibTLSSpecUpdate l podSpec RootCertPath t, dep_selector = [(''name'', robotServiceName)], dep_strategy = [],
       dep_pod_meta = objectMeta [] namespace [(''name'', robotServiceName)]\<rparr>)"

definition robotKV :: "'w suppl_lib \<Rightarrow> suppl_spec \<Rightarrow> string \<Rightarrow> string \<Rightarrow> smap" where
  "robotKV l spec namespace mongoHost =
     (let robot = SupRobot spec; datarsHost = map (\<lambda>i. Sprintf DataNameKey [Num (int i + 1)]) [0..<SupShardCount (SupSchema spec)] in
      [(''MONGO_HOST'', mongoHost), (''BACKUP_HOST'', Sprintf ''%s.%s.svc'' [Str BackupDaemon, Str namespace]),
       (''DBAAS_HOST'', Sprintf ''%s.%s.svc'' [Str DbaasName, Str namespace]), (''EXTERNAL_BACKUP_PATH'', RtExternalBackupPath robot),
       (''TAGS'', RtTags robot), (''WAIT_TIMEOUT'', show_int (SupWaitSeconds spec)), (''DATARS_HOST'', Join '','' datarsHost),
       (''MAIN_OS_SIDE'', RtMainSide robot), (''LEFT_NODES_PATTERN'', RtLeftNodes robot), (''RIGHT_NODES_PATTERN'', RtRightNodes robot),
       (''STATUS_CUSTOM_RESOURCE_PATH'', Sprintf ''apps/v1/%s/deployments/robot-tests'' [Str namespace]),
       (''STATUS_WRITING_ENABLED'', ''true''), (''PORT'', show_int (LibHTTPPort l (TLSEnabled (SupTLS spec)))),
       (''CONFIG_NAME'', ''mongodb-tests-config''), (''SUPPLEMENTARY_CONFIG_NAME'', ''supplementary-tests-config'')])"

definition robotSecrets :: "suppl_spec \<Rightarrow> smap" where
  "robotSecrets spec =
     mapLiteral ([(SupRootSecret spec, ''/var/run/secrets/mongodb/mongo-root'')] @
       (if BkInstall (SupBackup spec) then [(BkApiSecret (SupBackup spec), ''/var/run/secrets/mongodb/backup-api'')] else []) @
       (if DbInstall (SupDbaas spec) then [(DbAggregatorSecret (SupDbaas spec), ''/var/run/secrets/mongodb/dbaas-aggregator'')] else []))"

definition appendAtpReportPodConfig ::
  "'w suppl_lib \<Rightarrow> robot_spec \<Rightarrow> volume list \<Rightarrow> volume_mount list \<Rightarrow> env_var list \<Rightarrow> volume list \<times> volume_mount list \<times> env_var list" where
  "appendAtpReportPodConfig l robot volumes volumeMounts envs =
     (let atp = RtAtpReport robot; plain = LibPlainEnvVar l in
      (volumes @ [\<lparr>vol_name = ''robot-tests-pod-secrets'', vol_source = ProjectedSecret robotTestsAtpStorageSecretName
           [(''atp-storage-username'', ''ATP_STORAGE_USERNAME''), (''atp-storage-password'', ''ATP_STORAGE_PASSWORD'')] 420\<rparr>],
       volumeMounts @ [\<lparr>mount_name = ''robot-tests-pod-secrets'', mount_readonly = True, mount_path = robotTestsPodSecretsMountPath\<rparr>],
       envs @ [plain ''INTEGRATION_TESTS_SECRETS_DIR'' robotTestsPodSecretsMountPath, plain ''ATP_REPORT_ENABLED'' ''true'',
               plain ''ATP_STORAGE_PROVIDER'' (AtpProvider atp), plain ''ATP_STORAGE_SERVER_URL'' (AtpServerUrl atp),
               plain ''ATP_STORAGE_SERVER_UI_URL'' (AtpServerUiUrl atp), plain ''ATP_STORAGE_BUCKET'' (AtpBucket atp),
               plain ''ATP_STORAGE_REGION'' (AtpRegion atp), plain ''ATP_REPORT_VIEW_UI_URL'' (RtAtpViewUiUrl robot),
               plain ''ENVIRONMENT_NAME'' (RtEnvironmentName robot), plain ''ENABLE_JIRA_INTEGRATION'' (FormatBool (RtJiraIntegration robot))]))"

definition robotDeploymentOf :: "'w suppl_lib \<Rightarrow> suppl_spec \<Rightarrow> string \<Rightarrow> string \<Rightarrow> resources \<Rightarrow> app_deployment" where
  "robotDeploymentOf l spec namespace mongoHost resources =
     (let robot = SupRobot spec;
          envs = [\<lparr>env_name = ''OPENSHIFT_WORKSPACE_WA'', env_value = FieldEnv ''metadata.namespace''\<rparr>] @
                 map plainEnv (robotKV l spec namespace mongoHost);
          (volumes, volumeMounts) = secretVolumesOf (robotSecrets spec);
          (volumes, volumeMounts, envs) = (if AtpEnabled (RtAtpReport robot) then appendAtpReportPodConfig l robot volumes volumeMounts envs
             else (volumes, volumeMounts, envs)) in
      RobotTemplate l namespace (RtDockerImage robot) resources (RtNodeLabels robot) (supplTolerations spec) envs (SupPodSecurity spec)
        (SupTLS spec) (RtPriorityClass robot) (SupServiceAccount spec) (RtAffinity robot) (SupPullPolicy spec) volumeMounts volumes)"

definition RobotDeployment_Execute :: "'w suppl_lib \<Rightarrow> ('w, goerror option) sop" where
  "RobotDeployment_Execute l =
     andthen getState (\<lambda>s.
     (let namespace = SsNamespace s; spec = SsSpec s; robot = SupRobot spec in
      andthen (ctxGet SsMongoHost) (\<lambda>mongoHost.
      andthen (deref (RtResources robot)) (\<lambda>resources.
      (let secretNames = [SupRootSecret spec] @ (if AtpEnabled (RtAtpReport robot) then [robotTestsAtpStorageSecretName] else []) in
       andthen (callS (LibCredHash l secretNames (robotDeploymentOf l spec namespace mongoHost resources))) (\<lambda>x. case x of
         Inl err \<Rightarrow> ret (Some err)
       | Inr dc \<Rightarrow>
           (let name = meta_name (dep_meta dc); ns = meta_namespace (dep_meta dc) in
            andthen (callS (LibDeleteDeploymentAndPods l name ns (SupWaitSeconds spec))) (\<lambda>err.
            andthen (supplPanicError l err ''RobotTests deployment config processing failed'') (\<lambda>_.
            andthen (callS (LibCreateObject l (DeploymentObj dc))) (\<lambda>err.
            andthen (supplPanicError l err ''RobotTests deployment config processing failed'') (\<lambda>_.
            andthen (callS (LibWaitForTestsReady l name ns (SupWaitSeconds spec))) (\<lambda>err.
            andthen (supplPanicError l err ''RobotTests failed'') (\<lambda>_. ret None)))))))))))))"

definition RobotBuild :: "('w, suppl_step) sop" where
  "RobotBuild = ret (RobotCompound [RobotDeploymentStep])"

definition RobotCalcDeployType :: "('w, deploy_type with_err) sop" where
  "RobotCalcDeployType = ret (CleanDeploy, None)"

end
