(* ===== verification/Controllers.thy ===== *)
theory Controllers
  imports SupplExporter
begin

text \<open>
  The builder of the supplementary operator (\<^verbatim>\<open>src/services/service/pkg/service.go\<close>), and the controllers of both
  operators (\<^verbatim>\<open>src/services/service/controller/mongodbsupplservice_controller.go\<close>,
  \<^verbatim>\<open>src/operator/controllers/mongodbdeployment_controller.go\<close>): the instance a reconciliation works on, its status, and
  the wait of one operator for the other's.

  The reconciliation itself is the core library's, a parameter.  The lemmas show which users a build registers, for
  which statuses the wait ends, and that it understands what the other operator publishes.
\<close>

section \<open>The builder of the supplementary services\<close>

definition mongoHostOf :: "suppl_schema \<Rightarrow> string \<Rightarrow> string \<times> int" where
  "mongoHostOf sch namespace =
     (if \<not> SupSharded sch \<and> SupSchemaType sch \<noteq> SingleSchema
      then (Join '','' (supplDataHosts (SupDataReplicaSize sch) 0 (SupThisDomain sch) namespace), 0)
      else (Sprintf ''%s.%s'' [Str Mongos, Str namespace], 27017))"

definition hasSpecChanges :: "'w suppl_lib \<Rightarrow> (string \<times> string) list \<Rightarrow> smap \<Rightarrow> bool" where
  "hasSpecChanges l names cfgTemplate =
     fold (\<lambda>(specKey, specToCheck) resultCheck.
       if LibCompareSpecToCM l cfgTemplate specToCheck specKey then True else resultCheck) names False"

definition ipTemplate :: "bool \<Rightarrow> string" where
  "ipTemplate ipv6 = (if ipv6 then ''['' @ ''%(ip)s'' @ '']'' else ''%(ip)s'')"

text \<open>A step that is built when a service is to be installed.\<close>

definition buildIf :: "bool \<Rightarrow> ('s, 'a list) op \<Rightarrow> ('s, 'a list) op" where
  "buildIf install build = (if install then build else ret [])"

definition withDefaultSchema :: "suppl_spec \<Rightarrow> suppl_spec" where
  "withDefaultSchema spec =
     (if SupSchemaType (SupSchema spec) = UnsetSchema then spec\<lparr>SupSchema := (SupSchema spec)\<lparr>SupSchemaType := HA\<rparr>\<rparr> else spec)"

definition rootEndpoint :: "suppl_spec \<Rightarrow> string \<Rightarrow> secret \<Rightarrow> mongo_endpoint" where
  "rootEndpoint spec namespace secret =
     (let (mongoHost, port) = mongoHostOf (SupSchema spec) namespace in
      \<lparr>EpHost = mongoHost, EpPort = port, EpUser = smap_get (sec_data secret) UsernameKey, EpPass = smap_get (sec_data secret) PasswordKey,
       EpAuthDb = ''admin'', EpTLS = TLSEnabled (SupTLS spec), EpCAPath = RootCertPath @ ''ca.crt''\<rparr>)"

text \<open>The steps, built in this order; the mode is read through the pointer.\<close>

definition buildServices :: "'w suppl_lib \<Rightarrow> suppl_spec \<Rightarrow> ('w, suppl_step list) sop" where
  "buildServices l spec =
     (let schemaType = SupSchemaType (SupSchema spec);
          disabled = (if schemaType = DR then andthen (supplMode spec) (\<lambda>mode. ret (mode = DisableMode)) else ret False) in
      andthen disabled (\<lambda>disabled.
      if disabled then ret []
      else
        andthen (supplMode spec) (\<lambda>mode.
        (let users = (if mode = ActiveMode \<or> schemaType \<noteq> DR then [AddServicesUsersStep] else []) in
         andthen (buildIf (BkInstall (SupBackup spec)) (andthen (BackupBuild l) (\<lambda>backup. ret [backup]))) (\<lambda>backup.
         andthen (buildIf (DbInstall (SupDbaas spec)) (andthen (DbaasBuild l) (\<lambda>dbaas. ret [UpdateDbaasUserStep, dbaas]))) (\<lambda>dbaas.
         andthen (buildIf (ExInstall (SupExporter spec)) (andthen (ExporterBuild l) (\<lambda>exporter. ret [exporter]))) (\<lambda>exporter.
         andthen (buildIf (RtInstall (SupRobot spec)) (andthen RobotBuild (\<lambda>robot. ret [robot]))) (\<lambda>robot.
         ret (users @ backup @ dbaas @ exporter @ robot @ users)))))))))"

definition SupplServiceBuild :: "'w suppl_lib \<Rightarrow> ('w, suppl_step list) sop" where
  "SupplServiceBuild l =
     andthen supplSpec (\<lambda>spec.
     andthen (callS (LibHasSpecChanged l (hasSpecChanges l (LibCommonFields l spec)))) (\<lambda>(isAnyParamChanged, commonParamCheckErr).
     andthen (supplPanicError l commonParamCheckErr ''Error happened during checking common parameters for changes'') (\<lambda>_.
     andthen (modifyState (\<lambda>s. s\<lparr>SsCommonChanged := Some isAnyParamChanged, SsIPTemplate := Some (ipTemplate (SupIpV6 spec)),
       SsSpec := withDefaultSchema spec\<rparr>)) (\<lambda>_.
     andthen getState (\<lambda>s.
     andthen (callS (LibReadSecret l MongoRootSecretName (SsNamespace s))) (\<lambda>(secret, secErr).
     andthen (supplPanicError l secErr (Sprintf ''Failed to read %s'' [Str MongoRootSecretName])) (\<lambda>_.
     andthen (modifyState (\<lambda>s. s\<lparr>SsMongoHost := Some (fst (mongoHostOf (SupSchema (SsSpec s)) (SsNamespace s))),
       SsMongoService := Some (rootEndpoint (SsSpec s) (SsNamespace s) secret)\<rparr>)) (\<lambda>_.
     buildServices l (SsSpec s)))))))))"

definition SupplPreDeployBuild :: "('w, suppl_step list) sop" where
  "SupplPreDeployBuild = ret []"

section \<open>The wait for the other operator\<close>

text \<open>The loop over the conditions: \<^verbatim>\<open>Some\<close> when it is left early.\<close>

fun conditionScan :: "json list \<Rightarrow> bool with_err option" where
  "conditionScan [] = None"
| "conditionScan (cond # rest) =
     (case cond of
        JObj condMap \<Rightarrow>
          (let t = (case map_of condMap ''type'' of Some (JStr t) \<Rightarrow> t | _ \<Rightarrow> []) in
           case map_of condMap ''status'' of
             Some (JBool s) \<Rightarrow>
               if map to_lower t = ''successful'' \<and> s then Some (True, None)
               else if map to_lower t = ''failed'' \<and> s then Some (True, Some (GoError ''MongoDB CR failed''))
               else conditionScan rest
           | _ \<Rightarrow> conditionScan rest)
      | _ \<Rightarrow> conditionScan rest)"

text \<open>The slice at a path of an unstructured object, the documented \<^verbatim>\<open>unstructured.NestedSlice\<close>: whether it was found, or an error.\<close>

definition operatorReady :: "(json \<Rightarrow> string list \<Rightarrow> json list \<times> bool \<times> goerror option) \<Rightarrow> json \<Rightarrow> bool with_err" where
  "operatorReady NestedSlice mongoCR =
     (case NestedSlice mongoCR [''status'', ''conditions''] of (status, found, err) \<Rightarrow>
        if \<not> found \<or> err \<noteq> None then (False, Some (GoError ''unable to find status.conditions in MongoDBCluster''))
        else (case conditionScan status of Some early \<Rightarrow> early | None \<Rightarrow> (False, None)))"

definition WaitForMongoDBOperatorReady ::
  "'w suppl_lib \<Rightarrow> (json \<Rightarrow> string list \<Rightarrow> json list \<times> bool \<times> goerror option) \<Rightarrow> (string \<Rightarrow> string \<Rightarrow> ('w, goerror + json) op) \<Rightarrow>
   string \<Rightarrow> string \<Rightarrow> ('w, goerror option) op" where
  "WaitForMongoDBOperatorReady l NestedSlice getCR name namespace =
     LibPollImmediate l 5 600 (andthen (getCR name namespace) (\<lambda>x. ret (case x of
       Inl err \<Rightarrow> (False, Some err) | Inr mongoCR \<Rightarrow> operatorReady NestedSlice mongoCR)))"

definition getEnvAsInt :: "(string \<Rightarrow> string option) \<Rightarrow> string \<Rightarrow> int \<Rightarrow> int" where
  "getEnvAsInt env key defaultVal =
     (case env key of None \<Rightarrow> defaultVal | Some val \<Rightarrow> (case Atoi val of (i, None) \<Rightarrow> i | (_, Some _) \<Rightarrow> defaultVal))"

text \<open>The seconds after which the request is queued again, with the error.\<close>

definition SupplReconcile ::
  "'w suppl_lib \<Rightarrow> (json \<Rightarrow> string list \<Rightarrow> json list \<times> bool \<times> goerror option) \<Rightarrow> (string \<Rightarrow> string \<Rightarrow> ('w, goerror + json) op) \<Rightarrow>
   (string \<Rightarrow> string option) \<Rightarrow> (string \<Rightarrow> ('w, int with_err) op) \<Rightarrow> string \<Rightarrow> ('w, int with_err) op" where
  "SupplReconcile l NestedSlice getCR env Reconcile namespace =
     (let delaySec = getEnvAsInt env ''MONGODB_OPERATOR_WAIT_DELAY_SECONDS'' 30 in
      andthen (if delaySec > 0 then LibSleep l delaySec else ret ()) (\<lambda>_.
      andthen (WaitForMongoDBOperatorReady l NestedSlice getCR ''mongodb-operator'' namespace) (\<lambda>err.
      if err \<noteq> None then ret (15, None) else Reconcile namespace)))"

section \<open>The instance of a reconciliation\<close>

record service_condition =
  CondType :: string
  CondStatus :: bool
  CondReason :: string
  CondMessage :: string

record 'spec cr_instance =
  InstSpec :: 'spec
  InstConditions :: "service_condition list"
  InstDRStatus :: "string \<times> string \<times> string"

definition ignoreStatusUpdate :: "int \<Rightarrow> int \<Rightarrow> bool" where
  "ignoreStatusUpdate oldGeneration newGeneration = (oldGeneration \<noteq> newGeneration)"

text \<open>The error of listing the instances is dropped; the first of the list is taken.\<close>

definition SetServiceInstance :: "('w, 'spec cr_instance list with_err) op \<Rightarrow> ('w, 'spec cr_instance) op" where
  "SetServiceInstance ListRuntimeObjectsByNamespace =
     andthen ListRuntimeObjectsByNamespace (\<lambda>(items, err). nth_or_panic items 0)"

definition UpdateStatus :: "service_condition \<Rightarrow> 'spec cr_instance \<Rightarrow> 'spec cr_instance" where
  "UpdateStatus condition i = i\<lparr>InstConditions := [condition]\<rparr>"

definition UpdateDRStatus :: "string \<times> string \<times> string \<Rightarrow> deployment_spec cr_instance \<Rightarrow> deployment_spec cr_instance" where
  "UpdateDRStatus drStatus i = i\<lparr>InstDRStatus := (drMode (InstSpec i), snd drStatus)\<rparr>"

definition supplUpdateDRStatus :: "string \<times> string \<times> string \<Rightarrow> suppl_spec cr_instance \<Rightarrow> suppl_spec cr_instance" where
  "supplUpdateDRStatus drStatus i = i"

definition GetStatusCondition :: "'spec cr_instance \<Rightarrow> service_condition option" where
  "GetStatusCondition i = (case InstConditions i of [] \<Rightarrow> None | c # _ \<Rightarrow> Some c)"

definition GetMessage :: "'spec cr_instance \<Rightarrow> string" where
  "GetMessage i = (case InstConditions i of [] \<Rightarrow> [] | c # _ \<Rightarrow> CondMessage c)"

text \<open>What the other operator's resource looks like to the wait: the JSON of its conditions.\<close>

definition conditionJSON :: "service_condition \<Rightarrow> json" where
  "conditionJSON c = JObj [(''type'', JStr (CondType c)), (''status'', JBool (CondStatus c)), (''reason'', JStr (CondReason c)),
     (''message'', JStr (CondMessage c))]"

end
