(* ===== verification/SupplCluster.thy ===== *)
theory SupplCluster
  imports SupplUtils
begin

text \<open>
  A small cluster for the examples of the supplementary operator: a clock, at most one deployment, secrets whose
  contents follow from their names, and libraries that behave as documented.  With \<^verbatim>\<open>KcHealthy\<close> a scaled up
  deployment becomes ready; otherwise it never does.
\<close>

record kcluster =
  KcClock :: int
  KcDeployment :: "deployment_state option"
  KcHealthy :: bool
  KcRefuse :: bool
  KcCreated :: "suppl_object list"

definition exampleSecret :: "string \<Rightarrow> secret" where
  "exampleSecret name =
     \<lparr>sec_meta = objectMeta name ''ns'' [],
      sec_data = [(UsernameKey, name @ ''-user''), (PasswordKey, ''pw''), (RoleKey, ''root''), (AuthDatabaseKey, ''admin'')],
      sec_type = ''Opaque''\<rparr>"

definition clusterGet :: "string \<Rightarrow> string \<Rightarrow> (kcluster, goerror + deployment_state) op" where
  "clusterGet ns name = andthen getState (\<lambda>w. ret (case KcDeployment w of None \<Rightarrow> Inl (NotFoundError name) | Some d \<Rightarrow> Inr d))"

text \<open>The replicas follow a patch at once.\<close>

definition clusterPatch :: "app_deployment \<Rightarrow> app_deployment \<Rightarrow> (kcluster, goerror + app_deployment) op" where
  "clusterPatch base d =
     andthen getState (\<lambda>w.
     (let n = dep_replicas d; ready = (if KcHealthy w then n else 0) in
      andthen (modifyState (\<lambda>w. w\<lparr>KcDeployment :=
        Some \<lparr>ds_object = d, ds_generation = 1, ds_observed_generation = 1, ds_replicas = n, ds_updated_replicas = n,
              ds_available_replicas = ready, ds_ready_replicas = ready\<rparr>\<rparr>)) (\<lambda>_. ret (Inr d))))"

definition exampleLib :: "kcluster suppl_lib" where
  "exampleLib =
     \<lparr>LibReadSecret = (\<lambda>name ns. ret (exampleSecret name, None)),
      LibCommonFields = (\<lambda>spec. []),
      LibHasSpecChanged = (\<lambda>f. ret (f [], None)),
      LibCompareSpecToCM = (\<lambda>cfg v k. False),
      LibCheckSpecChange = (\<lambda>part name. ret (True, None)),
      LibDeployTypeByPVC = (\<lambda>name sel. ret (CleanDeploy, None)),
      LibCreateObject = (\<lambda>obj. andthen (modifyState (\<lambda>w. w\<lparr>KcCreated := KcCreated w @ [obj]\<rparr>)) (\<lambda>_. ret None)),
      LibDeleteObject = (\<lambda>obj. ret ()),
      LibWaitForPodsReady = (\<lambda>labels ns n t. ret None),
      LibDeleteDeploymentAndPods = (\<lambda>name ns t. ret None),
      LibWaitForTestsReady = (\<lambda>name ns t. ret None),
      LibCredHash = (\<lambda>names d. ret (Inr d)),
      LibTLSSpecUpdate = (\<lambda>ps path t. ps),
      LibTLSServerSpecUpdate = (\<lambda>ps t name path. ps),
      LibHTTPPort = (\<lambda>tls. if tls then 8443 else 8080),
      LibHTTPProtocol = (\<lambda>tls. if tls then ''https'' else ''http''),
      LibTLSForDbaas = (\<lambda>address tls. Contains address ''https'' \<and> tls),
      LibPlainEnvVar = (\<lambda>n v. \<lparr>env_name = n, env_value = PlainEnv v\<rparr>),
      LibOptionalString = (\<lambda>a b. if a = [] then b else a),
      LibConcatMaps = (\<lambda>a b. a @ b),
      LibSimpleService = (\<lambda>name labels selector ports ns.
        \<lparr>svc_meta = objectMeta name ns labels, svc_ports = map (\<lambda>(n, p). \<lparr>sp_name = n, sp_port = p, sp_target = Some p\<rparr>) ports,
         svc_selector = selector, svc_cluster_ip = [], svc_affinity = []\<rparr>),
      LibMultiportService = (\<lambda>name labels selector ports ns.
        \<lparr>svc_meta = objectMeta name ns labels, svc_ports = map (\<lambda>(n, p). \<lparr>sp_name = n, sp_port = p, sp_target = None\<rparr>) ports,
         svc_selector = selector, svc_cluster_ip = [], svc_affinity = []\<rparr>),
      LibAppKey = AppLabel, LibMicroserviceKey = Microservice,
      LibGetenv = (\<lambda>n. n),
      LibListPodStates = (\<lambda>ns labels. ret (Inr [])),
      LibGetDeployment = clusterGet,
      LibPatch = clusterPatch,
      LibIsNotFound = asNotFound,
      LibSleep = (\<lambda>n. modifyState (\<lambda>w. w\<lparr>KcClock := KcClock w + n\<rparr>)),
      LibPollImmediate = (\<lambda>i t. poll_tries 2),
      LibErrorText = (\<lambda>e. []),
      LibPanicValue = (\<lambda>e msg. e),
      DrvCreateOrUpdateRole = (\<lambda>ep db role roles privileges sharded. ret None),
      DrvCreateOrUpdateUser = (\<lambda>ep user pass db authDb role sharded force.
        andthen getState (\<lambda>w. ret (if KcRefuse w then Some (GoError ''not authorized'') else None))),
      DrvGrantRoleToUser = (\<lambda>ep db user role. ret None)\<rparr>"

lemma exampleLib_simps [simp]:
  "LibReadSecret exampleLib name ns = ret (exampleSecret name, None)" "LibGetDeployment exampleLib = clusterGet"
  "LibPatch exampleLib = clusterPatch" "LibSleep exampleLib n = modifyState (\<lambda>w. w\<lparr>KcClock := KcClock w + n\<rparr>)"
  "LibPollImmediate exampleLib i t = poll_tries 2" "LibIsNotFound exampleLib = asNotFound"
  "LibTLSSpecUpdate exampleLib ps path ts = ps" "LibTLSServerSpecUpdate exampleLib ps ts name path = ps"
  "LibPlainEnvVar exampleLib k v = \<lparr>env_name = k, env_value = PlainEnv v\<rparr>" "LibTLSForDbaas exampleLib address tls = (Contains address ''https'' \<and> tls)"
  "LibHTTPPort exampleLib tls = (if tls then 8443 else 8080)" "LibHTTPProtocol exampleLib tls = (if tls then ''https'' else ''http'')"
  "LibCredHash exampleLib names d = ret (Inr d)"
  "DrvCreateOrUpdateRole exampleLib ep db role roles privileges sharded = ret None"
  by (simp_all add: exampleLib_def)

section \<open>A custom resource\<close>

definition exampleResources :: resources where
  "exampleResources = \<lparr>res_memory_limit = 64, res_rest = []\<rparr>"

definition exampleBackup :: backup_spec where
  "exampleBackup =
     \<lparr>BkInstall = True, BkStorageDirectory = ''/backup'', BkDockerImage = ''backup'', BkSchedule = [], BkIncSchedule = [],
      BkEvictionPolicy = [], BkIncEvictionPolicy = [], BkPrefixPattern = [],
      BkStorage = Some \<lparr>StEmptyDir = True, StWaitPVCBound = False, StRest = []\<rparr>, BkResources = Some exampleResources,
      BkParallelConnections = 1, BkGranularParallelConnections = 1, BkBackupDB = [], BkSourceDB = [], BkEnableFullRestore = False,
      BkConfigCollections = [], BkAdditionalNodeLabels = [],
      BkS3 = \<lparr>S3Enabled = False, S3SecretName = [], S3BucketName = [], S3EndpointUrl = [], S3SslVerify = False, S3SslSecretName = []\<rparr>,
      BkCASecretName = [], BkGranularSchedule = [], BkScheduledDbs = [], BkPriorityClass = [], BkApiSecret = ''api.v1'',
      BkRestoreSecret = ''restore.v1'', BkSecret = ''backup.v1'', BkAffinity = None, BkDataValidation = False\<rparr>"

definition exampleDbaas :: dbaas_spec where
  "exampleDbaas =
     \<lparr>DbInstall = True, DbDockerImage = ''adapter'', DbAdditionalNodeLabels = [], DbResources = Some exampleResources,
      DbRegistrationAddress = ''http://aggregator'', DbCustomLabels = [], DbPhysicalIdentifier = [], DbFixedDelayMS = 1,
      DbRetryDelayMS = 1, DbRetryTimeMS = 1, DbMultiUsers = False, DbOperatorNamespace = [], DbCASecretName = [], DbPriorityClass = [],
      DbAdminSecret = ''admin.v1'', DbAggregatorSecret = ''aggregator.v1'', DbRegistrationSecret = ''registration.v1'',
      DbAdminRoleSecret = ''role.v1'', DbAffinity = None\<rparr>"

definition exampleExporter :: exporter_spec where
  "exampleExporter =
     \<lparr>ExInstall = True, ExDockerImage = ''exporter'', ExAdditionalNodeLabels = [], ExResources = Some exampleResources,
      ExPriorityClass = [], ExMonitoringSecret = ''monitoring.v1'', ExExporterSecret = ''exporter.v1''\<rparr>"

definition exampleRobot :: robot_spec where
  "exampleRobot =
     \<lparr>RtInstall = False, RtDockerImage = [], RtResources = None, RtTags = [], RtNodeLabels = [], RtExternalBackupPath = [],
      RtMainSide = [], RtLeftNodes = [], RtRightNodes = [], RtPriorityClass = [], RtAffinity = None,
      RtAtpReport = \<lparr>AtpEnabled = False, AtpProvider = [], AtpServerUrl = [], AtpServerUiUrl = [], AtpBucket = [], AtpRegion = []\<rparr>,
      RtEnvironmentName = [], RtJiraIntegration = False, RtAtpViewUiUrl = []\<rparr>"

definition exampleSpec :: suppl_spec where
  "exampleSpec =
     \<lparr>SupRootSecret = ''root.v1'', SupBackup = exampleBackup, SupDbaas = exampleDbaas, SupExporter = exampleExporter,
      SupRobot = exampleRobot,
      SupTLS = \<lparr>TLSEnabled = False, CertificateSecretName = [], RootCAFileName = [], SignedCRTFileName = [], PrivateKeyFileName = [],
                TLSMode = [], CombinedKeyAndCRTFileName = []\<rparr>,
      SupDeploymentVersion = [], SupWaitSeconds = 60, SupPodSecurity = None, SupServiceAccount = [], SupPullPolicy = [],
      SupPolicies = None,
      SupSchema = \<lparr>SupSchemaType = DR, SupSharded = True, SupCnfReplicaSize = 2, SupDataReplicaSize = 2, SupShardCount = 1,
                   SupThisDomain = ''a'', SupOtherDomain = ''b''\<rparr>,
      SupDR = Some \<lparr>Mode = ActiveMode, DRStatus = [], NoWait = False\<rparr>, SupDeletePVC = False, SupAuthDb = ''admin'', SupIpV6 = False,
      SupInstance = [], SupCloudPublicHost = []\<rparr>"

definition exampleState :: "kcluster suppl_state" where
  "exampleState =
     \<lparr>SsSpec = exampleSpec, SsNamespace = ''ns'', SsDeployType = CleanDeploy, SsUsers = None, SsRoles = None, SsCommonChanged = None,
      SsMongoHost = None, SsMongoService = None, SsIPTemplate = None, SsPvcNames = None, SsPVNodes = None, SsMaxPVCCount = None,
      SsConfigNodes = None,
      SsWorld = \<lparr>KcClock = 0, KcDeployment = None, KcHealthy = True, KcRefuse = False, KcCreated = []\<rparr>\<rparr>"

text \<open>The same state with a deployment of the backup daemon.\<close>

definition exampleDaemon :: deployment_state where
  "exampleDaemon =
     \<lparr>ds_object = \<lparr>dep_meta = objectMeta BackupDaemon ''ns'' [], dep_replicas = 1, dep_pod_spec = emptyPodSpec, dep_selector = [],
        dep_strategy = [], dep_pod_meta = objectMeta [] ''ns'' []\<rparr>,
      ds_generation = 1, ds_observed_generation = 1, ds_replicas = 1, ds_updated_replicas = 1, ds_available_replicas = 1,
      ds_ready_replicas = 1\<rparr>"

definition stateWithDaemon :: "bool \<Rightarrow> kcluster suppl_state" where
  "stateWithDaemon healthy =
     exampleState\<lparr>SsWorld := (SsWorld exampleState)\<lparr>KcDeployment := Some exampleDaemon, KcHealthy := healthy\<rparr>\<rparr>"

end
