(* ===== verification/SupplProps.thy ===== *)
theory SupplProps
  imports Controllers SupplCluster
begin

text \<open>
  Properties of the supplementary operator: which users a build registers, which failures the step that creates them
  reports, and what the wait for the other operator sees.
\<close>

section \<open>The users of the services\<close>

definition registered :: "'w suppl_state \<Rightarrow> (string \<times> suppl_user) list" where
  "registered s = (case SsUsers s of None \<Rightarrow> [] | Some m \<Rightarrow> m)"

text \<open>
  The secrets of the users of the installed services, with whether the user is one of the shards as well, and the
  entry a secret stands for: the user of that name with the password and the role the secret holds.
\<close>

definition userSecrets :: "suppl_spec \<Rightarrow> (string \<times> bool) list" where
  "userSecrets spec =
     (if BkInstall (SupBackup spec) then [(BkSecret (SupBackup spec), False), (BkRestoreSecret (SupBackup spec), False)] else []) @
     (if DbInstall (SupDbaas spec) then [(DbAdminSecret (SupDbaas spec), True)] else []) @
     (if ExInstall (SupExporter spec) then [(ExMonitoringSecret (SupExporter spec), True)] else [])"

definition userEntry :: "(string \<Rightarrow> secret) \<Rightarrow> string \<times> bool \<Rightarrow> string \<times> suppl_user" where
  "userEntry sec = (\<lambda>(name, onShards).
     (let field = smap_get (sec_data (sec name)) in
      (field ''username'',
       \<lparr>AddUser = field ''username'', AddPass = (\<lambda>_. field ''password''), AddUserRole = field ''role'', AddUserShardLocal = onShards\<rparr>)))"

text \<open>The cluster holds the secrets, and reading one changes nothing.\<close>

definition holds_secrets :: "'w suppl_lib \<Rightarrow> string \<Rightarrow> (string \<Rightarrow> secret) \<Rightarrow> bool" where
  "holds_secrets l ns sec = (\<forall>name w. LibReadSecret l name ns w = (Ret (sec name, None), w))"

lemma callS_secret:
  "holds_secrets l (SsNamespace s) sec \<Longrightarrow> callS (LibReadSecret l name (SsNamespace s)) s = (Ret (sec name, None), s)"
  by (simp add: holds_secrets_def callS_apply)

text \<open>What a builder does to the context: it enters the given users, a later one in the place of an earlier one of the
  same name, and keeps the rest the next builders read.\<close>

definition registers :: "(string \<times> suppl_user) list \<Rightarrow> 'w suppl_state \<Rightarrow> 'w suppl_state \<Rightarrow> bool" where
  "registers users s t =
     (map_of (registered t) = map_of (registered s) ++ map_of (rev users) \<and> SsSpec t = SsSpec s \<and> SsNamespace t = SsNamespace s)"

lemma registers_refl: "registers [] s s"
  by (simp add: registers_def)

lemma registers_trans: "registers a s t \<Longrightarrow> registers b t u \<Longrightarrow> c = a @ b \<Longrightarrow> registers c s u"
  by (simp add: registers_def)

lemma registers_user:
  "registers [(AddUser u, u)] s (s\<lparr>SsUsers := Some (smap_put (AddUser u) u (case SsUsers s of None \<Rightarrow> [] | Some m \<Rightarrow> m))\<rparr>)"
  by (simp add: registers_def registered_def map_of_smap_put)

lemma registers_role: "registers users s t \<Longrightarrow> registers users s (t\<lparr>SsRoles := r\<rparr>)"
  by (simp add: registers_def registered_def)

lemma addServiceUser_registers: "addServiceUser u s = (Ret x, t) \<Longrightarrow> registers [(AddUser u, u)] s t"
  using registers_user [of u s] by simp

lemma addServiceRole_registers: "addServiceRole r s = (Ret x, t) \<Longrightarrow> registers [] s t"
  by (auto intro: registers_role registers_refl)

lemma secretUser_entry: "(AddUser (secretUser (sec name) b), secretUser (sec name) b) = userEntry sec (name, b)"
  by (simp add: secretUser_def userEntry_def UsernameKey_def PasswordKey_def RoleKey_def Let_def)

lemma addServiceUser_entry: "addServiceUser (secretUser (sec name) b) s = (Ret x, t) \<Longrightarrow> registers [userEntry sec (name, b)] s t"
  using addServiceUser_registers unfolding secretUser_entry [symmetric] .

lemma BackupBuild_registers:
  assumes "holds_secrets l (SsNamespace s) sec" "BackupBuild l s = (Ret step, t)"
  shows "registers [userEntry sec (BkSecret (SupBackup (SsSpec s)), False), userEntry sec (BkRestoreSecret (SupBackup (SsSpec s)), False)] s t"
proof -
  obtain u where "addServiceUser (secretUser (sec (BkSecret (SupBackup (SsSpec s)))) False) s = (Ret (), u)"
      "addServiceUser (secretUser (sec (BkRestoreSecret (SupBackup (SsSpec s)))) False) u = (Ret (), t)"
    using assms
    by (auto simp: BackupBuild_def Let_def callS_secret andthen_Ret deref_def simp del: addServiceUser_apply elim!: andthen_RetE
        split: option.splits)
  from registers_trans [OF addServiceUser_entry [where sec = sec, OF this(1)] addServiceUser_entry [where sec = sec, OF this(2)] refl] show ?thesis by simp
qed

lemma DbaasBuild_registers:
  assumes "holds_secrets l (SsNamespace s) sec" "DbaasBuild l s = (Ret step, t)"
  shows "registers [userEntry sec (DbAdminSecret (SupDbaas (SsSpec s)), True)] s t"
proof -
  obtain u r where "addServiceUser (secretUser (sec (DbAdminSecret (SupDbaas (SsSpec s)))) True) s = (Ret (), u)"
      "addServiceRole r u = (Ret (), t)"
    using assms
    by (auto simp: DbaasBuild_def Let_def callS_secret andthen_Ret simp del: addServiceUser_apply addServiceRole_apply elim!: andthen_RetE)
  from registers_trans [OF addServiceUser_entry [where sec = sec, OF this(1)] addServiceRole_registers [OF this(2)] refl] show ?thesis by simp
qed

lemma ExporterBuild_registers:
  assumes "holds_secrets l (SsNamespace s) sec" "ExporterBuild l s = (Ret step, t)"
  shows "registers [userEntry sec (ExMonitoringSecret (SupExporter (SsSpec s)), True)] s t"
proof -
  have "addServiceUser (secretUser (sec (ExMonitoringSecret (SupExporter (SsSpec s)))) True) s = (Ret (), t)"
    using assms by (auto simp: ExporterBuild_def callS_secret andthen_Ret simp del: addServiceUser_apply elim!: andthen_RetE)
  from addServiceUser_entry [where sec = sec, OF this] show ?thesis .
qed

lemma buildIf_RetE:
  assumes "buildIf b f s = (Ret xs, t)"
  obtains (skip) "\<not> b" "xs = []" "t = s" | (build) b "f s = (Ret xs, t)"
  using assms by (cases b) (auto simp: buildIf_def)

text \<open>
  The contract of a service with the builder: a build of its steps registers the users in its secrets and nothing else, and
  its step is not the one that creates the users.
\<close>

locale service_part =
  fixes l :: "'w suppl_lib" and build :: "('w, suppl_step) sop" and secrets :: "suppl_spec \<Rightarrow> (string \<times> bool) list"
  assumes users: "holds_secrets l (SsNamespace s) sec \<Longrightarrow> build s = (Ret step, t) \<Longrightarrow>
      registers (map (userEntry sec) (secrets (SsSpec s))) s t"
    and own_step: "build s = (Ret step, t) \<Longrightarrow> step \<noteq> AddServicesUsersStep"
begin

lemma built_part:
  assumes "buildIf b (andthen build (\<lambda>x. ret (extra @ [x]))) s = (Ret steps, t)" "holds_secrets l (SsNamespace s) sec"
    "AddServicesUsersStep \<notin> set extra"
  shows "registers (map (userEntry sec) (if b then secrets (SsSpec s) else [])) s t" "AddServicesUsersStep \<notin> set steps"
proof -
  show "registers (map (userEntry sec) (if b then secrets (SsSpec s) else [])) s t"
    using assms(1) users [OF assms(2)] by (auto elim!: buildIf_RetE andthen_RetE intro: registers_refl)
  show "AddServicesUsersStep \<notin> set steps"
    using assms(1,3) by (auto elim!: buildIf_RetE andthen_RetE dest: own_step)
qed

end

interpretation backup_part: service_part l "BackupBuild l" "\<lambda>spec. [(BkSecret (SupBackup spec), False), (BkRestoreSecret (SupBackup spec), False)]" for l
  by unfold_locales (drule (1) BackupBuild_registers, simp, auto simp: BackupBuild_def Let_def elim!: andthen_RetE)

interpretation dbaas_part: service_part l "DbaasBuild l" "\<lambda>spec. [(DbAdminSecret (SupDbaas spec), True)]" for l
  by unfold_locales (drule (1) DbaasBuild_registers, simp, auto simp: DbaasBuild_def Let_def elim!: andthen_RetE)

interpretation exporter_part: service_part l "ExporterBuild l" "\<lambda>spec. [(ExMonitoringSecret (SupExporter spec), True)]" for l
  by unfold_locales (drule (1) ExporterBuild_registers, simp, auto simp: ExporterBuild_def elim!: andthen_RetE)

interpretation robot_part: service_part l RobotBuild "\<lambda>spec. []" for l
  by unfold_locales (auto simp: RobotBuild_def intro: registers_refl)

definition usersBuilt :: "suppl_spec \<Rightarrow> string \<Rightarrow> bool" where
  "usersBuilt spec mode = (mode = ActiveMode \<or> SupSchemaType (SupSchema spec) \<noteq> DR)"

lemma buildServices_registers:
  assumes "holds_secrets l (SsNamespace s) sec" "SsSpec s = spec" "SupDR spec = Some dr" "buildServices l spec s = (Ret steps, t)"
    and "\<not> (SupSchemaType (SupSchema spec) = DR \<and> Mode dr = DisableMode)"
  shows "registers (map (userEntry sec) (userSecrets spec)) s t \<and>
    (\<exists>parts. steps = (if usersBuilt spec (Mode dr) then [AddServicesUsersStep] @ parts @ [AddServicesUsersStep] else parts) \<and>
       AddServicesUsersStep \<notin> set parts)"
proof -
  obtain backup dbaas exporter robot t1 t2 t3 where
    b: "buildIf (BkInstall (SupBackup spec)) (andthen (BackupBuild l) (\<lambda>backup. ret [backup])) s = (Ret backup, t1)" and
    d: "buildIf (DbInstall (SupDbaas spec)) (andthen (DbaasBuild l) (\<lambda>dbaas. ret [UpdateDbaasUserStep, dbaas])) t1 = (Ret dbaas, t2)" and
    e: "buildIf (ExInstall (SupExporter spec)) (andthen (ExporterBuild l) (\<lambda>exporter. ret [exporter])) t2 = (Ret exporter, t3)" and
    r: "buildIf (RtInstall (SupRobot spec)) (andthen RobotBuild (\<lambda>robot. ret [robot])) t3 = (Ret robot, t)" and
    steps: "steps = (let users = (if usersBuilt spec (Mode dr) then [AddServicesUsersStep] else []) in users @ backup @ dbaas @ exporter @ robot @ users)"
  proof -
    let ?users = "if usersBuilt spec (Mode dr) then [AddServicesUsersStep] else []"
    have "buildServices l spec s =
        andthen (buildIf (BkInstall (SupBackup spec)) (andthen (BackupBuild l) (\<lambda>backup. ret [backup]))) (\<lambda>backup.
        andthen (buildIf (DbInstall (SupDbaas spec)) (andthen (DbaasBuild l) (\<lambda>dbaas. ret [UpdateDbaasUserStep, dbaas]))) (\<lambda>dbaas.
        andthen (buildIf (ExInstall (SupExporter spec)) (andthen (ExporterBuild l) (\<lambda>exporter. ret [exporter]))) (\<lambda>exporter.
        andthen (buildIf (RtInstall (SupRobot spec)) (andthen RobotBuild (\<lambda>robot. ret [robot]))) (\<lambda>robot.
        ret (?users @ backup @ dbaas @ exporter @ robot @ ?users))))) s"
      using assms(3,5) by (simp add: buildServices_def usersBuilt_def Let_def cong del: if_weak_cong)
    from trans [OF this [symmetric] assms(4)] show ?thesis by (elim andthen_RetE) (rule that, simp_all)
  qed
  note b = backup_part.built_part [where extra = "[]", simplified append_Nil, OF b]
    and d = dbaas_part.built_part [where extra = "[UpdateDbaasUserStep]", simplified append_Cons append_Nil, OF d]
    and e = exporter_part.built_part [where extra = "[]", simplified append_Nil, OF e]
    and r = robot_part.built_part [where extra = "[]", simplified append_Nil, OF r, where l = l]
  note t1 = b(1) [OF assms(1), simplified assms(2)]
  then have s1: "SsSpec t1 = spec" "holds_secrets l (SsNamespace t1) sec" using assms(1,2) by (simp_all add: registers_def)
  note t2 = d(1) [OF s1(2), unfolded s1(1)]
  then have s2: "SsSpec t2 = spec" "holds_secrets l (SsNamespace t2) sec" using s1 by (simp_all add: registers_def)
  note t3 = e(1) [OF s2(2), unfolded s2(1)]
  then have s3: "holds_secrets l (SsNamespace t3) sec" using s2 by (simp add: registers_def)
  have "registers (map (userEntry sec) (userSecrets spec)) s t"
    by (rule registers_trans [OF t1 registers_trans [OF t2 registers_trans [OF t3 r(1) [OF s3] refl] refl]]) (auto simp: userSecrets_def)
  moreover have "AddServicesUsersStep \<notin> set (backup @ dbaas @ exporter @ robot)"
    using b(2) [OF assms(1)] d(2) [OF s1(2)] e(2) [OF s2(2)] r(2) [OF s3] by simp
  ultimately show ?thesis unfolding steps by (auto simp: Let_def intro!: exI [of _ "backup @ dbaas @ exporter @ robot"])
qed

text \<open>C13: a build registers exactly the users of the installed services, those in the secrets of the backup daemon, of the
  restore, of the adapter and of the exporter, each with the password and the role its secret holds and, for the last
  two, as a user of the shards as well; of two secrets with the same user name the later one counts.  It puts the step that
  creates the users first and last, except on a site of a disaster recovery schema that is not active.\<close>

theorem build_registers_users:
  assumes "holds_secrets l (SsNamespace s) sec" "SsUsers s = None" "SupDR (SsSpec s) = Some dr"
    and "\<not> (SupSchemaType (SupSchema (SsSpec s)) = DR \<and> Mode dr = DisableMode)" "SupplServiceBuild l s = (Ret steps, s')"
  shows "map_of (registered s') = map_of (rev (map (userEntry sec) (userSecrets (SsSpec s)))) \<and>
    (\<exists>parts. steps = (if usersBuilt (SsSpec s) (Mode dr) then [AddServicesUsersStep] @ parts @ [AddServicesUsersStep] else parts) \<and>
       AddServicesUsersStep \<notin> set parts)"
proof -
  let ?spec = "withDefaultSchema (SsSpec s)"
  obtain u where u: "SsSpec u = ?spec" "SsNamespace u = SsNamespace s" "SsUsers u = None" and b: "buildServices l ?spec u = (Ret steps, s')"
  proof -
    obtain x w where "callS (LibHasSpecChanged l (hasSpecChanges l (LibCommonFields l (SsSpec s)))) s = (Ret x, w)" and
      rest: "(case x of (isAnyParamChanged, commonParamCheckErr) \<Rightarrow>
        andthen (supplPanicError l commonParamCheckErr ''Error happened during checking common parameters for changes'') (\<lambda>_.
        andthen (modifyState (\<lambda>s'. s'\<lparr>SsCommonChanged := Some isAnyParamChanged, SsIPTemplate := Some (ipTemplate (SupIpV6 (SsSpec s))),
          SsSpec := ?spec\<rparr>)) (\<lambda>_.
        andthen getState (\<lambda>s.
        andthen (callS (LibReadSecret l MongoRootSecretName (SsNamespace s))) (\<lambda>(secret, secErr).
        andthen (supplPanicError l secErr (Sprintf ''Failed to read %s'' [Str MongoRootSecretName])) (\<lambda>_.
        andthen (modifyState (\<lambda>s. s\<lparr>SsMongoHost := Some (fst (mongoHostOf (SupSchema (SsSpec s)) (SsNamespace s))),
          SsMongoService := Some (rootEndpoint (SsSpec s) (SsNamespace s) secret)\<rparr>)) (\<lambda>_.
        buildServices l (SsSpec s)))))))) w = (Ret steps, s')"
      using assms(5) unfolding SupplServiceBuild_def andthen_supplSpec by (elim andthen_RetE) blast
    from callS_frame [OF this(1)] obtain v where "w = s\<lparr>SsWorld := v\<rparr>" by blast
    then have w: "SsNamespace w = SsNamespace s" "SsUsers w = None" using assms(2) by simp_all
    obtain changed where x: "x = (changed, None)"
      using rest by (cases x; cases "snd x") auto
    have "\<exists>c i h m. buildServices l ?spec (w\<lparr>SsCommonChanged := c, SsIPTemplate := i, SsSpec := ?spec, SsMongoHost := h, SsMongoService := m\<rparr>) =
        (Ret steps, s')"
      using rest w assms(1) unfolding x by (simp add: andthen_apply callS_apply holds_secrets_def) (intro exI, assumption)
    then obtain c i h m where "buildServices l ?spec (w\<lparr>SsCommonChanged := c, SsIPTemplate := i, SsSpec := ?spec, SsMongoHost := h,
        SsMongoService := m\<rparr>) = (Ret steps, s')" by blast
    then show ?thesis by (intro that) (simp_all add: w)
  qed
  have same: "SupDR ?spec = SupDR (SsSpec s)" "userSecrets ?spec = userSecrets (SsSpec s)" "usersBuilt ?spec m = usersBuilt (SsSpec s) m"
      "SupSchemaType (SupSchema ?spec) = DR \<longleftrightarrow> SupSchemaType (SupSchema (SsSpec s)) = DR" for m
    by (auto simp: withDefaultSchema_def userSecrets_def usersBuilt_def)
  from buildServices_registers [OF _ u(1) _ b, of sec dr] show ?thesis
    using assms(1,3,4) u(2,3) by (auto simp: same registers_def registered_def)
qed

section \<open>Creating the users\<close>

lemma addUsers_returns:
  assumes "\<And>(u :: suppl_user) w. \<exists>err w'. DrvCreateOrUpdateUser l ms (AddUser u) (AddPass u ()) db db (AddUserRole u) sharded False w = (Ret err, w')"
  shows "\<exists>s'. addUsers l ms db sharded users s = (Ret None, s')"
proof (induction users arbitrary: s)
  case (Cons u users)
  obtain name user where u: "u = (name, user)" by (cases u)
  obtain err w' where "DrvCreateOrUpdateUser l ms (AddUser user) (AddPass user ()) db db (AddUserRole user) sharded False (SsWorld s) = (Ret err, w')"
    using assms by meson
  then have "addUsers l ms db sharded (u # users) s = addUsers l ms db sharded users (s\<lparr>SsWorld := w'\<rparr>)"
    by (simp add: addUsers_def u andthen_apply callS_apply)
  then show ?case using Cons.IH by auto
qed (simp add: addUsers_def op_simps)

text \<open>The step that creates the users fails exactly when a role cannot be created: its error is the answer to the creation
  of one of the roles, and when every role is created it reports success, whatever the answers to the creation of the
  users.\<close>

theorem users_step_reports_roles:
  fixes l :: "'w suppl_lib"
  assumes "SsMongoService s = Some ms" "SsRoles s = Some roles"
    and "\<And>(u :: suppl_user) w. \<exists>err w'. DrvCreateOrUpdateUser l ms (AddUser u) (AddPass u ()) (SupAuthDb (SsSpec s)) (SupAuthDb (SsSpec s))
      (AddUserRole u) (SupSharded (SupSchema (SsSpec s))) False w = (Ret err, w')"
    and "addRoles l ms (SupSharded (SupSchema (SsSpec s))) roles s = (Ret r, t)"
  shows "\<exists>s'. AddServicesUsers_Execute l s = (Ret r, s') \<and>
    (\<forall>e. r = Some e \<longrightarrow> (\<exists>role \<in> snd ` set roles. \<exists>w. DrvCreateOrUpdateRole l ms ''admin'' (AddRole role) (AddRoles role)
       (AddPrivileges role) (SupSharded (SupSchema (SsSpec s))) w = (Ret (Some e), SsWorld s')))"
proof (cases r)
  case (Some e)
  have run: "AddServicesUsers_Execute l s = (Ret (Some e), t)"
    using assms(1,2,4) Some by (simp add: AddServicesUsers_Execute_def Let_def andthen_apply)
  obtain x u where x: "x \<in> set roles" "callS (DrvCreateOrUpdateRole l ms ''admin'' (AddRole (snd x)) (AddRoles (snd x))
      (AddPrivileges (snd x)) (SupSharded (SupSchema (SsSpec s)))) u = (Ret (Some e), t)"
    using forRange_Some [OF assms(4) [unfolded addRoles_def Some]] by (auto simp: case_prod_beta)
  show ?thesis using run x callS_RetD [OF x(2)] Some by blast
next
  case None
  have "\<exists>s'. AddServicesUsers_Execute l s = (Ret None, s')"
  proof (cases "SsUsers t")
    case n: None
    then show ?thesis using assms(1,2,4) None by (simp add: AddServicesUsers_Execute_def Let_def andthen_apply)
  next
    case (Some users)
    have "AddServicesUsers_Execute l s = addUsers l ms (SupAuthDb (SsSpec s)) (SupSharded (SupSchema (SsSpec s))) users t"
      using assms(1,2,4) None Some by (simp add: AddServicesUsers_Execute_def Let_def andthen_apply)
    then show ?thesis using addUsers_returns [where l = l and ms = ms, OF assms(3)] by metis
  qed
  then show ?thesis using None by simp
qed

section \<open>The wait for the other operator\<close>

lemma conditionScan_published:
  "conditionScan (map conditionJSON (InstConditions (UpdateStatus c i))) =
     (if CondStatus c \<and> map to_lower (CondType c) = ''successful'' then Some (True, None)
      else if CondStatus c \<and> map to_lower (CondType c) = ''failed'' then Some (True, Some (GoError ''MongoDB CR failed'')) else None)"
  by (auto simp: UpdateStatus_def conditionJSON_def Let_def)

text \<open>C27: the wait of the supplementary operator ends without an error only when the last condition the other operator has
  published in its resource is a successful one; here the resource that is read holds what \<^verbatim>\<open>UpdateStatus\<close> of that
  operator left.\<close>

theorem waits_for_published_success:
  fixes published :: "'w \<Rightarrow> service_condition" and i :: "deployment_spec cr_instance"
  assumes "poll_law (LibPollImmediate l 5 600)"
    and "\<And>w cr w'. getCR name ns w = (Ret (Inr cr), w') \<Longrightarrow>
      NestedSlice cr [''status'', ''conditions''] = (map conditionJSON (InstConditions (UpdateStatus (published w') i)), True, None)"
    and "WaitForMongoDBOperatorReady l NestedSlice getCR name ns w = (Ret None, w')"
  shows "CondStatus (published w') \<and> map to_lower (CondType (published w')) = ''successful''"
proof -
  let ?cond = "andthen (getCR name ns) (\<lambda>x. ret (case x of
       Inl err \<Rightarrow> (False, Some err) | Inr mongoCR \<Rightarrow> operatorReady NestedSlice mongoCR))"
  obtain u where "?cond u = (Ret (True, None), w')"
    using poll_lawD [OF assms(1) assms(3) [unfolded WaitForMongoDBOperatorReady_def]] ..
  then obtain cr where cr: "getCR name ns u = (Ret (Inr cr), w')" "operatorReady NestedSlice cr = (True, None)"
    by (auto elim!: andthen_RetE split: sum.splits)
  show ?thesis
    using cr(2) by (auto simp: operatorReady_def assms(2) [OF cr(1)] conditionScan_published split: if_splits)
qed

section \<open>Examples\<close>

lemma exampleLib_secrets: "holds_secrets exampleLib ns exampleSecret"
  by (simp add: holds_secrets_def op_simps)

lemma build_registers_users_witness:
  "\<exists>steps s'. SupplServiceBuild exampleLib exampleState = (Ret steps, s') \<and>
     map_of (registered s') = map_of (rev (map (userEntry exampleSecret) (userSecrets exampleSpec))) \<and>
     (\<exists>parts. steps = [AddServicesUsersStep] @ parts @ [AddServicesUsersStep] \<and> AddServicesUsersStep \<notin> set parts)"
proof -
  obtain steps s' where r: "SupplServiceBuild exampleLib exampleState = (Ret steps, s')" by (rule that) code_simp
  have dr: "SupDR (SsSpec exampleState) = Some \<lparr>Mode = ActiveMode, DRStatus = [], NoWait = False\<rparr>"
    by (simp add: exampleState_def exampleSpec_def)
  have mode: "usersBuilt exampleSpec ActiveMode" "ActiveMode \<noteq> DisableMode" by (simp_all add: usersBuilt_def ActiveMode_def DisableMode_def)
  have spec: "SsSpec exampleState = exampleSpec" by (simp add: exampleState_def)
  from build_registers_users [OF exampleLib_secrets _ dr _ r] show ?thesis
    using r mode by (simp add: spec) (simp add: exampleState_def)
qed

text \<open>A cluster that refuses to create the user.\<close>

definition refusingState :: "kcluster suppl_state" where
  "refusingState = exampleState\<lparr>SsMongoService := Some (rootEndpoint exampleSpec ''ns'' (exampleSecret ''root.v1'')),
     SsRoles := Some [(''r'', \<lparr>AddRole = ''r'', AddPrivileges = [], AddRoles = [], AddRoleShardLocal = True\<rparr>)],
     SsUsers := Some [(''u'', secretUser (exampleSecret ''u'') True)], SsWorld := (SsWorld exampleState)\<lparr>KcRefuse := True\<rparr>\<rparr>"

lemma users_step_reports_roles_witness: "\<exists>s'. AddServicesUsers_Execute exampleLib refusingState = (Ret None, s')"
proof -
  let ?ms = "rootEndpoint exampleSpec ''ns'' (exampleSecret ''root.v1'')"
  have "SsMongoService refusingState = Some ?ms" "SsRoles refusingState =
      Some [(''r'', \<lparr>AddRole = ''r'', AddPrivileges = [], AddRoles = [], AddRoleShardLocal = True\<rparr>)]" by (simp_all add: refusingState_def)
  moreover have "\<exists>err w'. DrvCreateOrUpdateUser exampleLib ?ms (AddUser u) (AddPass u ()) d a (AddUserRole u) sh False w = (Ret err, w')"
    for u :: suppl_user and d a sh w by (simp add: exampleLib_def op_simps)
  moreover obtain t where "addRoles exampleLib ?ms (SupSharded (SupSchema (SsSpec refusingState)))
      [(''r'', \<lparr>AddRole = ''r'', AddPrivileges = [], AddRoles = [], AddRoleShardLocal = True\<rparr>)] refusingState = (Ret None, t)"
    by (rule that) (simp add: addRoles_def andthen_apply callS_apply op_simps)
  ultimately show ?thesis using users_step_reports_roles [of refusingState ?ms _ exampleLib None] by blast
qed

definition successPublished :: service_condition where
  "successPublished = \<lparr>CondType = ''Successful'', CondStatus = True, CondReason = [], CondMessage = []\<rparr>"

lemma waits_for_published_success_witness:
  "CondStatus successPublished \<and> map to_lower (CondType successPublished) = ''successful''"
proof -
  fix i :: "deployment_spec cr_instance"
  let ?slice = "\<lambda>cr path. (map conditionJSON (InstConditions (UpdateStatus successPublished i)), True, None)"
  let ?get = "\<lambda>name ns. ret (Inr JNull) :: (kcluster, goerror + json) op"
  have scan: "conditionScan (map conditionJSON (InstConditions (UpdateStatus successPublished i))) = Some (True, None)"
    by (subst conditionScan_published) code_simp
  have "WaitForMongoDBOperatorReady exampleLib ?slice ?get ''mongodb-operator'' ''ns'' (SsWorld exampleState) = (Ret None, SsWorld exampleState)"
    by (simp add: WaitForMongoDBOperatorReady_def operatorReady_def scan numeral_2_eq_2 op_simps)
  from waits_for_published_success [OF _ _ this, where published = "\<lambda>w. successPublished" and i = i]
  show ?thesis by (simp add: poll_tries_law)
qed

end
