(* ===== verification/SupplRestart.thy ===== *)
theory SupplRestart
  imports SupplBackup SupplCluster
begin

text \<open>
  The restart of the backup daemon after an expansion of its volume: that it ends and when, and what a success means.
  A lemma for each combinator bounds the time of an operation by those of its parts.
\<close>

section \<open>Time\<close>

text \<open>
  A clock that only sleeps and polls move, by at most the seconds they are given, on services that answer: the
  documented behaviour of \<^verbatim>\<open>time.Sleep\<close>, \<^verbatim>\<open>wait.PollImmediate\<close> and of requests whose own time is not counted.
\<close>

definition timely :: "'w suppl_lib \<Rightarrow> string \<Rightarrow> ('w \<Rightarrow> int) \<Rightarrow> bool" where
  "timely l ns time =
     ((\<forall>n w. 0 \<le> n \<longrightarrow> (\<exists>w'. LibSleep l n w = (Ret (), w') \<and> time w' \<le> time w + n)) \<and>
      (\<forall>i t w. 0 \<le> t \<longrightarrow> (\<forall>c \<in> {daemonStopped l ns, daemonStarted l ns}.
         \<exists>x w'. LibPollImmediate l i t c w = (Ret x, w') \<and> time w' \<le> time w + t)) \<and>
      (\<forall>w. \<exists>x w'. LibGetDeployment l ns BackupDaemon w = (Ret x, w') \<and> time w' \<le> time w) \<and>
      (\<forall>b d w. \<exists>x w'. LibPatch l b d w = (Ret x, w') \<and> time w' \<le> time w))"

text \<open>An operation that returns and takes at most k seconds.\<close>

definition takes :: "('w \<Rightarrow> int) \<Rightarrow> int \<Rightarrow> ('w, 'a) sop \<Rightarrow> bool" where
  "takes time k f = (\<forall>s. \<exists>x s'. f s = (Ret x, s') \<and> time (SsWorld s') \<le> time (SsWorld s) + k)"

lemma takes_ret: "0 \<le> k \<Longrightarrow> takes time k (ret x)"
  by (simp add: takes_def)

lemma takes_andthen:
  assumes "takes time a f" "\<And>x. takes time b (g x)" "a + b \<le> k"
  shows "takes time k (andthen f g)"
  unfolding takes_def
proof
  fix s
  obtain x t where f: "f s = (Ret x, t)" "time (SsWorld t) \<le> time (SsWorld s) + a" using assms(1) unfolding takes_def by blast
  obtain y u where g: "g x t = (Ret y, u)" "time (SsWorld u) \<le> time (SsWorld t) + b" using assms(2) unfolding takes_def by blast
  have "time (SsWorld u) \<le> time (SsWorld s) + k" using f(2) g(2) assms(3) by linarith
  then show "\<exists>x s'. andthen f g s = (Ret x, s') \<and> time (SsWorld s') \<le> time (SsWorld s) + k"
    using f(1) g(1) by (auto simp: andthen_Ret)
qed

lemma takes_callS: "(\<And>w. \<exists>x w'. f w = (Ret x, w') \<and> time w' \<le> time w + k) \<Longrightarrow> takes time k (callS f)"
  unfolding takes_def callS_apply by (metis (mono_tags, lifting) case_prod_conv suppl_state.select_convs(14) suppl_state.surjective suppl_state.update_convs(14))

lemma takes_mono: "takes time a f \<Longrightarrow> a \<le> b \<Longrightarrow> takes time b f"
  unfolding takes_def by (meson add_left_mono order_trans)

lemma takes_forRange:
  assumes "\<And>x. x \<in> set xs \<Longrightarrow> takes time (k x) (body x)" "\<And>x. x \<in> set xs \<Longrightarrow> 0 \<le> k x"
  shows "takes time (sum_list (map k xs)) (forRange xs body)"
  using assms
proof (induction xs)
  case Nil
  show ?case by (simp add: takes_ret)
next
  case (Cons x xs)
  have rest: "0 \<le> sum_list (map k xs)" using Cons.prems(2) by (intro sum_list_nonneg) auto
  have body: "takes time (k x) (body x)" using Cons.prems(1) by simp
  have loop: "takes time (sum_list (map k xs)) (forRange xs body)" using Cons by simp
  have "takes time (sum_list (map k xs)) (case r of None \<Rightarrow> forRange xs body | Some e \<Rightarrow> ret (Some e))" for r
    using loop rest by (cases r) (simp_all add: takes_ret)
  from takes_andthen [OF body this] show ?case by simp
qed

lemma timely_calls:
  assumes "timely l ns time"
  shows "0 \<le> n \<Longrightarrow> takes time n (callS (LibSleep l n))"
    "0 \<le> t \<Longrightarrow> takes time t (callS (LibPollImmediate l i t (daemonStopped l ns)))"
    "0 \<le> t \<Longrightarrow> takes time t (callS (LibPollImmediate l i t (daemonStarted l ns)))"
    "takes time 0 (callS (LibGetDeployment l ns BackupDaemon))"
    "takes time 0 (callS (LibPatch l b d))"
  using assms unfolding timely_def by (auto intro!: takes_callS)

lemma attemptDelay_nonneg: "0 \<le> attemptDelay k"
  by (simp add: attemptDelay_def)

lemma startAttempt_takes:
  assumes "timely l ns time" "0 \<le> n"
  shows "takes time (attemptDelay k + 120 + (if k < maxAttempts then n else 0)) (startAttempt l ns n k)"
proof -
  have wait: "takes time n (andthen (callS (LibPollImmediate l 2 n (daemonStopped l ns))) (\<lambda>_. ret None))"
    by (rule takes_andthen [OF timely_calls(2) [OF assms], where b = 0]) (simp_all add: takes_ret)
  have stop: "takes time n (andthen (callS (LibPatch l patched (patched\<lparr>dep_replicas := 0\<rparr>))) (\<lambda>_.
      andthen (callS (LibPollImmediate l 2 n (daemonStopped l ns))) (\<lambda>_. ret None)))" for patched
    by (rule takes_andthen [OF timely_calls(5) [OF assms(1)] wait]) simp
  have after: "takes time (if k < maxAttempts then n else 0) (if checkErr = None then ret (Some None)
      else if k < maxAttempts
      then andthen (callS (LibPatch l patched (patched\<lparr>dep_replicas := 0\<rparr>))) (\<lambda>_.
           andthen (callS (LibPollImmediate l 2 n (daemonStopped l ns))) (\<lambda>_. ret None))
      else ret None)" (is "takes _ _ (?f checkErr patched)") for checkErr :: "goerror option" and patched
    using stop assms(2) by (auto intro: takes_ret)
  have poll: "takes time (120 + (if k < maxAttempts then n else 0))
      (andthen (callS (LibPollImmediate l 5 120 (daemonStarted l ns))) (\<lambda>e. ?f e patched))" for patched
    by (rule takes_andthen [OF timely_calls(3) [OF assms(1), of 120, simplified] after]) simp
  have up: "takes time (120 + (if k < maxAttempts then n else 0)) (case x of
        Inl err \<Rightarrow> ret (Some (Some (Wrapped (Sprintf ''scaling up %s: %s'' [Str BackupDaemon, Str (supplErr l err)]) err)))
      | Inr patched \<Rightarrow> andthen (callS (LibPollImmediate l 5 120 (daemonStarted l ns))) (\<lambda>e. ?f e patched))" for x
  proof (cases x)
    case (Inl err)
    then show ?thesis using assms(2) by (simp add: takes_ret)
  next
    case (Inr patched)
    show ?thesis unfolding Inr sum.case by (rule poll)
  qed
  have get: "takes time (120 + (if k < maxAttempts then n else 0)) (case x of
        Inl err \<Rightarrow> ret (Some (Some (Wrapped (Sprintf ''getting deployment %s: %s'' [Str BackupDaemon, Str (supplErr l err)]) err)))
      | Inr cur \<Rightarrow> andthen (callS (LibPatch l (ds_object cur) ((ds_object cur)\<lparr>dep_replicas := 1\<rparr>))) (\<lambda>x. case x of
          Inl err \<Rightarrow> ret (Some (Some (Wrapped (Sprintf ''scaling up %s: %s'' [Str BackupDaemon, Str (supplErr l err)]) err)))
        | Inr patched \<Rightarrow> andthen (callS (LibPollImmediate l 5 120 (daemonStarted l ns))) (\<lambda>e. ?f e patched)))" for x
  proof (cases x)
    case (Inl err)
    then show ?thesis using assms(2) by (simp add: takes_ret)
  next
    case (Inr cur)
    show ?thesis unfolding Inr sum.case by (rule takes_andthen [OF timely_calls(5) [OF assms(1)] up]) simp
  qed
  show ?thesis
    unfolding startAttempt_def Let_def
    by (rule takes_andthen [OF timely_calls(1) [OF assms(1) attemptDelay_nonneg] takes_andthen [OF timely_calls(4) [OF assms(1)] get]]) (rule order_refl, simp)
qed

lemma attempts_range: "[1..<maxAttempts + 1] = [1, 2, 3, 4, 5]"
  by (simp add: maxAttempts_def upt_rec)

lemma startAttempts_take:
  assumes "timely l ns time" "0 \<le> n"
  shows "takes time (910 + 4 * n) (forRange [1..<maxAttempts + 1] (startAttempt l ns n))"
proof -
  let ?k = "\<lambda>k. attemptDelay k + 120 + (if k < maxAttempts then n else 0)"
  have "takes time (sum_list (map ?k [1..<maxAttempts + 1])) (forRange [1..<maxAttempts + 1] (startAttempt l ns n))"
    using assms by (intro takes_forRange startAttempt_takes) (auto simp: attemptDelay_def)
  then show ?thesis unfolding attempts_range by (simp add: attemptDelay_def maxAttempts_def)
qed

lemma startDaemon_takes:
  assumes "timely l ns time" "0 \<le> n"
  shows "takes time (910 + 4 * n) (startDaemon l ns n)"
  unfolding startDaemon_def
  by (rule takes_andthen [OF startAttempts_take [OF assms], where b = 0]) (auto split: option.split intro: takes_ret)

lemma restartDaemon_takes:
  assumes "timely l ns time" "0 \<le> n"
  shows "takes time (910 + 5 * n) (restartDaemon l ns n depl)"
proof -
  have wait: "takes time (910 + 4 * n) (case err of
        Some e \<Rightarrow> ret (Some (Wrapped (Sprintf ''waiting for %s to scale down: %s'' [Str BackupDaemon, Str (supplErr l e)]) e))
      | None \<Rightarrow> startDaemon l ns n)" for err
    using startDaemon_takes [OF assms] assms(2) by (cases err) (simp_all add: takes_ret)
  have down: "takes time (910 + 5 * n) (case x of
        Inl err \<Rightarrow> ret (Some (Wrapped (Sprintf ''scaling down %s: %s'' [Str BackupDaemon, Str (supplErr l err)]) err))
      | Inr (_ :: app_deployment) \<Rightarrow> andthen (callS (LibPollImmediate l 2 n (daemonStopped l ns))) (\<lambda>err. case err of
          Some e \<Rightarrow> ret (Some (Wrapped (Sprintf ''waiting for %s to scale down: %s'' [Str BackupDaemon, Str (supplErr l e)]) e))
        | None \<Rightarrow> startDaemon l ns n))" for x
  proof (cases x)
    case (Inl err)
    then show ?thesis using assms(2) by (simp add: takes_ret)
  next
    case (Inr patched)
    show ?thesis unfolding Inr sum.case by (rule takes_andthen [OF timely_calls(2) [OF assms] wait]) simp
  qed
  show ?thesis unfolding restartDaemon_def by (rule takes_andthen [OF timely_calls(5) [OF assms(1)] down]) simp
qed

text \<open>C18: the restart of the backup daemon always ends: with services that answer, it returns a result within 910
  seconds (five attempts after 10, 20, 40, 80 and 160 seconds, of two minutes each) and five times the wait of the
  custom resource.\<close>

theorem restart_ends:
  assumes "timely l (SsNamespace s) time" "0 \<le> n"
  shows "\<exists>result s'. backupRestart l n s = (Ret result, s') \<and> time (SsWorld s') \<le> time (SsWorld s) + 910 + 5 * n"
proof -
  have got: "takes time (910 + 5 * n) (case x of
      Inl err \<Rightarrow> if LibIsNotFound l err then ret None
        else ret (Some (Wrapped (Sprintf ''getting deployment %s: %s'' [Str BackupDaemon, Str (supplErr l err)]) err))
    | Inr depl \<Rightarrow> restartDaemon l (SsNamespace s) n (ds_object depl))" for x
    using restartDaemon_takes [OF assms] assms(2) by (cases x) (simp_all add: takes_ret)
  show ?thesis
    using takes_andthen [OF timely_calls(4) [OF assms(1)] got order_refl, unfolded takes_def, THEN spec [where x = s]]
    by (simp add: backupRestart_def Let_def add.assoc)
qed

text \<open>What a look at the deployment saw that left the world \<^verbatim>\<open>w'\<close>: an available and ready replica, or no replica.\<close>

definition daemonSeen :: "'w suppl_lib \<Rightarrow> string \<Rightarrow> 'w \<Rightarrow> bool" where
  "daemonSeen l ns w' =
     (\<exists>w dep. LibGetDeployment l ns BackupDaemon w = (Ret (Inr dep), w') \<and> 1 \<le> ds_available_replicas dep \<and> 1 \<le> ds_ready_replicas dep)"

definition daemonGone :: "'w suppl_lib \<Rightarrow> string \<Rightarrow> 'w \<Rightarrow> bool" where
  "daemonGone l ns w' = (\<exists>w dep. LibGetDeployment l ns BackupDaemon w = (Ret (Inr dep), w') \<and> ds_replicas dep = 0)"

lemma started_seen:
  assumes "poll_law (LibPollImmediate l 5 120)" "callS (LibPollImmediate l 5 120 (daemonStarted l ns)) s = (Ret None, s')"
  shows "daemonSeen l ns (SsWorld s')"
proof -
  obtain w where "daemonStarted l ns w = (Ret (True, None), SsWorld s')" using poll_lawD [OF assms(1) callS_RetD [OF assms(2)]] ..
  then obtain dep where "LibGetDeployment l ns BackupDaemon w = (Ret (Inr dep), SsWorld s')" "1 \<le> ds_available_replicas dep"
      "1 \<le> ds_ready_replicas dep"
    by (auto simp: daemonStarted_def elim!: andthen_RetE split: sum.splits)
  then show ?thesis unfolding daemonSeen_def by blast
qed

lemma stopped_gone:
  assumes "poll_law (LibPollImmediate l 2 n)" "callS (LibPollImmediate l 2 n (daemonStopped l ns)) s = (Ret None, s')"
  shows "daemonGone l ns (SsWorld s')"
proof -
  obtain w where "daemonStopped l ns w = (Ret (True, None), SsWorld s')" using poll_lawD [OF assms(1) callS_RetD [OF assms(2)]] ..
  then obtain dep where "LibGetDeployment l ns BackupDaemon w = (Ret (Inr dep), SsWorld s')" "ds_replicas dep = 0"
    by (auto simp: daemonStopped_def elim!: andthen_RetE split: sum.splits)
  then show ?thesis unfolding daemonGone_def by blast
qed

text \<open>The daemon is scaled down from \<^verbatim>\<open>depl\<close> and waited for until no replica is left.\<close>

definition scaledDown :: "'w suppl_lib \<Rightarrow> string \<Rightarrow> int \<Rightarrow> app_deployment \<Rightarrow> 'w suppl_state \<Rightarrow> 'w suppl_state \<Rightarrow> bool" where
  "scaledDown l ns n depl s s' =
     (\<exists>d t. callS (LibPatch l depl (depl\<lparr>dep_replicas := 0\<rparr>)) s = (Ret (Inr d), t) \<and>
        callS (LibPollImmediate l 2 n (daemonStopped l ns)) t = (Ret None, s') \<and> daemonGone l ns (SsWorld s'))"

text \<open>The deployment is read and scaled up to one replica; the wait starts in the state this leaves and ends when its
  last look sees an available and ready replica.\<close>

definition scaledUp :: "'w suppl_lib \<Rightarrow> string \<Rightarrow> 'w suppl_state \<Rightarrow> 'w suppl_state \<Rightarrow> bool" where
  "scaledUp l ns s s' =
     (\<exists>cur d t u. callS (LibGetDeployment l ns BackupDaemon) s = (Ret (Inr cur), t) \<and>
        callS (LibPatch l (ds_object cur) ((ds_object cur)\<lparr>dep_replicas := 1\<rparr>)) t = (Ret (Inr d), u) \<and>
        callS (LibPollImmediate l 5 120 (daemonStarted l ns)) u = (Ret None, s') \<and> daemonSeen l ns (SsWorld s'))"

lemma startAttempt_success:
  assumes "poll_law (LibPollImmediate l 5 120)" "startAttempt l ns n k s = (Ret (Some None), s')"
  shows "\<exists>t. callS (LibSleep l (attemptDelay k)) s = (Ret (), t) \<and> scaledUp l ns t s'"
proof -
  obtain t x u where t: "callS (LibSleep l (attemptDelay k)) s = (Ret (), t)" "callS (LibGetDeployment l ns BackupDaemon) t = (Ret x, u)"
    and rest: "(case x of
       Inl err \<Rightarrow> ret (Some (Some (Wrapped (Sprintf ''getting deployment %s: %s'' [Str BackupDaemon, Str (supplErr l err)]) err)))
     | Inr cur \<Rightarrow>
          andthen (callS (LibPatch l (ds_object cur) ((ds_object cur)\<lparr>dep_replicas := 1\<rparr>))) (\<lambda>x. case x of
            Inl err \<Rightarrow> ret (Some (Some (Wrapped (Sprintf ''scaling up %s: %s'' [Str BackupDaemon, Str (supplErr l err)]) err)))
          | Inr patched \<Rightarrow>
              andthen (callS (LibPollImmediate l 5 120 (daemonStarted l ns))) (\<lambda>checkErr.
              if checkErr = None then ret (Some None)
              else if k < maxAttempts
              then andthen (callS (LibPatch l patched (patched\<lparr>dep_replicas := 0\<rparr>))) (\<lambda>_.
                   andthen (callS (LibPollImmediate l 2 n (daemonStopped l ns))) (\<lambda>_. ret None))
              else ret None))) u = (Ret (Some None), s')"
    using assms(2) unfolding startAttempt_def Let_def by (elim andthen_RetE) simp
  obtain cur where cur: "x = Inr cur" using rest by (cases x) auto
  obtain y v where y: "callS (LibPatch l (ds_object cur) ((ds_object cur)\<lparr>dep_replicas := 1\<rparr>)) u = (Ret y, v)" "\<And>e. y \<noteq> Inl e"
    "\<And>d. y = Inr d \<Longrightarrow> callS (LibPollImmediate l 5 120 (daemonStarted l ns)) v = (Ret None, s')"
    using rest unfolding cur by (auto elim!: andthen_RetE split: sum.splits if_splits)
  obtain d where d: "y = Inr d" using y(2) by (cases y) auto
  note poll = y(3) [OF d]
  have "scaledUp l ns t s'"
    unfolding scaledUp_def using t(2) y(1) poll started_seen [OF assms(1) poll] cur d by blast
  then show ?thesis using t(1) by blast
qed

lemma startDaemon_success:
  assumes "poll_law (LibPollImmediate l 5 120)" "startDaemon l ns n s = (Ret None, s')"
  shows "\<exists>k<5. \<exists>t u. chained (\<lambda>j t u. startAttempt l ns n (j + 1) t = (Ret None, u)) k s t \<and>
    callS (LibSleep l (attemptDelay (k + 1))) t = (Ret (), u) \<and> scaledUp l ns u s'"
proof -
  have run: "forRange [1..<maxAttempts + 1] (startAttempt l ns n) s = (Ret (Some None), s')"
    using assms(2) unfolding startDaemon_def by (elim andthen_RetE) (simp split: option.splits)
  have nth: "[1..<maxAttempts + 1] ! j = j + 1" if "j < 5" for j using that by (simp add: maxAttempts_def del: upt_Suc)
  obtain k t where k: "k < 5" "chained (\<lambda>j t u. startAttempt l ns n ([1..<maxAttempts + 1] ! j) t = (Ret None, u)) k s t"
    "startAttempt l ns n ([1..<maxAttempts + 1] ! k) t = (Ret (Some None), s')"
    using forRange_Some_chained [OF run] by (auto simp: maxAttempts_def simp del: upt_Suc)
  have "chained (\<lambda>j t u. startAttempt l ns n (j + 1) t = (Ret None, u)) k s t"
    by (rule chained_mono [OF k(2)]) (use nth k(1) in simp)
  then show ?thesis using startAttempt_success [OF assms(1) k(3) [unfolded nth [OF k(1)]]] k(1) by blast
qed

text \<open>C22: when the restart reports success, either there is no deployment to restart, or it was scaled down and waited for
  until no replica was left, and after fewer than five failed attempts, each with its delay, it was scaled up to one
  replica, and the wait that started in the state of this scale-up ended with a look at the deployment that saw an
  available and ready replica.\<close>

theorem restart_success_seen:
  assumes "poll_law (LibPollImmediate l 5 120)" "poll_law (LibPollImmediate l 2 n)" "backupRestart l n s = (Ret None, s')"
  shows "(\<exists>e. callS (LibGetDeployment l (SsNamespace s) BackupDaemon) s = (Ret (Inl e), s') \<and> LibIsNotFound l e) \<or>
    (\<exists>depl a b k c d. callS (LibGetDeployment l (SsNamespace s) BackupDaemon) s = (Ret (Inr depl), a) \<and>
      scaledDown l (SsNamespace s) n (ds_object depl) a b \<and> k < 5 \<and>
      chained (\<lambda>j t u. startAttempt l (SsNamespace s) n (j + 1) t = (Ret None, u)) k b c \<and>
      callS (LibSleep l (attemptDelay (k + 1))) c = (Ret (), d) \<and> scaledUp l (SsNamespace s) d s')"
proof -
  let ?ns = "SsNamespace s"
  obtain x a where get: "callS (LibGetDeployment l ?ns BackupDaemon) s = (Ret x, a)"
    and rest: "(case x of
        Inl err \<Rightarrow> if LibIsNotFound l err then ret None
          else ret (Some (Wrapped (Sprintf ''getting deployment %s: %s'' [Str BackupDaemon, Str (supplErr l err)]) err))
      | Inr depl \<Rightarrow> restartDaemon l ?ns n (ds_object depl)) a = (Ret None, s')"
    using assms(3) unfolding backupRestart_def Let_def andthen_getState by (elim andthen_RetE) blast
  show ?thesis
  proof (cases x)
    case (Inl e)
    then have "LibIsNotFound l e" "s' = a" using rest by (auto split: if_splits)
    then show ?thesis using get Inl by blast
  next
    case (Inr depl)
    let ?d = "ds_object depl"
    have "restartDaemon l ?ns n ?d a = (Ret None, s')" using rest Inr by simp
    then obtain y t b where y: "callS (LibPatch l ?d (?d\<lparr>dep_replicas := 0\<rparr>)) a = (Ret (Inr y), t)"
      and stop: "callS (LibPollImmediate l 2 n (daemonStopped l ?ns)) t = (Ret None, b)" and start: "startDaemon l ?ns n b = (Ret None, s')"
      by (auto simp: restartDaemon_def elim!: andthen_RetE split: sum.splits option.splits)
    have "scaledDown l ?ns n ?d a b" unfolding scaledDown_def using y stop stopped_gone [OF assms(2) stop] by blast
    then show ?thesis using get Inr startDaemon_success [OF assms(1) start] by blast
  qed
qed

section \<open>Examples\<close>

text \<open>A daemon that never becomes ready: the restart ends with an error after all attempts.\<close>

lemma exampleLib_timely: "timely exampleLib ns KcClock"
proof -
  have cond: "\<exists>x. c w = (Ret (x, None), w) \<or> (\<exists>e. c w = (Ret (x, Some e), w))"
    if "c \<in> {daemonStopped exampleLib ns, daemonStarted exampleLib ns}" for c w
    using that by (auto simp: daemonStopped_def daemonStarted_def clusterGet_def op_simps split: option.split)
  have poll: "\<exists>x. poll_tries n c w = (Ret x, w)" if "c \<in> {daemonStopped exampleLib ns, daemonStarted exampleLib ns}" for c w n
  proof (induction n)
    case (Suc n)
    from cond [OF that, of w] Suc show ?case by (auto simp: andthen_Ret)
  qed (simp add: op_simps)
  show ?thesis
    unfolding timely_def
  proof (intro conjI allI impI ballI)
    show "\<exists>x w'. LibPollImmediate exampleLib i t c w = (Ret x, w') \<and> KcClock w' \<le> KcClock w + t"
      if "0 \<le> t" "c \<in> {daemonStopped exampleLib ns, daemonStarted exampleLib ns}" for i t w c
      using poll [OF that(2), of 2 w] that(1) by auto
  qed (auto simp: op_simps clusterGet_def clusterPatch_def Let_def)
qed

lemma restart_ends_witness:
  "\<exists>result s'. backupRestart exampleLib 60 (stateWithDaemon False) = (Ret result, s') \<and>
     KcClock (SsWorld s') \<le> KcClock (SsWorld (stateWithDaemon False)) + 910 + 5 * 60"
  by (rule restart_ends [of exampleLib "stateWithDaemon False" KcClock 60]) (simp_all add: exampleLib_timely)

lemma restart_success_seen_witness:
  "\<exists>s' d. backupRestart exampleLib 60 (stateWithDaemon True) = (Ret None, s') \<and>
     scaledUp exampleLib (SsNamespace (stateWithDaemon True)) d s'"
proof -
  obtain s' where r: "backupRestart exampleLib 60 (stateWithDaemon True) = (Ret None, s')" by (rule that) code_simp
  have law: "poll_law (LibPollImmediate exampleLib i n)" for i n by (simp add: poll_tries_law)
  have "callS (LibGetDeployment exampleLib (SsNamespace (stateWithDaemon True)) BackupDaemon) (stateWithDaemon True) \<noteq> (Ret (Inl e), s')" for e
    by (simp add: callS_apply clusterGet_def stateWithDaemon_def split: option.split)
  then show ?thesis using restart_success_seen [OF law law r] r by blast
qed

end
