(* ===== verification/DbaasMain.thy ===== *)
theory DbaasMain
  imports DbaasProps
begin

text \<open>
  The start of the DBaaS adapter: \<^verbatim>\<open>src/services/dbaas-adapter/main.go\<close>.  The environment helpers of the core library
  (\<^verbatim>\<open>utils.GetEnv\<close> and its typed variants) and the client of the aggregator are a record of parameters; the whole of
  \<^verbatim>\<open>main\<close> is definitions: the settings, the labels, the backup service, the version of the API, the administration, the
  registration service and what is served: the port, the credentials, the descriptor and the routes of its own.
\<close>

section \<open>What the process reads\<close>

text \<open>
  \<^verbatim>\<open>AggregatorVersion\<close> is \<^verbatim>\<open>NewDbaasClient\<close>, for an address and a basic authentication, and its version: an error when there is
  no client.  \<^verbatim>\<open>HttpsClient\<close> configures an
  HTTP client with a certificate, \<^verbatim>\<open>PanicText\<close> is the value \<^verbatim>\<open>utils.PanicError\<close> panics with, \<^verbatim>\<open>ErrorString\<close> the text of a library's error.
\<close>

record 'w process =
  GetEnv :: "string \<Rightarrow> string \<Rightarrow> string"
  GetEnvAsInt :: "string \<Rightarrow> int \<Rightarrow> int"
  GetEnvAsBool :: "string \<Rightarrow> bool \<Rightarrow> bool"
  Environ :: "string \<Rightarrow> string option"
  ReadFile :: "string \<Rightarrow> goerror + string"
  TLSForMain :: bool
  AggregatorVersion :: "string \<Rightarrow> string \<times> string \<Rightarrow> ('w, goerror + string) op"
  HttpsClient :: "string \<Rightarrow> goerror option"
  PanicText :: "goerror \<Rightarrow> string \<Rightarrow> goerror"
  ErrorString :: "goerror \<Rightarrow> string"

definition adapterAppName :: string where "adapterAppName = ''mongodb''"

definition secretPath :: "string \<Rightarrow> string" where
  "secretPath rest = ''/var/run/secrets/mongodb/'' @ rest"

definition secretOr :: "'w process \<Rightarrow> string \<Rightarrow> string \<Rightarrow> string" where
  "secretOr pr path fallback = GetSecretValue (ReadFile pr) (secretPath path) fallback"

text \<open>The settings \<^verbatim>\<open>main\<close> reads first.\<close>

record adapter_settings =
  StProfiler :: bool
  StPort :: int
  StApiAuth :: "string \<times> string"
  StAdapterAddress :: string
  StAggregatorAddress :: string
  StIdentifier :: string
  StRegistrationAuth :: "string \<times> string"
  StFixedDelay :: int
  StRetryTime :: int
  StRetryDelay :: int

definition adapterSettings :: "'w process \<Rightarrow> adapter_settings" where
  "adapterSettings pr =
     (let namespace = GetEnv pr ''NAMESPACE'' [] in
      \<lparr>StProfiler = GetEnvAsBool pr ''PROFILER'' False,
       StPort = GetEnvAsInt pr ''PORT'' DefaultPort,
       StApiAuth = (secretOr pr ''dbaas-aggregator/username'' ''dbaas-adapter'', secretOr pr ''dbaas-aggregator/password'' ''dbaas-adapter''),
       StAdapterAddress = GetEnv pr ''DBAAS_ADAPTER_ADDRESS''
         (Sprintf ''http://dbaas-%s-adapter.%s:8080'' [Str adapterAppName, Str namespace]),
       StAggregatorAddress = GetEnv pr ''DBAAS_AGGREGATOR_REGISTRATION_ADDRESS'' ''http://dbaas-aggregator.dbaas:8080'',
       StIdentifier = GetEnv pr ''DBAAS_AGGREGATOR_PHYSICAL_DATABASE_IDENTIFIER'' adapterAppName,
       StRegistrationAuth = (secretOr pr ''dbaas-registration/username'' ''cluster-dba'',
         secretOr pr ''dbaas-registration/password'' ''Bnmq5567_PO''),
       StFixedDelay = GetEnvAsInt pr ''DBAAS_AGGREGATOR_REGISTRATION_FIXED_DELAY_MS'' 150000,
       StRetryTime = GetEnvAsInt pr ''DBAAS_AGGREGATOR_REGISTRATION_RETRY_TIME_MS'' 60000,
       StRetryDelay = GetEnvAsInt pr ''DBAAS_AGGREGATOR_REGISTRATION_RETRY_DELAY_MS'' 5000\<rparr>)"

section \<open>Decisions\<close>

definition registrationLabels :: "'w process \<Rightarrow> ('w, smap) op" where
  "registrationLabels pr =
     (let regLabels = GetEnv pr ''DBAAS_AGGREGATOR_REGISTRATION_LABELS'' [] in
      if regLabels \<noteq> []
      then (case unmarshal_smap regLabels of (labels, Some err) \<Rightarrow> panic err | (labels, None) \<Rightarrow> ret labels)
      else ret [])"

definition credsVoid :: string where
  "credsVoid = ''dbaas_bckp_nosql_void_covers_empty_env_var''"

text \<open>The address, user and password of the backup service; None when the backup API is not working.\<close>

definition backupService :: "'w process \<Rightarrow> ('w, (string \<times> string \<times> string) option) op" where
  "backupService pr =
     (let backupAddress = GetEnv pr ''BACKUP_DAEMON_ADDRESS'' (Sprintf ''http://%s-backup-daemon:8080'' [Str adapterAppName]);
          user = GetSecretValue (ReadFile pr) (secretPath ''backup-api/username'') credsVoid;
          pass = GetSecretValue (ReadFile pr) (secretPath ''backup-api/password'') credsVoid in
      if backupAddress = [] then ret None
      else if user = credsVoid \<or> pass = credsVoid then ret None
      else (let (user, pass) = (if user = [] \<or> pass = [] then ([], []) else (user, pass)) in
        if Contains backupAddress ''https''
        then (let cert = GetCACert (Environ pr) in
          if cert = [] then panic (PanicText pr (GoError []) ''CA Certificate is empty or not set'')
          else case HttpsClient pr cert of
            Some err \<Rightarrow> panic (PanicText pr err ''Failed to set up https client'')
          | None \<Rightarrow> ret (Some (backupAddress, user, pass)))
        else ret (Some (backupAddress, user, pass))))"

definition declarativeRegistration :: "'w process \<Rightarrow> bool" where
  "declarativeRegistration pr = GetEnvAsBool pr ''DBAAS_DECLARATIVE_REGISTRATION_ENABLED'' False"

text \<open>The value of \<^verbatim>\<open>API_VERSION\<close> is overwritten in both cases.\<close>

definition adapterApiVersion :: "'w process \<Rightarrow> ('w, string) op" where
  "adapterApiVersion pr =
     (let apiVersion = GetEnv pr ''API_VERSION'' ''v1'' in
      if declarativeRegistration pr then ret ''v2''
      else andthen (AggregatorVersion pr (StAggregatorAddress (adapterSettings pr)) (StRegistrationAuth (adapterSettings pr))) (\<lambda>x. case x of
        Inl err \<Rightarrow> panic (GoError (''Failed to establish connection to DBaaS aggregator, err: '' @ errText (ErrorString pr) err))
      | Inr version \<Rightarrow> ret (if version = ''v3'' then ''v2'' else ''v1'')))"

definition mongoConfiguration :: "'w process \<Rightarrow> mongo_conf" where
  "mongoConfiguration pr =
     (let namespace = GetEnv pr ''NAMESPACE'' [] in
      \<lparr>ConfHost = GetEnv pr ''MONGO_HOST'' (Sprintf ''mongos.%s'' [Str namespace]),
       ConfPort = GetEnvAsInt pr ''MONGO_PORT'' 27017,
       ConfUser = GetSecretValue (ReadFile pr) (secretPath ''mongo-admin/username'') ''root'',
       ConfPass = GetSecretValue (ReadFile pr) (secretPath ''mongo-admin/password'') ''root'',
       ConfAuthDb = GetSecretValue (ReadFile pr) (secretPath ''mongo-admin/auth-database'') ''admin''\<rparr>)"

definition GetMongoDbAdministration ::
  "'w process \<Rightarrow> ('c, 'w) driver \<Rightarrow> (string \<Rightarrow> int \<Rightarrow> ('w, string) op) \<Rightarrow> (string \<Rightarrow> string \<Rightarrow> int \<Rightarrow> goerror + string) \<Rightarrow> string \<times> string \<Rightarrow>
   mongo_conf \<Rightarrow> string \<Rightarrow> string list \<Rightarrow> (string \<times> bool) list \<Rightarrow> ('c, 'w) administration" where
  "GetMongoDbAdministration pr drv regenerate prepare texts conf apiVersion supportedRoles supportedFeatures =
     \<lparr>Service = \<lparr>Drv = drv, Conf = conf, TLSMain = TLSForMain pr, RootCert = GetCACert (Environ pr)\<rparr>,
      ApiVersion = apiVersion, SupportedRoles = supportedRoles, SupportedFeatures = supportedFeatures, ProcessEnv = Environ pr,
      RegenerateDbName = regenerate, PrepareDatabaseName = prepare, DELETED = fst texts, DELETE_FAILED = snd texts\<rparr>"

definition supportedRolesOfMain :: "string list" where
  "supportedRolesOfMain = [''admin'', ''rw'', ''ro'', ''streaming'']"

definition supportedFeaturesOfMain :: "'w process \<Rightarrow> (string \<times> bool) list" where
  "supportedFeaturesOfMain pr =
     [(FeatureMultiUsers, GetEnvAsBool pr ''MULTI_USERS_ENABLED'' False), (FeatureTLS, TLSForMain pr)]"

section \<open>What is served\<close>

text \<open>The registration service of the core library with its arguments; nothing registers the adapter when the DBaaS operator does.\<close>

record registration_service =
  RegType :: string
  RegIdentifier :: string
  RegAddress :: string
  RegAuth :: "string \<times> string"
  RegLabels :: smap
  RegFixedDelay :: int
  RegRetryTime :: int
  RegRetryDelay :: int

definition physicalService :: "'w process \<Rightarrow> smap \<Rightarrow> registration_service option" where
  "physicalService pr labels =
     (let st = adapterSettings pr in
      if \<not> declarativeRegistration pr
      then Some \<lparr>RegType = adapterAppName, RegIdentifier = StIdentifier st, RegAddress = StAdapterAddress st, RegAuth = StApiAuth st,
                 RegLabels = labels, RegFixedDelay = StFixedDelay st, RegRetryTime = StRetryTime st, RegRetryDelay = StRetryDelay st\<rparr>
      else None)"

record adapter_supports =
  SupportsUsers :: bool
  SupportsSettings :: bool
  SupportsDescribe :: bool
  SupportsKeys :: "(string \<times> bool) list"

definition adapterSupports :: "(string \<times> string \<times> string) option \<Rightarrow> adapter_supports" where
  "adapterSupports backup =
     \<lparr>SupportsUsers = True, SupportsSettings = True, SupportsDescribe = True, SupportsKeys = [(''backupRestore'', backup \<noteq> None)]\<rparr>"

text \<open>The routes \<^verbatim>\<open>main\<close> adds to those of the core library; the descriptor is behind a basic authentication.\<close>

datatype adapter_route = DescriptorRoute | SettingsRoute | VersionRoute

definition adapterRoutes :: "string \<Rightarrow> (string \<times> string \<times> adapter_route) list" where
  "adapterRoutes apiVersion =
     (let prefix = Sprintf ''/api/%s/dbaas/adapter/mongodb/databases/'' [Str apiVersion] in
      [(''GET'', DescriptorPath, DescriptorRoute), (''PUT'', prefix @ '':dbName/settings'', SettingsRoute), (''GET'', ''/api/version'', VersionRoute)])"

definition versionHandler :: "'f fiber \<Rightarrow> string \<Rightarrow> 'f \<Rightarrow> goerror option \<times> 'f" where
  "versionHandler f apiVersion c = SendString f apiVersion c"

text \<open>
  What the process serves: the core library's routes under the path of the application with the administration, the
  registration and the backup, and the adapter's own routes.  \<^verbatim>\<open>source\<close> gives what the core administration service reports
  to the descriptor (features, roles, read-only host), \<^verbatim>\<open>versions\<close> is the core library's list of API versions.
\<close>

record ('c, 'w, 'v) adapter_process =
  ProcPort :: int
  ProcAuth :: "string \<times> string"
  ProcPath :: string
  ProcProfiler :: bool
  ProcAdm :: "('c, 'w) administration"
  ProcRegistration :: "registration_service option"
  ProcBackup :: "(string \<times> string \<times> string) option"
  ProcSupports :: adapter_supports
  ProcDescriptor :: "'v descriptor"
  ProcRoutes :: "(string \<times> string \<times> adapter_route) list"

definition adapterMain ::
  "'w process \<Rightarrow> ('c, 'w) driver \<Rightarrow> (string \<Rightarrow> int \<Rightarrow> ('w, string) op) \<Rightarrow> (string \<Rightarrow> string \<Rightarrow> int \<Rightarrow> goerror + string) \<Rightarrow> string \<times> string \<Rightarrow>
   'v \<Rightarrow> (('c, 'w) administration \<Rightarrow> (string \<times> bool) list \<times> string list \<times> string) \<Rightarrow> ('w, ('c, 'w, 'v) adapter_process) op" where
  "adapterMain pr drv regenerate prepare texts versions source =
     andthen (GetEnvBool (Environ pr) ''DEBUG_LOG'' False) (\<lambda>_.
     (let st = adapterSettings pr in
      andthen (registrationLabels pr) (\<lambda>labels.
      andthen (backupService pr) (\<lambda>backup.
      andthen (adapterApiVersion pr) (\<lambda>apiVersion.
      (let adm = GetMongoDbAdministration pr drv regenerate prepare texts (mongoConfiguration pr) apiVersion supportedRolesOfMain
             (supportedFeaturesOfMain pr);
           (features, roles, roHost) = source adm in
       ret \<lparr>ProcPort = StPort st, ProcAuth = StApiAuth st, ProcPath = ''/'' @ adapterAppName, ProcProfiler = StProfiler st, ProcAdm = adm,
            ProcRegistration = physicalService pr labels, ProcBackup = backup, ProcSupports = adapterSupports backup,
            ProcDescriptor = BuildDescriptor (StIdentifier st) adapterAppName (Some labels) versions features roles roHost,
            ProcRoutes = adapterRoutes apiVersion\<rparr>))))))"

section \<open>Properties\<close>

text \<open>The backup service is set up only with credentials that are neither empty nor the default, so that the case of a
  backup daemon without credentials never occurs.\<close>

theorem backup_has_credentials:
  assumes "backupService pr w = (Ret (Some (addr, user, pass)), w')"
  shows "user = GetSecretValue (ReadFile pr) (secretPath ''backup-api/username'') credsVoid \<and> user \<noteq> [] \<and> user \<noteq> credsVoid \<and>
    pass = GetSecretValue (ReadFile pr) (secretPath ''backup-api/password'') credsVoid \<and> pass \<noteq> [] \<and> pass \<noteq> credsVoid"
proof -
  have void: "credsVoid \<noteq> []" by (simp add: credsVoid_def)
  note nonempty = GetSecretValue_nonempty [OF void, of "ReadFile pr"]
  show ?thesis using assms nonempty by (auto simp: backupService_def Let_def split: if_splits option.splits)
qed

text \<open>With declarative registration the adapter speaks the second version and does not register itself.\<close>

lemma adapterMain_Ret:
  assumes "adapterMain pr drv rg pp texts versions source w = (Ret p, w')"
  shows "ProcPort p = StPort (adapterSettings pr) \<and> ProcAuth p = StApiAuth (adapterSettings pr) \<and>
    (\<exists>labels. ProcRegistration p = physicalService pr labels) \<and>
    PhysicalDatabaseId (ProcDescriptor p) = StIdentifier (adapterSettings pr) \<and> DbType (ProcDescriptor p) = adapterAppName \<and>
    ProcRoutes p = adapterRoutes (ApiVersion (ProcAdm p))"
  using assms by (auto simp: adapterMain_def GetMongoDbAdministration_def BuildDescriptor_def Let_def split_def elim!: andthen_RetE)

lemma declarative_v2:
  "declarativeRegistration pr \<Longrightarrow> adapterMain pr drv rg pp texts versions source w = (Ret p, w') \<Longrightarrow>
   ApiVersion (ProcAdm p) = ''v2'' \<and> ProcRegistration p = None"
  by (auto simp: adapterMain_def adapterApiVersion_def GetMongoDbAdministration_def physicalService_def Let_def split_def
      elim!: andthen_RetE)

section \<open>Examples\<close>

definition plainProcess :: "mongod process" where
  "plainProcess =
     \<lparr>GetEnv = (\<lambda>n d. d), GetEnvAsInt = (\<lambda>n d. d), GetEnvAsBool = (\<lambda>n d. d), Environ = (\<lambda>n. None),
      ReadFile = (\<lambda>p. Inr (''  s3cret '')), TLSForMain = False, AggregatorVersion = (\<lambda>address auth. ret (Inr ''v3'')),
      HttpsClient = (\<lambda>c. None), PanicText = (\<lambda>e m. e), ErrorString = (\<lambda>e. [])\<rparr>"

lemma backup_has_credentials_witness:
  "\<exists>addr w. backupService plainProcess emptyServer = (Ret (Some (addr, ''s3cret'', ''s3cret'')), w) \<and> ''s3cret'' \<noteq> credsVoid"
proof -
  have s: "GetSecretValue (ReadFile plainProcess) p credsVoid = ''s3cret''" for p
    by (simp add: GetSecretValue_def plainProcess_def) code_simp
  have b: "backupService plainProcess emptyServer =
      (Ret (Some (''http://mongodb-backup-daemon:8080'', ''s3cret'', ''s3cret'')), emptyServer)"
    by (simp add: backupService_def s) (simp add: plainProcess_def credsVoid_def adapterAppName_def Sprintf_simps Contains_def ret_apply Let_def)
  from backup_has_credentials [OF this] b show ?thesis by blast
qed

end
