(* ===== verification/SupplCross.thy ===== *)
theory SupplCross
  imports SupplProps SupplRestart DbaasMain Builders
begin

text \<open>
  The programs together: what the supplementary operator deploys is what the DBaaS adapter reads when it starts, and
  what the switch of the other operator finds and expects.

  A container sees the environment of its deployment and the files of the secrets it mounts; the lemmas follow a value
  from the custom resource and the secrets through the deployment to the configuration of the process.
\<close>

section \<open>What a container sees\<close>

text \<open>The value of an environment variable: a later entry of the same name wins; a field reference is the namespace of the pod.\<close>

definition containerEnv :: "string \<Rightarrow> env_var list \<Rightarrow> string \<Rightarrow> string option" where
  "containerEnv ns envs n =
     (case find (\<lambda>e. env_name e = n) (rev envs) of
        None \<Rightarrow> None
      | Some e \<Rightarrow> (case env_value e of PlainEnv v \<Rightarrow> Some v | FieldEnv f \<Rightarrow> if f = ''metadata.namespace'' then Some ns else None
                   | SecretEnv _ _ \<Rightarrow> None))"

text \<open>The contents of a path: a key of a secret whose volume is mounted at the directory.\<close>

definition secretOfVolume :: "volume list \<Rightarrow> string \<Rightarrow> string option" where
  "secretOfVolume volumes name =
     (case find (\<lambda>v. vol_name v = name) volumes of
        None \<Rightarrow> None | Some v \<Rightarrow> (case vol_source v of SecretSource secretName _ \<Rightarrow> Some secretName | _ \<Rightarrow> None))"

definition fileOfMount :: "(string \<Rightarrow> smap) \<Rightarrow> volume list \<Rightarrow> volume_mount \<Rightarrow> string \<Rightarrow> string option" where
  "fileOfMount sec volumes m path =
     (case secretOfVolume volumes (mount_name m) of
        None \<Rightarrow> None
      | Some secretName \<Rightarrow> map_of (map (\<lambda>(k, v). (mount_path m @ ''/'' @ k, v)) (sec secretName)) path)"

definition mountedFile :: "(string \<Rightarrow> smap) \<Rightarrow> volume list \<Rightarrow> volume_mount list \<Rightarrow> string \<Rightarrow> goerror + string" where
  "mountedFile sec volumes mounts path =
     (case List.map_filter (\<lambda>m. fileOfMount sec volumes m path) mounts of
        [] \<Rightarrow> Inl (GoError ''no such file or directory'') | v # _ \<Rightarrow> Inr v)"

text \<open>The process runs in a container: the documented behaviour of the helpers that read the environment, on values that
  are not empty.\<close>

definition runsIn :: "'w process \<Rightarrow> (string \<Rightarrow> string option) \<Rightarrow> (string \<Rightarrow> goerror + string) \<Rightarrow> bool" where
  "runsIn pr env files =
     ((\<forall>n v d. env n = Some v \<and> v \<noteq> [] \<longrightarrow> GetEnv pr n d = v) \<and> (\<forall>n d. env n = None \<longrightarrow> GetEnv pr n d = d) \<and>
      (\<forall>n v i d. env n = Some v \<and> Atoi v = (i, None) \<longrightarrow> GetEnvAsInt pr n d = i) \<and>
      (\<forall>n v b d. env n = Some v \<and> ParseBool v = Inr b \<longrightarrow> GetEnvAsBool pr n d = b) \<and> ReadFile pr = files \<and> Environ pr = env)"

section \<open>Files of secret volumes\<close>

lemma find_first:
  "distinct (map f xs) \<Longrightarrow> x \<in> set xs \<Longrightarrow> find (\<lambda>y. f y = f x) xs = Some x"
  by (induction xs) (auto simp: image_iff)

lemma secretOfVolume_of:
  assumes "distinct (map SanitizeVolumeName (map fst m))" "n \<in> set (map fst m)"
  shows "secretOfVolume (map (\<lambda>(n, p). secretVolume n) m) (SanitizeVolumeName n) = Some n"
proof -
  have d: "distinct (map vol_name (map (\<lambda>(n, p). secretVolume n) m))"
    using assms(1) by (simp add: secretVolume_def o_def case_prod_beta)
  have mem: "secretVolume n \<in> set (map (\<lambda>(n, p). secretVolume n) m)" using assms(2) by force
  from find_first [OF d mem] show ?thesis by (simp add: secretOfVolume_def secretVolume_def)
qed

text \<open>A key of a mounted secret is read from its path, when no other mount has the directory and no key a slash.\<close>

lemma map_of_prefixed: "map_of (map (\<lambda>(k, v). (p @ ''/'' @ k, v)) kvs) (p @ ''/'' @ x) = map_of kvs x"
  by (induction kvs) auto

lemma map_of_other_prefix:
  assumes "CHR ''/'' \<notin> set x" "\<forall>k \<in> fst ` set kvs. CHR ''/'' \<notin> set k" "p \<noteq> q"
  shows "map_of (map (\<lambda>(k, v). (q @ ''/'' @ k, v)) kvs) (p @ ''/'' @ x) = None"
proof -
  have "p = q" if "q @ ''/'' @ k = p @ ''/'' @ x" "CHR ''/'' \<notin> set k" for k
  proof -
    have dir: "rev (dropWhile (\<lambda>c. c \<noteq> CHR ''/'') (rev (d @ ''/'' @ y))) = d @ ''/''" if "CHR ''/'' \<notin> set y" for d y
      using that by (simp add: dropWhile_append3 dropWhile_append2) (metis dropWhile_append2 dropWhile.simps(2) set_rev)
    have "q @ ''/'' = p @ ''/''" using dir [OF assms(1), of p] dir [OF that(2), of q] unfolding that(1) by metis
    then show ?thesis by simp
  qed
  then show ?thesis using assms by (force simp: map_of_eq_None_iff)
qed

lemma map_filter_single:
  assumes "x \<in> set xs" "distinct xs" "f x = Some v" "\<And>y. y \<in> set xs \<Longrightarrow> y \<noteq> x \<Longrightarrow> f y = None"
  shows "List.map_filter f xs = [v]"
proof -
  obtain as bs where xs: "xs = as @ x # bs" using assms(1) by (meson split_list)
  have "List.map_filter f as = []" "List.map_filter f bs = []"
    using assms(2,4) xs by (auto simp: List.map_filter_def filter_empty_conv)
  then show ?thesis using assms(3) xs by (simp add: List.map_filter_def)
qed

definition wellMounted :: "(string \<Rightarrow> smap) \<Rightarrow> smap \<Rightarrow> bool" where
  "wellMounted sec m =
     (distinct (map SanitizeVolumeName (map fst m)) \<and> distinct (map snd m) \<and> (\<forall>n \<in> fst ` set m. \<forall>k \<in> fst ` set (sec n). CHR ''/'' \<notin> set k))"

lemma mountedFile_secret:
  assumes "wellMounted sec m" "(n, p) \<in> set m" "CHR ''/'' \<notin> set key" "map_of (sec n) key = Some v"
  shows "mountedFile sec (fst (secretVolumesOf m)) (snd (secretVolumesOf m)) (p @ ''/'' @ key) = Inr v"
proof -
  let ?vs = "map (\<lambda>(n, p). secretVolume n) m" and ?path = "p @ ''/'' @ key"
  have vol: "secretOfVolume ?vs (mount_name (secretMount n' p')) = Some n'" if "(n', p') \<in> set m" for n' p'
    using secretOfVolume_of [of m n'] assms(1) that by (force simp: wellMounted_def secretMount_def)
  have fileAt: "fileOfMount sec ?vs (secretMount n' p') ?path = (if p' = p then map_of (sec n') key else None)" if "(n', p') \<in> set m" for n' p'
  proof (cases "p' = p")
    case True
    then show ?thesis using vol [OF that] map_of_prefixed [of p "sec n'" key] by (simp add: fileOfMount_def secretMount_def)
  next
    case False
    have "\<forall>k \<in> fst ` set (sec n'). CHR ''/'' \<notin> set k" using assms(1) that by (force simp: wellMounted_def)
    from map_of_other_prefix [OF assms(3) this, of p p'] False vol [OF that] show ?thesis
      by (simp add: fileOfMount_def secretMount_def)
  qed
  have inj: "(n', p) \<in> set m \<Longrightarrow> n' = n" for n'
    using assms(1,2) by (auto simp: wellMounted_def distinct_map dest: inj_onD [of snd "set m" "(n', p)" "(n, p)"])
  have dist: "distinct (map (\<lambda>(n, p). secretMount n p) m)"
  proof -
    have "distinct (map mount_path (map (\<lambda>(n, p). secretMount n p) m))"
      using assms(1) by (simp add: wellMounted_def secretMount_def o_def case_prod_beta)
    then show ?thesis by (metis distinct_map)
  qed
  have "List.map_filter (\<lambda>mt. fileOfMount sec ?vs mt ?path) (map (\<lambda>(n, p). secretMount n p) m) = [v]"
  proof (rule map_filter_single [OF _ dist])
    show "secretMount n p \<in> set (map (\<lambda>(n, p). secretMount n p) m)" using assms(2) by force
    show "fileOfMount sec ?vs (secretMount n p) ?path = Some v" using fileAt [OF assms(2)] assms(4) by simp
    show "fileOfMount sec ?vs mt ?path = None" if "mt \<in> set (map (\<lambda>(n, p). secretMount n p) m)" "mt \<noteq> secretMount n p" for mt
      using that fileAt inj by (auto split: if_splits)
  qed
  then show ?thesis by (simp add: mountedFile_def secretVolumesOf_eq)
qed

text \<open>A path in a directory that is not mounted is no file.\<close>

lemma mountedFile_missing:
  assumes "wellMounted sec m" "p \<notin> snd ` set m" "CHR ''/'' \<notin> set key"
  shows "\<exists>e. mountedFile sec (fst (secretVolumesOf m)) (snd (secretVolumesOf m)) (p @ ''/'' @ key) = Inl e"
proof -
  let ?vs = "map (\<lambda>(n, p). secretVolume n) m" and ?path = "p @ ''/'' @ key"
  have "fileOfMount sec ?vs (secretMount n' p') ?path = None" if "(n', p') \<in> set m" for n' p'
  proof -
    have "\<forall>k \<in> fst ` set (sec n'). CHR ''/'' \<notin> set k" using assms(1) that by (force simp: wellMounted_def)
    moreover have "p \<noteq> p'" using assms(2) that by force
    moreover have "secretOfVolume ?vs (mount_name (secretMount n' p')) = Some n'"
      using secretOfVolume_of [of m n'] assms(1) that by (force simp: wellMounted_def secretMount_def)
    ultimately show ?thesis using map_of_other_prefix [OF assms(3)] by (simp add: fileOfMount_def secretMount_def)
  qed
  then have "List.map_filter (\<lambda>mt. fileOfMount sec ?vs mt ?path) (map (\<lambda>(n, p). secretMount n p) m) = []"
    by (auto simp: List.map_filter_def filter_empty_conv)
  then show ?thesis by (simp add: mountedFile_def secretVolumesOf_eq)
qed


section \<open>The adapter in its deployment\<close>

lemma smap_put_new: "k \<notin> fst ` set m \<Longrightarrow> smap_put k v m = m @ [(k, v)]"
  by (induction k v m rule: smap_put.induct) auto

lemma mapLiteral_distinct: "distinct (map fst kvs) \<Longrightarrow> mapLiteral kvs = kvs"
proof -
  have "distinct (map fst (m @ kvs)) \<Longrightarrow> fold (\<lambda>(k, v). smap_put k v) kvs m = m @ kvs" for m :: smap
  proof (induction kvs arbitrary: m)
    case (Cons kv kvs)
    then show ?case using smap_put_new [of "fst kv" m "snd kv"] by (cases kv) auto
  qed simp
  from this [of "[]"] show "distinct (map fst kvs) \<Longrightarrow> mapLiteral kvs = kvs" by (simp add: mapLiteral_def)
qed

text \<open>The secrets of the adapter: their volumes have different names, and no key has a slash.\<close>

definition adapterSecrets :: "suppl_spec \<Rightarrow> string list" where
  "adapterSecrets spec =
     [DbAggregatorSecret (SupDbaas spec), DbAdminSecret (SupDbaas spec), DbRegistrationSecret (SupDbaas spec)] @
     (if BkInstall (SupBackup spec) then [BkApiSecret (SupBackup spec)] else [])"

definition separateSecrets :: "(string \<Rightarrow> smap) \<Rightarrow> suppl_spec \<Rightarrow> bool" where
  "separateSecrets sec spec =
     (distinct (map SanitizeVolumeName (adapterSecrets spec)) \<and>
      list_all (\<lambda>n. list_all (\<lambda>(k, v). CHR ''/'' \<notin> set k) (sec n)) (adapterSecrets spec))"

lemma dbaasSecrets_eq:
  assumes "separateSecrets sec spec"
  shows "dbaasSecrets spec =
     [(DbAggregatorSecret (SupDbaas spec), ''/var/run/secrets/mongodb/dbaas-aggregator''),
      (DbAdminSecret (SupDbaas spec), ''/var/run/secrets/mongodb/mongo-admin''),
      (DbRegistrationSecret (SupDbaas spec), ''/var/run/secrets/mongodb/dbaas-registration'')] @
     (if BkInstall (SupBackup spec) then [(BkApiSecret (SupBackup spec), ''/var/run/secrets/mongodb/backup-api'')] else [])"
  unfolding dbaasSecrets_def Let_def
  using assms by (intro mapLiteral_distinct) (auto simp: separateSecrets_def adapterSecrets_def)

lemma wellMounted_adapter:
  assumes "separateSecrets sec spec"
  shows "wellMounted sec (dbaasSecrets spec)"
  using assms unfolding wellMounted_def dbaasSecrets_eq [OF assms]
  by (auto simp: separateSecrets_def adapterSecrets_def list_all_iff)

text \<open>
  The adapter's process in the pod of a deployment.  For TLS the library adds variables, volumes and mounts to the pod: none is a
  variable the operator sets itself, and none is mounted over a file of the adapter's secrets.
\<close>

definition operatorEnvNames :: "string list" where
  "operatorEnvNames =
     [''NAMESPACE'', ''MULTI_USERS_ENABLED'', ''MONGO_HOST'', ''MONGO_PORT'', ''CLOUD_PUBLIC_HOST'', ''BACKUP_DAEMON_ADDRESS'',
      ''DBAAS_AGGREGATOR_PHYSICAL_DATABASE_IDENTIFIER'', ''DBAAS_ADAPTER_ADDRESS'', ''DBAAS_AGGREGATOR_REGISTRATION_ADDRESS'',
      ''DBAAS_DECLARATIVE_REGISTRATION_ENABLED'', ''DBAAS_AGGREGATOR_REGISTRATION_FIXED_DELAY_MS'',
      ''DBAAS_AGGREGATOR_REGISTRATION_RETRY_DELAY_MS'', ''DBAAS_AGGREGATOR_REGISTRATION_RETRY_TIME_MS'', ''PORT'']"

definition adapterFiles :: "string list" where
  "adapterFiles = map secretPath
     [''dbaas-aggregator/username'', ''dbaas-aggregator/password'', ''mongo-admin/username'', ''mongo-admin/password'',
      ''mongo-admin/auth-database'', ''dbaas-registration/username'', ''dbaas-registration/password'', ''backup-api/username'',
      ''backup-api/password'']"

definition addsParts :: "pod_spec \<Rightarrow> pod_spec \<Rightarrow> env_var list \<Rightarrow> volume_mount list \<Rightarrow> volume list \<Rightarrow> bool" where
  "addsParts ps ps' es ms vs =
     (let c = hd (ps_containers ps); c' = hd (ps_containers ps') in
      ctr_env c' = ctr_env c @ es \<and> ctr_mounts c' = ctr_mounts c @ ms \<and> ps_volumes ps' = ps_volumes ps @ vs \<and>
      list_all (\<lambda>e. env_name e \<notin> set operatorEnvNames) es \<and>
      list_all (\<lambda>m. list_all (\<lambda>p. \<not> HasPrefix p (mount_path m)) adapterFiles) ms)"

definition addsTo :: "pod_spec \<Rightarrow> pod_spec \<Rightarrow> bool" where
  "addsTo ps ps' = (\<exists>es ms vs. addsParts ps ps' es ms vs)"

definition addingLibrary :: "'w suppl_lib \<Rightarrow> suppl_spec \<Rightarrow> bool" where
  "addingLibrary l spec =
     ((\<forall>ps. addsTo ps (LibTLSSpecUpdate l ps RootCertPath (SupTLS spec))) \<and>
      (\<forall>ps name. addsTo ps (LibTLSServerSpecUpdate l ps (SupTLS spec) name ServerCertsPath)) \<and>
      (\<forall>k v. LibPlainEnvVar l k v = plainEnv (k, v)))"

definition adapterRunsIn :: "'w suppl_lib \<Rightarrow> suppl_spec \<Rightarrow> string \<Rightarrow> (string \<Rightarrow> smap) \<Rightarrow> app_deployment \<Rightarrow> 'p process \<Rightarrow> bool" where
  "adapterRunsIn l spec ns sec dc pr =
     (let ps = dep_pod_spec (withDbaasTLS l spec dc); c = hd (ps_containers ps) in
      runsIn pr (containerEnv ns (ctr_env c)) (mountedFile sec (ps_volumes ps) (ctr_mounts c)))"

lemma addsTo_refl: "addsTo ps ps"
  by (auto simp: addsTo_def addsParts_def Let_def)

lemma addsTo_trans: "addsTo ps ps' \<Longrightarrow> addsTo ps' ps'' \<Longrightarrow> addsTo ps ps''"
proof -
  assume "addsTo ps ps'" "addsTo ps' ps''"
  then obtain es ms vs es' ms' vs' where parts: "addsParts ps ps' es ms vs" "addsParts ps' ps'' es' ms' vs'" unfolding addsTo_def by blast
  then have "addsParts ps ps'' (es @ es') (ms @ ms') (vs @ vs')" by (simp add: addsParts_def Let_def)
  then show ?thesis unfolding addsTo_def by blast
qed

lemma addingLibrary_adds: "addingLibrary l spec \<Longrightarrow> addsTo (dep_pod_spec dc) (dep_pod_spec (withDbaasTLS l spec dc))"
proof -
  assume adds: "addingLibrary l spec"
  let ?ps = "LibTLSSpecUpdate l (dep_pod_spec dc) RootCertPath (SupTLS spec)"
  have "addsTo (dep_pod_spec dc) ?ps" "addsTo ?ps (LibTLSServerSpecUpdate l ?ps (SupTLS spec) n ServerCertsPath)" for n
    using adds by (simp_all add: addingLibrary_def)
  note tls = this
  show ?thesis
  proof (cases "dbaasTLS l spec")
    case True
    then show ?thesis using addsTo_trans [OF tls] by (simp add: withDbaasTLS_def Let_def)
  next
    case False
    then show ?thesis using tls(1) by (simp add: withDbaasTLS_def Let_def)
  qed
qed

lemma find_append_None: "find P xs = None \<Longrightarrow> find P (xs @ ys) = find P ys"
  by (induction xs) (auto split: if_splits)

lemma containerEnv_append:
  "list_all (\<lambda>e. env_name e \<noteq> n) es \<Longrightarrow> containerEnv ns (envs @ es) n = containerEnv ns envs n"
proof -
  assume "list_all (\<lambda>e. env_name e \<noteq> n) es"
  then have "find (\<lambda>e. env_name e = n) (rev es) = None" by (simp add: find_None_iff list_all_iff)
  then show ?thesis by (simp add: containerEnv_def find_append_None)
qed

lemma find_append_Some: "find P xs = Some x \<Longrightarrow> find P (xs @ ys) = Some x"
  by (induction xs) auto

lemma secretOfVolume_append: "secretOfVolume vs n = Some s \<Longrightarrow> secretOfVolume (vs @ vs') n = Some s"
  by (auto simp: secretOfVolume_def find_append_Some split: option.splits)

lemma fileOfMount_elsewhere:
  assumes "\<not> HasPrefix path (mount_path m)"
  shows "fileOfMount sec vs m path = None"
proof -
  have "HasPrefix (d @ x) d" for d x by (induction d) auto
  then have "path \<noteq> mount_path m @ ''/'' @ k" for k using assms by metis
  then have "map_of (map (\<lambda>(k, v). (mount_path m @ ''/'' @ k, v)) kvs) path = None" for kvs :: smap
    unfolding map_of_eq_None_iff by auto metis
  then show ?thesis by (auto simp: fileOfMount_def split: option.split)
qed

lemma mountedFile_append:
  assumes "list_all (\<lambda>m. secretOfVolume vs (mount_name m) \<noteq> None) ms" "list_all (\<lambda>m. \<not> HasPrefix path (mount_path m)) ms'"
  shows "mountedFile sec (vs @ vs') (ms @ ms') path = mountedFile sec vs ms path"
proof -
  have own: "fileOfMount sec (vs @ vs') m path = fileOfMount sec vs m path" if "m \<in> set ms" for m
    using assms(1) that secretOfVolume_append [of vs "mount_name m"] by (auto simp: fileOfMount_def list_all_iff)
  have "List.map_filter (\<lambda>m. fileOfMount sec (vs @ vs') m path) ms' = []"
    using assms(2) fileOfMount_elsewhere [of path _ sec "vs @ vs'"] by (auto simp: List.map_filter_def filter_empty_conv list_all_iff)
  moreover have "List.map_filter (\<lambda>m. fileOfMount sec (vs @ vs') m path) ms = List.map_filter (\<lambda>m. fileOfMount sec vs m path) ms"
    using own by (auto simp: List.map_filter_def intro!: map_cong filter_cong)
  ultimately show ?thesis by (simp add: mountedFile_def List.map_filter_def)
qed

lemma own_volumes:
  assumes "separateSecrets sec spec"
  shows "list_all (\<lambda>m. secretOfVolume (fst (secretVolumesOf (dbaasSecrets spec))) (mount_name m) \<noteq> None)
     (snd (secretVolumesOf (dbaasSecrets spec)))"
  using secretOfVolume_of [of "dbaasSecrets spec"] wellMounted_adapter [OF assms]
  by (force simp: secretVolumesOf_eq list_all_iff secretMount_def wellMounted_def)

text \<open>What the adapter sees of the operator's variables and of its own files, whatever the library added.\<close>

lemma adapter_pod:
  assumes "addingLibrary l spec" "adapterRunsIn l spec ns sec dc pr"
    "dep_pod_spec dc = dep_pod_spec (dbaasDeploymentOf l spec ns host mode res)" "separateSecrets sec spec"
  shows "\<exists>env files. runsIn pr env files \<and> (\<forall>n \<in> set operatorEnvNames. env n = containerEnv ns (dbaasEnvs l spec ns host) n) \<and>
    (\<forall>p \<in> set adapterFiles.
       files p = mountedFile sec (fst (secretVolumesOf (dbaasSecrets spec))) (snd (secretVolumesOf (dbaasSecrets spec))) p)"
proof -
  let ?ps = "dep_pod_spec (dbaasDeploymentOf l spec ns host mode res)" and ?ps' = "dep_pod_spec (withDbaasTLS l spec dc)"
  let ?c = "hd (ps_containers ?ps)" and ?c' = "hd (ps_containers ?ps')"
  have pod: "ctr_env ?c = dbaasEnvs l spec ns host" "ps_volumes ?ps = fst (secretVolumesOf (dbaasSecrets spec))"
      "ctr_mounts ?c = snd (secretVolumesOf (dbaasSecrets spec))"
    by (simp_all add: dbaasDeploymentOf_def DbaasDeploymentTemplate_def Let_def case_prod_beta)
  obtain es ms vs where added: "ctr_env ?c' = ctr_env ?c @ es" "ctr_mounts ?c' = ctr_mounts ?c @ ms" "ps_volumes ?ps' = ps_volumes ?ps @ vs"
      "list_all (\<lambda>e. env_name e \<notin> set operatorEnvNames) es"
      "list_all (\<lambda>m. list_all (\<lambda>p. \<not> HasPrefix p (mount_path m)) adapterFiles) ms"
    using addingLibrary_adds [OF assms(1), of dc] unfolding addsTo_def addsParts_def Let_def assms(3) by blast
  show ?thesis
  proof (intro exI conjI ballI)
    show "runsIn pr (containerEnv ns (ctr_env ?c')) (mountedFile sec (ps_volumes ?ps') (ctr_mounts ?c'))"
      using assms(2) by (simp add: adapterRunsIn_def Let_def)
    show "containerEnv ns (ctr_env ?c') n = containerEnv ns (dbaasEnvs l spec ns host) n" if "n \<in> set operatorEnvNames" for n
      unfolding added(1) pod(1) by (rule containerEnv_append) (use added(4) that in \<open>auto simp: list_all_iff\<close>)
    show "mountedFile sec (ps_volumes ?ps') (ctr_mounts ?c') p =
        mountedFile sec (fst (secretVolumesOf (dbaasSecrets spec))) (snd (secretVolumesOf (dbaasSecrets spec))) p" if "p \<in> set adapterFiles" for p
      unfolding added(2,3) pod(2,3)
      by (rule mountedFile_append [OF own_volumes [OF assms(4)]]) (use added(5) that in \<open>auto simp: list_all_iff\<close>)
  qed
qed

lemma adapterEnv:
  assumes "addingLibrary l spec"
  shows "containerEnv ns (dbaasEnvs l spec ns host) ''MONGO_HOST'' = Some host"
    "containerEnv ns (dbaasEnvs l spec ns host) ''MONGO_PORT'' = Some ''27017''"
    "containerEnv ns (dbaasEnvs l spec ns host) ''BACKUP_DAEMON_ADDRESS'' = Some (backupDaemonAddress l spec ns)"
  using assms by (simp_all add: addingLibrary_def containerEnv_def dbaasEnvs_def dbaasKV_def plainEnv_def Let_def)

text \<open>A value of a secret that the process reads without change.\<close>

definition plainValue :: "(string \<Rightarrow> smap) \<Rightarrow> string \<Rightarrow> string \<Rightarrow> string \<Rightarrow> bool" where
  "plainValue sec n key v = (map_of (sec n) key = Some v \<and> TrimSpace v = v \<and> v \<noteq> [])"

lemma adapter_reads_secret:
  assumes "addingLibrary l spec" "adapterRunsIn l spec ns sec dc pr"
    "dep_pod_spec dc = dep_pod_spec (dbaasDeploymentOf l spec ns host mode res)" "separateSecrets sec spec"
    "(n, p) \<in> set (dbaasSecrets spec)" "path \<in> set adapterFiles" "path = p @ ''/'' @ key" "CHR ''/'' \<notin> set key" "plainValue sec n key v"
  shows "GetSecretValue (ReadFile pr) path d = v"
proof -
  obtain env files where seen: "runsIn pr env files" "\<forall>p \<in> set adapterFiles.
      files p = mountedFile sec (fst (secretVolumesOf (dbaasSecrets spec))) (snd (secretVolumesOf (dbaasSecrets spec))) p"
    using adapter_pod [OF assms(1-4)] by blast
  have "ReadFile pr path = Inr v"
    using mountedFile_secret [OF wellMounted_adapter [OF assms(4)] assms(5,8)] seen assms(6) assms(7,9)
    by (simp add: runsIn_def plainValue_def)
  then show ?thesis using assms(9) by (simp add: GetSecretValue_def plainValue_def)
qed

lemma adapter_env:
  assumes "addingLibrary l spec" "adapterRunsIn l spec ns sec dc pr"
    "dep_pod_spec dc = dep_pod_spec (dbaasDeploymentOf l spec ns host mode res)" "separateSecrets sec spec"
    "containerEnv ns (dbaasEnvs l spec ns host) n = Some v" "n \<in> set operatorEnvNames"
  shows adapter_env_string: "v \<noteq> [] \<Longrightarrow> GetEnv pr n d = v" and adapter_env_int: "Atoi v = (i, None) \<Longrightarrow> GetEnvAsInt pr n d' = i"
    and adapter_env_bool: "ParseBool v = Inr b \<Longrightarrow> GetEnvAsBool pr n d'' = b"
proof -
  obtain env files where "runsIn pr env files" "env n = Some v"
    using adapter_pod [OF assms(1-4)] assms(5,6) by fastforce
  then show "v \<noteq> [] \<Longrightarrow> GetEnv pr n d = v" "Atoi v = (i, None) \<Longrightarrow> GetEnvAsInt pr n d' = i" "ParseBool v = Inr b \<Longrightarrow> GetEnvAsBool pr n d'' = b"
    by (simp_all add: runsIn_def)
qed

text \<open>C5: the adapter that runs in the deployment of the supplementary operator connects to the host the operator computed, port
  27017, with the credentials of the administrator's secret: the file paths and variable names of the two programs agree.\<close>

theorem adapter_reads_deployment:
  assumes "addingLibrary l spec" "adapterRunsIn l spec ns sec dc pr"
    "dep_pod_spec dc = dep_pod_spec (dbaasDeploymentOf l spec ns host mode res)"
    "separateSecrets sec spec" "host \<noteq> []"
    "plainValue sec (DbAdminSecret (SupDbaas spec)) UsernameKey user"
    "plainValue sec (DbAdminSecret (SupDbaas spec)) PasswordKey pass"
    "plainValue sec (DbAdminSecret (SupDbaas spec)) AuthDatabaseKey authDb"
  shows "mongoConfiguration pr = \<lparr>ConfHost = host, ConfPort = 27017, ConfUser = user, ConfPass = pass, ConfAuthDb = authDb\<rparr>"
proof -
  note env = adapterEnv [OF assms(1), of ns host]
  have mem: "(DbAdminSecret (SupDbaas spec), ''/var/run/secrets/mongodb/mongo-admin'') \<in> set (dbaasSecrets spec)"
    by (simp add: dbaasSecrets_eq [OF assms(4)])
  note content = adapter_reads_secret [OF assms(1-4) mem]
  have "GetSecretValue (ReadFile pr) (secretPath ''mongo-admin/username'') d = user" for d
    by (rule content [OF _ _ _ assms(6)]) (simp_all add: secretPath_def adapterFiles_def UsernameKey_def)
  moreover have "GetSecretValue (ReadFile pr) (secretPath ''mongo-admin/password'') d = pass" for d
    by (rule content [OF _ _ _ assms(7)]) (simp_all add: secretPath_def adapterFiles_def PasswordKey_def)
  moreover have "GetSecretValue (ReadFile pr) (secretPath ''mongo-admin/auth-database'') d = authDb" for d
    by (rule content [OF _ _ _ assms(8)]) (simp_all add: secretPath_def adapterFiles_def AuthDatabaseKey_def)
  moreover have "GetEnv pr ''MONGO_HOST'' d = host" for d by (rule adapter_env_string [OF assms(1-4) env(1) _ assms(5)]) (simp add: operatorEnvNames_def)
  moreover have "GetEnvAsInt pr ''MONGO_PORT'' 27017 = 27017" by (rule adapter_env_int [OF assms(1-4) env(2)]) code_simp+
  ultimately show ?thesis by (simp add: mongoConfiguration_def Let_def)
qed

text \<open>A process that behaves as documented, in the example's deployment.\<close>

definition containerProcess :: "(string \<Rightarrow> string option) \<Rightarrow> (string \<Rightarrow> goerror + string) \<Rightarrow> 'w process" where
  "containerProcess env files =
     \<lparr>GetEnv = (\<lambda>n d. case env n of Some v \<Rightarrow> v | None \<Rightarrow> d),
      GetEnvAsInt = (\<lambda>n d. case env n of Some v \<Rightarrow> (case Atoi v of (i, None) \<Rightarrow> i | _ \<Rightarrow> d) | None \<Rightarrow> d),
      GetEnvAsBool = (\<lambda>n d. case env n of Some v \<Rightarrow> (case ParseBool v of Inr b \<Rightarrow> b | Inl _ \<Rightarrow> d) | None \<Rightarrow> d), Environ = env,
      ReadFile = files, TLSForMain = False, AggregatorVersion = (\<lambda>address auth. ret (Inr ''v3'')),
      HttpsClient = (\<lambda>c. None), PanicText = (\<lambda>e m. e), ErrorString = (\<lambda>e. [])\<rparr>"

lemma containerProcess_runs: "runsIn (containerProcess env files) env files"
  by (simp add: runsIn_def containerProcess_def)

definition exampleAdapterOf :: "suppl_spec \<Rightarrow> app_deployment" where
  "exampleAdapterOf spec = dbaasDeploymentOf exampleLib spec ''ns'' ''mongos.ns'' ActiveMode exampleResources"

definition exampleAdapter :: "suppl_spec \<Rightarrow> unit process" where
  "exampleAdapter spec =
     (let ps = dep_pod_spec (exampleAdapterOf spec); c = hd (ps_containers ps) in
      containerProcess (containerEnv ''ns'' (ctr_env c)) (mountedFile (\<lambda>n. sec_data (exampleSecret n)) (ps_volumes ps) (ctr_mounts c)))"

lemma exampleAdapter_plain: "SupDbaas spec = exampleDbaas \<Longrightarrow> addingLibrary exampleLib spec"
  by (simp add: addingLibrary_def addsTo_refl plainEnv_def)

lemma exampleAdapter_runs:
  "SupDbaas spec = exampleDbaas \<Longrightarrow>
   adapterRunsIn exampleLib spec ''ns'' (\<lambda>n. sec_data (exampleSecret n)) (exampleAdapterOf spec) (exampleAdapter spec)"
  using exampleAdapter_plain [of spec]
  by (simp add: adapterRunsIn_def exampleAdapter_def addingLibrary_def withDbaasTLS_def Let_def containerProcess_runs)

lemma exampleSecrets_separate: "separateSecrets (\<lambda>n. sec_data (exampleSecret n)) exampleSpec"
  by code_simp

theorem adapter_reads_deployment_witness:
  "mongoConfiguration (exampleAdapter exampleSpec) =
     \<lparr>ConfHost = ''mongos.ns'', ConfPort = 27017, ConfUser = ''admin.v1-user'', ConfPass = ''pw'', ConfAuthDb = ''admin''\<rparr>"
proof -
  have db: "SupDbaas exampleSpec = exampleDbaas" by (simp add: exampleSpec_def)
  show ?thesis
    by (rule adapter_reads_deployment
        [OF exampleAdapter_plain [OF db] exampleAdapter_runs [OF db] _ exampleSecrets_separate,
          of "''mongos.ns''" ActiveMode exampleResources])
      (simp add: exampleAdapterOf_def, code_simp+)
qed

end
