(* ===== verification/AdapterStart.thy ===== *)
theory AdapterStart
  imports SupplCross
begin

text \<open>
  The start of the DBaaS adapter (\<^verbatim>\<open>src/services/dbaas-adapter/main.go\<close>) in the deployment of the supplementary operator
  (\<^verbatim>\<open>src/services/service/pkg/dbaas\<close>): the port it serves, the credentials it accepts, the address it registers and who
  registers it, with TLS and without.
\<close>

section \<open>The operator's variables\<close>

lemma adapterEnv_settings:
  assumes "addingLibrary l spec"
  shows "containerEnv ns (dbaasEnvs l spec ns host) ''PORT'' = Some (show_int (LibHTTPPort l (dbaasTLS l spec)))"
    "containerEnv ns (dbaasEnvs l spec ns host) ''DBAAS_ADAPTER_ADDRESS'' =
       Some (Sprintf ''%s://%s.%s:%d'' [Str (LibHTTPProtocol l (dbaasTLS l spec)), Str DbaasName, Str ns, Num (LibHTTPPort l (dbaasTLS l spec))])"
    "containerEnv ns (dbaasEnvs l spec ns host) ''DBAAS_AGGREGATOR_REGISTRATION_ADDRESS'' = Some (DbRegistrationAddress (SupDbaas spec))"
    "containerEnv ns (dbaasEnvs l spec ns host) ''DBAAS_AGGREGATOR_PHYSICAL_DATABASE_IDENTIFIER'' =
       Some (LibOptionalString l (DbPhysicalIdentifier (SupDbaas spec)) ns)"
    "containerEnv ns (dbaasEnvs l spec ns host) ''DBAAS_DECLARATIVE_REGISTRATION_ENABLED'' =
       Some (FormatBool (DbOperatorNamespace (SupDbaas spec) \<noteq> []))"
    "containerEnv ns (dbaasEnvs l spec ns host) ''MULTI_USERS_ENABLED'' = Some (FormatBool (DbMultiUsers (SupDbaas spec)))"
    "containerEnv ns (dbaasEnvs l spec ns host) ''DBAAS_AGGREGATOR_REGISTRATION_FIXED_DELAY_MS'' = Some (show_int (DbFixedDelayMS (SupDbaas spec)))"
    "containerEnv ns (dbaasEnvs l spec ns host) ''DBAAS_AGGREGATOR_REGISTRATION_RETRY_TIME_MS'' = Some (show_int (DbRetryTimeMS (SupDbaas spec)))"
    "containerEnv ns (dbaasEnvs l spec ns host) ''DBAAS_AGGREGATOR_REGISTRATION_RETRY_DELAY_MS'' = Some (show_int (DbRetryDelayMS (SupDbaas spec)))"
  using assms by (simp_all add: addingLibrary_def containerEnv_def dbaasEnvs_def dbaasKV_def plainEnv_def Let_def Sprintf_simps)

lemma ParseBool_FormatBool: "ParseBool (FormatBool b) = Inr b"
  by (cases b) (simp_all add: ParseBool_def FormatBool_def)

section \<open>Settings\<close>

text \<open>The numbers of the custom resource fit the machine's integers, and the strings are set.\<close>

definition settingsFit :: "'w suppl_lib \<Rightarrow> suppl_spec \<Rightarrow> string \<Rightarrow> bool" where
  "settingsFit l spec ns =
     (let dbaas = SupDbaas spec in
      in_int64 (LibHTTPPort l (dbaasTLS l spec)) \<and> in_int64 (DbFixedDelayMS dbaas) \<and> in_int64 (DbRetryTimeMS dbaas) \<and>
      in_int64 (DbRetryDelayMS dbaas) \<and> DbRegistrationAddress dbaas \<noteq> [] \<and> LibOptionalString l (DbPhysicalIdentifier dbaas) ns \<noteq> [])"

text \<open>A secret with a user name and a password that are read without change.\<close>

definition plainLogin :: "(string \<Rightarrow> smap) \<Rightarrow> string \<Rightarrow> string \<times> string \<Rightarrow> bool" where
  "plainLogin sec n login = (plainValue sec n UsernameKey (fst login) \<and> plainValue sec n PasswordKey (snd login))"

text \<open>The settings of an adapter, from the custom resource.\<close>

definition settingsOf :: "'w suppl_lib \<Rightarrow> suppl_spec \<Rightarrow> string \<Rightarrow> bool \<Rightarrow> string \<times> string \<Rightarrow> string \<times> string \<Rightarrow> adapter_settings" where
  "settingsOf l spec ns profiler api registration =
     (let dbaas = SupDbaas spec; tls = dbaasTLS l spec in
      \<lparr>StProfiler = profiler, StPort = LibHTTPPort l tls, StApiAuth = api,
       StAdapterAddress = Sprintf ''%s://%s.%s:%d'' [Str (LibHTTPProtocol l tls), Str DbaasName, Str ns, Num (LibHTTPPort l tls)],
       StAggregatorAddress = DbRegistrationAddress dbaas, StIdentifier = LibOptionalString l (DbPhysicalIdentifier dbaas) ns,
       StRegistrationAuth = registration, StFixedDelay = DbFixedDelayMS dbaas, StRetryTime = DbRetryTimeMS dbaas,
       StRetryDelay = DbRetryDelayMS dbaas\<rparr>)"

lemma adapterSettings_deployment:
  assumes "addingLibrary l spec" "adapterRunsIn l spec ns sec dc pr"
    "dep_pod_spec dc = dep_pod_spec (dbaasDeploymentOf l spec ns host mode res)" "separateSecrets sec spec" "settingsFit l spec ns"
    "plainLogin sec (DbAggregatorSecret (SupDbaas spec)) api" "plainLogin sec (DbRegistrationSecret (SupDbaas spec)) registration"
  shows "adapterSettings pr = settingsOf l spec ns (GetEnvAsBool pr ''PROFILER'' False) api registration"
proof -
  note var = adapterEnv_settings [OF assms(1), of ns host]
  note string = adapter_env_string [OF assms(1-4)] and number = adapter_env_int [OF assms(1-4)]
  have api: "secretOr pr ''dbaas-aggregator/username'' d = fst api" "secretOr pr ''dbaas-aggregator/password'' d = snd api" for d
    using assms(6) adapter_reads_secret [OF assms(1-4), of "DbAggregatorSecret (SupDbaas spec)" "''/var/run/secrets/mongodb/dbaas-aggregator''"]
    by (simp_all add: plainLogin_def secretOr_def dbaasSecrets_eq [OF assms(4)] adapterFiles_def secretPath_def UsernameKey_def PasswordKey_def)
  have registration: "secretOr pr ''dbaas-registration/username'' d = fst registration" "secretOr pr ''dbaas-registration/password'' d = snd registration" for d
    using assms(7) adapter_reads_secret [OF assms(1-4), of "DbRegistrationSecret (SupDbaas spec)" "''/var/run/secrets/mongodb/dbaas-registration''"]
    by (simp_all add: plainLogin_def secretOr_def dbaasSecrets_eq [OF assms(4)] adapterFiles_def secretPath_def UsernameKey_def PasswordKey_def)
  have "GetEnvAsInt pr ''PORT'' d = LibHTTPPort l (dbaasTLS l spec)"
      "GetEnvAsInt pr ''DBAAS_AGGREGATOR_REGISTRATION_FIXED_DELAY_MS'' d = DbFixedDelayMS (SupDbaas spec)"
      "GetEnvAsInt pr ''DBAAS_AGGREGATOR_REGISTRATION_RETRY_TIME_MS'' d = DbRetryTimeMS (SupDbaas spec)"
      "GetEnvAsInt pr ''DBAAS_AGGREGATOR_REGISTRATION_RETRY_DELAY_MS'' d = DbRetryDelayMS (SupDbaas spec)" for d
    using assms(5) number [OF var(1)] number [OF var(7)] number [OF var(8)] number [OF var(9)]
    by (simp_all add: settingsFit_def Let_def Atoi_show_int operatorEnvNames_def)
  moreover have "GetEnv pr ''DBAAS_ADAPTER_ADDRESS'' d =
        Sprintf ''%s://%s.%s:%d'' [Str (LibHTTPProtocol l (dbaasTLS l spec)), Str DbaasName, Str ns, Num (LibHTTPPort l (dbaasTLS l spec))]"
      "GetEnv pr ''DBAAS_AGGREGATOR_REGISTRATION_ADDRESS'' d = DbRegistrationAddress (SupDbaas spec)"
      "GetEnv pr ''DBAAS_AGGREGATOR_PHYSICAL_DATABASE_IDENTIFIER'' d = LibOptionalString l (DbPhysicalIdentifier (SupDbaas spec)) ns" for d
    using assms(5) string [OF var(2)] string [OF var(3)] string [OF var(4)]
    by (simp_all add: settingsFit_def Let_def operatorEnvNames_def Sprintf_simps)
  ultimately show ?thesis by (simp add: adapterSettings_def settingsOf_def Let_def api registration prod_eq_iff)
qed

section \<open>Registration\<close>

text \<open>C6: the adapter that runs in the deployment of the supplementary operator serves the port of its container, for the
  credentials of the aggregator's secret; it registers itself exactly when no DBaaS operator is configured, under the identifier
  of the custom resource, with the address of its own service at that port and with the credentials it accepts; when the DBaaS
  operator registers it, it speaks the second version of the API.\<close>

theorem adapter_registers_itself:
  assumes "addingLibrary l spec" "adapterRunsIn l spec ns sec dc pr"
    "dep_pod_spec dc = dep_pod_spec (dbaasDeploymentOf l spec ns host mode res)" "separateSecrets sec spec" "settingsFit l spec ns"
    "plainLogin sec (DbAggregatorSecret (SupDbaas spec)) api" "plainLogin sec (DbRegistrationSecret (SupDbaas spec)) registration"
    "adapterMain pr drv rg pp texts versions source w = (Ret p, w')"
  shows "[ProcPort p] = map port_number (ctr_ports (hd (ps_containers (dep_pod_spec dc)))) \<and> ProcAuth p = api \<and>
    (if DbOperatorNamespace (SupDbaas spec) = []
     then \<exists>reg. ProcRegistration p = Some reg \<and> RegAuth reg = ProcAuth p \<and>
       RegIdentifier reg = LibOptionalString l (DbPhysicalIdentifier (SupDbaas spec)) ns \<and>
       RegAddress reg = Sprintf ''%s://%s.%s:%d'' [Str (LibHTTPProtocol l (dbaasTLS l spec)), Str DbaasName, Str ns, Num (ProcPort p)]
     else ProcRegistration p = None \<and> ApiVersion (ProcAdm p) = ''v2'')"
proof -
  note st = adapterSettings_deployment [OF assms(1-7)] and main = adapterMain_Ret [OF assms(8)]
  have declarative: "declarativeRegistration pr = (DbOperatorNamespace (SupDbaas spec) \<noteq> [])"
    unfolding declarativeRegistration_def
    by (rule adapter_env_bool [OF assms(1-4) adapterEnv_settings(5) [OF assms(1)] _ ParseBool_FormatBool]) (simp add: operatorEnvNames_def)
  have "map port_number (ctr_ports (hd (ps_containers (dep_pod_spec dc)))) = [LibHTTPPort l (dbaasTLS l spec)]"
    unfolding assms(3) by (simp add: dbaasDeploymentOf_def DbaasDeploymentTemplate_def Let_def case_prod_beta)
  then show ?thesis using main declarative declarative_v2 [OF _ assms(8)] by (auto simp: st settingsOf_def physicalService_def Let_def)
qed

section \<open>Backups\<close>

text \<open>C30: the adapter offers backups exactly when the operator installed the daemon: then with the address of the daemon's
  service and the credentials of its API, and otherwise the secret is not mounted and there is no backup service.  With an https
  address it offers them only with the certificate of the authority: without one, or when the client cannot be set up with it,
  the adapter stops.\<close>

theorem adapter_backup_iff_installed:
  assumes "addingLibrary l spec" "adapterRunsIn l spec ns sec dc pr"
    "dep_pod_spec dc = dep_pod_spec (dbaasDeploymentOf l spec ns host mode res)" "separateSecrets sec spec"
    "plainLogin sec (BkApiSecret (SupBackup spec)) (user, pass)" "user \<noteq> credsVoid" "pass \<noteq> credsVoid"
  shows "backupService pr w =
    (if \<not> BkInstall (SupBackup spec) then Ret None
     else if \<not> Contains (backupDaemonAddress l spec ns) ''https'' then Ret (Some (backupDaemonAddress l spec ns, user, pass))
     else if GetCACert (Environ pr) = [] then Panic (PanicText pr (GoError []) ''CA Certificate is empty or not set'')
     else case HttpsClient pr (GetCACert (Environ pr)) of
       Some err \<Rightarrow> Panic (PanicText pr err ''Failed to set up https client'')
     | None \<Rightarrow> Ret (Some (backupDaemonAddress l spec ns, user, pass)), w)"
proof -
  note env = adapterEnv [OF assms(1), of ns host]
  have login: "plainValue sec (BkApiSecret (SupBackup spec)) UsernameKey user" "plainValue sec (BkApiSecret (SupBackup spec)) PasswordKey pass"
    using assms(5) by (simp_all add: plainLogin_def)
  have nonempty: "backupDaemonAddress l spec ns \<noteq> []"
    by (simp add: backupDaemonAddress_def Let_def Sprintf_simps)
  have address: "GetEnv pr ''BACKUP_DAEMON_ADDRESS'' d = backupDaemonAddress l spec ns" for d
    by (rule adapter_env_string [OF assms(1-4) env(3) _ nonempty]) (simp add: operatorEnvNames_def)
  show ?thesis
  proof (cases "BkInstall (SupBackup spec)")
    case True
    have mem: "(BkApiSecret (SupBackup spec), ''/var/run/secrets/mongodb/backup-api'') \<in> set (dbaasSecrets spec)"
      using True by (simp add: dbaasSecrets_eq [OF assms(4)])
    note content = adapter_reads_secret [OF assms(1-4) mem]
    have "GetSecretValue (ReadFile pr) (secretPath ''backup-api/username'') d = user" for d
      by (rule content [OF _ _ _ login(1)]) (simp_all add: secretPath_def adapterFiles_def UsernameKey_def)
    moreover have "GetSecretValue (ReadFile pr) (secretPath ''backup-api/password'') d = pass" for d
      by (rule content [OF _ _ _ login(2)]) (simp_all add: secretPath_def adapterFiles_def PasswordKey_def)
    ultimately show ?thesis using True assms(6,7) login nonempty
      by (simp add: backupService_def Let_def address plainValue_def ret_apply panic_apply split: option.splits)
  next
    case False
    have own: "secretPath ''backup-api/username'' \<in> set adapterFiles" by (simp add: adapterFiles_def)
    obtain env files where "runsIn pr env files" "\<forall>p \<in> set adapterFiles.
        files p = mountedFile sec (fst (secretVolumesOf (dbaasSecrets spec))) (snd (secretVolumesOf (dbaasSecrets spec))) p"
      using adapter_pod [OF assms(1-4)] by blast
    then have "ReadFile pr (secretPath ''backup-api/username'') = mountedFile sec (fst (secretVolumesOf (dbaasSecrets spec)))
        (snd (secretVolumesOf (dbaasSecrets spec))) (secretPath ''backup-api/username'')"
      using own by (simp add: runsIn_def)
    then have "\<exists>e. ReadFile pr (secretPath ''backup-api/username'') = Inl e"
      using mountedFile_missing [OF wellMounted_adapter [OF assms(4)], of "''/var/run/secrets/mongodb/backup-api''" UsernameKey] False
      by (simp add: dbaasSecrets_eq [OF assms(4)] secretPath_def UsernameKey_def)
    then show ?thesis using False by (auto simp: backupService_def GetSecretValue_def Let_def address ret_apply)
  qed
qed

section \<open>Example\<close>

text \<open>A cluster with TLS: the library adds a variable with the certificate and the volume with the authority.\<close>

definition addTLS :: "pod_spec \<Rightarrow> string \<Rightarrow> tls \<Rightarrow> pod_spec" where
  "addTLS ps path ts =
     (case ps_containers ps of
        [] \<Rightarrow> ps
      | c # cs \<Rightarrow> ps\<lparr>ps_containers := c\<lparr>ctr_env := ctr_env c @ [plainEnv (''TLS_ROOTCERT'', path @ ''ca.crt'')],
            ctr_mounts := ctr_mounts c @ [secretMount ''root-ca'' path]\<rparr> # cs,
          ps_volumes := ps_volumes ps @ [secretVolume ''root-ca'']\<rparr>)"

definition tlsLib :: "kcluster suppl_lib" where
  "tlsLib = exampleLib\<lparr>LibTLSSpecUpdate := addTLS\<rparr>"

definition tlsSpec :: suppl_spec where
  "tlsSpec = exampleSpec\<lparr>SupTLS := (SupTLS exampleSpec)\<lparr>TLSEnabled := True\<rparr>,
     SupDbaas := exampleDbaas\<lparr>DbRegistrationAddress := ''https://aggregator''\<rparr>\<rparr>"

definition tlsDeployment :: app_deployment where
  "tlsDeployment = dbaasDeploymentOf tlsLib tlsSpec ''ns'' ''mongos.ns'' ActiveMode exampleResources"

definition tlsAdapter :: "mongod process" where
  "tlsAdapter =
     (let ps = dep_pod_spec (withDbaasTLS tlsLib tlsSpec tlsDeployment); c = hd (ps_containers ps) in
      containerProcess (containerEnv ''ns'' (ctr_env c)) (mountedFile (\<lambda>n. sec_data (exampleSecret n)) (ps_volumes ps) (ctr_mounts c)))"

lemma tlsLib_adds: "addingLibrary tlsLib tlsSpec"
proof -
  have "addsTo ps (addTLS ps RootCertPath ts)" for ps ts
  proof (cases "ps_containers ps")
    case (Cons c cs)
    have "''TLS_ROOTCERT'' \<notin> set operatorEnvNames" "list_all (\<lambda>p. \<not> HasPrefix p RootCertPath) adapterFiles" by code_simp+
    then have "addsParts ps (addTLS ps RootCertPath ts) [plainEnv (''TLS_ROOTCERT'', RootCertPath @ ''ca.crt'')]
        [secretMount ''root-ca'' RootCertPath] [secretVolume ''root-ca'']"
      using Cons by (simp add: addsParts_def addTLS_def plainEnv_def secretMount_def Let_def)
    then show ?thesis unfolding addsTo_def by blast
  qed (simp add: addTLS_def addsTo_refl)
  then show ?thesis by (simp add: addingLibrary_def tlsLib_def addsTo_refl plainEnv_def)
qed

lemma tlsAdapter_runs: "adapterRunsIn tlsLib tlsSpec ''ns'' (\<lambda>n. sec_data (exampleSecret n)) tlsDeployment tlsAdapter"
  by (simp add: adapterRunsIn_def tlsAdapter_def Let_def containerProcess_runs)

lemma tlsSecrets_separate: "separateSecrets (\<lambda>n. sec_data (exampleSecret n)) tlsSpec"
  by code_simp

lemma tlsAdapter_env: "Environ tlsAdapter = containerEnv ''ns''
    (dbaasEnvs tlsLib tlsSpec ''ns'' ''mongos.ns'' @ [plainEnv (''TLS_ROOTCERT'', ''/usr/ssl/ca.crt'')])"
  by (simp add: tlsAdapter_def containerProcess_def withDbaasTLS_def tlsDeployment_def dbaasDeploymentOf_def DbaasDeploymentTemplate_def
      tlsLib_def addTLS_def RootCertPath_def Let_def case_prod_beta)

lemma show_8443: "show_int 8443 = ''8443''"
  by (simp add: show_int_def show_nat.simps digit_char_def char_of_def bit_0)

lemma tlsAdapter_starts:
  "\<exists>p w'. adapterMain tlsAdapter plainDriver rg pp texts versions source w = (Ret p, w')"
proof -
  have pr: "GetEnv tlsAdapter n d = (case Environ tlsAdapter n of Some v \<Rightarrow> v | None \<Rightarrow> d)"
      "HttpsClient tlsAdapter c = None" "AggregatorVersion tlsAdapter address auth = ret (Inr ''v3'')" for n d c address auth
    by (simp_all add: tlsAdapter_def containerProcess_def Let_def)
  have env: "Environ tlsAdapter ''DEBUG_LOG'' = None" "Environ tlsAdapter ''DBAAS_AGGREGATOR_REGISTRATION_LABELS'' = None"
      "Environ tlsAdapter ''TLS_ROOTCERT'' = Some ''/usr/ssl/ca.crt''"
    unfolding tlsAdapter_env by (simp_all add: containerEnv_def dbaasEnvs_def dbaasKV_def plainEnv_def tlsLib_def Let_def)
  have return: "\<exists>b. ret x = ret b" for x :: 'b by blast
  have "registrationLabels tlsAdapter = ret []" by (simp add: registrationLabels_def pr env)
  moreover have "\<exists>backup. backupService tlsAdapter = ret backup"
    by (simp add: backupService_def Let_def GetCACert_def pr env return split: prod.split)
  moreover have "\<exists>version. adapterApiVersion tlsAdapter = ret version"
    by (simp add: adapterApiVersion_def Let_def pr) blast
  ultimately show ?thesis
    by (auto simp: adapterMain_def GetEnvBool_def env Let_def split_def)
qed

lemma adapter_registers_itself_witness:
  "\<exists>p w' reg. adapterMain tlsAdapter plainDriver (\<lambda>n k. ret n) (\<lambda>a b k. Inr a) ([], []) () (\<lambda>adm. ([], [], [])) emptyServer = (Ret p, w') \<and>
     ProcPort p = 8443 \<and> ProcAuth p = (''aggregator.v1-user'', ''pw'') \<and> ProcRegistration p = Some reg \<and>
     RegAddress reg = ''https://dbaas-mongo-adapter.ns:8443''"
proof -
  obtain p w' where run: "adapterMain tlsAdapter plainDriver (\<lambda>n k. ret n) (\<lambda>a b k. Inr a) ([], []) () (\<lambda>adm. ([], [], [])) emptyServer = (Ret p, w')"
    using tlsAdapter_starts [of "\<lambda>n k. ret n" "\<lambda>a b k. Inr a" "([], [])" "()" "\<lambda>adm. ([], [], [])" emptyServer] by (elim exE)
  have tls: "dbaasTLS tlsLib tlsSpec" by (simp add: dbaasTLS_def tlsLib_def tlsSpec_def Contains_def)
  have lib: "LibHTTPPort tlsLib True = 8443" "LibHTTPProtocol tlsLib True = ''https''" "DbOperatorNamespace (SupDbaas tlsSpec) = []"
    by (simp_all add: tlsLib_def tlsSpec_def exampleDbaas_def)
  have logins: "plainLogin (\<lambda>n. sec_data (exampleSecret n)) (DbAggregatorSecret (SupDbaas tlsSpec)) (''aggregator.v1-user'', ''pw'')"
      "plainLogin (\<lambda>n. sec_data (exampleSecret n)) (DbRegistrationSecret (SupDbaas tlsSpec)) (''registration.v1-user'', ''pw'')"
    by code_simp+
  have fits: "settingsFit tlsLib tlsSpec ''ns''"
    by (simp add: settingsFit_def tls Let_def tlsLib_def tlsSpec_def exampleDbaas_def in_int64_def exampleLib_def)
  have "dep_pod_spec tlsDeployment = dep_pod_spec (dbaasDeploymentOf tlsLib tlsSpec ''ns'' ''mongos.ns'' ActiveMode exampleResources)"
    by (simp add: tlsDeployment_def)
  from adapter_registers_itself [OF tlsLib_adds tlsAdapter_runs this tlsSecrets_separate fits logins run]
  show ?thesis using run
    by (auto simp: tlsDeployment_def dbaasDeploymentOf_def DbaasDeploymentTemplate_def Let_def case_prod_beta tls lib
        Sprintf_simps show_8443 DbaasName_def)
qed

text \<open>Without TLS, with TLS, and with TLS but no daemon.\<close>

lemma show_8080: "show_int 8080 = ''8080''"
  by (simp add: show_int_def show_nat.simps digit_char_def char_of_def bit_0)

lemma exampleAddress: "backupDaemonAddress exampleLib exampleSpec ''ns'' = ''http://mongodb-backup-daemon.ns:8080''"
  by (simp add: backupDaemonAddress_def exampleSpec_def Let_def Sprintf_simps BackupDaemon_def show_8080)

definition nobackupSpec :: suppl_spec where
  "nobackupSpec = exampleSpec\<lparr>SupBackup := exampleBackup\<lparr>BkInstall := False\<rparr>\<rparr>"

lemma adapter_backup_iff_installed_witness:
  "backupService (exampleAdapter exampleSpec) () = (Ret (Some (''http://mongodb-backup-daemon.ns:8080'', ''api.v1-user'', ''pw'')), ()) \<and>
   backupService tlsAdapter emptyServer = (Ret (Some (''https://mongodb-backup-daemon.ns:8443'', ''api.v1-user'', ''pw'')), emptyServer) \<and>
   backupService (exampleAdapter nobackupSpec) () = (Ret None, ())"
proof (intro conjI)
  let ?sec = "\<lambda>n. sec_data (exampleSecret n)"
  have login: "plainLogin ?sec (BkApiSecret exampleBackup) (''api.v1-user'', ''pw'')" "''api.v1-user'' \<noteq> credsVoid" "''pw'' \<noteq> credsVoid"
    by code_simp+
  have backup: "SupBackup exampleSpec = exampleBackup" "SupBackup tlsSpec = exampleBackup" "BkApiSecret (SupBackup nobackupSpec) = BkApiSecret exampleBackup"
    "BkInstall exampleBackup" "\<not> BkInstall (SupBackup nobackupSpec)"
    and db: "SupDbaas exampleSpec = exampleDbaas" "SupDbaas nobackupSpec = exampleDbaas"
    by (simp_all add: exampleSpec_def tlsSpec_def nobackupSpec_def exampleBackup_def)
  have plain: "\<not> Contains ''http://mongodb-backup-daemon.ns:8080'' ''https''" by code_simp
  have dc: "dep_pod_spec (exampleAdapterOf spec) = dep_pod_spec (dbaasDeploymentOf exampleLib spec ''ns'' ''mongos.ns'' ActiveMode exampleResources)" for spec
    by (simp add: exampleAdapterOf_def)
  show "backupService (exampleAdapter exampleSpec) () = (Ret (Some (''http://mongodb-backup-daemon.ns:8080'', ''api.v1-user'', ''pw'')), ())"
    using adapter_backup_iff_installed [OF exampleAdapter_plain [OF db(1)] exampleAdapter_runs [OF db(1)] dc exampleSecrets_separate, of "''api.v1-user''" "''pw''"] login
    by (simp add: backup exampleAddress plain)
  have separate: "separateSecrets ?sec nobackupSpec" by code_simp
  show "backupService (exampleAdapter nobackupSpec) () = (Ret None, ())"
    using adapter_backup_iff_installed [OF exampleAdapter_plain [OF db(2)] exampleAdapter_runs [OF db(2)] dc separate, of "''api.v1-user''" "''pw''"] login
    by (simp add: backup)
  have address: "backupDaemonAddress tlsLib tlsSpec ''ns'' = ''https://mongodb-backup-daemon.ns:8443''"
    by (simp add: backupDaemonAddress_def tlsSpec_def tlsLib_def Let_def Sprintf_simps BackupDaemon_def show_8443)
  have cert: "GetCACert (Environ tlsAdapter) = ''/usr/ssl/ca.crt''"
    unfolding GetCACert_def tlsAdapter_env by (simp add: containerEnv_def dbaasEnvs_def dbaasKV_def plainEnv_def tlsLib_def Let_def)
  have client: "HttpsClient tlsAdapter c = None" for c by (simp add: tlsAdapter_def containerProcess_def Let_def)
  have "dep_pod_spec tlsDeployment = dep_pod_spec (dbaasDeploymentOf tlsLib tlsSpec ''ns'' ''mongos.ns'' ActiveMode exampleResources)"
    by (simp add: tlsDeployment_def)
  from adapter_backup_iff_installed [OF tlsLib_adds tlsAdapter_runs this tlsSecrets_separate, of "''api.v1-user''" "''pw''"]
  show "backupService tlsAdapter emptyServer = (Ret (Some (''https://mongodb-backup-daemon.ns:8443'', ''api.v1-user'', ''pw'')), emptyServer)"
    using login by (simp add: backup address cert client)
qed

end
