(* ===== verification/SupplSwitch.thy ===== *)
theory SupplSwitch
  imports Controllers SupplCluster DbaasMain Builders
begin

text \<open>
  A switch of the sites and the deployments of the supplementary operator: the MongoDB operator scales and patches
  deployments the other operator made, found by a label, and the two must agree on them.  The lemmas compare what a
  switch leaves with what an installation in the new mode makes; the last one is about the address of an unsharded
  cluster.
\<close>

section \<open>The deployments\<close>

text \<open>Every mount has its volume, and the selector finds the pods of the template.\<close>

definition wellFormedApp :: "app_deployment \<Rightarrow> bool" where
  "wellFormedApp d =
     (list_all (\<lambda>c. set (map mount_name (ctr_mounts c)) \<subseteq> set (map vol_name (ps_volumes (dep_pod_spec d)))) (ps_containers (dep_pod_spec d)) \<and>
      list_all (\<lambda>(k, v). map_of (meta_labels (dep_pod_meta d)) k = Some v) (dep_selector d))"

text \<open>The switch finds a deployment by its microservice.\<close>

definition microserviceOf :: "app_deployment \<Rightarrow> string option" where
  "microserviceOf d = map_of (meta_labels (dep_meta d)) Microservice"

text \<open>Without TLS the library leaves the pods as they are.\<close>

definition plainPods :: "'w suppl_lib \<Rightarrow> suppl_spec \<Rightarrow> bool" where
  "plainPods l spec =
     ((\<forall>ps path. LibTLSSpecUpdate l ps path (SupTLS spec) = ps) \<and> (\<forall>ps name path. LibTLSServerSpecUpdate l ps (SupTLS spec) name path = ps))"

lemma secretMounts_declared:
  "set (map mount_name (snd (secretVolumesOf m))) = set (map vol_name (fst (secretVolumesOf m)))"
  by (induction m) (auto simp: secretVolumesOf_eq secretMount_def secretVolume_def)

lemmas microservice_labels = microserviceOf_def objectMeta_def AppLabel_def Microservice_def NameLabel_def suppl_label_defs

lemma dbaas_wellFormed: "wellFormedApp (dbaasDeploymentOf l spec ns host mode res)"
  using secretMounts_declared [of "dbaasSecrets spec"]
  by (simp add: wellFormedApp_def dbaasDeploymentOf_def DbaasDeploymentTemplate_def objectMeta_def Let_def case_prod_beta)

lemma dbaas_switched:
  "microserviceOf (dbaasDeploymentOf l spec ns host mode res) = Some DbaasName"
  "dep_replicas (dbaasDeploymentOf l spec ns host mode res) = replicasOfMode mode"
  by (simp_all add: dbaasDeploymentOf_def DbaasDeploymentTemplate_def Let_def case_prod_beta microservice_labels)

lemma exporter_wellFormed: "plainPods l spec \<Longrightarrow> wellFormedApp (exporterDeploymentOf l spec ns kv res)"
  using secretMounts_declared [of "exporterSecrets (SupExporter spec)"]
  by (simp add: plainPods_def wellFormedApp_def exporterDeploymentOf_def PrometheusExporterDeploymentTemplate_def objectMeta_def Let_def case_prod_beta)

lemma exporter_switched: "microserviceOf (exporterDeploymentOf l spec ns kv res) = Some MongoPrometheusExporter"
  by (simp add: exporterDeploymentOf_def PrometheusExporterDeploymentTemplate_def Let_def case_prod_beta microservice_labels)

lemma robot_wellFormed: "plainPods l spec \<Longrightarrow> wellFormedApp (robotDeploymentOf l spec ns host res)"
  using secretMounts_declared [of "robotSecrets spec"]
  by (auto simp: plainPods_def wellFormedApp_def robotDeploymentOf_def RobotTemplate_def appendAtpReportPodConfig_def objectMeta_def Let_def
      case_prod_beta)

lemma backup_template:
  assumes "plainPods l spec" "BkResources (SupBackup spec) = Some res" "(volumes, mounts) = secretVolumesOf m"
    "BackupDeploymentTemplate l spec pvc ns sel env tol dir empt n prio aff mounts volumes s = (Ret d, t)"
  shows "wellFormedApp d \<and> microserviceOf d = Some BackupDaemon \<and> dep_replicas d = n"
proof -
  have mounts: "mount_name x \<in> vol_name ` set volumes" if "x \<in> set mounts" for x
    using secretMounts_declared [of m] assms(3) [symmetric] that by auto
  have d: "d = fst (d, t)" "fst (BackupDeploymentTemplate l spec pvc ns sel env tol dir empt n prio aff mounts volumes s) = Ret d"
    using assms(4) by simp_all
  have "wellFormedApp d"
    using assms(1,2) d(2) mounts
    by (cases "S3SslVerify (BkS3 (SupBackup spec))")
      (auto simp: BackupDeploymentTemplate_def plainPods_def wellFormedApp_def objectMeta_def Let_def op_simps)
  moreover have "microserviceOf d = Some BackupDaemon \<and> dep_replicas d = n" using assms(2) d(2)
    by (auto simp: BackupDeploymentTemplate_def microservice_labels Let_def op_simps case_prod_beta)
  ultimately show ?thesis by simp
qed

section \<open>Agreement with a switch\<close>

text \<open>The library adds the hash of the credentials to the template of the pods; the labels and the replicas of the
  deployment stay.\<close>

definition hash_law :: "'w suppl_lib \<Rightarrow> bool" where
  "hash_law l = (\<forall>names d w d' w'. LibCredHash l names d w = (Ret (Inr d'), w') \<longrightarrow>
     dep_meta d' = dep_meta d \<and> dep_replicas d' = dep_replicas d)"

lemma hash_lawD:
  "hash_law l \<Longrightarrow> callS (LibCredHash l names d) s = (Ret (Inr d'), t) \<Longrightarrow> dep_meta d' = dep_meta d \<and> dep_replicas d' = dep_replicas d"
  unfolding hash_law_def using callS_RetD by metis

text \<open>The deployment is created, and then that many ready replicas of it are waited for until the given state.\<close>

definition daemonInstalled :: "'w suppl_lib \<Rightarrow> suppl_spec \<Rightarrow> string \<Rightarrow> app_deployment \<Rightarrow> 'w suppl_state \<Rightarrow> bool" where
  "daemonInstalled l spec ns d s' =
     (\<exists>t u. callS (LibCreateObject l (DeploymentObj d)) t = (Ret None, u) \<and>
        WaitForDeploymentReady l [(NameLabel, BackupDaemon)] ns (dep_replicas d) (SupWaitSeconds spec) u = (Ret None, s'))"

definition adapterInstalled :: "'w suppl_lib \<Rightarrow> suppl_spec \<Rightarrow> string \<Rightarrow> app_deployment \<Rightarrow> 'w suppl_state \<Rightarrow> bool" where
  "adapterInstalled l spec ns d s' =
     (\<exists>t u. callS (LibCreateObject l (DeploymentObj d)) t = (Ret None, u) \<and>
        callS (LibWaitForPodsReady l [(NameLabel, DbaasName)] ns (dep_replicas d) (SupWaitSeconds spec)) u = (Ret None, s'))"

lemma daemon_installed:
  assumes "plainPods l (SsSpec s)" "hash_law l" "SupDR (SsSpec s) = Some dr" "BackupDeployment_Execute l s = (Ret None, s')"
  shows "\<exists>d. daemonInstalled l (SsSpec s) (SsNamespace s) d s' \<and> microserviceOf d = Some BackupDaemon \<and> dep_replicas d = replicasOfMode (Mode dr)"
proof -
  let ?spec = "SsSpec s"
  let ?V = "secretVolumesOf (backupSecrets (SupBackup ?spec))"
  obtain pvc sel env storage t0 d0 t1 x t2 where
    template: "BackupDeploymentTemplate l ?spec pvc (SsNamespace s) sel env (supplTolerations ?spec) (BkStorageDirectory (SupBackup ?spec)) storage
      (replicasOfMode (Mode dr)) (BkPriorityClass (SupBackup ?spec)) (BkAffinity (SupBackup ?spec)) (snd ?V) (fst ?V) t0 = (Ret d0, t1)"
    and hash: "callS (LibCredHash l [SupRootSecret ?spec] d0) t1 = (Ret x, t2)"
    and rest: "(case x of Inl err \<Rightarrow> ret (Some err)
        | Inr dc \<Rightarrow>
            andthen (callS (LibCreateObject l (DeploymentObj dc))) (\<lambda>err. case err of
              Some e \<Rightarrow> ret (Some (ExecutionError (''Error happened on processing backup deployment config. Error: '' @ supplErr l e)))
            | None \<Rightarrow> backupReady l ?spec (SsNamespace s) (replicasOfMode (Mode dr)))) t2 = (Ret None, s')"
    using assms(4) unfolding BackupDeployment_Execute_def Let_def andthen_getState case_prod_beta supplMode_simps(1) [OF assms(3)] andthen_ret
    by (elim andthen_RetE) (erule (2) that)
  obtain d where d: "x = Inr d" using rest by (cases x) (auto simp: ret_apply)
  obtain u where create: "callS (LibCreateObject l (DeploymentObj d)) t2 = (Ret None, u)"
    "WaitForDeploymentReady l [(NameLabel, BackupDaemon)] (SsNamespace s) (replicasOfMode (Mode dr)) (SupWaitSeconds ?spec) u = (Ret None, s')"
    using rest unfolding d by (auto simp: ret_apply elim!: andthen_RetE split: option.splits)
  obtain res where "BkResources (SupBackup ?spec) = Some res"
    using template by (cases "BkResources (SupBackup ?spec)") (auto simp: BackupDeploymentTemplate_def Let_def panic_apply andthen_apply)
  from backup_template [OF assms(1) this _ template] have "microserviceOf d0 = Some BackupDaemon" "dep_replicas d0 = replicasOfMode (Mode dr)" by simp_all
  then show ?thesis using hash_lawD [OF assms(2) hash [unfolded d]] create unfolding daemonInstalled_def microserviceOf_def by metis
qed

lemma adapter_installed:
  assumes "hash_law l" "SupDR (SsSpec s) = Some dr" "DbaasDeployment_Execute l s = (Ret None, s')"
  shows "\<exists>d. adapterInstalled l (SsSpec s) (SsNamespace s) d s' \<and> microserviceOf d = Some DbaasName \<and> dep_replicas d = replicasOfMode (Mode dr)"
proof -
  let ?spec = "SsSpec s"
  obtain host res t x u where hash: "callS (LibCredHash l [SupRootSecret ?spec] (dbaasDeploymentOf l ?spec (SsNamespace s) host (Mode dr) res)) t = (Ret x, u)"
    and rest: "(case x of Inl err \<Rightarrow> ret (Some err)
      | Inr dc \<Rightarrow>
          andthen (callS (LibCreateObject l (DeploymentObj (withDbaasTLS l ?spec dc)))) (\<lambda>err. case err of
            Some e \<Rightarrow> ret (Some (ExecutionError (''Error happened on processing dbaas deployment config. Error: '' @ supplErr l e)))
          | None \<Rightarrow>
              andthen (callS (LibWaitForPodsReady l [(NameLabel, DbaasName)] (SsNamespace s) (replicasOfMode (Mode dr)) (SupWaitSeconds ?spec))) (\<lambda>err.
              case err of
                Some e \<Rightarrow> ret (Some (ExecutionError (''Error happened while waiting dbaas pod is ready. Error: '' @ supplErr l e)))
              | None \<Rightarrow> ret None))) u = (Ret None, s')"
    using assms(3) unfolding DbaasDeployment_Execute_def Let_def andthen_getState supplMode_simps(1) [OF assms(2)] andthen_ret
    by (elim andthen_RetE) (erule (1) that)
  obtain dc where dc: "x = Inr dc" using rest by (cases x) (auto simp: ret_apply)
  let ?d = "withDbaasTLS l ?spec dc"
  obtain v where create: "callS (LibCreateObject l (DeploymentObj ?d)) u = (Ret None, v)"
    "callS (LibWaitForPodsReady l [(NameLabel, DbaasName)] (SsNamespace s) (replicasOfMode (Mode dr)) (SupWaitSeconds ?spec)) v = (Ret None, s')"
    using rest unfolding dc by (auto simp: ret_apply elim!: andthen_RetE split: option.splits)
  have "dep_meta ?d = dep_meta dc" "dep_replicas ?d = dep_replicas dc" by (simp_all add: withDbaasTLS_def Let_def)
  then have "microserviceOf ?d = Some DbaasName" "dep_replicas ?d = replicasOfMode (Mode dr)"
    using hash_lawD [OF assms(1) hash [unfolded dc]] dbaas_switched [of l ?spec "SsNamespace s" host "Mode dr" res]
    by (simp_all add: microserviceOf_def)
  then show ?thesis using create unfolding adapterInstalled_def by metis
qed

text \<open>The step of a switch had the deployments with these labels scaled to n, or there was none.\<close>

definition scaledByLabels :: "'w helper \<Rightarrow> 'w hstate \<Rightarrow> smap \<Rightarrow> int \<Rightarrow> bool" where
  "scaledByLabels r h labels n =
     (\<exists>err w. ScaleDeploymentByLabels (KubeImpl r) labels (Namespace r) n (WaitSecondsField (specOf h)) (World h) = (Ret err, w) \<and>
        (case err of None \<Rightarrow> True | Some e \<Rightarrow> asNotFound e))"

lemma scaleByLabels_None:
  "scaleByLabels r microservice n fmt h = (Ret None, h') \<Longrightarrow> scaledByLabels r h [(Microservice, microservice)] n"
  by (auto simp: scaleByLabels_def scaledByLabels_def drGuard_def getSpec_def callW_def op_simps split: prod.splits res.splits if_splits option.splits)

text \<open>C29: a switch scales the backup daemon and the adapter to the replicas an installation in the new mode gives them, and
  finds them by labels that the deployments this installation creates carry, each its own and not the other's.\<close>

theorem switch_scales_like_install:
  assumes "plainPods l (SsSpec s)" "hash_law l" "SupDR (SsSpec s) = Some dr" "Mode dr = drMode ospec"
    and "BackupDeployment_Execute l s = (Ret None, s')" "DbaasDeployment_Execute l (s\<lparr>SsWorld := w\<rparr>) = (Ret None, s'')"
    and "{ScaleBackupDaemonStep n, ScaleDbaasAdapterStep m} \<subseteq> set (DRBuild ospec)"
    and "ScaleBackupDaemon_Execute r n h = (Ret None, h')" "ScaleDbaasAdapter_Execute r m i = (Ret None, i')"
  shows "\<exists>daemon adapter ofDaemon ofAdapter.
    daemonInstalled l (SsSpec s) (SsNamespace s) daemon s' \<and> adapterInstalled l (SsSpec s) (SsNamespace s) adapter s'' \<and>
    scaledByLabels r h ofDaemon (dep_replicas daemon) \<and> selects ofDaemon (meta_labels (dep_meta daemon)) \<and> \<not> selects ofDaemon (meta_labels (dep_meta adapter)) \<and>
    scaledByLabels r i ofAdapter (dep_replicas adapter) \<and> selects ofAdapter (meta_labels (dep_meta adapter)) \<and> \<not> selects ofAdapter (meta_labels (dep_meta daemon))"
proof -
  obtain daemon where d: "daemonInstalled l (SsSpec s) (SsNamespace s) daemon s'" "microserviceOf daemon = Some BackupDaemon"
    "dep_replicas daemon = replicasOfMode (Mode dr)"
    using daemon_installed [OF assms(1-3,5)] by blast
  obtain adapter where a: "adapterInstalled l (SsSpec s) (SsNamespace s) adapter s''" "microserviceOf adapter = Some DbaasName"
    "dep_replicas adapter = replicasOfMode (Mode dr)"
    using adapter_installed [OF assms(2) _ assms(6), of dr] assms(3) by auto
  have "n = replicasOfMode (Mode dr)" "m = replicasOfMode (Mode dr)" using assms(4,7)
    by (auto simp: DRBuild_def replicasOfMode_def ActiveMode_def DisableMode_def StandbyMode_def split: if_splits)
  then have "scaledByLabels r h [(Microservice, BackupDaemon)] (dep_replicas daemon)"
    "scaledByLabels r i [(Microservice, DbaasName)] (dep_replicas adapter)"
    using scaleByLabels_None assms(8,9) d(3) a(3) unfolding ScaleBackupDaemon_Execute_def ScaleDbaasAdapter_Execute_def by metis+
  moreover have "selects [(Microservice, BackupDaemon)] (meta_labels (dep_meta daemon))" "selects [(Microservice, DbaasName)] (meta_labels (dep_meta adapter))"
    "\<not> selects [(Microservice, BackupDaemon)] (meta_labels (dep_meta adapter))" "\<not> selects [(Microservice, DbaasName)] (meta_labels (dep_meta daemon))"
    using d(2) a(2) by (simp_all add: selects_def microserviceOf_def BackupDaemon_def DbaasName_def)
  ultimately show ?thesis using d(1) a(1) by blast
qed

lemma exporterKV_sharded_dr:
  assumes "SupSharded (SupSchema spec)" "SupSchemaType (SupSchema spec) = DR" "SupDR spec = Some dr"
  shows "exporterKV spec ns s =
     (Ret [(''MONGO_URI'', marshalURI (exporterURI (SupSchema spec) ns)), (''EXPORT_MONGOS'', FormatBool (Mode dr = ActiveMode))], s)"
  using assms by (simp add: exporterKV_def Let_def op_simps)

lemma exporter_members_exist:
  assumes "SupSchemaType sch = DR" "SupCnfReplicaSize sch \<noteq> 0"
  shows "length (exporterMembers sch ns) > 0"
  using assms by (simp add: exporterMembers_def supplCnfHosts_def supplReplicaSetHosts_def Let_def)

text \<open>C28: in a sharded cluster over two sites the switch patches the exporter into what the supplementary operator
  would deploy in the new mode: the same variables and the same port of the probes.\<close>

theorem switch_exporter_like_install:
  assumes "plainPods l spec" "SupSharded (SupSchema spec)" "SupSchemaType (SupSchema spec) = DR" "SupCnfReplicaSize (SupSchema spec) \<noteq> 0"
    "SupDR spec = Some dr" "exporterKV spec ns s = (Ret kv, s1)"
    "spec' = spec\<lparr>SupDR := Some (dr\<lparr>Mode := drMode ospec\<rparr>)\<rparr>" "exporterKV spec' ns s = (Ret kv', s2)"
    "UpdatePrometheusExporterStep e \<in> set (DRBuild ospec)"
  shows "updateExporter True e (deployment.truncate (exporterDeploymentOf l spec ns kv res)) =
     Ret (deployment.truncate (exporterDeploymentOf l spec' ns kv' res))"
proof -
  have e: "e = (drMode ospec = ActiveMode)" using assms(9) by (auto simp: DRBuild_def split: if_splits)
  have kv: "kv = [(''MONGO_URI'', marshalURI (exporterURI (SupSchema spec) ns)), (''EXPORT_MONGOS'', FormatBool (Mode dr = ActiveMode))]"
    using assms(6) exporterKV_sharded_dr [OF assms(2,3,5), of ns s] by simp
  have kv': "kv' = [(''MONGO_URI'', marshalURI (exporterURI (SupSchema spec) ns)), (''EXPORT_MONGOS'', FormatBool e)]"
    using assms(7,8) exporterKV_sharded_dr [of spec' "dr\<lparr>Mode := drMode ospec\<rparr>" ns s] assms(2,3) by (simp add: e)
  have [simp]: "exporterMembers (SupSchema spec) ns \<noteq> []" using exporter_members_exist [OF assms(3,4)] by auto
  have tls: "LibTLSSpecUpdate l ps path (SupTLS spec) = ps" for ps path using assms(1) by (simp add: plainPods_def)
  show ?thesis
    unfolding kv kv' assms(7)
    using assms(2) by (simp add: exporterDeploymentOf_def PrometheusExporterDeploymentTemplate_def Let_def case_prod_beta tls updateExporter_def
        deployment.truncate_def withTcpPort_def tcpProbe_def plainEnv_def exporterHealthzPort_def healthzPort_def FormatBool_def
        smap_get_def supplTolerations_def)
qed

text \<open>An unsharded cluster is left with another value than an installation gives it.\<close>

lemma switch_unsharded_exports_mongos:
  assumes "plainPods l spec" "\<not> SupSharded (SupSchema spec)" "exporterKV spec ns s = (Ret kv, s1)"
    "updateExporter False True (deployment.truncate (exporterDeploymentOf l spec ns kv res)) = Ret d"
  shows "map_of kv ''EXPORT_MONGOS'' = Some ''false'' \<and>
     \<lparr>env_name = ''EXPORT_MONGOS'', env_value = PlainEnv ''true''\<rparr> \<in> set (ctr_env (hd (ps_containers (dep_pod_spec d))))"
proof -
  have kv: "kv = [(''MONGO_URI'', marshalURI (exporterURI (SupSchema spec) ns)), (''EXPORT_MONGOS'', ''false'')]"
    using assms(2,3) by (simp add: exporterKV_def Let_def op_simps FormatBool_def)
  have tls: "LibTLSSpecUpdate l ps path (SupTLS spec) = ps" for ps path using assms(1) by (simp add: plainPods_def)
  show ?thesis
    using assms(2,4) unfolding kv by (auto simp: exporterDeploymentOf_def PrometheusExporterDeploymentTemplate_def Let_def case_prod_beta tls
        updateExporter_def deployment.truncate_def withTcpPort_def tcpProbe_def plainEnv_def)
qed

section \<open>The address of an unsharded cluster\<close>

text \<open>Without sharding the host of the adapter is the list of the first replica set's addresses, each with its port, and the
  connection string of a new database puts the port once more after the last one.\<close>

theorem unsharded_url_two_ports:
  assumes "\<not> SupSharded sch" "SupSchemaType sch \<noteq> SingleSchema" "CHR 0x25 \<notin> set ns" "CHR 0x25 \<notin> set (SupThisDomain sch)"
    "ConfHost (Conf (Service adm)) = fst (mongoHostOf sch ns)" "ConfPort (Conf (Service adm)) = 27017"
  shows "map_of (getConnectionProperties adm db user pass role) ''url'' =
     Some (JStr (''mongodb://'' @
       Join '','' (map (\<lambda>i. podOfStatefulSet (dataStatefulSetName 0 i) @ ''.'' @ dataServiceName 0 @ ''.'' @ ns @ ''.svc.'' @
         SupThisDomain sch @ '':27017'') [0..<SupDataReplicaSize sch]) @ '':27017/'' @ db))"
proof -
  have port: "show_int 27017 = ''27017''" by (simp add: show_int_def show_nat.simps digit_char_def char_of_def bit_0)
  show ?thesis using assms
    by (simp add: getConnectionProperties_def Let_def Sprintf_simps mongoHostOf_def port suppl_hosts_eq data_host)
qed

section \<open>Examples\<close>

definition switchedSpec :: deployment_spec where
  "switchedSpec = activeSpec\<lparr>SchemaSettings := (SchemaSettings activeSpec)\<lparr>SchemaType := DR\<rparr>\<rparr>"

lemma switchedSpec_simps [simp]: "drMode switchedSpec = ActiveMode" "SchemaType (SchemaSettings switchedSpec) = DR"
  by (simp_all add: switchedSpec_def)

lemma examplePods: "plainPods exampleLib spec"
  by (simp add: plainPods_def)

text \<open>The example's cluster with a pod of the deployment that is asked for.\<close>

definition podLib :: "kcluster suppl_lib" where
  "podLib = exampleLib\<lparr>LibListPodStates := (\<lambda>ns labels. ret (Inr [\<lparr>pst_phase = PodRunning, pst_containers_ready = [True]\<rparr>]))\<rparr>"

definition beforeInstall :: "kcluster suppl_state" where
  "beforeInstall = (stateWithDaemon True)\<lparr>SsMongoHost := Some ''mongos.ns''\<rparr>"

lemma podLib_simps: "LibCredHash podLib names d = ret (Inr d)" "LibWaitForPodsReady podLib labels ns n t = ret None"
  "LibCreateObject podLib obj = andthen (modifyState (\<lambda>w. w\<lparr>KcCreated := KcCreated w @ [obj]\<rparr>)) (\<lambda>_. ret None)"
  by (simp_all add: podLib_def exampleLib_def)

lemma beforeInstall_simps: "SsSpec beforeInstall = exampleSpec" "SsNamespace beforeInstall = ''ns''" "SsMongoHost beforeInstall = Some ''mongos.ns''"
  by (simp_all add: beforeInstall_def stateWithDaemon_def exampleState_def)

lemma podLib_installs_adapter: "\<exists>s'. DbaasDeployment_Execute podLib beforeInstall = (Ret None, s')"
  by (simp add: DbaasDeployment_Execute_def Let_def beforeInstall_simps podLib_simps op_simps ctxGet_def supplMode_def exampleSpec_def
      exampleDbaas_def callS_apply)

lemma podLib_installs_daemon: "\<exists>s'. BackupDeployment_Execute podLib beforeInstall = (Ret None, s')"
  by (rule exI) code_simp

theorem switch_scales_like_install_witness:
  "\<exists>s' s'' daemon adapter ofDaemon ofAdapter.
    daemonInstalled podLib exampleSpec ''ns'' daemon s' \<and> adapterInstalled podLib exampleSpec ''ns'' adapter s'' \<and>
    scaledByLabels (baseHelper (baseKube :: unit kube)) (baseState ()) ofDaemon (dep_replicas daemon) \<and> selects ofDaemon (meta_labels (dep_meta daemon)) \<and>
    scaledByLabels (baseHelper (baseKube :: unit kube)) (baseState ()) ofAdapter (dep_replicas adapter) \<and> selects ofAdapter (meta_labels (dep_meta adapter))"
proof -
  let ?r = "baseHelper (baseKube :: unit kube)"
  obtain s' where b: "BackupDeployment_Execute podLib beforeInstall = (Ret None, s')" using podLib_installs_daemon by blast
  obtain s'' where d: "DbaasDeployment_Execute podLib (beforeInstall\<lparr>SsWorld := SsWorld beforeInstall\<rparr>) = (Ret None, s'')"
    using podLib_installs_adapter by auto
  have pods: "plainPods podLib (SsSpec beforeInstall)" by (simp add: plainPods_def podLib_def)
  have hash: "hash_law podLib" by (simp add: hash_law_def podLib_simps ret_apply)
  have dr: "SupDR (SsSpec beforeInstall) = Some \<lparr>Mode = ActiveMode, DRStatus = [], NoWait = False\<rparr>"
    by (simp add: beforeInstall_simps exampleSpec_def)
  have mode: "Mode \<lparr>Mode = ActiveMode, DRStatus = [], NoWait = False\<rparr> = drMode switchedSpec" by simp
  have steps: "{ScaleBackupDaemonStep 1, ScaleDbaasAdapterStep 1} \<subseteq> set (DRBuild switchedSpec)" by (simp add: DRBuild_def)
  have scale: "ScaleBackupDaemon_Execute ?r 1 (baseState ()) = (Ret None, baseState ())" "ScaleDbaasAdapter_Execute ?r 1 (baseState ()) = (Ret None, baseState ())"
    by (simp_all add: ScaleBackupDaemon_Execute_def ScaleDbaasAdapter_Execute_def scaleByLabels_def getSpec_def callW_def op_simps baseKube_def)
  show ?thesis using switch_scales_like_install [OF pods hash dr mode b d steps scale] unfolding beforeInstall_simps by blast
qed

theorem switch_exporter_like_install_witness:
  "\<exists>kv kv'. updateExporter True True (deployment.truncate (exporterDeploymentOf exampleLib (exampleSpec\<lparr>SupDR :=
        Some \<lparr>Mode = StandbyMode, DRStatus = [], NoWait = False\<rparr>\<rparr>) ''ns'' kv exampleResources)) =
     Ret (deployment.truncate (exporterDeploymentOf exampleLib exampleSpec ''ns'' kv' exampleResources))"
proof -
  let ?old = "exampleSpec\<lparr>SupDR := Some \<lparr>Mode = StandbyMode, DRStatus = [], NoWait = False\<rparr>\<rparr>"
  have sch: "SupSharded (SupSchema ?old)" "SupSchemaType (SupSchema ?old) = DR" "SupCnfReplicaSize (SupSchema ?old) \<noteq> 0"
    "SupDR ?old = Some \<lparr>Mode = StandbyMode, DRStatus = [], NoWait = False\<rparr>"
    by (simp_all add: exampleSpec_def)
  have sch': "SupSharded (SupSchema exampleSpec)" "SupSchemaType (SupSchema exampleSpec) = DR"
    "SupDR exampleSpec = Some \<lparr>Mode = ActiveMode, DRStatus = [], NoWait = False\<rparr>"
    by (simp_all add: exampleSpec_def)
  have spec: "exampleSpec = ?old\<lparr>SupDR := Some (\<lparr>Mode = StandbyMode, DRStatus = [], NoWait = False\<rparr>\<lparr>Mode := drMode switchedSpec\<rparr>)\<rparr>"
    by (simp add: exampleSpec_def)
  have step: "UpdatePrometheusExporterStep True \<in> set (DRBuild switchedSpec)" by (simp add: DRBuild_def)
  show ?thesis
    using switch_exporter_like_install [OF examplePods sch exporterKV_sharded_dr [OF sch(1,2,4)] spec
      exporterKV_sharded_dr [OF sch'] step] by blast
qed

theorem unsharded_url_two_ports_witness:
  "map_of (getConnectionProperties (plainAdm\<lparr>Service := plainService\<lparr>Conf :=
       \<lparr>ConfHost = ''datars10-0.datars1.mongo.svc.local:27017'', ConfPort = 27017, ConfUser = [], ConfPass = [], ConfAuthDb = []\<rparr>\<rparr>\<rparr>)
     ''db'' ''u'' ''p'' []) ''url'' = Some (JStr ''mongodb://datars10-0.datars1.mongo.svc.local:27017:27017/db'')"
proof -
  define sch where "sch = \<lparr>SupSchemaType = HA, SupSharded = False, SupCnfReplicaSize = 0, SupDataReplicaSize = 1, SupShardCount = 1,
    SupThisDomain = ''local'', SupOtherDomain = []\<rparr>"
  have one: "show_nat 0 = ''0''" "show_nat (Suc 0) = ''1''" by (simp_all add: show_nat.simps digit_char_def char_of_def bit_0)
  have host: "''datars10-0.datars1.mongo.svc.local:27017'' = fst (mongoHostOf sch ''mongo'')"
    by (simp add: sch_def mongoHostOf_def suppl_hosts_eq data_host podOfStatefulSet_eq dataStatefulSetName_eq dataServiceName_eq one)
  let ?conf = "\<lparr>ConfHost = ''datars10-0.datars1.mongo.svc.local:27017'', ConfPort = 27017, ConfUser = [], ConfPass = [], ConfAuthDb = []\<rparr>"
  let ?adm = "plainAdm\<lparr>Service := plainService\<lparr>Conf := ?conf\<rparr>\<rparr>"
  have "map_of (getConnectionProperties ?adm ''db'' ''u'' ''p'' []) ''url'' = Some (JStr (''mongodb://'' @
       Join '','' (map (\<lambda>i. podOfStatefulSet (dataStatefulSetName 0 i) @ ''.'' @ dataServiceName 0 @ ''.'' @ ''mongo'' @ ''.svc.'' @
         SupThisDomain sch @ '':27017'') [0..<SupDataReplicaSize sch]) @ '':27017/'' @ ''db''))"
    by (rule unsharded_url_two_ports) (simp_all add: sch_def host)
  then show ?thesis by (simp add: sch_def podOfStatefulSet_eq dataStatefulSetName_eq dataServiceName_eq one)
qed

end
