(* ===== verification/SupplRecovery.thy ===== *)
theory SupplRecovery
  imports SupplRestart
begin

text \<open>
  The restart of the backup daemon recovers: when the daemon can start again after an outage that is not longer than the
  delays of the attempts together, one of the attempts succeeds.  The laws are about the worlds a run can reach, a set
  closed under the calls.
\<close>

section \<open>A cluster that recovers\<close>

text \<open>
  Sleeping takes at least its time, and no call goes back in time; a deployment that is there is found and can be
  patched; scaled to zero it stops within the wait; scaled to one it becomes ready within two minutes, once the time
  T of the outage's end is reached.
\<close>

definition recovers :: "'w suppl_lib \<Rightarrow> string \<Rightarrow> int \<Rightarrow> ('w \<Rightarrow> bool) \<Rightarrow> ('w \<Rightarrow> int) \<Rightarrow> int \<Rightarrow> bool" where
  "recovers l ns n ok time T =
     ((\<forall>k w. ok w \<longrightarrow> (\<exists>w'. LibSleep l k w = (Ret (), w') \<and> ok w' \<and> time w + k \<le> time w')) \<and>
      (\<forall>w. ok w \<longrightarrow> (\<exists>dep w'. LibGetDeployment l ns BackupDaemon w = (Ret (Inr dep), w') \<and> ok w' \<and> time w \<le> time w')) \<and>
      (\<forall>b d w. ok w \<longrightarrow> (\<exists>p w'. LibPatch l b d w = (Ret (Inr p), w') \<and> ok w' \<and> time w \<le> time w' \<and>
         (dep_replicas d = 0 \<longrightarrow> (\<exists>w''. LibPollImmediate l 2 n (daemonStopped l ns) w' = (Ret None, w'') \<and> ok w'' \<and> time w' \<le> time w'')) \<and>
         (dep_replicas d = 1 \<longrightarrow> (\<exists>x w''. LibPollImmediate l 5 120 (daemonStarted l ns) w' = (Ret x, w'') \<and> ok w'' \<and> time w' \<le> time w'' \<and>
            (T \<le> time w' \<longrightarrow> x = None))))))"

text \<open>The law as rules on the state of the operator.\<close>

lemma recovers_sleep:
  assumes "recovers l ns n ok time T" "ok (SsWorld s)"
  obtains s' where "callS (LibSleep l k) s = (Ret (), s')" "ok (SsWorld s')" "time (SsWorld s) + k \<le> time (SsWorld s')"
proof -
  obtain w' where "LibSleep l k (SsWorld s) = (Ret (), w')" "ok w'" "time (SsWorld s) + k \<le> time w'"
    using assms unfolding recovers_def by meson
  then show ?thesis by (intro that [of "s\<lparr>SsWorld := w'\<rparr>"]) (simp_all add: callS_apply)
qed

lemma recovers_get:
  assumes "recovers l ns n ok time T" "ok (SsWorld s)"
  obtains dep s' where "callS (LibGetDeployment l ns BackupDaemon) s = (Ret (Inr dep), s')" "ok (SsWorld s')"
    "time (SsWorld s) \<le> time (SsWorld s')" "SsNamespace s' = SsNamespace s"
proof -
  obtain dep w' where "LibGetDeployment l ns BackupDaemon (SsWorld s) = (Ret (Inr dep), w')" "ok w'" "time (SsWorld s) \<le> time w'"
    using assms unfolding recovers_def by meson
  then show ?thesis by (intro that [of dep "s\<lparr>SsWorld := w'\<rparr>"]) (simp_all add: callS_apply)
qed

lemma recovers_down:
  assumes "recovers l ns n ok time T" "ok (SsWorld s)" "dep_replicas d = 0"
  obtains p s' s'' where "callS (LibPatch l b d) s = (Ret (Inr p), s')"
    "callS (LibPollImmediate l 2 n (daemonStopped l ns)) s' = (Ret None, s'')" "ok (SsWorld s'')" "time (SsWorld s) \<le> time (SsWorld s'')"
proof -
  obtain p w' where p: "LibPatch l b d (SsWorld s) = (Ret (Inr p), w')" "time (SsWorld s) \<le> time w'"
      "\<exists>w''. LibPollImmediate l 2 n (daemonStopped l ns) w' = (Ret None, w'') \<and> ok w'' \<and> time w' \<le> time w''"
    using assms unfolding recovers_def by meson
  then obtain w'' where "LibPollImmediate l 2 n (daemonStopped l ns) w' = (Ret None, w'')" "ok w''" "time w' \<le> time w''" by blast
  then show ?thesis using p by (intro that [of p "s\<lparr>SsWorld := w'\<rparr>" "s\<lparr>SsWorld := w''\<rparr>"]) (simp_all add: callS_apply)
qed

lemma recovers_up:
  assumes "recovers l ns n ok time T" "ok (SsWorld s)" "dep_replicas d = 1"
  obtains p s' x s'' where "callS (LibPatch l b d) s = (Ret (Inr p), s')"
    "callS (LibPollImmediate l 5 120 (daemonStarted l ns)) s' = (Ret x, s'')" "ok (SsWorld s'')" "time (SsWorld s) \<le> time (SsWorld s'')"
    "T \<le> time (SsWorld s) \<Longrightarrow> x = None"
proof -
  obtain p w' where p: "LibPatch l b d (SsWorld s) = (Ret (Inr p), w')" "time (SsWorld s) \<le> time w'"
      "\<exists>x w''. LibPollImmediate l 5 120 (daemonStarted l ns) w' = (Ret x, w'') \<and> ok w'' \<and> time w' \<le> time w'' \<and> (T \<le> time w' \<longrightarrow> x = None)"
    using assms unfolding recovers_def by meson
  then obtain x w'' where "LibPollImmediate l 5 120 (daemonStarted l ns) w' = (Ret x, w'')" "ok w''" "time w' \<le> time w''"
      "T \<le> time w' \<longrightarrow> x = None" by blast
  then show ?thesis using p by (intro that [of p "s\<lparr>SsWorld := w'\<rparr>" x "s\<lparr>SsWorld := w''\<rparr>"]) (simp_all add: callS_apply)
qed

section \<open>Attempts\<close>

text \<open>An attempt succeeds, or the outage was not over at the end of its delay.\<close>

lemma startAttempt_recovers:
  assumes "recovers l ns n ok time T" "ok (SsWorld s)"
  shows "\<exists>r s'. startAttempt l ns n k s = (Ret r, s') \<and> ok (SsWorld s') \<and>
     (r = Some None \<or> r = None \<and> time (SsWorld s) + attemptDelay k < T \<and> time (SsWorld s) + attemptDelay k \<le> time (SsWorld s'))"
proof -
  obtain t where t: "callS (LibSleep l (attemptDelay k)) s = (Ret (), t)" "ok (SsWorld t)"
      "time (SsWorld s) + attemptDelay k \<le> time (SsWorld t)"
    by (rule recovers_sleep [OF assms])
  obtain cur u where u: "callS (LibGetDeployment l ns BackupDaemon) t = (Ret (Inr cur), u)" "ok (SsWorld u)" "time (SsWorld t) \<le> time (SsWorld u)"
    by (rule recovers_get [OF assms(1) t(2)])
  let ?one = "(ds_object cur)\<lparr>dep_replicas := 1\<rparr>"
  obtain patched v x y where v: "callS (LibPatch l (ds_object cur) ?one) u = (Ret (Inr patched), v)"
      "callS (LibPollImmediate l 5 120 (daemonStarted l ns)) v = (Ret x, y)" "ok (SsWorld y)" "time (SsWorld u) \<le> time (SsWorld y)"
      "T \<le> time (SsWorld u) \<Longrightarrow> x = None"
    by (rule recovers_up [OF assms(1) u(2), of ?one "ds_object cur"]) auto
  let ?zero = "patched\<lparr>dep_replicas := 0\<rparr>"
  obtain p y' z where z: "callS (LibPatch l patched ?zero) y = (Ret (Inr p), y')"
      "callS (LibPollImmediate l 2 n (daemonStopped l ns)) y' = (Ret None, z)" "ok (SsWorld z)" "time (SsWorld y) \<le> time (SsWorld z)"
    by (rule recovers_down [OF assms(1) v(3), of ?zero patched]) auto
  show ?thesis
  proof (cases x)
    case None
    then show ?thesis using v(3) by (auto simp: startAttempt_def Let_def andthen_Ret t u v)
  next
    case (Some e)
    then have "time (SsWorld u) < T" using v(5) by force
    then have "time (SsWorld s) + attemptDelay k < T" using t(3) u(3) by linarith
    moreover have "\<exists>s'. startAttempt l ns n k s = (Ret None, s') \<and> ok (SsWorld s') \<and> time (SsWorld y) \<le> time (SsWorld s')"
      using Some v(3) z by (auto simp: startAttempt_def Let_def andthen_Ret t(1) u(1) v(1,2))
    ultimately show ?thesis using t(3) u(3) v(4) by (smt (verit))
  qed
qed

text \<open>The attempts together reach the end of an outage that is shorter than their delays.\<close>

lemma attempts_recover:
  assumes "recovers l ns n ok time T" "ok (SsWorld s)" "ks \<noteq> []"
  shows "\<exists>r s'. forRange ks (startAttempt l ns n) s = (Ret r, s') \<and>
     (r = Some None \<or> r = None \<and> time (SsWorld s) + sum_list (map attemptDelay ks) < T)"
  using assms(2,3)
proof (induction ks arbitrary: s)
  case (Cons k ks)
  obtain r s1 where a: "startAttempt l ns n k s = (Ret r, s1)" "ok (SsWorld s1)"
      "r = Some None \<or> r = None \<and> time (SsWorld s) + attemptDelay k < T \<and> time (SsWorld s) + attemptDelay k \<le> time (SsWorld s1)"
    using startAttempt_recovers [OF assms(1) Cons.prems(1), of k] by blast
  show ?case
  proof (cases "r = None \<and> ks \<noteq> []")
    case True
    then obtain r' s' where "forRange ks (startAttempt l ns n) s1 = (Ret r', s')"
        "r' = Some None \<or> r' = None \<and> time (SsWorld s1) + sum_list (map attemptDelay ks) < T"
      using Cons.IH [OF a(2)] by blast
    then show ?thesis using a True by (auto simp: andthen_Ret)
  next
    case False
    then show ?thesis using a by (auto simp: andthen_Ret)
  qed
qed simp

section \<open>Recovery\<close>

text \<open>C19: the restart of the backup daemon recovers from an outage: when the daemon can be started again at the latest 310
  seconds after the restart began, which is the sum of the delays of the five attempts, the restart reports success.\<close>

theorem restart_recovers:
  assumes "recovers l (SsNamespace s) n ok time T" "ok (SsWorld s)" "T \<le> time (SsWorld s) + 310"
  shows "\<exists>s'. backupRestart l n s = (Ret None, s')"
proof -
  obtain dep t where t: "callS (LibGetDeployment l (SsNamespace s) BackupDaemon) s = (Ret (Inr dep), t)" "ok (SsWorld t)"
      "time (SsWorld s) \<le> time (SsWorld t)"
    by (rule recovers_get [OF assms(1,2)])
  let ?zero = "(ds_object dep)\<lparr>dep_replicas := 0\<rparr>"
  obtain p u v where v: "callS (LibPatch l (ds_object dep) ?zero) t = (Ret (Inr p), u)"
      "callS (LibPollImmediate l 2 n (daemonStopped l (SsNamespace s))) u = (Ret None, v)" "ok (SsWorld v)" "time (SsWorld t) \<le> time (SsWorld v)"
    by (rule recovers_down [OF assms(1) t(2), of ?zero "ds_object dep"]) auto
  have "sum_list (map attemptDelay [1..<maxAttempts + 1]) = 310" unfolding attempts_range by (simp add: attemptDelay_def)
  then obtain s' where "forRange [1..<maxAttempts + 1] (startAttempt l (SsNamespace s) n) v = (Ret (Some None), s')"
    using attempts_recover [OF assms(1) v(3), of "[1..<maxAttempts + 1]"] assms(3) t(3) v(4) unfolding attempts_range by force
  then show ?thesis by (auto simp: backupRestart_def restartDaemon_def startDaemon_def Let_def andthen_Ret t(1) v(1,2))
qed

section \<open>Example\<close>

text \<open>A cluster on which the daemon can start again from second 100 on: the fourth attempt succeeds.\<close>

definition latePatch :: "app_deployment \<Rightarrow> app_deployment \<Rightarrow> (kcluster, goerror + app_deployment) op" where
  "latePatch base d =
     andthen getState (\<lambda>w.
     (let k = dep_replicas d; ready = (if 100 \<le> KcClock w then k else 0) in
      andthen (modifyState (\<lambda>w. w\<lparr>KcDeployment :=
        Some \<lparr>ds_object = d, ds_generation = 1, ds_observed_generation = 1, ds_replicas = k, ds_updated_replicas = k,
              ds_available_replicas = ready, ds_ready_replicas = ready\<rparr>\<rparr>)) (\<lambda>_. ret (Inr d))))"

definition lateLib :: "kcluster suppl_lib" where
  "lateLib = exampleLib\<lparr>LibPatch := latePatch\<rparr>"

lemma lateLib_recovers: "recovers lateLib ns n (\<lambda>w. KcDeployment w \<noteq> None) KcClock 100"
proof -
  have stop: "\<exists>w''. poll_tries 2 (daemonStopped lateLib ns) w = (Ret None, w'') \<and> KcDeployment w'' \<noteq> None \<and> KcClock w \<le> KcClock w''"
    if "KcDeployment w = Some d" "ds_replicas d = 0" for w d
    using that by (simp add: numeral_2_eq_2 daemonStopped_def lateLib_def clusterGet_def op_simps)
  have start: "\<exists>x w''. poll_tries 2 (daemonStarted lateLib ns) w = (Ret x, w'') \<and> KcDeployment w'' \<noteq> None \<and> KcClock w \<le> KcClock w'' \<and>
      (100 \<le> KcClock w \<longrightarrow> x = None)"
    if "KcDeployment w = Some d" "100 \<le> KcClock w \<Longrightarrow> 1 \<le> ds_available_replicas d \<and> 1 \<le> ds_ready_replicas d" for w d
    using that by (cases "1 \<le> ds_available_replicas d \<and> 1 \<le> ds_ready_replicas d")
      (auto simp: numeral_2_eq_2 daemonStarted_def lateLib_def clusterGet_def op_simps)
  show ?thesis
    unfolding recovers_def
  proof (intro conjI allI impI)
    fix b d :: app_deployment and w :: kcluster
    let ?ready = "if 100 \<le> KcClock w then dep_replicas d else 0"
    let ?dep = "\<lparr>ds_object = d, ds_generation = 1, ds_observed_generation = 1, ds_replicas = dep_replicas d,
        ds_updated_replicas = dep_replicas d, ds_available_replicas = ?ready, ds_ready_replicas = ?ready\<rparr>"
    let ?w = "w\<lparr>KcDeployment := Some ?dep\<rparr>"
    have patch: "LibPatch lateLib b d w = (Ret (Inr d), ?w)" by (simp add: lateLib_def latePatch_def op_simps Let_def)
    have poll: "LibPollImmediate lateLib i t = poll_tries 2" for i t by (simp add: lateLib_def)
    show "\<exists>p w'. LibPatch lateLib b d w = (Ret (Inr p), w') \<and> KcDeployment w' \<noteq> None \<and> KcClock w \<le> KcClock w' \<and>
      (dep_replicas d = 0 \<longrightarrow> (\<exists>w''. LibPollImmediate lateLib 2 n (daemonStopped lateLib ns) w' = (Ret None, w'') \<and>
         KcDeployment w'' \<noteq> None \<and> KcClock w' \<le> KcClock w'')) \<and>
      (dep_replicas d = 1 \<longrightarrow> (\<exists>x w''. LibPollImmediate lateLib 5 120 (daemonStarted lateLib ns) w' = (Ret x, w'') \<and>
         KcDeployment w'' \<noteq> None \<and> KcClock w' \<le> KcClock w'' \<and> (100 \<le> KcClock w' \<longrightarrow> x = None)))"
      unfolding poll
    proof (rule exI [of _ d], rule exI [of _ ?w], intro conjI impI)
      assume "dep_replicas d = 0"
      then show "\<exists>w''. poll_tries 2 (daemonStopped lateLib ns) ?w = (Ret None, w'') \<and> KcDeployment w'' \<noteq> None \<and> KcClock ?w \<le> KcClock w''"
        by (intro stop [of _ ?dep]) simp_all
    next
      assume "dep_replicas d = 1"
      then show "\<exists>x w''. poll_tries 2 (daemonStarted lateLib ns) ?w = (Ret x, w'') \<and> KcDeployment w'' \<noteq> None \<and> KcClock ?w \<le> KcClock w'' \<and>
          (100 \<le> KcClock ?w \<longrightarrow> x = None)"
        by (intro start [of _ ?dep]) simp_all
    qed (simp_all add: patch)
  qed (auto simp: lateLib_def op_simps clusterGet_def)
qed

lemma restart_recovers_witness: "\<exists>s'. backupRestart lateLib 60 (stateWithDaemon True) = (Ret None, s')"
  by (rule restart_recovers [OF lateLib_recovers]) (simp_all add: stateWithDaemon_def exampleState_def)

end
