(* ===== verification/Switch.thy ===== *)
theory Switch
  imports Builders WitnessEnv
begin

text \<open>
  The conditions of the steps (\<^verbatim>\<open>src/operator/pkg/dr\<close>, \<^verbatim>\<open>src/operator/pkg/mongodb\<close>) that the component theories do not
  need, and the composition of a switch: the steps \<^verbatim>\<open>DRBuilder\<close> builds, each with its own condition, give the steps that
  are executed in each mode.
\<close>

section \<open>Conditions and validations of steps\<close>

definition CreateCNF_Condition :: "('w, bool with_err) hop" where
  "CreateCNF_Condition = andthen getSpec (\<lambda>spec. ret (SchemaSharded (SchemaSettings spec), None))"

definition CreateMongosService_Condition :: "('w, bool with_err) hop" where
  "CreateMongosService_Condition = andthen getSpec (\<lambda>spec. ret (SchemaSharded (SchemaSettings spec), None))"

definition CreateHAMongos_Condition :: "('w, bool with_err) hop" where
  "CreateHAMongos_Condition = andthen getSpec (\<lambda>spec. ret (SchemaSharded (SchemaSettings spec), None))"

definition RestartConfigRS_Condition :: "('w, bool with_err) hop" where
  "RestartConfigRS_Condition = andthen getSpec (\<lambda>spec. ret (SchemaSharded (SchemaSettings spec), None))"

definition RestartDATARS_Condition :: "('w, bool with_err) hop" where
  "RestartDATARS_Condition = andthen getSpec (\<lambda>spec. ret (SchemaSharded (SchemaSettings spec), None))"

definition ScaleCNFRS_Condition :: "('w, bool with_err) hop" where
  "ScaleCNFRS_Condition = andthen getSpec (\<lambda>spec. ret (SchemaSharded (SchemaSettings spec), None))"

definition ScaleDATARS_Condition :: "('w, bool with_err) hop" where
  "ScaleDATARS_Condition = andthen getSpec (\<lambda>spec. ret (SchemaSharded (SchemaSettings spec), None))"

definition ScaleMongos_Condition :: "('w, bool with_err) hop" where
  "ScaleMongos_Condition = andthen getSpec (\<lambda>spec. ret (SchemaSharded (SchemaSettings spec), None))"

definition UpdateConfigRSInDATARS_Condition :: "('w, bool with_err) hop" where
  "UpdateConfigRSInDATARS_Condition =
     andthen getSpec (\<lambda>spec. ret (drMode spec = ActiveMode \<and> SchemaSharded (SchemaSettings spec), None))"

definition AddUser_Condition :: "('w, bool with_err) hop option \<Rightarrow> ('w, bool with_err) hop" where
  "AddUser_Condition customCondition =
     (case customCondition of
        Some condition \<Rightarrow> condition
      | None \<Rightarrow> andthen getSpec (\<lambda>spec. ret (drMode spec = ActiveMode, None)))"

definition UpdateDataOplog_Execute :: "nat list \<Rightarrow> 'w helper \<Rightarrow> oplog_step \<Rightarrow> ('w, goerror option) hop" where
  "UpdateDataOplog_Execute order r u =
     andthen getSpec (\<lambda>spec.
     (let sch = SchemaSettings spec in
      andthen (GetClusterStatus order r (drMode spec) (ThisDomainName sch) (CnfReplicaSize sch) (DataReplicaSize sch) (ShardCount sch)
          (SchemaSharded sch)) (\<lambda>(st, err). case err of
        Some e \<Rightarrow> ret (Some e)
      | None \<Rightarrow> if st \<noteq> Up then ret (Some (GoError ''cluster is down''))
                else UpdateOplogSize r (DesiredMB u) (OplogReport u))))"

definition MongoDRCompound_Condition :: "('w, bool with_err) hop" where
  "MongoDRCompound_Condition = ret (True, None)"

definition MongoDRCompound_Validate :: "('w, goerror option) hop" where
  "MongoDRCompound_Validate = ret None"

text \<open>\<^verbatim>\<open>validate\<close> is the validation of the steps by the core library; the address of a field is never nil.\<close>

definition MongoDB_Validate :: "bool \<Rightarrow> ('w, goerror option) hop \<Rightarrow> ('w, goerror option) hop" where
  "MongoDB_Validate specIsNil validate =
     (if specIsNil then ret (Some (ExecutionError ''MongoService CR spec is not found'')) else validate)"

section \<open>The steps of a switch that are executed\<close>

text \<open>The condition of a step of a switch; the other steps have the condition of the core library's \<^verbatim>\<open>DefaultExecutable\<close>.\<close>

fun switchCondition :: "('w, bool with_err) hop \<Rightarrow> step \<Rightarrow> ('w, bool with_err) hop" where
  "switchCondition base (ScaleMongosStep n) = ScaleMongos_Condition"
| "switchCondition base (ScaleCNFRSStep n) = ScaleCNFRS_Condition"
| "switchCondition base (ScaleDATARSStep n) = ScaleDATARS_Condition"
| "switchCondition base (WaitExpectedClusterStatusStep expected bypass) = WaitExpectedClusterStatus_Condition"
| "switchCondition base ReconfigureCnfrsStep = ReconfigureCnfrs_Condition"
| "switchCondition base ReconfigureDataRSStep = ReconfigureDataRS_Condition"
| "switchCondition base UpdateShardsStep = activeShardedCondition"
| "switchCondition base RestartConfigRSStep = RestartConfigRS_Condition"
| "switchCondition base (WaitReplicationLagStep n) = WaitReplicationLag_Condition"
| "switchCondition base s = base"

definition holdsIn :: "'w hstate \<Rightarrow> ('w, bool with_err) hop \<Rightarrow> bool" where
  "holdsIn s condition = (case fst (condition s) of Ret (b, None) \<Rightarrow> b | _ \<Rightarrow> False)"

definition switchSteps :: "('w, bool with_err) hop \<Rightarrow> 'w hstate \<Rightarrow> step list" where
  "switchSteps base s = filter (\<lambda>st. holdsIn s (switchCondition base st)) (DRBuild (specOf s))"

lemma holdsIn_conditions [simp]:
  "holdsIn s (andthen getSpec (\<lambda>spec. ret (p spec, None))) = p (specOf s)"
  "holdsIn s (andthen getCtx (\<lambda>ctx. ret (q ctx, None))) = q (Ctx s)" "holdsIn s (ret (b, None)) = b"
  by (simp_all add: holdsIn_def andthen_apply getSpec_def getCtx_def ret_apply)

lemmas switch_conditions = ScaleMongos_Condition_def ScaleCNFRS_Condition_def ScaleDATARS_Condition_def
  WaitExpectedClusterStatus_Condition_def ReconfigureCnfrs_Condition_def ReconfigureDataRS_Condition_def activeShardedCondition_def
  RestartConfigRS_Condition_def WaitReplicationLag_Condition_def

text \<open>The documented sequences: replica sets are reconfigured before anything is scaled, and the switch ends with the waits.\<close>

definition reconfigureSteps :: "bool \<Rightarrow> step list" where
  "reconfigureSteps sharded = (if sharded then [ReconfigureCnfrsStep] else []) @ [ReconfigureDataRSStep]"

definition serviceSteps :: "bool \<Rightarrow> int \<Rightarrow> int \<Rightarrow> step list" where
  "serviceSteps sharded mongos services =
     (if sharded then [ScaleMongosStep mongos] else []) @ [ScaleBackupDaemonStep services, ScaleDbaasAdapterStep services]"

definition documentedSwitch :: "deployment_spec \<Rightarrow> step list" where
  "documentedSwitch spec =
     (let sharded = SchemaSharded (SchemaSettings spec) in
      if drMode spec = ActiveMode
      then (if NoWait (DisasterRecovery spec) then [] else [WaitExpectedClusterStatusStep Up True]) @ reconfigureSteps sharded @
        (if sharded then [UpdateShardsStep, RestartConfigRSStep] else []) @ serviceSteps sharded (MongosReplicas (SchemaSettings spec)) 1 @
        [UpdatePrometheusExporterStep True, WaitReplicationLagStep 30, WaitExpectedClusterStatusStep Up False]
      else reconfigureSteps sharded @ serviceSteps sharded 0 0 @
        [UpdatePrometheusExporterStep False, WaitExpectedClusterStatusStep Up False])"

text \<open>C11: a switch of an installed cluster executes the documented sequence: to active, the health of the cluster is awaited first
  unless that is switched off, the replica sets are reconfigured, the shards updated and the config servers restarted, mongos and the
  services are scaled up, and the lag and the health are awaited; to standby, the replica sets are reconfigured, mongos and the
  services are scaled to zero and the health is awaited; without sharding the steps of config servers and mongos are left out.\<close>

theorem switch_as_documented:
  assumes "SchemaType (schemaOf s) = DR" "drMode (specOf s) \<in> {ActiveMode, StandbyMode}"
    "CtxDeployType (Ctx s) \<noteq> CleanDeploy" "\<exists>t. CtxMongoDeployType (Ctx s) = Some t \<and> t \<noteq> CleanDeploy"
  shows "switchSteps (ret (True, None)) s = documentedSwitch (specOf s)"
proof -
  have modes: "ActiveMode \<noteq> DisableMode" "StandbyMode \<noteq> DisableMode" "StandbyMode \<noteq> ActiveMode" by code_simp+
  then show ?thesis using assms
    by (auto simp: switchSteps_def DRBuild_def documentedSwitch_def reconfigureSteps_def serviceSteps_def switch_conditions
        notCleanStandby_def notCleanMongo_def Let_def)
qed

section \<open>Example\<close>

definition switchState :: "string \<Rightarrow> bool \<Rightarrow> unit hstate" where
  "switchState mode sharded =
     (baseState ())\<lparr>Ctx := baseCtx\<lparr>CtxSpec := baseSpec\<lparr>DisasterRecovery := (DisasterRecovery baseSpec)\<lparr>Mode := mode\<rparr>,
       SchemaSettings := (SchemaSettings baseSpec)\<lparr>SchemaType := DR, SchemaSharded := sharded\<rparr>\<rparr>,
       CtxDeployType := UpdateDeploy, CtxMongoDeployType := Some UpdateDeploy\<rparr>\<rparr>"

lemma switch_as_documented_witness:
  "switchSteps (ret (True, None)) (switchState StandbyMode False) =
     [ReconfigureDataRSStep, ScaleBackupDaemonStep 0, ScaleDbaasAdapterStep 0, UpdatePrometheusExporterStep False,
      WaitExpectedClusterStatusStep Up False]"
proof -
  have "switchSteps (ret (True, None)) (switchState StandbyMode False) = documentedSwitch (specOf (switchState StandbyMode False))"
    by (rule switch_as_documented) (simp_all add: switchState_def)
  also have "\<dots> = [ReconfigureDataRSStep, ScaleBackupDaemonStep 0, ScaleDbaasAdapterStep 0, UpdatePrometheusExporterStep False,
      WaitExpectedClusterStatusStep Up False]" by code_simp
  finally show ?thesis .
qed

end
