(* ===== verification/Installation.thy ===== *)
theory Installation
  imports Switch
begin

text \<open>
  The composition of an installation (\<^verbatim>\<open>src/operator/pkg/mongodb/mongodb.go\<close>): the steps of the MongoDB compound in the order
  they are built, each with its own condition, give the steps that are executed on a clean installation of the active and of
  the standby site.
\<close>

section \<open>Steps and their conditions\<close>

text \<open>The steps of nested compounds in order; the cleanup has a condition of its own for all its steps and stays one step.\<close>

fun leavesOf :: "step \<Rightarrow> step list" where
  "leavesOf (Compound steps) = concat (map leavesOf steps)"
| "leavesOf (MongoDBCompound steps) = concat (map leavesOf steps)"
| "leavesOf s = [s]"

text \<open>The condition of a step of the compound; \<^verbatim>\<open>base\<close> is that of the steps without one here (the core library's and the cleanup).\<close>

fun installCondition :: "'w helper \<Rightarrow> oplog_step \<Rightarrow> (step \<Rightarrow> ('w, bool with_err) hop) \<Rightarrow> step \<Rightarrow> ('w, bool with_err) hop" where
  "installCondition r u base CreateCNFServiceStep = shardedCondition"
| "installCondition r u base CreateCNFStep = CreateCNF_Condition"
| "installCondition r u base InitCNFStep = InitCNF_Condition"
| "installCondition r u base UpdateCnfOplogStep = andthen (UpdateCnfOplog_Condition r u) (\<lambda>(x, u). ret x)"
| "installCondition r u base InitDataStep = InitData_Condition"
| "installCondition r u base UpdateDataOplogStep = andthen (UpdateDataOplog_Condition r u) (\<lambda>(x, u). ret x)"
| "installCondition r u base CreateMongosServiceStep = CreateMongosService_Condition"
| "installCondition r u base CreateHAMongosStep = CreateHAMongos_Condition"
| "installCondition r u base ShardsRegistrationStep = ShardsRegistration_Condition"
| "installCondition r u base (AddUserStep user sharded) = AddUser_Condition (Some rootUserCondition)"
| "installCondition r u base SetdefaultWriteConcernStep = SetdefaultWriteConcern_Condition"
| "installCondition r u base SetFeatureCompatibilityVersionStep = activeCondition"
| "installCondition r u base RenameMemberDomainStep = RenameMemberDomain_Condition"
| "installCondition r u base AddCNFReplicasStep = AddCNFReplicas_Condition"
| "installCondition r u base AddDATAReplicasStep = AddDATAReplicas_Condition"
| "installCondition r u base s = base s"

definition installSteps ::
  "'w helper \<Rightarrow> oplog_step \<Rightarrow> (step \<Rightarrow> ('w, bool with_err) hop) \<Rightarrow> secret \<Rightarrow> 'w hstate \<Rightarrow> step list" where
  "installSteps r u base creds s =
     filter (\<lambda>st. holdsIn s (installCondition r u base st)) (concat (map leavesOf (mongoDBSteps (specOf s) creds)))"

text \<open>The steps that change the database, and those that change the credentials of the commands.\<close>

fun changesDatabase :: "step \<Rightarrow> bool" where
  "changesDatabase InitCNFStep = True"
| "changesDatabase UpdateCnfOplogStep = True"
| "changesDatabase InitDataStep = True"
| "changesDatabase UpdateDataOplogStep = True"
| "changesDatabase ShardsRegistrationStep = True"
| "changesDatabase (AddUserStep user sharded) = True"
| "changesDatabase SetdefaultWriteConcernStep = True"
| "changesDatabase SetFeatureCompatibilityVersionStep = True"
| "changesDatabase RenameMemberDomainStep = True"
| "changesDatabase AddCNFReplicasStep = True"
| "changesDatabase AddDATAReplicasStep = True"
| "changesDatabase s = False"

fun changesCredentials :: "step \<Rightarrow> bool" where
  "changesCredentials (UpdateContextAuthMongoStep user password) = True"
| "changesCredentials s = False"

lemmas install_conditions = shardedCondition_def CreateCNF_Condition_def InitCNF_Condition_def InitData_Condition_def
  CreateMongosService_Condition_def CreateHAMongos_Condition_def ShardsRegistration_Condition_def AddUser_Condition_def
  rootUserCondition_def cleanActiveCondition_def SetdefaultWriteConcern_Condition_def activeCondition_def
  RenameMemberDomain_Condition_def AddCNFReplicas_Condition_def AddDATAReplicas_Condition_def

lemmas install_builds = CNFStepBuild_def DataStepBuild_def HAMongosStepBuild_def SingleMongosStepBuild_def cleanupCompound_def

text \<open>On a clean installation no oplog is resized.\<close>

lemma clean_oplog:
  assumes "CtxDeployType (Ctx s) = CleanDeploy"
  shows "\<not> holdsIn s (andthen (UpdateCnfOplog_Condition r u) (\<lambda>(x, u). ret x))"
    "\<not> holdsIn s (andthen (UpdateDataOplog_Condition r u) (\<lambda>(x, u). ret x))"
  using assms by (simp_all add: holdsIn_def UpdateCnfOplog_Condition_def UpdateDataOplog_Condition_def oplogCondition_def getCtx_def
      andthen_apply ret_apply Let_def)

section \<open>Installation of the two sites\<close>

text \<open>C10: on a clean installation of a standby site no step is executed that changes the database: the site creates its
  objects, but initiates no replica set, registers no shard, creates no user and sets no version or member.\<close>

theorem standby_site_passive:
  assumes "SchemaType (schemaOf s) = DR" "drMode (specOf s) = StandbyMode" "CtxDeployType (Ctx s) = CleanDeploy"
  shows "filter changesDatabase (installSteps r u base creds s) = []"
proof -
  have "StandbyMode \<noteq> ActiveMode" by code_simp
  then show ?thesis using assms clean_oplog [OF assms(3)]
    by (simp add: installSteps_def install_builds install_conditions Let_def)
qed

text \<open>C12: on a clean installation of an active site the replica sets are initiated, config servers first, before the shards are
  registered; only then is the root user created, its credentials are taken for the commands that follow, and the version is set
  and the members of the other site are added with them; without sharding the steps of config servers and shards are left out.\<close>

theorem active_install_order:
  assumes "SchemaType (schemaOf s) \<in> {HA, DR}" "drMode (specOf s) = ActiveMode" "CtxDeployType (Ctx s) = CleanDeploy"
    "\<And>user password. holdsIn s (base (UpdateContextAuthMongoStep user password))"
  shows "filter (\<lambda>st. changesDatabase st \<or> changesCredentials st) (installSteps r u base creds s) =
    (let user = \<lparr>StepUser = smap_get (sec_data creds) UsernameKey, StepPassword = smap_get (sec_data creds) PasswordKey,
       StepRole = smap_get (sec_data creds) RoleKey\<rparr> in
    (if SchemaSharded (schemaOf s) then [InitCNFStep, InitDataStep, ShardsRegistrationStep] else [InitDataStep]) @
    [AddUserStep user True, UpdateContextAuthMongoStep (StepUser user) (StepPassword user), SetFeatureCompatibilityVersionStep] @
    (if SchemaType (schemaOf s) = DR
     then (if ThisDomainName (schemaOf s) \<noteq> [] then [RenameMemberDomainStep] else []) @
       (if SchemaSharded (schemaOf s) then [AddCNFReplicasStep] else []) @ [AddDATAReplicasStep]
     else []))"
  using assms clean_oplog [OF assms(3)]
  by (auto simp: installSteps_def install_builds install_conditions Let_def)

section \<open>Example\<close>

definition installState :: "string \<Rightarrow> unit hstate" where
  "installState mode = (switchState mode True)\<lparr>Ctx := (Ctx (switchState mode True))\<lparr>CtxDeployType := CleanDeploy\<rparr>\<rparr>"

definition rootSecret :: secret where
  "rootSecret = \<lparr>sec_meta = plainMeta ''root'', sec_data = [(UsernameKey, ''root''), (PasswordKey, ''pw''), (RoleKey, ''root'')], sec_type = []\<rparr>"

definition noOplog :: oplog_step where
  "noOplog = \<lparr>DesiredMB = 0, NeedsResize = False, OplogReport = []\<rparr>"

abbreviation exampleInstall :: "string \<Rightarrow> step list" where
  "exampleInstall mode \<equiv> installSteps (baseHelper baseKube) noOplog (\<lambda>st. ret (True, None)) rootSecret (installState mode)"

lemma installState_simps [simp]:
  "SchemaType (schemaOf (installState mode)) = DR" "SchemaSharded (schemaOf (installState mode)) = True"
  "drMode (specOf (installState mode)) = mode" "CtxDeployType (Ctx (installState mode)) = CleanDeploy"
  "ThisDomainName (schemaOf (installState mode)) = ''cluster.local''"
  by (simp_all add: installState_def switchState_def baseSpec_def)

lemma standby_site_passive_witness:
  "filter changesDatabase (exampleInstall StandbyMode) = [] \<and> CreateCNFStep \<in> set (exampleInstall StandbyMode)"
proof (rule conjI)
  show "filter changesDatabase (exampleInstall StandbyMode) = []" by (rule standby_site_passive) simp_all
  show "CreateCNFStep \<in> set (exampleInstall StandbyMode)"
    by (simp add: installSteps_def install_builds install_conditions Let_def)
qed

lemma active_install_order_witness:
  "filter (\<lambda>st. changesDatabase st \<or> changesCredentials st) (exampleInstall ActiveMode) =
     [InitCNFStep, InitDataStep, ShardsRegistrationStep,
      AddUserStep \<lparr>StepUser = ''root'', StepPassword = ''pw'', StepRole = ''root''\<rparr> True, UpdateContextAuthMongoStep ''root'' ''pw'',
      SetFeatureCompatibilityVersionStep, RenameMemberDomainStep, AddCNFReplicasStep, AddDATAReplicasStep]"
proof -
  have "smap_get (sec_data rootSecret) UsernameKey = ''root''" "smap_get (sec_data rootSecret) PasswordKey = ''pw''"
      "smap_get (sec_data rootSecret) RoleKey = ''root''" by code_simp+
  then show ?thesis
    using active_install_order [of "installState ActiveMode" "\<lambda>st. ret (True, None)" "baseHelper baseKube" noOplog rootSecret]
    by (simp add: Let_def)
qed

end
