(* ===== verification/Processes.thy ===== *)
theory Processes
  imports Controllers Builders
begin

text \<open>
  The processes of the two operators (\<^verbatim>\<open>src/operator/main.go\<close>, \<^verbatim>\<open>src/services/service/main.go\<close>) and what their controllers
  give to the reconciliation of the core library (the interface \<^verbatim>\<open>core.CommonReconciler\<close> and the builders).

  The controller runtime is a record of parameters: making a manager, registering a controller, adding the checks and
  running it.  A process is an operation that ends with its exit code.
\<close>

section \<open>Parameters\<close>

text \<open>Command line flags: None when a flag is not given.\<close>

record flags =
  HealthProbeBindAddress :: "string option"
  LeaderElect :: "bool option"

record manager_options =
  MoProbeAddress :: string
  MoMetricsAddress :: "string option"
  MoLeaderElection :: bool
  MoLeaderElectionID :: string
  MoDefaultNamespaces :: "string list"

text \<open>What a controller is registered with: the kind of its resource, the filter of its updates, and the core library's
  reconciliation with the builders it is given.\<close>

datatype reconciler_builder = MongoServiceBuilder | PreDeployBuilder | DRBuilder | SupplMongoServiceBuilder

record core_reconciler =
  CrBuilder :: reconciler_builder
  CrPredeployBuilder :: "reconciler_builder option"
  CrDRBuilder :: "reconciler_builder option"

record controller_setup =
  CtlKind :: string
  CtlUpdateFilter :: "int \<Rightarrow> int \<Rightarrow> bool"
  CtlReconciler :: core_reconciler

text \<open>\<^verbatim>\<open>GetConfigOrDie\<close> ends the process itself when there is no configuration.\<close>

record 'w runtime_lib =
  RtConfig :: "('w, goerror option) op"
  RtNewManager :: "manager_options \<Rightarrow> ('w, goerror option) op"
  RtComplete :: "controller_setup \<Rightarrow> ('w, goerror option) op"
  RtAddHealthzCheck :: "string \<Rightarrow> ('w, goerror option) op"
  RtAddReadyzCheck :: "string \<Rightarrow> ('w, goerror option) op"
  RtStart :: "('w, goerror option) op"

section \<open>Controllers\<close>

definition newReconciler :: core_reconciler where
  "newReconciler = \<lparr>CrBuilder = MongoServiceBuilder, CrPredeployBuilder = Some PreDeployBuilder, CrDRBuilder = Some DRBuilder\<rparr>"

definition supplNewReconciler :: core_reconciler where
  "supplNewReconciler = \<lparr>CrBuilder = SupplMongoServiceBuilder, CrPredeployBuilder = None, CrDRBuilder = None\<rparr>"

definition SetupWithManager :: "'w runtime_lib \<Rightarrow> ('w, goerror option) op" where
  "SetupWithManager rt =
     RtComplete rt \<lparr>CtlKind = ''MongodbDeployment'', CtlUpdateFilter = ignoreStatusUpdate, CtlReconciler = newReconciler\<rparr>"

definition supplSetupWithManager :: "'w runtime_lib \<Rightarrow> ('w, goerror option) op" where
  "supplSetupWithManager rt =
     RtComplete rt \<lparr>CtlKind = ''MongodbSupplService'', CtlUpdateFilter = ignoreStatusUpdate, CtlReconciler = supplNewReconciler\<rparr>"

text \<open>The operator's own reconciliation only passes the request on; the other operator's waits first (theory Controllers).\<close>

definition OperatorReconcile :: "(string \<Rightarrow> ('w, int with_err) op) \<Rightarrow> string \<Rightarrow> ('w, int with_err) op" where
  "OperatorReconcile Reconcile namespace = Reconcile namespace"

section \<open>What a reconciliation asks its controller\<close>

definition GetConfigMapName :: string where "GetConfigMapName = ''mongodb-last-applied-configuration-info''"
definition supplGetConfigMapName :: string where "supplGetConfigMapName = ''mongodb-services-last-applied-configuration-info''"

definition GetAdminSecretName :: "deployment_spec cr_instance \<Rightarrow> string" where
  "GetAdminSecretName i = MongoRootSecretNameField (MongoDB (InstSpec i))"

definition supplGetAdminSecretName :: "suppl_spec cr_instance \<Rightarrow> string" where
  "supplGetAdminSecretName i = SupRootSecret (InstSpec i)"

definition GetDeploymentVersion :: "deployment_spec cr_instance \<Rightarrow> string" where
  "GetDeploymentVersion i = DeploymentVersion (InstSpec i)"

definition supplGetDeploymentVersion :: "suppl_spec cr_instance \<Rightarrow> string" where
  "supplGetDeploymentVersion i = SupDeploymentVersion (InstSpec i)"

text \<open>The steps of a password change, None for none, and whether a whole reconciliation follows it.\<close>

definition supplUpdatePassword :: "suppl_step list option" where "supplUpdatePassword = None"
definition UpdatePassWithFullReconcile :: bool where "UpdatePassWithFullReconcile = False"
definition supplUpdatePassWithFullReconcile :: bool where "supplUpdatePassWithFullReconcile = True"

text \<open>The status of the supplementary resource, by the same operations.\<close>

definition supplUpdateStatus :: "service_condition \<Rightarrow> suppl_spec cr_instance \<Rightarrow> suppl_spec cr_instance" where
  "supplUpdateStatus condition i = i\<lparr>InstConditions := [condition]\<rparr>"

definition supplGetStatus :: "suppl_spec cr_instance \<Rightarrow> service_condition option" where
  "supplGetStatus i = (if length (InstConditions i) > 0 then Some (InstConditions i ! 0) else None)"

definition supplGetMessage :: "suppl_spec cr_instance \<Rightarrow> string" where
  "supplGetMessage i = (if length (InstConditions i) > 0 then CondMessage (InstConditions i ! 0) else [])"

section \<open>Processes\<close>

definition getWatchNamespace :: "(string \<Rightarrow> string option) \<Rightarrow> string with_err" where
  "getWatchNamespace env =
     (case env ''NAMESPACE'' of
        None \<Rightarrow> ([], Some (GoError (Sprintf ''%s must be set'' [Str ''NAMESPACE''])))
      | Some ns \<Rightarrow> (ns, None))"

definition probeAddr :: "flags \<Rightarrow> string" where
  "probeAddr fl = (case HealthProbeBindAddress fl of None \<Rightarrow> '':8081'' | Some a \<Rightarrow> a)"

definition enableLeaderElection :: "flags \<Rightarrow> bool" where
  "enableLeaderElection fl = (case LeaderElect fl of None \<Rightarrow> False | Some b \<Rightarrow> b)"

definition managerOptions :: "(string \<Rightarrow> string option) \<Rightarrow> flags \<Rightarrow> manager_options" where
  "managerOptions env fl =
     \<lparr>MoProbeAddress = probeAddr fl, MoMetricsAddress = Some '':8082'', MoLeaderElection = enableLeaderElection fl,
      MoLeaderElectionID = ''c3ffd743.netcracker.com'', MoDefaultNamespaces = [fst (getWatchNamespace env)]\<rparr>"

definition supplManagerOptions :: "(string \<Rightarrow> string option) \<Rightarrow> flags \<Rightarrow> manager_options" where
  "supplManagerOptions env fl =
     \<lparr>MoProbeAddress = probeAddr fl, MoMetricsAddress = None, MoLeaderElection = enableLeaderElection fl,
      MoLeaderElectionID = ''fde39fcf.netcracker.com'', MoDefaultNamespaces = [fst (getWatchNamespace env)]\<rparr>"

text \<open>A call of the runtime: an error ends the process with code 1.\<close>

definition orExit :: "('w, goerror option) op \<Rightarrow> ('w, int) op \<Rightarrow> ('w, int) op" where
  "orExit call rest = andthen call (\<lambda>err. if err \<noteq> None then ret 1 else rest)"

definition serveManager :: "'w runtime_lib \<Rightarrow> ('w, int) op" where
  "serveManager rt =
     orExit (RtAddHealthzCheck rt ''healthz'') (orExit (RtAddReadyzCheck rt ''readyz'') (orExit (RtStart rt) (ret 0)))"

definition operatorMain :: "'w runtime_lib \<Rightarrow> (string \<Rightarrow> string option) \<Rightarrow> flags \<Rightarrow> ('w, int) op" where
  "operatorMain rt env fl =
     orExit (RtConfig rt) (orExit (RtNewManager rt (managerOptions env fl)) (orExit (SetupWithManager rt) (serveManager rt)))"

definition supplMain :: "'w runtime_lib \<Rightarrow> (string \<Rightarrow> string option) \<Rightarrow> flags \<Rightarrow> ('w, int) op" where
  "supplMain rt env fl =
     orExit (RtConfig rt) (orExit (RtNewManager rt (supplManagerOptions env fl)) (orExit (supplSetupWithManager rt) (serveManager rt)))"

section \<open>The order of the calls\<close>

text \<open>A runtime that keeps its calls, and fails in those of a set.\<close>

datatype runtime_call =
    CallConfig
  | CallNewManager manager_options
  | CallComplete controller_setup
  | CallHealthz string
  | CallReadyz string
  | CallStart

definition traced :: "(runtime_call \<Rightarrow> bool) \<Rightarrow> runtime_call \<Rightarrow> (runtime_call list, goerror option) op" where
  "traced fails c = andthen (modifyState (\<lambda>t. t @ [c])) (\<lambda>_. ret (if fails c then Some (GoError []) else None))"

definition tracing :: "(runtime_call \<Rightarrow> bool) \<Rightarrow> runtime_call list runtime_lib" where
  "tracing fails =
     \<lparr>RtConfig = traced fails CallConfig, RtNewManager = (\<lambda>opts. traced fails (CallNewManager opts)),
      RtComplete = (\<lambda>setup. traced fails (CallComplete setup)), RtAddHealthzCheck = (\<lambda>name. traced fails (CallHealthz name)),
      RtAddReadyzCheck = (\<lambda>name. traced fails (CallReadyz name)), RtStart = traced fails CallStart\<rparr>"

text \<open>The elements up to the first that satisfies a predicate, that one included.\<close>

fun upToFirst :: "('a \<Rightarrow> bool) \<Rightarrow> 'a list \<Rightarrow> 'a list" where
  "upToFirst P [] = []"
| "upToFirst P (x # xs) = (if P x then [x] else x # upToFirst P xs)"

definition mainCalls :: "manager_options \<Rightarrow> controller_setup \<Rightarrow> runtime_call list" where
  "mainCalls opts setup = [CallConfig, CallNewManager opts, CallComplete setup, CallHealthz ''healthz'', CallReadyz ''readyz'', CallStart]"

lemma orExit_traced:
  assumes "\<And>t. rest t = (Ret (if list_ex fails cs then 1 else 0), t @ upToFirst fails cs)"
  shows "orExit (traced fails c) rest t = (Ret (if list_ex fails (c # cs) then 1 else 0), t @ upToFirst fails (c # cs))"
  by (simp add: orExit_def traced_def op_simps assms)

lemma ret_traced: "ret 0 t = (Ret (if list_ex fails [] then 1 else 0), t @ upToFirst fails [])"
  by (simp add: op_simps)

text \<open>Both processes make their manager for the namespace of their environment, register their controller, add both checks
  and run, in this order; the first call that fails ends the process with code 1, and it ends with 0 only when none does.\<close>

theorem mains_in_order:
  "operatorMain (tracing fails) env fl t =
     (let calls = mainCalls (managerOptions env fl) \<lparr>CtlKind = ''MongodbDeployment'', CtlUpdateFilter = ignoreStatusUpdate,
        CtlReconciler = newReconciler\<rparr> in
      (Ret (if list_ex fails calls then 1 else 0), t @ upToFirst fails calls)) \<and>
   supplMain (tracing fails) env fl t =
     (let calls = mainCalls (supplManagerOptions env fl) \<lparr>CtlKind = ''MongodbSupplService'', CtlUpdateFilter = ignoreStatusUpdate,
        CtlReconciler = supplNewReconciler\<rparr> in
      (Ret (if list_ex fails calls then 1 else 0), t @ upToFirst fails calls))"
  unfolding operatorMain_def supplMain_def serveManager_def SetupWithManager_def supplSetupWithManager_def mainCalls_def Let_def tracing_def
    runtime_lib.simps
  by (intro conjI orExit_traced ret_traced)

text \<open>The two processes share neither the lock of their leader nor the record of the last applied configuration.\<close>

lemma processes_separate:
  "MoLeaderElectionID (managerOptions env fl) \<noteq> MoLeaderElectionID (supplManagerOptions env' fl')" "GetConfigMapName \<noteq> supplGetConfigMapName"
  by (simp_all add: managerOptions_def supplManagerOptions_def GetConfigMapName_def supplGetConfigMapName_def)

text \<open>Without a namespace in the environment the manager watches all namespaces, whose name is empty.\<close>

lemma no_namespace_watches_all: "env ''NAMESPACE'' = None \<Longrightarrow> MoDefaultNamespaces (managerOptions env fl) = [[]]"
  by (simp add: managerOptions_def getWatchNamespace_def)

end
