(* ===== verification/SupplConsts.thy ===== *)
theory SupplConsts
  imports Consts
begin

text \<open>
  The constants of the supplementary operator (\<^verbatim>\<open>src/services/service/pkg/utils/const.go\<close>), a copy of the other operator's
  file in which some differ.  The definitions of the supplementary operator use the constants of theory Consts; the lemma
  shows for which they are the same.
\<close>

section \<open>Constants\<close>

definition supplContextMongoHost :: string where
  \<open>supplContextMongoHost = ''ContextMongoHost''\<close>

definition supplContextMongoService :: string where
  \<open>supplContextMongoService = ''ContextMongoService''\<close>

definition supplMongoDBDeploymentType :: string where
  \<open>supplMongoDBDeploymentType = ''MongoDBDeploymentType''\<close>

definition supplMaxReplicaSize :: string where
  \<open>supplMaxReplicaSize = ''maxOf_CNF_DATA_replicaSize''\<close>

definition supplMaxPVCCountForService :: string where
  \<open>supplMaxPVCCountForService = ''max_pvc_count''\<close>

definition supplPvcNames :: string where
  \<open>supplPvcNames = ''pvcNames''\<close>

definition supplPVNodes :: string where
  \<open>supplPVNodes = ''pvNodeNames''\<close>

definition supplBackupPvcNames :: string where
  \<open>supplBackupPvcNames = ''pvcBackupNames''\<close>

definition supplBackupPVNodes :: string where
  \<open>supplBackupPVNodes = ''pvBackupNodeNames''\<close>

definition supplContextCredsManager :: string where
  \<open>supplContextCredsManager = ''contextCredsManager''\<close>

definition supplArbiterIndexSelectorFunc :: string where
  \<open>supplArbiterIndexSelectorFunc = ''contextArbSelectorFunc''\<close>

definition supplMongoSecret :: string where
  \<open>supplMongoSecret = ''mongo-secret''\<close>

definition supplMongoSecretKeyFile :: string where
  \<open>supplMongoSecretKeyFile = ''mongodb-keyfile''\<close>

definition supplMongoRootCreds :: string where
  \<open>supplMongoRootCreds = ''mongodb-root-credentials.v1''\<close>

definition supplRootCert :: string where
  \<open>supplRootCert = ''root-ca''\<close>

definition supplRootCertPath :: string where
  \<open>supplRootCertPath = ''/usr/ssl/''\<close>

definition supplServerCertsPath :: string where
  \<open>supplServerCertsPath = ''/certs/''\<close>

definition supplKubernetesHelperImpl :: string where
  \<open>supplKubernetesHelperImpl = ''kubernetesHelperImpl''\<close>

definition supplMongoHelperImpl :: string where
  \<open>supplMongoHelperImpl = ''mongoHelperImpl''\<close>

definition supplKubeHostName :: string where
  \<open>supplKubeHostName = ''kubernetes.io/hostname''\<close>

definition supplServiceName :: string where
  \<open>supplServiceName = ''serviceName''\<close>

definition supplName :: string where
  \<open>supplName = ''name''\<close>

definition supplApp :: string where
  \<open>supplApp = ''app''\<close>

definition supplData :: string where
  \<open>supplData = ''data''\<close>

definition supplTmp :: string where
  \<open>supplTmp = ''tmp''\<close>

definition supplMongoCluster :: string where
  \<open>supplMongoCluster = ''mongo-cluster''\<close>

definition supplUsername :: string where
  \<open>supplUsername = ''username''\<close>

definition supplPassword :: string where
  \<open>supplPassword = ''password''\<close>

definition supplRole :: string where
  \<open>supplRole = ''role''\<close>

definition supplAuthDatabase :: string where
  \<open>supplAuthDatabase = ''auth-database''\<close>

definition supplContextPasswordKey :: string where
  \<open>supplContextPasswordKey = ''ctxPasswordKey''\<close>

definition supplBashCommand :: string where
  \<open>supplBashCommand = ''bash''\<close>

definition supplMicroservice :: string where
  \<open>supplMicroservice = ''microservice''\<close>

definition supplMongoPvcNameFormat :: string where
  \<open>supplMongoPvcNameFormat = ''pvc-%s-data''\<close>

definition supplBackupPvcNameFormat :: string where
  \<open>supplBackupPvcNameFormat = ''mongodb-backup-storage''\<close>

definition supplBackup :: string where
  \<open>supplBackup = ''backup''\<close>

definition supplCnfNameKey :: string where
  \<open>supplCnfNameKey = ''cnfrs''\<close>

definition supplCnfNameWithIndexFormat :: string where
  \<open>supplCnfNameWithIndexFormat = supplCnfNameKey @ ''%v''\<close>

definition supplDataNameKey :: string where
  \<open>supplDataNameKey = ''datars%v''\<close>

definition supplDataNameWithIndexesFormat :: string where
  \<open>supplDataNameWithIndexesFormat = supplDataNameKey @ ''%v''\<close>

definition supplMongoNode :: string where
  \<open>supplMongoNode = ''mongo-node''\<close>

definition supplStatefulSetPodNameTemplate :: string where
  \<open>supplStatefulSetPodNameTemplate = ''%s-0''\<close>

definition supplMongoDomainTemplate :: string where
  \<open>supplMongoDomainTemplate = ''%s.svc.cluster.local''\<close>

definition supplMongoCMD :: string where
  \<open>supplMongoCMD = ''%s %s --host=localhost --port=27017 --quiet''\<close>

definition supplMongoCMDAuthTemplate :: string where
  \<open>supplMongoCMDAuthTemplate = ''%s mongodb://%s:%s@localhost:27017/%s --quiet''\<close>

definition supplMongoCheckUserLogin :: string where
  \<open>supplMongoCheckUserLogin = ''%s mongodb://%s:%s@localhost:27017/%s --quiet --eval='quit()'' @ [CHR 0x27]\<close>

definition supplContextMongoCMD :: string where
  \<open>supplContextMongoCMD = ''contextMongoCmd''\<close>

definition supplPrimaryReplicaCommand :: string where
  \<open>supplPrimaryReplicaCommand = ''rs.status().members.find((v)=>v.state==1).name.split('.')[0]''\<close>

definition supplReplicaStateCommand :: string where
  \<open>supplReplicaStateCommand = ''rs.status().members.forEach(mem => print(mem.stateStr))''\<close>

definition supplFeatureCompatibilityVersionCommand :: string where
  \<open>supplFeatureCompatibilityVersionCommand = ''db.adminCommand({ getParameter: 1, featureCompatibilityVersion: 1 }).featureCompatibilityVersion.version''\<close>

definition supplMongos :: string where
  \<open>supplMongos = ''mongos''\<close>

definition supplMongosPrivate :: string where
  \<open>supplMongosPrivate = supplMongos @ ''-private''\<close>

definition supplRecyclerNameTemplate :: string where
  \<open>supplRecyclerNameTemplate = ''pv-recycler-pvc-%s''\<close>

definition supplRecyclerPod :: string where
  \<open>supplRecyclerPod = ''recycler-pod''\<close>

definition supplTriesCount :: string where
  \<open>supplTriesCount = ''triesCount''\<close>

definition supplRetryTimeoutSec :: string where
  \<open>supplRetryTimeoutSec = ''retryTimeout''\<close>

definition supplBackupDaemon :: string where
  \<open>supplBackupDaemon = ''mongodb-backup-daemon''\<close>

definition supplBackupStorage :: string where
  \<open>supplBackupStorage = ''backup-storage''\<close>

definition supplBackupConfigNodes :: string where
  \<open>supplBackupConfigNodes = ''backupConfigNodes''\<close>

definition supplBackupBackupCreds :: string where
  \<open>supplBackupBackupCreds = ''mongodb-backup-credentials.v1''\<close>

definition supplBackupRestoreCreds :: string where
  \<open>supplBackupRestoreCreds = ''mongodb-restore-credentials.v1''\<close>

definition supplBackupApiCreds :: string where
  \<open>supplBackupApiCreds = ''mongodb-backup-api-credentials.v1''\<close>

definition supplBackupMonitoringConfig :: string where
  \<open>supplBackupMonitoringConfig = supplBackupDaemon @ ''.monitoring-config''\<close>

definition supplServicesUsersContextList :: string where
  \<open>supplServicesUsersContextList = ''ctxServicesUsersList''\<close>

definition supplServicesRolesContextList :: string where
  \<open>supplServicesRolesContextList = ''ctxServicesRolesList''\<close>

definition supplDbaas :: string where
  \<open>supplDbaas = ''dbaas''\<close>

definition supplDbaasName :: string where
  \<open>supplDbaasName = ''dbaas-mongo-adapter''\<close>

definition supplDbaasMonitoringConfig :: string where
  \<open>supplDbaasMonitoringConfig = supplDbaasName @ ''.monitoring-config''\<close>

definition supplDbaasAdminCreds :: string where
  \<open>supplDbaasAdminCreds = ''mongo-dbaas-admin-credentials-secret.v1''\<close>

definition supplDbaasAggregatorCreds :: string where
  \<open>supplDbaasAggregatorCreds = ''dbaas-aggregator-credentials.v1''\<close>

definition supplDbaasRegistrationCreds :: string where
  \<open>supplDbaasRegistrationCreds = ''dbaas-aggregator-registration-credentials.v1''\<close>

definition supplDbaasAdminRoleCreds :: string where
  \<open>supplDbaasAdminRoleCreds = ''dbaas-streaming-role.v1''\<close>

definition supplMongoMonitoringAgent :: string where
  \<open>supplMongoMonitoringAgent = ''mongodb-monitoring-agent''\<close>

definition supplMonitoringCreds :: string where
  \<open>supplMonitoringCreds = ''mongodb-monitoring-credentials.v1''\<close>

definition supplMonitoringContextVar :: string where
  \<open>supplMonitoringContextVar = ''mongodb-monitoring-password''\<close>

definition supplMonitoringInfluxCreds :: string where
  \<open>supplMonitoringInfluxCreds = ''mongodb-monitoring-influx-credentials''\<close>

definition supplMongoMonitoringAgentSecret :: string where
  \<open>supplMongoMonitoringAgentSecret = supplMongoMonitoringAgent @ ''-secret''\<close>

definition supplMongoMonitoringAgentSecretMountPath :: string where
  \<open>supplMongoMonitoringAgentSecretMountPath = ''/etc/'' @ supplMongoMonitoringAgentSecret\<close>

definition supplMonitroingViewRoleBinding :: string where
  \<open>supplMonitroingViewRoleBinding = supplMongoMonitoringAgent @ ''-view-binding''\<close>

definition supplMonitoringIPTemplate :: string where
  \<open>supplMonitoringIPTemplate = ''monitoringApiTemplate''\<close>

definition supplMonitoringAgentAdditionalPrivilegesRoleName :: string where
  \<open>supplMonitoringAgentAdditionalPrivilegesRoleName = ''monitoringAgentAdditionalPrivileges''\<close>

definition supplMongoPrometheusExporter :: string where
  \<open>supplMongoPrometheusExporter = ''mongodb-prometheus-exporter''\<close>

definition supplPrometheusExporterCreds :: string where
  \<open>supplPrometheusExporterCreds = ''mongodb-prom-exporter-credentials.v1''\<close>

definition supplSchemaSettingsValidationHAandArbiter :: string where
  \<open>supplSchemaSettingsValidationHAandArbiter = ''Cnf Size & Data Size should be odd numbers. 3 or more''\<close>

definition supplSchemaSettingsValidationDR :: string where
  \<open>supplSchemaSettingsValidationDR = ''Cnf Size & Data Size should be even numbers''\<close>

definition supplSchemaSettingsValidationZeros :: string where
  \<open>supplSchemaSettingsValidationZeros = ''Cnf Size, Data Size and Shard Count should be set''\<close>

definition supplPolicies :: string where
  \<open>supplPolicies = ''policies''\<close>

definition supplIsAnyCommonParameterChanged :: string where
  \<open>supplIsAnyCommonParameterChanged = ''isAnyCommonParameterChanged''\<close>

definition supplRobot :: string where
  \<open>supplRobot = ''robot-tests''\<close>

definition supplRobotTestsFilesArgCheck :: string where
  \<open>supplRobotTestsFilesArgCheck = ''ls ./output | wc -l''\<close>

definition supplRobotTestsExpectedAnswer :: string where
  \<open>supplRobotTestsExpectedAnswer = ''3''\<close>

definition supplOperatorServiceName :: string where
  \<open>supplOperatorServiceName = ''mongodb-services''\<close>

definition supplCreateORUpdateUserPattern :: string where
  \<open>supplCreateORUpdateUserPattern = ''dbUsers = db.getSiblingDB('%[1]s').getUsers();'' @
     ''found = dbUsers.users?dbUsers.users.find((v)=>v.user=='%[2]s'):dbUsers.find((v)=>v.user=='%[2]s');'' @
     ''if (found) {'' @
     ''db.getSiblingDB('%[1]s').updateUser('%[2]s', {pwd: '%[3]s', roles: [%[4]s]})'' @
     ''} else {'' @
     ''db.getSiblingDB('%[1]s').createUser({user: '%[2]s', pwd: '%[3]s', roles: [%[4]s]});'' @
     ''}''\<close>

definition supplCreateORUpdateRolePattern :: string where
  \<open>supplCreateORUpdateRolePattern = ''dbRoles = db.getSiblingDB('%[1]s').getRoles();'' @
     ''found = dbRoles.roles?dbRoles.roles.find((v)=>v.role=='%[2]s'):dbRoles.find((v)=>v.role=='%[2]s');'' @
     ''if (found) {'' @
     ''db.getSiblingDB('%[1]s').updateRole('%[2]s', {privileges: [ %[3]s ], roles: [ %[4]s ]})'' @
     ''} else {'' @
     ''db.getSiblingDB('%[1]s').createRole({ role: '%[2]s', privileges: [ %[3]s ], roles: [ %[4]s ]});'' @
     ''}''\<close>

definition supplActiveMode :: string where
  \<open>supplActiveMode = ''active''\<close>

definition supplStandbyMode :: string where
  \<open>supplStandbyMode = ''standby''\<close>

definition supplDisableMode :: string where
  \<open>supplDisableMode = ''disable''\<close>

definition supplJsTemplate :: string where
  \<open>supplJsTemplate = ''var shouldBeHidden=function(member) { return [%s].indexOf(member.host) >= 0; };'' @
     ''var cfg = rs.config();'' @
     ''cfg.members = cfg.members.map(m => {'' @
     ''m.priority = shouldBeHidden(m) ? 0 : 1;'' @
     ''m.votes = shouldBeHidden(m) ? 0 : 1;'' @
     ''return m;'' @
     ''});'' @
     ''JSON.stringify(rs.reconfig(cfg, {force:true}, {writeConcern: {w:'majority'}}));''\<close>

definition supplJsCountReplicasWithState :: string where
  \<open>supplJsCountReplicasWithState = ''rs.status().members.filter(mem => [%s].includes(mem.name)).reduce((prev, current) => {if (current.stateStr == '%s') return prev+1; else return prev;}, 0);''\<close>

definition supplJsReplicasWithState :: string where
  \<open>supplJsReplicasWithState = ''rs.status().members.filter(mem => [%s].includes(mem.name)).map(x => x.stateStr)''\<close>

definition supplJsReplicasWithStateAndName :: string where
  \<open>supplJsReplicasWithStateAndName = ''rs.status().members.map(function(m) { return {'name':m.name, 'stateStr':m.stateStr} })''\<close>

definition supplShardHostsTemplate :: string where
  \<open>supplShardHostsTemplate = ''JSON.stringify(db.getSiblingDB('config').shards.updateOne( {'_id' : '%s'}, {'' @
     [CHR 0x5C] @
     ''$set:{ host: '%s/%s', state: 1}}))''\<close>

definition supplShardTemplate :: string where
  \<open>supplShardTemplate = ''adminDB=db.getSiblingDB('local');'' @
     ''adminDB.dropDatabase();'' @
     ''adminDB=db.getSiblingDB('admin');'' @
     ''adminDB.system.version.updateOne({'_id' : 'shardIdentity', 'shardName' : '%s'}, { '' @
     [CHR 0x5C] @
     ''$set: {configsvrConnectionString: 'cnfrs/%s'}}, {writeConcern: { w:1, j:true }});'' @
     ''adminDB.system.version.remove({'_id': 'minOpTimeRecovery'}, {writeConcern: { w:1, j:true }})''\<close>

definition supplVersionCmd :: string where
  \<open>supplVersionCmd = ''db.version()''\<close>

definition supplKeyFileURI :: string where
  \<open>supplKeyFileURI = ''keyfile''\<close>

definition supplHealthURI :: string where
  \<open>supplHealthURI = ''healthz''\<close>

definition supplRotateRolesURI :: string where
  \<open>supplRotateRolesURI = ''rotate-roles''\<close>

definition supplAddDRReplicasURI :: string where
  \<open>supplAddDRReplicasURI = ''add-dr-replicas''\<close>

definition supplFlushURI :: string where
  \<open>supplFlushURI = ''flush''\<close>

definition supplCompactURI :: string where
  \<open>supplCompactURI = ''compact''\<close>

definition supplRSStatusURI :: string where
  \<open>supplRSStatusURI = ''rs-status''\<close>

definition supplUp :: string where
  \<open>supplUp = ''up''\<close>

definition supplDown :: string where
  \<open>supplDown = ''down''\<close>

definition supplDegraded :: string where
  \<open>supplDegraded = ''degraded''\<close>

definition supplCharset :: string where
  \<open>supplCharset = ''abcdefghijklmnopqrstuvwxyz'' @ ''ABCDEFGHIJKLMNOPQRSTUVWXYZ0123456789''\<close>

definition supplMongoshBanner :: string where
  \<open>supplMongoshBanner = ''Warning: Could not access file: EACCES: permission denied, mkdir '/data/db/.mongodb'

Error: Could not open history file.
REPL session history will not be persisted.
 ''\<close>

section \<open>Agreement\<close>

text \<open>Constants of both files with the same value; all of the same name but the name of the service of the operator.\<close>

lemmas suppl_constants = supplMongoDBDeploymentType_def supplMaxReplicaSize_def supplMaxPVCCountForService_def supplPvcNames_def supplPVNodes_def
  supplBackupPvcNames_def supplBackupPVNodes_def supplArbiterIndexSelectorFunc_def supplMongoSecret_def supplMongoSecretKeyFile_def
  supplMongoRootCreds_def supplRootCert_def supplRootCertPath_def supplServerCertsPath_def supplKubernetesHelperImpl_def
  supplMongoHelperImpl_def supplKubeHostName_def supplServiceName_def supplName_def supplApp_def supplData_def supplTmp_def
  supplMongoCluster_def supplUsername_def supplPassword_def supplRole_def supplAuthDatabase_def supplContextPasswordKey_def
  supplBashCommand_def supplMicroservice_def supplMongoPvcNameFormat_def supplBackupPvcNameFormat_def supplBackup_def supplCnfNameKey_def
  supplCnfNameWithIndexFormat_def supplDataNameKey_def supplDataNameWithIndexesFormat_def supplMongoNode_def
  supplStatefulSetPodNameTemplate_def supplMongoDomainTemplate_def supplMongoCMD_def supplMongoCMDAuthTemplate_def
  supplMongoCheckUserLogin_def supplContextMongoCMD_def supplPrimaryReplicaCommand_def supplReplicaStateCommand_def
  supplFeatureCompatibilityVersionCommand_def supplMongos_def supplMongosPrivate_def supplRecyclerNameTemplate_def supplRecyclerPod_def
  supplTriesCount_def supplRetryTimeoutSec_def supplBackupDaemon_def supplBackupStorage_def supplBackupConfigNodes_def
  supplBackupBackupCreds_def supplBackupRestoreCreds_def supplBackupApiCreds_def supplBackupMonitoringConfig_def
  supplServicesUsersContextList_def supplServicesRolesContextList_def supplDbaas_def supplDbaasName_def supplDbaasMonitoringConfig_def
  supplDbaasAdminCreds_def supplDbaasAggregatorCreds_def supplDbaasRegistrationCreds_def supplDbaasAdminRoleCreds_def
  supplMongoMonitoringAgent_def supplMonitoringCreds_def supplMonitoringContextVar_def supplMonitoringInfluxCreds_def
  supplMongoMonitoringAgentSecret_def supplMongoMonitoringAgentSecretMountPath_def supplMonitroingViewRoleBinding_def
  supplMonitoringIPTemplate_def supplMonitoringAgentAdditionalPrivilegesRoleName_def supplMongoPrometheusExporter_def
  supplPrometheusExporterCreds_def supplSchemaSettingsValidationHAandArbiter_def supplSchemaSettingsValidationDR_def
  supplSchemaSettingsValidationZeros_def supplPolicies_def supplIsAnyCommonParameterChanged_def supplRobot_def
  supplRobotTestsFilesArgCheck_def supplRobotTestsExpectedAnswer_def supplCreateORUpdateUserPattern_def supplCreateORUpdateRolePattern_def
  supplActiveMode_def supplStandbyMode_def supplDisableMode_def supplJsTemplate_def supplJsCountReplicasWithState_def
  supplJsReplicasWithState_def supplJsReplicasWithStateAndName_def supplShardHostsTemplate_def supplShardTemplate_def supplVersionCmd_def
  supplKeyFileURI_def supplHealthURI_def supplRotateRolesURI_def supplAddDRReplicasURI_def supplFlushURI_def supplCompactURI_def
  supplRSStatusURI_def supplUp_def supplDown_def supplDegraded_def supplCharset_def

lemmas operator_constants = MongoDBDeploymentTypeKey_def MaxReplicaSizeKey_def MaxPVCCountForService_def PvcNamesKey_def PVNodesKey_def BackupPvcNamesKey_def
  BackupPVNodesKey_def ArbiterIndexSelectorFunc_def MongoSecret_def MongoSecretKeyFile_def MongoRootSecretName_def RootCert_def
  RootCertPath_def ServerCertsPath_def KubernetesHelperImplKey_def MongoHelperImplKey_def KubeHostName_def ServiceNameKey_def NameLabel_def
  AppLabel_def DataDir_def TmpDir_def MongoCluster_def UsernameKey_def PasswordKey_def RoleKey_def AuthDatabaseKey_def ContextPasswordKey_def
  BashCommand_def Microservice_def MongoPvcNameFormat_def BackupPvcNameFormat_def BackupKey_def CnfNameKey_def CnfNameWithIndexFormat_def
  DataNameKey_def DataNameWithIndexesFormat_def MongoNode_def StatefulSetPodNameTemplate_def MongoDomainTemplate_def MongoCMD_def
  MongoCMDAuthTemplate_def MongoCheckUserLogin_def ContextMongoCMD_def PrimaryReplicaCommand_def ReplicaStateCommand_def
  featureCompatibilityVersionCommand_def Mongos_def MongosPrivate_def RecyclerNameTemplate_def RecyclerPod_def TriesCount_def
  RetryTimeoutSec_def BackupDaemon_def BackupStorage_def BackupConfigNodes_def BackupSecretName_def RestoreUserSecretName_def
  BackupApiSecretName_def BackupMonitoringConfig_def ServicesUsersContextList_def ServicesRolesContextList_def DbaasKey_def DbaasName_def
  DbaasMonitoringConfig_def DbaasAdminSecretName_def DbaasAggregatorSecretName_def DbaasRegistrationSecretName_def
  DbaasAdminRoleSecretName_def MongoMonitoringAgent_def MonitoringSecretName_def MonitoringContextVar_def MonitoringInfluxCreds_def
  MongoMonitoringAgentSecret_def MongoMonitoringAgentSecretMountPath_def MonitroingViewRoleBinding_def MonitoringIPTemplate_def
  MonitoringAgentAdditionalPrivilegesRoleName_def MongoPrometheusExporter_def PrometheusExporterSecretName_def
  SchemaSettingsValidationHAandArbiter_def SchemaSettingsValidationDR_def SchemaSettingsValidationZeros_def PoliciesKey_def
  IsAnyCommonParameterChanged_def RobotKey_def RobotTestsFilesArgCheck_def RobotTestsExpectedAnswer_def CreateORUpdateUserPattern_def
  CreateORUpdateRolePattern_def ActiveMode_def StandbyMode_def DisableMode_def JsTemplate_def JsCountReplicasWithState_def
  JsReplicasWithState_def JsReplicasWithStateAndName_def shardHostsTemplate_def shardTemplate_def versionCmd_def KeyFileURI_def HealthURI_def
  RotateRolesURI_def AddDRReplicasURI_def FlushURI_def CompactURI_def RSStatusURI_def Up_def Down_def Degraded_def Charset_def

lemma constants_agree:
  "supplMongoDBDeploymentType = MongoDBDeploymentTypeKey"
  "supplMaxReplicaSize = MaxReplicaSizeKey"
  "supplMaxPVCCountForService = MaxPVCCountForService"
  "supplPvcNames = PvcNamesKey"
  "supplPVNodes = PVNodesKey"
  "supplBackupPvcNames = BackupPvcNamesKey"
  "supplBackupPVNodes = BackupPVNodesKey"
  "supplArbiterIndexSelectorFunc = ArbiterIndexSelectorFunc"
  "supplMongoSecret = MongoSecret"
  "supplMongoSecretKeyFile = MongoSecretKeyFile"
  "supplMongoRootCreds = MongoRootSecretName"
  "supplRootCert = RootCert"
  "supplRootCertPath = RootCertPath"
  "supplServerCertsPath = ServerCertsPath"
  "supplKubernetesHelperImpl = KubernetesHelperImplKey"
  "supplMongoHelperImpl = MongoHelperImplKey"
  "supplKubeHostName = KubeHostName"
  "supplServiceName = ServiceNameKey"
  "supplName = NameLabel"
  "supplApp = AppLabel"
  "supplData = DataDir"
  "supplTmp = TmpDir"
  "supplMongoCluster = MongoCluster"
  "supplUsername = UsernameKey"
  "supplPassword = PasswordKey"
  "supplRole = RoleKey"
  "supplAuthDatabase = AuthDatabaseKey"
  "supplContextPasswordKey = ContextPasswordKey"
  "supplBashCommand = BashCommand"
  "supplMicroservice = Microservice"
  "supplMongoPvcNameFormat = MongoPvcNameFormat"
  "supplBackupPvcNameFormat = BackupPvcNameFormat"
  "supplBackup = BackupKey"
  "supplCnfNameKey = CnfNameKey"
  "supplCnfNameWithIndexFormat = CnfNameWithIndexFormat"
  "supplDataNameKey = DataNameKey"
  "supplDataNameWithIndexesFormat = DataNameWithIndexesFormat"
  "supplMongoNode = MongoNode"
  "supplStatefulSetPodNameTemplate = StatefulSetPodNameTemplate"
  "supplMongoDomainTemplate = MongoDomainTemplate"
  "supplMongoCMD = MongoCMD"
  "supplMongoCMDAuthTemplate = MongoCMDAuthTemplate"
  "supplMongoCheckUserLogin = MongoCheckUserLogin"
  "supplContextMongoCMD = ContextMongoCMD"
  "supplPrimaryReplicaCommand = PrimaryReplicaCommand"
  "supplReplicaStateCommand = ReplicaStateCommand"
  "supplFeatureCompatibilityVersionCommand = featureCompatibilityVersionCommand"
  "supplMongos = Mongos"
  "supplMongosPrivate = MongosPrivate"
  "supplRecyclerNameTemplate = RecyclerNameTemplate"
  "supplRecyclerPod = RecyclerPod"
  "supplTriesCount = TriesCount"
  "supplRetryTimeoutSec = RetryTimeoutSec"
  "supplBackupDaemon = BackupDaemon"
  "supplBackupStorage = BackupStorage"
  "supplBackupConfigNodes = BackupConfigNodes"
  "supplBackupBackupCreds = BackupSecretName"
  "supplBackupRestoreCreds = RestoreUserSecretName"
  "supplBackupApiCreds = BackupApiSecretName"
  "supplBackupMonitoringConfig = BackupMonitoringConfig"
  "supplServicesUsersContextList = ServicesUsersContextList"
  "supplServicesRolesContextList = ServicesRolesContextList"
  "supplDbaas = DbaasKey"
  "supplDbaasName = DbaasName"
  "supplDbaasMonitoringConfig = DbaasMonitoringConfig"
  "supplDbaasAdminCreds = DbaasAdminSecretName"
  "supplDbaasAggregatorCreds = DbaasAggregatorSecretName"
  "supplDbaasRegistrationCreds = DbaasRegistrationSecretName"
  "supplDbaasAdminRoleCreds = DbaasAdminRoleSecretName"
  "supplMongoMonitoringAgent = MongoMonitoringAgent"
  "supplMonitoringCreds = MonitoringSecretName"
  "supplMonitoringContextVar = MonitoringContextVar"
  "supplMonitoringInfluxCreds = MonitoringInfluxCreds"
  "supplMongoMonitoringAgentSecret = MongoMonitoringAgentSecret"
  "supplMongoMonitoringAgentSecretMountPath = MongoMonitoringAgentSecretMountPath"
  "supplMonitroingViewRoleBinding = MonitroingViewRoleBinding"
  "supplMonitoringIPTemplate = MonitoringIPTemplate"
  "supplMonitoringAgentAdditionalPrivilegesRoleName = MonitoringAgentAdditionalPrivilegesRoleName"
  "supplMongoPrometheusExporter = MongoPrometheusExporter"
  "supplPrometheusExporterCreds = PrometheusExporterSecretName"
  "supplSchemaSettingsValidationHAandArbiter = SchemaSettingsValidationHAandArbiter"
  "supplSchemaSettingsValidationDR = SchemaSettingsValidationDR"
  "supplSchemaSettingsValidationZeros = SchemaSettingsValidationZeros"
  "supplPolicies = PoliciesKey"
  "supplIsAnyCommonParameterChanged = IsAnyCommonParameterChanged"
  "supplRobot = RobotKey"
  "supplRobotTestsFilesArgCheck = RobotTestsFilesArgCheck"
  "supplRobotTestsExpectedAnswer = RobotTestsExpectedAnswer"
  "supplCreateORUpdateUserPattern = CreateORUpdateUserPattern"
  "supplCreateORUpdateRolePattern = CreateORUpdateRolePattern"
  "supplActiveMode = ActiveMode"
  "supplStandbyMode = StandbyMode"
  "supplDisableMode = DisableMode"
  "supplJsTemplate = JsTemplate"
  "supplJsCountReplicasWithState = JsCountReplicasWithState"
  "supplJsReplicasWithState = JsReplicasWithState"
  "supplJsReplicasWithStateAndName = JsReplicasWithStateAndName"
  "supplShardHostsTemplate = shardHostsTemplate"
  "supplShardTemplate = shardTemplate"
  "supplVersionCmd = versionCmd"
  "supplKeyFileURI = KeyFileURI"
  "supplHealthURI = HealthURI"
  "supplRotateRolesURI = RotateRolesURI"
  "supplAddDRReplicasURI = AddDRReplicasURI"
  "supplFlushURI = FlushURI"
  "supplCompactURI = CompactURI"
  "supplRSStatusURI = RSStatusURI"
  "supplUp = Up"
  "supplDown = Down"
  "supplDegraded = Degraded"
  "supplCharset = Charset"
  unfolding suppl_constants operator_constants by (rule refl | simp)+

end
