(* ===== verification/Spec2Isabelle.thy ===== *)
theory Spec2Isabelle
  imports MongoStatus Builders FiberService DbaasInvariant AdapterStart SupplSwitch SupplRecovery Installation Processes SupplConsts
begin

text \<open>
  Verification library of the MongoDB operator (\<^verbatim>\<open>src/operator\<close>), of the operator of the supplementary services
  (\<^verbatim>\<open>src/services/service\<close>) and of the database adapter that one deploys (\<^verbatim>\<open>src/services/dbaas-adapter\<close>).

  \<^bold>\<open>The program.\<close>  The operator installs and operates a MongoDB cluster in Kubernetes: a config server replica
  set (\<^verbatim>\<open>cnfrs\<close>), a number of data shards (\<^verbatim>\<open>datars1\<close>, \<^verbatim>\<open>datars2\<close>, ...), each a replica set, and the mongos
  routers.  A custom resource describes the cluster.  A reconciliation builds a tree of steps, whose conditions
  and executions call the mongo helper; the helper runs mongo shell commands in pods and changes workloads
  through a Kubernetes helper of the operator core library.  In the disaster recovery schema two sites form one
  cluster: each has an operator, which asks the other's over HTTP for its status and key file, and a switch
  makes the members of one site hidden and those of the other electable.  The adapter serves the DBaaS
  aggregator: it creates and drops databases and users on the cluster, shards collections, and grants itself a
  role for the time of each such task.  The supplementary operator waits until the other operator has published a
  success, creates the users of the services in the database, and deploys the backup daemon, the adapter, the
  exporter and the tests, each with the environment and the secret files it reads; a switch of the sites scales
  and patches these deployments.

  \<^bold>\<open>Theories.\<close>
  \<^item> \<^theory_text>\<open>Prelude\<close>: operations (functions from a state to a value or a panic, and a state), the loops of the code with
    early return, and the collections of hints.  \<^theory_text>\<open>GoFmt\<close>, \<^theory_text>\<open>GoRegexp\<close>, \<^theory_text>\<open>Json\<close>: what the program uses of
    \<^verbatim>\<open>strconv\<close>, \<^verbatim>\<open>strings\<close>, \<^verbatim>\<open>fmt\<close>, \<^verbatim>\<open>regexp\<close> and \<^verbatim>\<open>encoding/json\<close>, with round trips and the soundness
    and completeness of the matcher.
  \<^item> \<^theory_text>\<open>Consts\<close>, \<^theory_text>\<open>Naming\<close>: \<^verbatim>\<open>pkg/utils/const.go\<close> and the names of hosts and objects (\<^verbatim>\<open>pkg/utils/utils.go\<close>).
    The locale \<^verbatim>\<open>replica_hosts\<close> is the contract of a family of host lists; config servers and shards provide it.
  \<^item> \<^theory_text>\<open>K8s\<close>, \<^theory_text>\<open>Env\<close>: the custom resource and the Kubernetes objects as records; the execution context, the mongo
    helper's state and the services, as a record of functions over a world of any type.
  \<^item> \<^theory_text>\<open>MongoExec\<close>, \<^theory_text>\<open>MongoStatus\<close>, \<^theory_text>\<open>MongoAdmin\<close>, \<^theory_text>\<open>MongoReconf\<close>, \<^theory_text>\<open>MongoMaint\<close>, \<^theory_text>\<open>MongoScale\<close>:
    \<^verbatim>\<open>pkg/utils/mongo_helper.go\<close>, in this order: running commands, health, users and initiation, membership and
    shard registration, oplog and compaction, restarts and scaling.
  \<^item> \<^theory_text>\<open>Distribution\<close>, \<^theory_text>\<open>ContainerArgs\<close>: the rest of \<^verbatim>\<open>pkg/utils/utils.go\<close>: placement of replicas on volumes, command
    lines of the containers, registries of users and roles.  \<^theory_text>\<open>Templates\<close>: \<^verbatim>\<open>pkg/utils/templates.go\<close>.
    \<^theory_text>\<open>HttpClient\<close>: \<^verbatim>\<open>pkg/utils/http_request.go\<close>.
  \<^item> \<^theory_text>\<open>MongoSteps\<close>, \<^theory_text>\<open>DRSteps\<close>: the steps of \<^verbatim>\<open>pkg/mongodb\<close> and \<^verbatim>\<open>pkg/dr\<close>, one definition for every Validate,
    Condition and Execute (\<^verbatim>\<open>CreateDataStep.Execute\<close> is \<^verbatim>\<open>CreateData_Execute\<close>).  \<^theory_text>\<open>Builders\<close>: \<^verbatim>\<open>pkg/mongo.go\<close> and
    \<^verbatim>\<open>pkg/mongodb/mongodb.go\<close>: which steps are built, the conditions of the compounds, the restart after a volume
    expansion.  \<^theory_text>\<open>Switch\<close>, \<^theory_text>\<open>Installation\<close>: the steps of a switch and of an
    installation that are executed, by the conditions of all their steps.
  \<^item> \<^theory_text>\<open>GoUrl\<close>: the escapes of \<^verbatim>\<open>net/url\<close>.  \<^theory_text>\<open>Fiber\<close>: requests and answers of the web framework, the part the
    code uses.  \<^theory_text>\<open>FiberService\<close>: the HTTP service of the operator (\<^verbatim>\<open>pkg/fiber\<close>) with its routes and handlers,
    and the one operator's client composed with the other's server.
  \<^item> \<^theory_text>\<open>Sharding\<close>, \<^theory_text>\<open>DbaasClient\<close>, \<^theory_text>\<open>DbaasMongo\<close>: the adapter's \<^verbatim>\<open>pkg/mongodbService.go\<close>: settings and shard keys,
    the clients it keeps, the operations on the cluster.  \<^theory_text>\<open>DbaasGrants\<close>: the brackets that grant a role, run a
    function and revoke the role; the locale \<^verbatim>\<open>role_bracket\<close> is their contract, interpreted for the role of a
    database and that of the cluster.  \<^theory_text>\<open>DbaasOps\<close>: what these operations promise.
  \<^item> \<^theory_text>\<open>AdapterUtils\<close>, \<^theory_text>\<open>DbaasAdmin\<close>, \<^theory_text>\<open>DbaasProps\<close>: \<^verbatim>\<open>pkg/utils.go\<close> and \<^verbatim>\<open>pkg/db_admin.go\<close>, one definition for every
    operation the aggregator calls, and their properties.  \<^theory_text>\<open>DbaasInvariant\<close>: the requests as steps of a relation
    on the adapter's state, and what holds in every reachable state.  \<^theory_text>\<open>DbaasMain\<close>: \<^verbatim>\<open>main.go\<close>, the configuration
    from environment variables and secret files, and what the process registers and serves.  \<^theory_text>\<open>DbaasServer\<close>: a small server for the examples.
  \<^item> \<^theory_text>\<open>Suppl\<close>, \<^theory_text>\<open>SupplUtils\<close>: the supplementary operator's custom resource (\<^verbatim>\<open>api/v1alpha1\<close>), its context and the
    library it calls, its \<^verbatim>\<open>pkg/utils\<close> and \<^verbatim>\<open>pkg/common\<close>.  \<^theory_text>\<open>SupplConsts\<close>: its constants, and that those it shares with the other operator agree.  \<^theory_text>\<open>SupplBackup\<close>, \<^theory_text>\<open>SupplDbaas\<close>, \<^theory_text>\<open>SupplExporter\<close>: builders,
    steps and deployments (\<^verbatim>\<open>pkg/backup\<close>, \<^verbatim>\<open>pkg/dbaas\<close>, \<^verbatim>\<open>pkg/prometheus_exporter\<close>, \<^verbatim>\<open>pkg/robotTests\<close>).
    \<^theory_text>\<open>Controllers\<close>: \<^verbatim>\<open>pkg/service.go\<close> and the controllers of both operators.
  \<^item> \<^theory_text>\<open>Processes\<close>: \<^verbatim>\<open>main.go\<close> of both operators, the registration of their controllers, and what a reconciliation asks them.
  \<^item> \<^theory_text>\<open>SupplRestart\<close>, \<^theory_text>\<open>SupplRecovery\<close>: the restart of the backup daemon, with a bound of its time, and its recovery.  \<^theory_text>\<open>SupplProps\<close>: users and waiting.
    \<^theory_text>\<open>SupplCross\<close>: what a container sees of its deployment, and the adapter's configuration in the deployment of the
    operator; \<^theory_text>\<open>AdapterStart\<close>: what it serves and registers there.  \<^theory_text>\<open>SupplSwitch\<close>: a switch against an installation.  \<^theory_text>\<open>SupplCluster\<close>: a small cluster for the examples.
  \<^item> \<^theory_text>\<open>WitnessEnv\<close>: concrete clusters (pods with canned or scripted answers) on which the examples run.

  \<^bold>\<open>State and effects.\<close>  The state of an operation has three parts: the command prefix of the helper
  (\<^verbatim>\<open>MongoUtilsHelperImpl.Cmd\<close>, which steps overwrite with credentials), the entries of the execution context the
  code sets and reads, and the world.  A Go error is a value of \<^verbatim>\<open>goerror\<close>; a function that returns a value and an
  error gives a pair, one whose value is meaningless with an error gives a sum.  A panic ends an operation and
  keeps the state it has reached.  Logging is left out.  The sections of the MongoDB operator's custom resource
  that are pointers (disaster recovery, resources of config servers, shards and mongos) are always set, as its chart
  does; those of the supplementary operator are optional, and reading a missing one panics.

  \<^bold>\<open>What the properties show.\<close>
  \<^item> Health: what the answer up of a cluster implies and what it does not, that the combined status is monotone
    and independent of the order of the goroutines that collect it, and which errors it drops.
  \<^item> Placement: for sizes that pass validation every replica of a replica set gets a volume of its own; for which
    sizes the distribution panics; which members share a volume, and when the restart group of a volume
    expansion is the set of its users.
  \<^item> Objects: the pods of a member carry the labels its selector, its service, the lookups and the waits ask
    for; names and host lists of initiation, registration and status agree where they must.
  \<^item> Operations that report success: initiation, password change, oplog change, restart, membership, waits: each
    did and saw what it is for, in every shard and in the order it means; where the code goes on without a primary, the
    properties say so.  Operations whose failures are lost are shown to lose them.
  \<^item> Sites: the status and the key file one operator reads are those the other sent; when the volumes of a site
    may be cleaned; that the installation of a standby site changes nothing in the database and that of an
    active site does so in a safe order; that a switch executes the documented sequence of steps.  The status a site acts on is the one the
    other site computes in that very state.
  \<^item> Adapter: which requests are accepted and which are answered with an error; what is left of a database whose
    creation fails; that a role granted for a task is revoked, alone and under interleaving, and when it is
    not; when a collection is sharded, refined or refused; the names and credentials that can be read back;
    which failures the adapter reports as successes.
  \<^item> Services: which users a build registers and which of their failures are reported; that the restart of the
    backup daemon ends, within a bound, what its success means, and that it recovers from an outage that is not longer
    than the delays of its attempts; that the adapter reads from its deployment the host, the credentials and the backup
    service the operator means, serves the port of its container and registers its own service, with and without TLS; that a switch leaves the deployments
    as an installation in the new mode makes them; what becomes of the addresses of an unsharded cluster.

  \<^item> Processes: the order of the calls of the controller runtime and the exit codes.

  \<^bold>\<open>Bounds.\<close>  Sizes, counts and indexes are natural numbers (the custom resource holds non-negative values), ports
  and sizes in megabytes are integers without wrap-around: no modelled computation leaves 32 bits.  The wait for a
  new primary in \<^verbatim>\<open>RunCompactCommand\<close> is unbounded in the code and takes fuel; \<^verbatim>\<open>None\<close> stands for a wait that has
  not ended.  The restart of the backup daemon has the code's five attempts; its delays double from 10 seconds, 310
  seconds together.
  Floating point numbers of the cache size are rational numbers.  The JSON parser's fuel is longer
  than its input.

  \<^bold>\<open>Parameters.\<close>  The Kubernetes helper, the polling loops of \<^verbatim>\<open>wait\<close>, the HTTP client, the credential manager, the
  core library's deployment type and spec comparison are code outside \<^verbatim>\<open>src\<close>: arguments of the definitions.  So
  are, for the adapter, the driver's calls to the server, the aggregator library's answers, random texts, the
  environment and the files of secrets.  A theorem that relies on them names the documented law: \<^verbatim>\<open>poll_law\<close> (nil
  means that the condition was true), \<^verbatim>\<open>core_laws\<close>, the laws of the role commands in \<^theory_text>\<open>DbaasGrants\<close>, \<^verbatim>\<open>timely\<close>
  (sleeping and polling take the time they are given), \<^verbatim>\<open>holds_secrets\<close> (reading a secret gives its contents),
  \<^verbatim>\<open>recovers\<close> (an outage ends, and the daemon then becomes ready), \<^verbatim>\<open>hash_law\<close> (the hash of the credentials leaves labels and
  replicas of a deployment), \<^verbatim>\<open>drop_laws\<close> (what dropping a database does, and that it takes the role of an owner), \<^verbatim>\<open>addingLibrary\<close> (for TLS the library only adds variables,
  volumes and mounts that are not the operator's) and \<^verbatim>\<open>plainPods\<close> (without TLS it leaves a pod as it is), and \<^verbatim>\<open>runsIn\<close> (a
  process reads the environment and the files of its container).  The controller runtime is a record of parameters.  The
  iteration order of a Go map is the order of its list, and that of goroutines an argument.

  \<^bold>\<open>Not modelled.\<close>  Generated code (the deep copies of the custom resources and the API documents), the execution of compounds and the comparison of specs (a library) and the library steps that create
  volumes are left out; the custom resources have the fields the operators read.  Deployments are followed to the
  process for the adapter only: the backup daemon and the exporter are no Go programs.
\<close>

end
